(* ===== verification/Prelude.thy ===== *)
theory Prelude
  imports Main "HOL-Library.Word" "HOL-Library.Multiset" "HOL-Library.AList"
begin

text \<open>
  Shared vocabulary of the development: the result type of the Go functions (a value, a
  returned error, or a run-time panic), the state-passing computations that run inside a
  database transaction, Go maps as association lists with an explicit iteration order, and
  the generic lemmas on them that the component theories use.
\<close>

section \<open>Collections of facts\<close>

named_theorems tx_simps \<open>unfolding equations of the transaction combinators\<close>
named_theorems gomap_simps \<open>lookup and key facts of Go maps\<close>

section \<open>Results of Go functions\<close>

text \<open>
  A Go function of result type (T, error) either returns a value, or returns a non-nil error,
  or does not return because the run-time panics (an index out of range, a nil dereference, a
  failed type assertion, or a library call documented to panic).
\<close>

datatype ('e, 'a) res = Ok 'a | Err 'e | Panic

primrec res_bind :: "('e, 'a) res \<Rightarrow> ('a \<Rightarrow> ('e, 'b) res) \<Rightarrow> ('e, 'b) res" where
  "res_bind (Ok a) f = f a"
| "res_bind (Err e) f = Err e"
| "res_bind Panic f = Panic"

primrec res_map_err :: "('e \<Rightarrow> 'f) \<Rightarrow> ('e, 'a) res \<Rightarrow> ('f, 'a) res" where
  "res_map_err g (Ok a) = Ok a"
| "res_map_err g (Err e) = Err (g e)"
| "res_map_err g Panic = Panic"

lemma res_bind_eq_Ok: "res_bind r f = Ok b \<longleftrightarrow> (\<exists>a. r = Ok a \<and> f a = Ok b)"
  by (cases r) auto

lemma res_map_err_eq_Ok [simp]: "res_map_err g r = Ok a \<longleftrightarrow> r = Ok a"
  by (cases r) auto

lemma res_map_err_Panic [simp]: "res_map_err g r = Panic \<longleftrightarrow> r = Panic"
  by (cases r) auto

text \<open>Go's errors are used through their message only.\<close>

type_synonym gerror = string

section \<open>Computations on a state\<close>

text \<open>
  The body of a closure passed to a transaction, and every handler: it takes the state and
  returns its result together with the new state. A returned error or a panic stops the rest;
  the state changes made before it stay (rolling them back is the business of whoever opened
  the transaction).
\<close>

type_synonym ('s, 'e, 'a) comp = "'s \<Rightarrow> ('e, 'a) res \<times> 's"

definition c_return :: "'a \<Rightarrow> ('s, 'e, 'a) comp" where
  "c_return a = (\<lambda>s. (Ok a, s))"

definition c_fail :: "'e \<Rightarrow> ('s, 'e, 'a) comp" where
  "c_fail e = (\<lambda>s. (Err e, s))"

definition c_panic :: "('s, 'e, 'a) comp" where
  "c_panic = (\<lambda>s. (Panic, s))"

definition c_lift :: "('e, 'a) res \<Rightarrow> ('s, 'e, 'a) comp" where
  "c_lift r = (\<lambda>s. (r, s))"

definition c_bind :: "('s, 'e, 'a) comp \<Rightarrow> ('a \<Rightarrow> ('s, 'e, 'b) comp) \<Rightarrow> ('s, 'e, 'b) comp" where
  "c_bind m f = (\<lambda>s. case m s of (r, s') \<Rightarrow>
     (case r of Ok a \<Rightarrow> f a s' | Err e \<Rightarrow> (Err e, s') | Panic \<Rightarrow> (Panic, s')))"

definition c_map_err :: "('e \<Rightarrow> 'f) \<Rightarrow> ('s, 'e, 'a) comp \<Rightarrow> ('s, 'f, 'a) comp" where
  "c_map_err g m = (\<lambda>s. case m s of (r, s') \<Rightarrow> (res_map_err g r, s'))"

definition c_modify :: "('s \<Rightarrow> 's) \<Rightarrow> ('s, 'e, unit) comp" where
  "c_modify f = (\<lambda>s. (Ok (), f s))"

definition c_gets :: "('s \<Rightarrow> 'a) \<Rightarrow> ('s, 'e, 'a) comp" where
  "c_gets f = (\<lambda>s. (Ok (f s), s))"

text \<open>A \<open>for\<close> loop over a slice whose body may return an error out of the function.\<close>

fun c_forM :: "'a list \<Rightarrow> ('a \<Rightarrow> ('s, 'e, unit) comp) \<Rightarrow> ('s, 'e, unit) comp" where
  "c_forM [] f = c_return ()"
| "c_forM (x # xs) f = c_bind (f x) (\<lambda>_. c_forM xs f)"

lemma c_return_apply [simp, tx_simps]: "c_return a s = (Ok a, s)"
  by (simp add: c_return_def)

lemma c_fail_apply [simp, tx_simps]: "c_fail e s = (Err e, s)"
  by (simp add: c_fail_def)

lemma c_panic_apply [simp, tx_simps]: "c_panic s = (Panic, s)"
  by (simp add: c_panic_def)

lemma c_lift_apply [simp, tx_simps]: "c_lift r s = (r, s)"
  by (simp add: c_lift_def)

lemma c_modify_apply [simp, tx_simps]: "c_modify f s = (Ok (), f s)"
  by (simp add: c_modify_def)

lemma c_gets_apply [simp, tx_simps]: "c_gets f s = (Ok (f s), s)"
  by (simp add: c_gets_def)

lemma c_bind_apply [tx_simps]:
  "c_bind m f s = (case m s of (r, s') \<Rightarrow>
     (case r of Ok a \<Rightarrow> f a s' | Err e \<Rightarrow> (Err e, s') | Panic \<Rightarrow> (Panic, s')))"
  by (simp add: c_bind_def)

lemma c_bind_step [simp]:
  "m s = (Ok a, s') \<Longrightarrow> c_bind m f s = f a s'"
  "m s = (Err e, s') \<Longrightarrow> c_bind m f s = (Err e, s')"
  "m s = (Panic, s') \<Longrightarrow> c_bind m f s = (Panic, s')"
  by (simp_all add: c_bind_def)

lemma c_bind_OkE:
  assumes "c_bind m f s = (Ok b, s'')"
  obtains a s' where "m s = (Ok a, s')" and "f a s' = (Ok b, s'')"
  using assms by (auto simp: c_bind_def split: prod.splits res.splits)

lemma c_map_err_apply [tx_simps]:
  "c_map_err g m s = (case m s of (r, s') \<Rightarrow> (res_map_err g r, s'))"
  by (simp add: c_map_err_def)

lemma c_map_err_step [simp]:
  "m s = (r, s') \<Longrightarrow> c_map_err g m s = (res_map_err g r, s')"
  by (simp add: c_map_err_def)

text \<open>
  A loop keeps an invariant of the state that each iteration keeps, whether the iteration
  succeeds or not.
\<close>

lemma c_forM_invariant:
  assumes "\<And>x s. x \<in> set xs \<Longrightarrow> I s \<Longrightarrow> I (snd (f x s))" and "I s"
  shows "I (snd (c_forM xs f s))"
  using assms
proof (induction xs arbitrary: s)
  case Nil
  then show ?case by simp
next
  case (Cons x xs)
  have "I (snd (f x s))" using Cons.prems by simp
  then show ?case
    using Cons.IH Cons.prems(1)
    by (auto simp: c_bind_def split: prod.splits res.splits)
qed

lemma find_SomeD: "find P xs = Some x \<Longrightarrow> x \<in> set xs \<and> P x"
  by (metis find_Some_iff nth_mem)

section \<open>Go maps\<close>

text \<open>
  A Go map is an association list with distinct keys. Ranging over it visits every entry
  exactly once in an order the language leaves unspecified: the order is an argument
  \<open>ord\<close> of the operations that range over a map, and \<open>order_ok\<close> is all that may be
  assumed of it.
\<close>

type_synonym ('k, 'v) gomap = "('k \<times> 'v) list"

definition order_ok :: "('k list \<Rightarrow> 'k list) \<Rightarrow> bool" where
  "order_ok ord \<longleftrightarrow> (\<forall>ks. mset (ord ks) = mset ks)"

definition gomap_range :: "('k list \<Rightarrow> 'k list) \<Rightarrow> ('k, 'v) gomap \<Rightarrow> ('k \<times> 'v) list" where
  "gomap_range ord m = map (\<lambda>k. (k, the (map_of m k))) (ord (map fst m))"

lemma order_ok_id [simp]: "order_ok (\<lambda>ks. ks)"
  by (simp add: order_ok_def)

lemma order_ok_rev [simp]: "order_ok rev"
  by (simp add: order_ok_def)

lemma order_ok_set: "order_ok ord \<Longrightarrow> set (ord ks) = set ks"
  by (metis mset_eq_setD order_ok_def)

lemma order_ok_distinct: "order_ok ord \<Longrightarrow> distinct (ord ks) = distinct ks"
  by (metis mset_eq_imp_distinct_iff order_ok_def)

lemma order_ok_length: "order_ok ord \<Longrightarrow> length (ord ks) = length ks"
  by (metis mset_eq_length order_ok_def)

lemma order_ok_Nil: "order_ok ord \<Longrightarrow> ord [] = []"
  by (metis length_0_conv order_ok_length)

lemma gomap_range_set:
  assumes "order_ok ord" and "distinct (map fst m)"
  shows "set (gomap_range ord m) = set m"
  using assms by (force simp: gomap_range_def order_ok_set image_iff)

lemma gomap_update_distinct [gomap_simps]:
  "distinct (map fst m) \<Longrightarrow> distinct (map fst (AList.update k v m))"
  by (rule distinct_update)

lemma gomap_update_lookup [gomap_simps]:
  "map_of (AList.update k v m) = (map_of m)(k \<mapsto> v)"
  by (rule update_conv')

end
