(* ===== verification/GoRegexp.thy ===== *)
theory GoRegexp
  imports GoStrings
begin

text \<open>
  The part of Go's package \<open>regexp\<close> that the name checks use: \<open>MatchString\<close> for
  expressions built from characters, classes, the dot, concatenation, alternation, one-or-more
  and the two text anchors. A relation says which stretches of the text an expression matches;
  the matcher computes the end positions and is shown to agree with the relation. The text is
  a sequence of bytes: the expressions of the program mention ASCII only, and a byte outside
  ASCII is refused by the first expression of every list.
\<close>

datatype re =
    REmpty
  | RChar char
  | RFold char \<comment> \<open>a letter under the flag (?i)\<close>
  | RSet "(char \<times> char) list" \<comment> \<open>a class, as ranges\<close>
  | RDot
  | RSeq re re
  | RAlt re re
  | RPlus re
  | RBegin
  | REnd

definition in_ranges :: "(char \<times> char) list \<Rightarrow> char \<Rightarrow> bool" where
  "in_ranges rs c \<longleftrightarrow>
     list_ex (\<lambda>(a, b). (of_char a :: nat) \<le> of_char c \<and> (of_char c :: nat) \<le> of_char b) rs"

definition newline :: char where "newline = char_of (10 :: nat)"

section \<open>What an expression matches\<close>

definition one_byte :: "(char \<Rightarrow> bool) \<Rightarrow> string \<Rightarrow> nat \<Rightarrow> nat \<Rightarrow> bool" where
  "one_byte P s i j \<longleftrightarrow> i < length s \<and> P (s ! i) \<and> j = Suc i"

primrec matches :: "re \<Rightarrow> string \<Rightarrow> nat \<Rightarrow> nat \<Rightarrow> bool" where
  "matches REmpty s = (\<lambda>i j. i \<le> length s \<and> j = i)"
| "matches (RChar c) s = one_byte (\<lambda>x. x = c) s"
| "matches (RFold c) s = one_byte (\<lambda>x. ascii_lower x = ascii_lower c) s"
| "matches (RSet rs) s = one_byte (in_ranges rs) s"
| "matches RDot s = one_byte (\<lambda>x. x \<noteq> newline) s"
| "matches (RSeq a b) s = matches a s OO matches b s"
| "matches (RAlt a b) s = (\<lambda>i j. matches a s i j \<or> matches b s i j)"
| "matches (RPlus a) s = tranclp (matches a s)"
| "matches RBegin s = (\<lambda>i j. i = 0 \<and> j = i)"
| "matches REnd s = (\<lambda>i j. i = length s \<and> j = i)"

section \<open>The matcher\<close>

definition step_byte :: "(char \<Rightarrow> bool) \<Rightarrow> string \<Rightarrow> nat \<Rightarrow> nat list" where
  "step_byte P s i = (if i < length s \<and> P (s ! i) then [Suc i] else [])"

primrec plus_ends :: "nat \<Rightarrow> (nat \<Rightarrow> nat list) \<Rightarrow> nat \<Rightarrow> nat list" where
  "plus_ends 0 f i = []"
| "plus_ends (Suc n) f i = concat (map (\<lambda>j. j # plus_ends n f j) (f i))"

primrec ends :: "re \<Rightarrow> string \<Rightarrow> nat \<Rightarrow> nat list" where
  "ends REmpty s = (\<lambda>i. if i \<le> length s then [i] else [])"
| "ends (RChar c) s = step_byte (\<lambda>x. x = c) s"
| "ends (RFold c) s = step_byte (\<lambda>x. ascii_lower x = ascii_lower c) s"
| "ends (RSet rs) s = step_byte (in_ranges rs) s"
| "ends RDot s = step_byte (\<lambda>x. x \<noteq> newline) s"
| "ends (RSeq a b) s = (\<lambda>i. concat (map (ends b s) (ends a s i)))"
| "ends (RAlt a b) s = (\<lambda>i. ends a s i @ ends b s i)"
| "ends (RPlus a) s = (\<lambda>i. plus_ends (Suc (length s)) (ends a s) i)"
| "ends RBegin s = (\<lambda>i. if i = 0 then [i] else [])"
| "ends REnd s = (\<lambda>i. if i = length s then [i] else [])"

text \<open>\<open>MatchString\<close> looks for a match anywhere in the text.\<close>

definition match_string :: "re \<Rightarrow> string \<Rightarrow> bool" where
  "match_string r s \<longleftrightarrow> list_ex (\<lambda>i. ends r s i \<noteq> []) [0..<Suc (length s)]"

lemma matches_bounds: "matches r s i j \<Longrightarrow> i \<le> j \<and> j \<le> length s"
proof (induction r arbitrary: i j)
  case (RPlus r)
  from RPlus.prems have "(matches r s)\<^sup>+\<^sup>+ i j" by simp
  then show ?case by (induction rule: tranclp_induct) (auto dest: RPlus.IH)
qed (fastforce simp: one_byte_def)+

lemma plus_ends_sound: "j \<in> set (plus_ends n f i) \<Longrightarrow> (\<lambda>a b. b \<in> set (f a))\<^sup>+\<^sup>+ i j"
  by (induction n arbitrary: i) (auto intro: tranclp_into_tranclp2)

lemma plus_ends_complete:
  assumes "(\<lambda>a b. b \<in> set (f a))\<^sup>+\<^sup>+ i j"
    and "\<And>a b. b \<in> set (f a) \<Longrightarrow> a \<le> b \<and> b \<le> m" and "m < n + i" and "0 < n"
  shows "j \<in> set (plus_ends n f i)"
  using assms(1,3,4)
proof (induction arbitrary: n rule: converse_tranclp_induct)
  case (base i)
  then show ?case by (cases n) auto
next
  case (step i k)
  have k: "i \<le> k" "k \<le> m" using assms(2) [OF step.hyps(1)] by simp_all
  show ?case
  proof (cases "k = i")
    case True
    then show ?thesis using step.IH step.prems by simp
  next
    case False
    obtain n' where n: "n = Suc n'" using step.prems by (cases n) auto
    have "j \<in> set (plus_ends n' f k)" using step.IH [of n'] step.prems k False n by simp
    then show ?thesis using step.hyps(1) n by auto
  qed
qed

lemma ends_matches: "set (ends r s i) = {j. matches r s i j}"
proof (induction r arbitrary: i)
  case (RPlus r)
  have rel: "(\<lambda>a b. b \<in> set (ends r s a)) = matches r s"
    using RPlus by (auto simp: fun_eq_iff)
  have "j \<in> set (plus_ends (Suc (length s)) (ends r s) i) \<longleftrightarrow> (matches r s)\<^sup>+\<^sup>+ i j" for j
    using plus_ends_sound [of j "Suc (length s)" "ends r s" i]
      plus_ends_complete [of "ends r s" i j "length s" "Suc (length s)"]
      matches_bounds [of r s] RPlus rel by auto
  then show ?case by auto
next
  case (RSeq a b)
  then show ?case by auto
qed (auto simp: step_byte_def one_byte_def)

lemma match_string_iff: "match_string r s \<longleftrightarrow> (\<exists>i j. matches r s i j)"
proof -
  have "ends r s i \<noteq> [] \<longleftrightarrow> (\<exists>j. matches r s i j)" for i
    using ends_matches [of r s i] by (metis empty_Collect_eq set_empty)
  then have "match_string r s \<longleftrightarrow> (\<exists>i \<le> length s. \<exists>j. matches r s i j)"
    by (auto simp: match_string_def list_ex_iff less_Suc_eq_le simp del: upt_Suc)
  then show ?thesis using matches_bounds by (meson order_trans)
qed

section \<open>The shapes that occur\<close>

lemma plus_bytes:
  "(one_byte P s)\<^sup>+\<^sup>+ i j \<longleftrightarrow> i < j \<and> j \<le> length s \<and> (\<forall>k. i \<le> k \<and> k < j \<longrightarrow> P (s ! k))"
proof
  show "(one_byte P s)\<^sup>+\<^sup>+ i j \<Longrightarrow>
      i < j \<and> j \<le> length s \<and> (\<forall>k. i \<le> k \<and> k < j \<longrightarrow> P (s ! k))"
    by (induction rule: tranclp_induct) (auto simp: one_byte_def less_Suc_eq)
next
  assume "i < j \<and> j \<le> length s \<and> (\<forall>k. i \<le> k \<and> k < j \<longrightarrow> P (s ! k))"
  then show "(one_byte P s)\<^sup>+\<^sup>+ i j"
  proof (induction "j - i" arbitrary: j)
    case 0
    then show ?case by simp
  next
    case (Suc d)
    then have "j - 1 < length s" "i \<le> j - 1" "Suc (j - 1) = j" by linarith+
    with Suc.prems have step: "one_byte P s (j - 1) j" by (simp add: one_byte_def)
    show ?case
    proof (cases "i = j - 1")
      case True
      with step show ?thesis by auto
    next
      case False
      with Suc.hyps(2) Suc.prems have "d = j - 1 - i"
        "i < j - 1 \<and> j - 1 \<le> length s \<and> (\<forall>k. i \<le> k \<and> k < j - 1 \<longrightarrow> P (s ! k))"
        by auto
      then have "(one_byte P s)\<^sup>+\<^sup>+ i (j - 1)" by (rule Suc.hyps(1))
      with step show ?thesis by (rule tranclp.trancl_into_trancl [rotated])
    qed
  qed
qed

lemma match_whole_plus:
  "match_string (RSeq RBegin (RSeq (RPlus (RSet rs)) REnd)) s \<longleftrightarrow>
     s \<noteq> [] \<and> list_all (in_ranges rs) s"
  by (auto simp: match_string_iff plus_bytes relcompp_apply list_all_length)

fun fold_word :: "string \<Rightarrow> re" where
  "fold_word [] = REmpty"
| "fold_word (c # cs) = RSeq (RFold c) (fold_word cs)"

lemma matches_fold_word:
  "matches (fold_word w) s i j \<longleftrightarrow>
     i \<le> length s \<and> j = i + length w \<and> j \<le> length s \<and>
     str_lower (take (length w) (drop i s)) = str_lower w"
proof (induction w arbitrary: i)
  case Nil
  then show ?case by (auto simp: str_lower_def)
next
  case (Cons c cs)
  show ?case
  proof (cases "i < length s")
    case True
    then have "drop i s = s ! i # drop (Suc i) s" by (simp add: Cons_nth_drop_Suc)
    with True Cons show ?thesis by (auto simp: one_byte_def relcompp_apply str_lower_def)
  next
    case False
    with Cons show ?thesis by (auto simp: one_byte_def relcompp_apply)
  qed
qed

lemma match_whole_fold_word:
  "match_string (RSeq RBegin (RSeq (fold_word w) REnd)) s \<longleftrightarrow> str_lower s = str_lower w"
proof -
  have "match_string (RSeq RBegin (RSeq (fold_word w) REnd)) s \<longleftrightarrow>
      length w = length s \<and> str_lower (take (length w) s) = str_lower w"
    by (auto simp: match_string_iff relcompp_apply matches_fold_word)
  also have "\<dots> \<longleftrightarrow> str_lower s = str_lower w"
    unfolding str_lower_def using map_eq_imp_length_eq [of ascii_lower s ascii_lower w] by auto
  finally show ?thesis .
qed

lemma match_string_alt:
  "match_string (RAlt a b) s \<longleftrightarrow> match_string a s \<or> match_string b s"
  by (auto simp: match_string_iff)

end
