(* ===== verification/Check.thy ===== *)
theory Check
  imports GoRegexp
begin

text \<open>
  \<open>pkg/util/check.go\<close>: the lists of expressions that names, domain names and zone names
  must and must not match, the three checks that walk the lists, and the test for errors of a
  broken connection.
\<close>

section \<open>The expressions\<close>

record name_regexp =
  nr_regexp :: re
  nr_errmsg :: string
  nr_expect :: bool

definition whole :: "re \<Rightarrow> re" where
  "whole r = RSeq RBegin (RSeq r REnd)"

definition not_legal :: string where
  "not_legal = ''name is not legal''"

abbreviation alnum_ranges :: "(char \<times> char) list" where
  "alnum_ranges \<equiv> [(CHR ''0'', CHR ''9''), (CHR ''a'', CHR ''z''), (CHR ''A'', CHR ''Z'')]"

definition NameRegs :: "name_regexp list" where
  "NameRegs =
    [\<lparr>nr_regexp = whole (RPlus (RSet (alnum_ranges @ [(CHR ''-'', CHR ''-'')]))),
      nr_errmsg = not_legal, nr_expect = True\<rparr>,
     \<lparr>nr_regexp = RAlt (whole (fold_word ''cmcc'')) (RAlt (whole (fold_word ''ctcc''))
        (RAlt (whole (fold_word ''cucc'')) (RAlt (whole (fold_word ''any''))
        (RAlt (whole (fold_word ''default'')) (whole (fold_word ''none'')))))),
      nr_errmsg = not_legal, nr_expect = False\<rparr>,
     \<lparr>nr_regexp = RAlt (RSeq RBegin (RSeq (RChar CHR ''-'') RDot))
        (RSeq RDot (RSeq (RChar CHR ''-'') REnd)),
      nr_errmsg = not_legal, nr_expect = False\<rparr>]"

definition DomainNameRegs :: "name_regexp list" where
  "DomainNameRegs =
    [\<lparr>nr_regexp = whole (RPlus (RSet (alnum_ranges @ [(CHR ''-'', CHR ''-''),
        (CHR ''*'', CHR ''*''), (CHR ''.'', CHR ''.''), (CHR ''@'', CHR ''@'')]))),
      nr_errmsg = not_legal, nr_expect = True\<rparr>,
     \<lparr>nr_regexp = RAlt (RSeq RBegin (RChar CHR ''_'')) (RChar CHR ''-''),
      nr_errmsg = not_legal, nr_expect = False\<rparr>]"

definition ZoneNameRegs :: "name_regexp list" where
  "ZoneNameRegs =
    [\<lparr>nr_regexp = whole (RPlus (RSet (alnum_ranges @ [(CHR ''.'', CHR ''.'')]))),
      nr_errmsg = not_legal, nr_expect = True\<rparr>,
     \<lparr>nr_regexp = whole (RPlus (RChar CHR ''.'')),
      nr_errmsg = not_legal, nr_expect = False\<rparr>]"

section \<open>The checks\<close>

text \<open>The loop stops at the first expression that does not behave as expected.\<close>

fun check_regs :: "name_regexp list \<Rightarrow> string \<Rightarrow> gerror option" where
  "check_regs [] name = None"
| "check_regs (r # rs) name =
     (if match_string (nr_regexp r) name \<noteq> nr_expect r then Some (nr_errmsg r)
      else check_regs rs name)"

definition CheckNameValid :: "string \<Rightarrow> gerror option" where
  "CheckNameValid name = check_regs NameRegs name"

definition CheckDomainNameValid :: "string \<Rightarrow> gerror option" where
  "CheckDomainNameValid name = check_regs DomainNameRegs name"

definition CheckZoneNameValid :: "string \<Rightarrow> gerror option" where
  "CheckZoneNameValid name = check_regs ZoneNameRegs name"

definition IsBrokenPipeErr :: "gerror \<Rightarrow> bool" where
  "IsBrokenPipeErr err \<longleftrightarrow>
     str_contains (str_lower err) ''broken pipe'' \<or>
     str_contains (str_lower err) ''connection reset by peer''"

section \<open>What the checks accept\<close>

definition is_alnum :: "char \<Rightarrow> bool" where
  "is_alnum c \<longleftrightarrow> in_ranges alnum_ranges c"

definition reserved_names :: "string list" where
  "reserved_names = [''cmcc'', ''ctcc'', ''cucc'', ''any'', ''default'', ''none'']"

lemma check_regs_None:
  "check_regs rs name = None \<longleftrightarrow>
     list_all (\<lambda>r. match_string (nr_regexp r) name = nr_expect r) rs"
  by (induction rs) auto

lemma in_ranges_append: "in_ranges (rs @ qs) c \<longleftrightarrow> in_ranges rs c \<or> in_ranges qs c"
  by (simp add: in_ranges_def)

lemma in_ranges_single: "in_ranges [(a, a)] c \<longleftrightarrow> c = a"
proof -
  have "(of_char a :: nat) = of_char c \<longleftrightarrow> c = a" by auto
  then show ?thesis by (auto simp: in_ranges_def)
qed

lemma in_ranges_Cons: "in_ranges ((a, a) # r # rs) c \<longleftrightarrow> c = a \<or> in_ranges (r # rs) c"
  using in_ranges_append [of "[(a, a)]" "r # rs" c] in_ranges_single by simp

lemma match_whole_class:
  "match_string (whole (RPlus (RSet rs))) s \<longleftrightarrow> s \<noteq> [] \<and> list_all (in_ranges rs) s"
  by (simp add: whole_def match_whole_plus)

lemma match_whole_word: "match_string (whole (fold_word w)) s \<longleftrightarrow> str_lower s = str_lower w"
  by (simp add: whole_def match_whole_fold_word)

lemma match_reserved:
  "match_string (nr_regexp (NameRegs ! 1)) s \<longleftrightarrow> str_lower s \<in> set reserved_names"
  by (simp add: NameRegs_def match_string_alt match_whole_word reserved_names_def
        del: fold_word.simps)
     (simp add: str_lower_def ascii_lower_def Let_def)

text \<open>A hyphen with a neighbour, at either end of the name.\<close>

lemma match_hyphen_ends:
  "match_string (RAlt (RSeq RBegin (RSeq (RChar CHR ''-'') RDot))
      (RSeq RDot (RSeq (RChar CHR ''-'') REnd))) s \<longleftrightarrow>
     2 \<le> length s \<and> (hd s = CHR ''-'' \<and> s ! 1 \<noteq> newline \<or>
       last s = CHR ''-'' \<and> s ! (length s - 2) \<noteq> newline)"
  (is "?L \<longleftrightarrow> ?R")
proof -
  have b: "match_string (RSeq RBegin (RSeq (RChar CHR ''-'') RDot)) s \<longleftrightarrow>
      2 \<le> length s \<and> s ! 0 = CHR ''-'' \<and> s ! 1 \<noteq> newline"
    by (auto simp: match_string_iff relcompp_apply one_byte_def)
  have e: "match_string (RSeq RDot (RSeq (RChar CHR ''-'') REnd)) s \<longleftrightarrow>
      2 \<le> length s \<and> s ! (length s - 2) \<noteq> newline \<and> s ! (length s - 1) = CHR ''-''"
  proof
    assume "match_string (RSeq RDot (RSeq (RChar CHR ''-'') REnd)) s"
    then obtain i where "Suc (Suc i) = length s" "s ! i \<noteq> newline" "s ! Suc i = CHR ''-''"
      by (auto simp: match_string_iff relcompp_apply one_byte_def)
    then show "2 \<le> length s \<and> s ! (length s - 2) \<noteq> newline \<and> s ! (length s - 1) = CHR ''-''"
      by (metis One_nat_def Suc_1 Suc_le_mono diff_Suc_1 diff_Suc_Suc diff_zero le0)
  next
    assume "2 \<le> length s \<and> s ! (length s - 2) \<noteq> newline \<and> s ! (length s - 1) = CHR ''-''"
    moreover from this obtain i where "length s = Suc (Suc i)"
      by (metis add_2_eq_Suc le_Suc_ex)
    ultimately have "Suc (Suc i) = length s" "s ! i \<noteq> newline" "s ! Suc i = CHR ''-''"
      by simp_all
    then have "matches (RSeq RDot (RSeq (RChar CHR ''-'') REnd)) s i (length s)"
      by (auto simp: relcompp_apply one_byte_def)
    then show "match_string (RSeq RDot (RSeq (RChar CHR ''-'') REnd)) s"
      by (auto simp: match_string_iff simp del: matches.simps)
  qed
  show ?thesis
    unfolding match_string_alt b e by (cases s) (auto simp: last_conv_nth)
qed

lemma match_dots: "match_string (whole (RPlus (RChar c))) s \<longleftrightarrow> s \<noteq> [] \<and> (\<forall>x \<in> set s. x = c)"
  by (auto simp: whole_def match_string_iff plus_bytes relcompp_apply all_set_conv_all_nth)

lemma match_contains: "match_string (RChar c) s \<longleftrightarrow> c \<in> set s"
  by (auto simp: match_string_iff one_byte_def in_set_conv_nth)

lemma newline_not_hyphen: "newline \<noteq> CHR ''-''"
  by code_simp

lemma newline_not_in_class: "list_all (in_ranges (alnum_ranges @ rs)) s \<Longrightarrow>
    \<not> in_ranges rs newline \<Longrightarrow> i < length s \<Longrightarrow> s ! i \<noteq> newline"
  by (auto simp: list_all_length in_ranges_append)
     (auto simp: in_ranges_def newline_def)

lemma CheckNameValid_iff:
  "CheckNameValid name = None \<longleftrightarrow>
     name \<noteq> [] \<and> (\<forall>c \<in> set name. is_alnum c \<or> c = CHR ''-'') \<and>
     str_lower name \<notin> set reserved_names \<and>
     (2 \<le> length name \<longrightarrow> hd name \<noteq> CHR ''-'' \<and> last name \<noteq> CHR ''-'')" (is "_ \<longleftrightarrow> ?R")
proof -
  let ?cls = "list_all (in_ranges (alnum_ranges @ [(CHR ''-'', CHR ''-'')])) name"
  have cls: "?cls \<longleftrightarrow> (\<forall>c \<in> set name. is_alnum c \<or> c = CHR ''-'')"
    unfolding list_all_iff is_alnum_def by (metis in_ranges_append in_ranges_single)
  have "CheckNameValid name = None \<longleftrightarrow> name \<noteq> [] \<and> ?cls \<and>
      \<not> match_string (nr_regexp (NameRegs ! 1)) name \<and>
      \<not> match_string (nr_regexp (NameRegs ! 2)) name"
    unfolding CheckNameValid_def check_regs_None
    by (simp only: NameRegs_def list.pred_inject name_regexp.select_convs match_whole_class
        nth_Cons_0 nth_Cons_Suc One_nat_def numeral_2_eq_2) auto
  also have "\<dots> \<longleftrightarrow> ?R"
  proof -
    have "s ! i \<noteq> newline" if "?cls" "i < length name" "s = name" for s i
      using newline_not_in_class [OF that(1)] that newline_not_hyphen
      by (simp only: in_ranges_single) auto
    moreover have "nr_regexp (NameRegs ! 2) = RAlt (RSeq RBegin (RSeq (RChar CHR ''-'') RDot))
      (RSeq RDot (RSeq (RChar CHR ''-'') REnd))"
      by (simp add: NameRegs_def numeral_2_eq_2)
    ultimately show ?thesis
      unfolding match_reserved using cls by (auto simp: match_hyphen_ends)
  qed
  finally show ?thesis .
qed

lemma forbid_two:
  assumes "\<not> good h" and "\<not> good u" and "U \<Longrightarrow> u \<in> set s"
  shows "s \<noteq> [] \<and> (\<forall>c \<in> set s. c = h \<or> good c) \<and> \<not> U \<and> h \<notin> set s \<longleftrightarrow>
    s \<noteq> [] \<and> (\<forall>c \<in> set s. good c)"
proof (intro iffI conjI)
  assume *: "s \<noteq> [] \<and> (\<forall>c \<in> set s. good c)"
  show "\<not> U" using assms(2,3) * by blast
  show "h \<notin> set s" using assms(1) * by blast
qed auto

lemma CheckDomainNameValid_iff:
  "CheckDomainNameValid name = None \<longleftrightarrow>
     name \<noteq> [] \<and> (\<forall>c \<in> set name. is_alnum c \<or> c \<in> {CHR ''*'', CHR ''.'', CHR ''@''})"
    (is "_ \<longleftrightarrow> name \<noteq> [] \<and> (\<forall>c \<in> set name. ?good c)")
proof -
  let ?L = "alnum_ranges @ [(CHR ''-'', CHR ''-''),
        (CHR ''*'', CHR ''*''), (CHR ''.'', CHR ''.''), (CHR ''@'', CHR ''@'')]"
  let ?U = "match_string (RSeq RBegin (RChar CHR ''_'')) name"
  have L: "in_ranges ?L c \<longleftrightarrow> c = CHR ''-'' \<or> ?good c" for c
    by (simp only: in_ranges_append in_ranges_Cons in_ranges_single is_alnum_def) auto
  have no: "\<not> ?good CHR ''-''" "\<not> ?good CHR ''_''"
    by (simp_all add: is_alnum_def in_ranges_def)
  have u: "?U \<Longrightarrow> CHR ''_'' \<in> set name"
    by (auto simp: match_string_iff relcompp_apply one_byte_def) (metis length_greater_0_conv nth_mem)
  have "CheckDomainNameValid name = None \<longleftrightarrow>
      name \<noteq> [] \<and> (\<forall>c \<in> set name. in_ranges ?L c) \<and> \<not> ?U \<and> CHR ''-'' \<notin> set name"
    unfolding CheckDomainNameValid_def check_regs_None DomainNameRegs_def
    by (simp add: match_whole_class match_string_alt match_contains list_all_iff del: append.simps)
  also have "\<dots> \<longleftrightarrow> name \<noteq> [] \<and> (\<forall>c \<in> set name. ?good c)"
    unfolding L by (rule forbid_two) (fact no u)+
  finally show ?thesis .
qed

lemma CheckZoneNameValid_iff:
  "CheckZoneNameValid name = None \<longleftrightarrow>
     (\<forall>c \<in> set name. is_alnum c \<or> c = CHR ''.'') \<and> (\<exists>c \<in> set name. c \<noteq> CHR ''.'')"
proof -
  have "in_ranges (alnum_ranges @ [(CHR ''.'', CHR ''.'')]) c \<longleftrightarrow> is_alnum c \<or> c = CHR ''.''" for c
    by (simp only: in_ranges_append in_ranges_single is_alnum_def)
  then show ?thesis
    unfolding CheckZoneNameValid_def check_regs_None ZoneNameRegs_def
    by (auto simp: match_whole_class match_dots list_all_iff simp del: append.simps)
qed

end
