(* ===== verification/GoCrypto.thy ===== *)
theory GoCrypto
  imports GoStrings
begin

text \<open>
  What \<open>pkg/util/aes.go\<close> uses of Go's standard library: the AES block cipher of
  \<open>crypto/aes\<close> (as FIPS-197 specifies it, with the key schedule for the three key sizes), the
  CBC mode of \<open>crypto/cipher\<close>, and \<open>encoding/hex\<close>. CBC is developed over any block
  cipher whose decryption inverts its encryption; AES is shown to be one.
\<close>

unbundle bit_operations_syntax

type_synonym byte = "8 word"

section \<open>Bytes and strings\<close>

definition byte_of_char :: "char \<Rightarrow> byte" where
  "byte_of_char c = word_of_nat (of_char c)"

definition char_of_byte :: "byte \<Rightarrow> char" where
  "char_of_byte b = char_of (unat b)"

lemma char_of_byte_of_char [simp]: "char_of_byte (byte_of_char c) = c"
proof -
  have "(of_char c :: nat) < 256" by (simp add: of_char_def)
  then show ?thesis by (simp add: char_of_byte_def byte_of_char_def unat_of_nat)
qed

lemma byte_of_char_of_byte [simp]: "byte_of_char (char_of_byte b) = b"
proof -
  have "unat b < 256" using unsigned_less [of b] by simp
  then show ?thesis by (simp add: char_of_byte_def byte_of_char_def)
qed

definition bytes_of_string :: "string \<Rightarrow> byte list" where
  "bytes_of_string s = map byte_of_char s"

definition string_of_bytes :: "byte list \<Rightarrow> string" where
  "string_of_bytes bs = map char_of_byte bs"

lemma string_of_bytes_of_string [simp]: "string_of_bytes (bytes_of_string s) = s"
  by (simp add: string_of_bytes_def bytes_of_string_def comp_def)

lemma length_bytes_of_string [simp]: "length (bytes_of_string s) = length s"
  by (simp add: bytes_of_string_def)

section \<open>The AES round transformations\<close>

definition sbox_table :: "byte list" where
  "sbox_table =
   [0x63, 0x7c, 0x77, 0x7b, 0xf2, 0x6b, 0x6f, 0xc5, 0x30, 0x01, 0x67, 0x2b, 0xfe, 0xd7, 0xab, 0x76,
    0xca, 0x82, 0xc9, 0x7d, 0xfa, 0x59, 0x47, 0xf0, 0xad, 0xd4, 0xa2, 0xaf, 0x9c, 0xa4, 0x72, 0xc0,
    0xb7, 0xfd, 0x93, 0x26, 0x36, 0x3f, 0xf7, 0xcc, 0x34, 0xa5, 0xe5, 0xf1, 0x71, 0xd8, 0x31, 0x15,
    0x04, 0xc7, 0x23, 0xc3, 0x18, 0x96, 0x05, 0x9a, 0x07, 0x12, 0x80, 0xe2, 0xeb, 0x27, 0xb2, 0x75,
    0x09, 0x83, 0x2c, 0x1a, 0x1b, 0x6e, 0x5a, 0xa0, 0x52, 0x3b, 0xd6, 0xb3, 0x29, 0xe3, 0x2f, 0x84,
    0x53, 0xd1, 0x00, 0xed, 0x20, 0xfc, 0xb1, 0x5b, 0x6a, 0xcb, 0xbe, 0x39, 0x4a, 0x4c, 0x58, 0xcf,
    0xd0, 0xef, 0xaa, 0xfb, 0x43, 0x4d, 0x33, 0x85, 0x45, 0xf9, 0x02, 0x7f, 0x50, 0x3c, 0x9f, 0xa8,
    0x51, 0xa3, 0x40, 0x8f, 0x92, 0x9d, 0x38, 0xf5, 0xbc, 0xb6, 0xda, 0x21, 0x10, 0xff, 0xf3, 0xd2,
    0xcd, 0x0c, 0x13, 0xec, 0x5f, 0x97, 0x44, 0x17, 0xc4, 0xa7, 0x7e, 0x3d, 0x64, 0x5d, 0x19, 0x73,
    0x60, 0x81, 0x4f, 0xdc, 0x22, 0x2a, 0x90, 0x88, 0x46, 0xee, 0xb8, 0x14, 0xde, 0x5e, 0x0b, 0xdb,
    0xe0, 0x32, 0x3a, 0x0a, 0x49, 0x06, 0x24, 0x5c, 0xc2, 0xd3, 0xac, 0x62, 0x91, 0x95, 0xe4, 0x79,
    0xe7, 0xc8, 0x37, 0x6d, 0x8d, 0xd5, 0x4e, 0xa9, 0x6c, 0x56, 0xf4, 0xea, 0x65, 0x7a, 0xae, 0x08,
    0xba, 0x78, 0x25, 0x2e, 0x1c, 0xa6, 0xb4, 0xc6, 0xe8, 0xdd, 0x74, 0x1f, 0x4b, 0xbd, 0x8b, 0x8a,
    0x70, 0x3e, 0xb5, 0x66, 0x48, 0x03, 0xf6, 0x0e, 0x61, 0x35, 0x57, 0xb9, 0x86, 0xc1, 0x1d, 0x9e,
    0xe1, 0xf8, 0x98, 0x11, 0x69, 0xd9, 0x8e, 0x94, 0x9b, 0x1e, 0x87, 0xe9, 0xce, 0x55, 0x28, 0xdf,
    0x8c, 0xa1, 0x89, 0x0d, 0xbf, 0xe6, 0x42, 0x68, 0x41, 0x99, 0x2d, 0x0f, 0xb0, 0x54, 0xbb, 0x16]"

definition inv_sbox_table :: "byte list" where
  "inv_sbox_table =
   [0x52, 0x09, 0x6a, 0xd5, 0x30, 0x36, 0xa5, 0x38, 0xbf, 0x40, 0xa3, 0x9e, 0x81, 0xf3, 0xd7, 0xfb,
    0x7c, 0xe3, 0x39, 0x82, 0x9b, 0x2f, 0xff, 0x87, 0x34, 0x8e, 0x43, 0x44, 0xc4, 0xde, 0xe9, 0xcb,
    0x54, 0x7b, 0x94, 0x32, 0xa6, 0xc2, 0x23, 0x3d, 0xee, 0x4c, 0x95, 0x0b, 0x42, 0xfa, 0xc3, 0x4e,
    0x08, 0x2e, 0xa1, 0x66, 0x28, 0xd9, 0x24, 0xb2, 0x76, 0x5b, 0xa2, 0x49, 0x6d, 0x8b, 0xd1, 0x25,
    0x72, 0xf8, 0xf6, 0x64, 0x86, 0x68, 0x98, 0x16, 0xd4, 0xa4, 0x5c, 0xcc, 0x5d, 0x65, 0xb6, 0x92,
    0x6c, 0x70, 0x48, 0x50, 0xfd, 0xed, 0xb9, 0xda, 0x5e, 0x15, 0x46, 0x57, 0xa7, 0x8d, 0x9d, 0x84,
    0x90, 0xd8, 0xab, 0x00, 0x8c, 0xbc, 0xd3, 0x0a, 0xf7, 0xe4, 0x58, 0x05, 0xb8, 0xb3, 0x45, 0x06,
    0xd0, 0x2c, 0x1e, 0x8f, 0xca, 0x3f, 0x0f, 0x02, 0xc1, 0xaf, 0xbd, 0x03, 0x01, 0x13, 0x8a, 0x6b,
    0x3a, 0x91, 0x11, 0x41, 0x4f, 0x67, 0xdc, 0xea, 0x97, 0xf2, 0xcf, 0xce, 0xf0, 0xb4, 0xe6, 0x73,
    0x96, 0xac, 0x74, 0x22, 0xe7, 0xad, 0x35, 0x85, 0xe2, 0xf9, 0x37, 0xe8, 0x1c, 0x75, 0xdf, 0x6e,
    0x47, 0xf1, 0x1a, 0x71, 0x1d, 0x29, 0xc5, 0x89, 0x6f, 0xb7, 0x62, 0x0e, 0xaa, 0x18, 0xbe, 0x1b,
    0xfc, 0x56, 0x3e, 0x4b, 0xc6, 0xd2, 0x79, 0x20, 0x9a, 0xdb, 0xc0, 0xfe, 0x78, 0xcd, 0x5a, 0xf4,
    0x1f, 0xdd, 0xa8, 0x33, 0x88, 0x07, 0xc7, 0x31, 0xb1, 0x12, 0x10, 0x59, 0x27, 0x80, 0xec, 0x5f,
    0x60, 0x51, 0x7f, 0xa9, 0x19, 0xb5, 0x4a, 0x0d, 0x2d, 0xe5, 0x7a, 0x9f, 0x93, 0xc9, 0x9c, 0xef,
    0xa0, 0xe0, 0x3b, 0x4d, 0xae, 0x2a, 0xf5, 0xb0, 0xc8, 0xeb, 0xbb, 0x3c, 0x83, 0x53, 0x99, 0x61,
    0x17, 0x2b, 0x04, 0x7e, 0xba, 0x77, 0xd6, 0x26, 0xe1, 0x69, 0x14, 0x63, 0x55, 0x21, 0x0c, 0x7d]"

definition sbox :: "byte \<Rightarrow> byte" where
  "sbox b = sbox_table ! unat b"

definition inv_sbox :: "byte \<Rightarrow> byte" where
  "inv_sbox b = inv_sbox_table ! unat b"

lemma sbox_tables_inverse:
  "map (\<lambda>b. inv_sbox_table ! unat b) sbox_table = map word_of_nat [0..<256]"
  by code_simp

lemma inv_sbox_sbox [simp]: "inv_sbox (sbox b) = b"
proof -
  have lt: "unat b < 256" using unsigned_less [of b] by simp
  have len: "length sbox_table = 256" by (simp add: sbox_table_def)
  have "inv_sbox (sbox b) = map (\<lambda>b. inv_sbox_table ! unat b) sbox_table ! unat b"
    using lt len by (simp add: inv_sbox_def sbox_def)
  also have "\<dots> = b" using lt by (simp add: sbox_tables_inverse)
  finally show ?thesis .
qed

text \<open>Multiplication by x in the field of 256 elements.\<close>

definition xtime :: "byte \<Rightarrow> byte" where
  "xtime b = push_bit 1 b XOR (if bit b 7 then 0x1b else 0)"

lemma xtime_xor [simp]: "xtime (a XOR b) = xtime a XOR xtime b"
  by (simp add: xtime_def push_bit_xor bit_xor_iff ac_simps)

definition mul3 :: "byte \<Rightarrow> byte" where "mul3 b = xtime b XOR b"
definition mul9 :: "byte \<Rightarrow> byte" where "mul9 b = xtime (xtime (xtime b)) XOR b"
definition mul11 :: "byte \<Rightarrow> byte" where "mul11 b = xtime (xtime (xtime b)) XOR xtime b XOR b"
definition mul13 :: "byte \<Rightarrow> byte" where
  "mul13 b = xtime (xtime (xtime b)) XOR xtime (xtime b) XOR b"
definition mul14 :: "byte \<Rightarrow> byte" where
  "mul14 b = xtime (xtime (xtime b)) XOR xtime (xtime b) XOR xtime b"

fun mix_columns :: "byte list \<Rightarrow> byte list" where
  "mix_columns (a # b # c # d # r) =
     (xtime a XOR mul3 b XOR c XOR d) # (a XOR xtime b XOR mul3 c XOR d) #
     (a XOR b XOR xtime c XOR mul3 d) # (mul3 a XOR b XOR c XOR xtime d) # mix_columns r"
| "mix_columns r = r"

fun inv_mix_columns :: "byte list \<Rightarrow> byte list" where
  "inv_mix_columns (a # b # c # d # r) =
     (mul14 a XOR mul11 b XOR mul13 c XOR mul9 d) # (mul9 a XOR mul14 b XOR mul11 c XOR mul13 d) #
     (mul13 a XOR mul9 b XOR mul14 c XOR mul11 d) # (mul11 a XOR mul13 b XOR mul9 c XOR mul14 d) #
     inv_mix_columns r"
| "inv_mix_columns r = r"

lemma xor_cancel [simp]: "a XOR (a XOR b) = (b :: byte)"
  by (simp flip: xor.assoc)

lemma inv_mix_columns_mix_columns [simp]: "inv_mix_columns (mix_columns s) = s"
  by (induction s rule: mix_columns.induct)
     (simp_all add: mul3_def mul9_def mul11_def mul13_def mul14_def xor.assoc xor.left_commute
       xor.commute)

lemma length_mix_columns [simp]: "length (mix_columns s) = length s"
  by (induction s rule: mix_columns.induct) simp_all

definition shift_rows :: "byte list \<Rightarrow> byte list" where
  "shift_rows s = map ((!) s) [0, 5, 10, 15, 4, 9, 14, 3, 8, 13, 2, 7, 12, 1, 6, 11]"

definition inv_shift_rows :: "byte list \<Rightarrow> byte list" where
  "inv_shift_rows s = map ((!) s) [0, 13, 10, 7, 4, 1, 14, 11, 8, 5, 2, 15, 12, 9, 6, 3]"

lemma length_shift_rows [simp]: "length (shift_rows s) = 16"
  by (simp add: shift_rows_def)

lemma length_16_eq: "length s = 16 \<Longrightarrow> s = map ((!) s) [0..<16]"
  by (simp add: list_eq_iff_nth_eq)

lemma inv_shift_rows_shift_rows [simp]:
  assumes "length s = 16"
  shows "inv_shift_rows (shift_rows s) = s"
proof -
  have "inv_shift_rows (shift_rows s) = map ((!) s) [0..<16]"
    by (simp add: inv_shift_rows_def shift_rows_def upt_rec eval_nat_numeral)
  with length_16_eq [OF assms] show ?thesis by simp
qed

definition xor_bytes :: "byte list \<Rightarrow> byte list \<Rightarrow> byte list" where
  "xor_bytes xs ys = map (\<lambda>(x, y). x XOR y) (zip xs ys)"

lemma length_xor_bytes [simp]: "length (xor_bytes xs ys) = min (length xs) (length ys)"
  by (simp add: xor_bytes_def)

lemma xor_bytes_cancel_right [simp]:
  "length xs = length ys \<Longrightarrow> xor_bytes (xor_bytes xs ys) ys = xs"
  by (induction xs ys rule: list_induct2) (simp_all add: xor_bytes_def xor.assoc)

lemma xor_bytes_cancel_left [simp]:
  "length xs = length ys \<Longrightarrow> xor_bytes xs (xor_bytes xs ys) = ys"
  by (induction xs ys rule: list_induct2) (simp_all add: xor_bytes_def)

section \<open>The cipher and its inverse\<close>

text \<open>The rounds after the first key addition; the last one does not mix columns.\<close>

fun enc_rounds :: "byte list \<Rightarrow> byte list list \<Rightarrow> byte list" where
  "enc_rounds s [] = s"
| "enc_rounds s [k] = xor_bytes (shift_rows (map sbox s)) k"
| "enc_rounds s (k # k' # ks) =
     enc_rounds (xor_bytes (mix_columns (shift_rows (map sbox s))) k) (k' # ks)"

fun dec_rounds :: "byte list \<Rightarrow> byte list list \<Rightarrow> byte list" where
  "dec_rounds s [] = s"
| "dec_rounds s [k] = map inv_sbox (inv_shift_rows (xor_bytes s k))"
| "dec_rounds s (k # k' # ks) =
     map inv_sbox (inv_shift_rows (inv_mix_columns (xor_bytes (dec_rounds s (k' # ks)) k)))"

definition aes_cipher :: "byte list list \<Rightarrow> byte list \<Rightarrow> byte list" where
  "aes_cipher rks b = (case rks of [] \<Rightarrow> b | k # ks \<Rightarrow> enc_rounds (xor_bytes b k) ks)"

definition aes_inv_cipher :: "byte list list \<Rightarrow> byte list \<Rightarrow> byte list" where
  "aes_inv_cipher rks b = (case rks of [] \<Rightarrow> b | k # ks \<Rightarrow> xor_bytes (dec_rounds b ks) k)"

definition rks_ok :: "byte list list \<Rightarrow> bool" where
  "rks_ok rks \<longleftrightarrow> list_all (\<lambda>k. length k = 16) rks"

lemma map_inv_sbox_sbox [simp]: "map inv_sbox (map sbox s) = s"
  by (simp add: comp_def)

lemma length_enc_rounds:
  "length s = 16 \<Longrightarrow> rks_ok ks \<Longrightarrow> length (enc_rounds s ks) = 16"
  by (induction s ks rule: enc_rounds.induct) (simp_all add: rks_ok_def)

lemma dec_enc_rounds:
  "length s = 16 \<Longrightarrow> rks_ok ks \<Longrightarrow> dec_rounds (enc_rounds s ks) ks = s"
proof (induction s ks rule: enc_rounds.induct)
  case (3 s k k' ks)
  let ?t = "shift_rows (map sbox s)"
  have len: "length k = 16" "rks_ok (k' # ks)" using "3.prems" by (simp_all add: rks_ok_def)
  have "dec_rounds (enc_rounds s (k # k' # ks)) (k # k' # ks)
      = map inv_sbox (inv_shift_rows (inv_mix_columns
          (xor_bytes (xor_bytes (mix_columns ?t) k) k)))"
    using "3.IH" len by simp
  also have "\<dots> = s" using len "3.prems" by (simp del: map_map)
  finally show ?case .
qed (simp_all add: rks_ok_def del: map_map)

lemma aes_inv_cipher_cipher:
  "rks_ok rks \<Longrightarrow> length b = 16 \<Longrightarrow> aes_inv_cipher rks (aes_cipher rks b) = b"
  by (cases rks) (simp_all add: aes_cipher_def aes_inv_cipher_def dec_enc_rounds rks_ok_def)

lemma length_aes_cipher:
  "rks_ok rks \<Longrightarrow> length b = 16 \<Longrightarrow> length (aes_cipher rks b) = 16"
  by (cases rks) (simp_all add: aes_cipher_def length_enc_rounds rks_ok_def)

section \<open>The key schedule\<close>

definition rcon_table :: "byte list" where
  "rcon_table = [0x01, 0x02, 0x04, 0x08, 0x10, 0x20, 0x40, 0x80, 0x1b, 0x36]"

definition rot_word :: "byte list \<Rightarrow> byte list" where
  "rot_word w = tl w @ [hd w]"

primrec expand_key :: "nat \<Rightarrow> nat \<Rightarrow> byte list list \<Rightarrow> byte list list" where
  "expand_key nk 0 ws = ws"
| "expand_key nk (Suc n) ws =
     (let i = length ws; t = last ws;
          t' = (if i mod nk = 0
                then xor_bytes (map sbox (rot_word t)) [rcon_table ! (i div nk - 1), 0, 0, 0]
                else if nk > 6 \<and> i mod nk = 4 then map sbox t else t)
      in expand_key nk n (ws @ [xor_bytes (ws ! (i - nk)) t']))"

fun chunks4 :: "byte list \<Rightarrow> byte list list" where
  "chunks4 (a # b # c # d # r) = [a, b, c, d] # chunks4 r"
| "chunks4 r = []"

fun group4 :: "byte list list \<Rightarrow> byte list list" where
  "group4 (a # b # c # d # r) = (a @ b @ c @ d) # group4 r"
| "group4 r = []"

definition round_keys :: "byte list \<Rightarrow> byte list list" where
  "round_keys key = (let nk = length key div 4
     in group4 (expand_key nk (4 * (nk + 7) - nk) (chunks4 key)))"

lemma group4_rks_ok: "list_all (\<lambda>w. length w = 4) ws \<Longrightarrow> rks_ok (group4 ws)"
  by (induction ws rule: group4.induct) (simp_all add: rks_ok_def)

lemma chunks4_words: "list_all (\<lambda>w. length w = 4) (chunks4 k)"
  by (induction k rule: chunks4.induct) simp_all

lemma length_chunks4: "length (chunks4 k) = length k div 4"
  by (induction k rule: chunks4.induct) simp_all

lemma expand_key_words:
  assumes "list_all (\<lambda>w. length w = 4) ws" and "0 < nk" and "nk \<le> length ws"
  shows "list_all (\<lambda>w. length w = 4) (expand_key nk n ws)"
  using assms
proof (induction n arbitrary: ws)
  case 0
  then show ?case by simp
next
  case (Suc n)
  let ?i = "length ws"
  have ne: "ws \<noteq> []" using Suc.prems by auto
  have l4: "length (last ws) = 4" using Suc.prems ne by (auto simp: list_all_iff)
  have i4: "length (ws ! (?i - nk)) = 4"
    using Suc.prems ne by (auto simp: list_all_length)
  show ?case
    using Suc.IH [of "ws @ [xor_bytes (ws ! (?i - nk)) t]" for t] Suc.prems l4 i4
    by (auto simp: Let_def rot_word_def)
qed

lemma round_keys_ok: "4 \<le> length key \<Longrightarrow> rks_ok (round_keys key)"
  unfolding round_keys_def Let_def
  by (intro group4_rks_ok expand_key_words chunks4_words) (simp_all add: length_chunks4)

section \<open>CBC mode\<close>

function cbc_encrypt :: "(byte list \<Rightarrow> byte list) \<Rightarrow> byte list \<Rightarrow> byte list \<Rightarrow> byte list" where
  "cbc_encrypt E iv xs =
     (if length xs < 16 then []
      else (let c = E (xor_bytes iv (take 16 xs)) in c @ cbc_encrypt E c (drop 16 xs)))"
  by pat_completeness auto
termination by (relation "measure (\<lambda>(E, iv, xs). length xs)") auto

function cbc_decrypt :: "(byte list \<Rightarrow> byte list) \<Rightarrow> byte list \<Rightarrow> byte list \<Rightarrow> byte list" where
  "cbc_decrypt D iv xs =
     (if length xs < 16 then []
      else (let c = take 16 xs in xor_bytes iv (D c) @ cbc_decrypt D c (drop 16 xs)))"
  by pat_completeness auto
termination by (relation "measure (\<lambda>(D, iv, xs). length xs)") auto

declare cbc_encrypt.simps [simp del] cbc_decrypt.simps [simp del]

text \<open>
  The interface of a block cipher: keys that are fit for use, encryption and decryption of a
  block under a key. Whatever satisfies it can be run in CBC mode and undone.
\<close>

locale block_cipher =
  fixes key_ok :: "'k \<Rightarrow> bool"
    and enc :: "'k \<Rightarrow> byte list \<Rightarrow> byte list"
    and dec :: "'k \<Rightarrow> byte list \<Rightarrow> byte list"
  assumes enc_length: "key_ok k \<Longrightarrow> length b = 16 \<Longrightarrow> length (enc k b) = 16"
    and dec_enc: "key_ok k \<Longrightarrow> length b = 16 \<Longrightarrow> dec k (enc k b) = b"
begin

lemma cbc_length:
  assumes "key_ok k" and "length iv = 16" and "16 dvd length xs"
  shows "length (cbc_encrypt (enc k) iv xs) = length xs"
  using assms
proof (induction "enc k" iv xs rule: cbc_encrypt.induct)
  case (1 iv xs)
  show ?case
  proof (cases "length xs < 16")
    case True
    with "1.prems" show ?thesis by (subst cbc_encrypt.simps) (auto simp: dvd_imp_le)
  next
    case False
    with "1.prems" have "16 dvd length (drop 16 xs)" by (simp add: dvd_diff_nat)
    with False "1.prems" "1.hyps" show ?thesis
      by (subst cbc_encrypt.simps) (simp add: Let_def enc_length)
  qed
qed

lemma cbc_roundtrip:
  assumes "key_ok k" and "length iv = 16" and "16 dvd length xs"
  shows "cbc_decrypt (dec k) iv (cbc_encrypt (enc k) iv xs) = xs"
  using assms
proof (induction "enc k" iv xs rule: cbc_encrypt.induct)
  case (1 iv xs)
  show ?case
  proof (cases "length xs < 16")
    case True
    with "1.prems" have "xs = []" using dvd_imp_le by fastforce
    then show ?thesis by (simp add: cbc_encrypt.simps cbc_decrypt.simps)
  next
    case False
    let ?p = "xor_bytes iv (take 16 xs)"
    let ?c = "enc k ?p"
    have len: "length ?p = 16" "length ?c = 16" using False "1.prems" by (simp_all add: enc_length)
    have "16 dvd length (drop 16 xs)" using "1.prems" by (simp add: dvd_diff_nat)
    then have IH: "cbc_decrypt (dec k) ?c (cbc_encrypt (enc k) ?c (drop 16 xs)) = drop 16 xs"
      using "1.hyps" [OF False refl] "1.prems" len by simp
    have "cbc_encrypt (enc k) iv xs = ?c @ cbc_encrypt (enc k) ?c (drop 16 xs)"
      using False by (subst cbc_encrypt.simps) (simp add: Let_def)
    then have "cbc_decrypt (dec k) iv (cbc_encrypt (enc k) iv xs) =
        xor_bytes iv (dec k ?c) @ drop 16 xs"
      using len IH by (subst cbc_decrypt.simps) (simp add: Let_def)
    also have "\<dots> = xs" using len False "1.prems" by (simp add: dec_enc)
    finally show ?thesis .
  qed
qed

end

interpretation aes: block_cipher rks_ok aes_cipher aes_inv_cipher
  by unfold_locales (simp_all add: length_aes_cipher aes_inv_cipher_cipher)

section \<open>Hexadecimal\<close>

definition hex_digit :: "nat \<Rightarrow> char" where
  "hex_digit n = (if n < 10 then char_of (48 + n) else char_of (87 + n))"

definition hex_val :: "char \<Rightarrow> nat option" where
  "hex_val c = (let n = of_char c :: nat in
     if 48 \<le> n \<and> n \<le> 57 then Some (n - 48)
     else if 97 \<le> n \<and> n \<le> 102 then Some (n - 87)
     else if 65 \<le> n \<and> n \<le> 70 then Some (n - 55) else None)"

fun hex_encode :: "byte list \<Rightarrow> string" where
  "hex_encode [] = []"
| "hex_encode (b # bs) =
     hex_digit (unat b div 16) # hex_digit (unat b mod 16) # hex_encode bs"

text \<open>\<open>hex.DecodeString\<close> returns the bytes decoded before the first error along with the
  error; the caller drops the error, so this is the byte string it goes on with.\<close>

fun hex_decode :: "string \<Rightarrow> byte list" where
  "hex_decode (a # b # cs) =
     (case (hex_val a, hex_val b) of
        (Some x, Some y) \<Rightarrow> word_of_nat (16 * x + y) # hex_decode cs
      | _ \<Rightarrow> [])"
| "hex_decode cs = []"

lemma hex_val_digit: "n < 16 \<Longrightarrow> hex_val (hex_digit n) = Some n"
  by (simp add: hex_val_def hex_digit_def Let_def)

lemma hex_decode_encode [simp]: "hex_decode (hex_encode bs) = bs"
proof (induction bs)
  case Nil
  then show ?case by simp
next
  case (Cons b bs)
  have "unat b < 256" using unsigned_less [of b] by simp
  then have "unat b div 16 < 16" by simp
  moreover have "16 * (unat b div 16) + unat b mod 16 = unat b" by simp
  ultimately show ?case using Cons by (simp add: hex_val_digit)
qed

end
