(* ===== verification/GoNet.thy ===== *)
theory GoNet
  imports GoCrypto
begin

text \<open>
  The address functions of Go's package \<open>net\<close> (release 1.14, the one the Dockerfile builds
  with) that the white list and the prefix filter call: parsing and printing of IPv4 and IPv6
  addresses, CIDR notation, the containment test of a network, and \<open>SplitHostPort\<close>. An
  address is the byte slice the library works with: four bytes, or sixteen with the IPv4
  addresses under the prefix ::ffff:0:0/96.
\<close>

type_synonym ip = "byte list"

section \<open>Numbers inside addresses\<close>

definition big :: nat where "big = 0xFFFFFF"

text \<open>\<open>dtoi\<close> and \<open>xtoi\<close>: the value, the number of bytes consumed, and success.\<close>

fun dtoi_loop :: "nat \<Rightarrow> nat \<Rightarrow> string \<Rightarrow> nat \<times> nat \<times> bool" where
  "dtoi_loop n i [] = (if i = 0 then (0, 0, False) else (n, i, True))"
| "dtoi_loop n i (c # cs) =
     (if is_digit c
      then (let n' = n * 10 + digit_val c in
        if n' \<ge> big then (big, i, False) else dtoi_loop n' (Suc i) cs)
      else if i = 0 then (0, 0, False) else (n, i, True))"

definition dtoi :: "string \<Rightarrow> nat \<times> nat \<times> bool" where
  "dtoi s = dtoi_loop 0 0 s"

fun xtoi_loop :: "nat \<Rightarrow> nat \<Rightarrow> string \<Rightarrow> nat \<times> nat \<times> bool" where
  "xtoi_loop n i [] = (if i = 0 then (0, i, False) else (n, i, True))"
| "xtoi_loop n i (c # cs) =
     (case hex_val c of
        Some d \<Rightarrow> (let n' = n * 16 + d in
          if n' \<ge> big then (0, i, False) else xtoi_loop n' (Suc i) cs)
      | None \<Rightarrow> if i = 0 then (0, i, False) else (n, i, True))"

definition xtoi :: "string \<Rightarrow> nat \<times> nat \<times> bool" where
  "xtoi s = xtoi_loop 0 0 s"

section \<open>Parsing addresses\<close>

definition v4_in_v6_prefix :: "byte list" where
  "v4_in_v6_prefix = replicate 10 0 @ [0xff, 0xff]"

primrec parse_v4_octets :: "nat \<Rightarrow> bool \<Rightarrow> string \<Rightarrow> byte list option" where
  "parse_v4_octets 0 first s = (if s = [] then Some [] else None)"
| "parse_v4_octets (Suc k) first s =
     (if s = [] then None
      else if \<not> first \<and> hd s \<noteq> CHR ''.'' then None
      else (let s' = (if first then s else tl s) in
        case dtoi s' of (n, c, ok) \<Rightarrow>
          if \<not> ok \<or> n > 0xFF then None
          else map_option ((#) (word_of_nat n)) (parse_v4_octets k False (drop c s'))))"

definition parse_ipv4 :: "string \<Rightarrow> ip option" where
  "parse_ipv4 s = map_option ((@) v4_in_v6_prefix) (parse_v4_octets 4 True s)"

text \<open>
  The loop of \<open>parseIPv6\<close>: the bytes written so far, the position of the ellipsis, and the
  rest of the text. Each turn writes two bytes (or four, and leaves), so it ends.
\<close>

function parse_v6_groups ::
  "byte list \<Rightarrow> nat option \<Rightarrow> string \<Rightarrow> (byte list \<times> nat option \<times> string) option" where
  "parse_v6_groups acc e s =
     (if length acc \<ge> 16 then Some (acc, e, s)
      else (let (n, c, ok) = xtoi s in
        if \<not> ok \<or> n > 0xFFFF then None
        else if c < length s \<and> s ! c = CHR ''.'' then
          (if e = None \<and> length acc \<noteq> 12 then None
           else if length acc + 4 > 16 then None
           else (case parse_ipv4 s of
               None \<Rightarrow> None
             | Some ip4 \<Rightarrow> Some (acc @ drop 12 ip4, e, [])))
        else (let acc' = acc @ [word_of_nat (n div 256), word_of_nat n]; s' = drop c s in
          if s' = [] then Some (acc', e, [])
          else if hd s' \<noteq> CHR '':'' \<or> length s' = 1 then None
          else if hd (tl s') = CHR '':'' then
            (if e \<noteq> None then None
             else if tl (tl s') = [] then Some (acc', Some (length acc'), [])
             else parse_v6_groups acc' (Some (length acc')) (tl (tl s')))
          else parse_v6_groups acc' e (tl s'))))"
  by pat_completeness auto
termination by (relation "measure (\<lambda>(acc, e, s). 16 - length acc)") auto

declare parse_v6_groups.simps [simp del]

definition parse_ipv6 :: "string \<Rightarrow> ip option" where
  "parse_ipv6 s =
     (let lead = (2 \<le> length s \<and> s ! 0 = CHR '':'' \<and> s ! 1 = CHR '':'') in
      if lead \<and> drop 2 s = [] then Some (replicate 16 0)
      else (case parse_v6_groups [] (if lead then Some 0 else None) (if lead then drop 2 s else s) of
          None \<Rightarrow> None
        | Some (acc, e, rest) \<Rightarrow>
            if rest \<noteq> [] then None
            else if length acc < 16 then
              (case e of
                 None \<Rightarrow> None
               | Some p \<Rightarrow> Some (take p acc @ replicate (16 - length acc) 0 @ drop p acc))
            else if e \<noteq> None then None
            else Some acc))"

text \<open>\<open>ParseIP\<close> dispatches on the first dot or colon.\<close>

fun first_dot_or_colon :: "string \<Rightarrow> char option" where
  "first_dot_or_colon [] = None"
| "first_dot_or_colon (c # cs) =
     (if c = CHR ''.'' \<or> c = CHR '':'' then Some c else first_dot_or_colon cs)"

definition parse_ip :: "string \<Rightarrow> ip option" where
  "parse_ip s =
     (case first_dot_or_colon s of
        None \<Rightarrow> None
      | Some c \<Rightarrow> if c = CHR ''.'' then parse_ipv4 s else parse_ipv6 s)"

definition to4 :: "ip \<Rightarrow> ip option" where
  "to4 ip =
     (if length ip = 4 then Some ip
      else if length ip = 16 \<and> take 12 ip = v4_in_v6_prefix then Some (drop 12 ip)
      else None)"

section \<open>Networks\<close>

record ipnet =
  net_ip :: ip
  net_mask :: "byte list"

text \<open>\<open>CIDRMask\<close>: a number of leading ones, and the length of the mask in bytes.\<close>

primrec cidr_mask :: "nat \<Rightarrow> nat \<Rightarrow> byte list" where
  "cidr_mask n 0 = []"
| "cidr_mask n (Suc l) =
     (if 8 \<le> n then 0xff # cidr_mask (n - 8) l else NOT (drop_bit n 0xff) # cidr_mask 0 l)"

definition and_bytes :: "byte list \<Rightarrow> byte list \<Rightarrow> byte list" where
  "and_bytes xs ys = map (\<lambda>(x, y). x AND y) (zip xs ys)"

definition ip_mask :: "ip \<Rightarrow> byte list \<Rightarrow> ip option" where
  "ip_mask ip m =
     (let m' = (if length m = 16 \<and> length ip = 4 \<and> list_all (\<lambda>b. b = 0xff) (take 12 m)
                then drop 12 m else m);
          ip' = (if length m' = 4 \<and> length ip = 16 \<and> take 12 ip = v4_in_v6_prefix
                 then drop 12 ip else ip)
      in if length ip' \<noteq> length m' then None else Some (and_bytes ip' m'))"

definition parse_cidr :: "string \<Rightarrow> (gerror, ip \<times> ipnet) res" where
  "parse_cidr s =
     (let err = Err (''invalid CIDR address: '' @ s) in
      if CHR ''/'' \<notin> set s then err
      else (let addr = takeWhile (\<lambda>c. c \<noteq> CHR ''/'') s;
                mask = tl (dropWhile (\<lambda>c. c \<noteq> CHR ''/'') s);
                v4 = parse_ipv4 addr;
                iplen = (if v4 = None then 16 else 4);
                ipo = (if v4 = None then parse_ipv6 addr else v4)
        in case (ipo, dtoi mask) of
             (None, _) \<Rightarrow> err
           | (Some ip, (n, i, ok)) \<Rightarrow>
               if \<not> ok \<or> i \<noteq> length mask \<or> n > 8 * iplen then err
               else (let m = cidr_mask n iplen in
                 Ok (ip, \<lparr>net_ip = (case ip_mask ip m of Some x \<Rightarrow> x | None \<Rightarrow> []), net_mask = m\<rparr>))))"

text \<open>\<open>networkNumberAndMask\<close>; a nil result is \<open>None\<close>.\<close>

definition net_number_mask :: "ipnet \<Rightarrow> (ip \<times> byte list) option" where
  "net_number_mask n =
     (let ipo = (case to4 (net_ip n) of
                   Some x \<Rightarrow> Some x
                 | None \<Rightarrow> if length (net_ip n) \<noteq> 16 then None else Some (net_ip n));
          m = net_mask n
      in case ipo of
           None \<Rightarrow> None
         | Some ip \<Rightarrow>
             if length m = 4 then (if length ip \<noteq> 4 then None else Some (ip, m))
             else if length m = 16 then (if length ip = 4 then Some (ip, drop 12 m) else Some (ip, m))
             else None)"

definition net_contains :: "ipnet \<Rightarrow> ip \<Rightarrow> bool" where
  "net_contains n ip =
     (let ip' = (case to4 ip of Some x \<Rightarrow> x | None \<Rightarrow> ip) in
      case net_number_mask n of
        None \<Rightarrow> ip' = []
      | Some (nn, m) \<Rightarrow> length ip' = length nn \<and> and_bytes nn m = and_bytes ip' m)"

text \<open>\<open>simpleMaskLength\<close>, -1 for a mask that is not a run of ones before zeros; eight shifts empty
  a byte, so eight turns of the inner loop are enough.\<close>

primrec lead_ones :: "nat \<Rightarrow> byte \<Rightarrow> nat \<times> byte" where
  "lead_ones 0 v = (0, v)"
| "lead_ones (Suc k) v =
     (if bit v 7 then (case lead_ones k (push_bit 1 v) of (n, w) \<Rightarrow> (Suc n, w)) else (0, v))"

fun mask_length :: "byte list \<Rightarrow> int" where
  "mask_length [] = 0"
| "mask_length (v # vs) =
     (if v = 0xff then (let n = mask_length vs in if n < 0 then - 1 else 8 + n)
      else (case lead_ones 8 v of (n, w) \<Rightarrow>
        if w \<noteq> 0 \<or> \<not> list_all (\<lambda>b. b = 0) vs then - 1 else int n))"

definition mask_size :: "byte list \<Rightarrow> int" where
  "mask_size m = (let n = mask_length m in if n = - 1 then 0 else n)"

section \<open>Printing addresses\<close>

definition show_v4 :: "ip \<Rightarrow> string" where
  "show_v4 p = str_join ''.'' (map (\<lambda>b. show_nat (unat b)) p)"

text \<open>\<open>appendHex\<close>: lower case, no leading zeros.\<close>

fun show_hex :: "nat \<Rightarrow> string" where
  "show_hex n = (if n < 16 then [hex_digit n] else show_hex (n div 16) @ [hex_digit (n mod 16)])"

declare show_hex.simps [simp del]

fun v6_groups :: "ip \<Rightarrow> nat list" where
  "v6_groups (a # b # r) = (256 * unat a + unat b) # v6_groups r"
| "v6_groups r = []"

text \<open>The longest run of zero groups, the first one of that length: start and length.\<close>

fun longest_run :: "nat \<Rightarrow> nat list \<Rightarrow> nat \<times> nat" where
  "longest_run i [] = (i, 0)"
| "longest_run i (g # gs) =
     (let here = length (takeWhile (\<lambda>x. x = 0) (g # gs)); (p, n) = longest_run (Suc i) gs
      in if here \<ge> n then (i, here) else (p, n))"

definition show_v6 :: "ip \<Rightarrow> string" where
  "show_v6 p =
     (let gs = v6_groups p; (e, n) = longest_run 0 gs in
      if n \<le> 1 then str_join '':'' (map show_hex gs)
      else str_join '':'' (map show_hex (take e gs)) @ ''::'' @
           str_join '':'' (map show_hex (drop (e + n) gs)))"

definition show_ip :: "ip \<Rightarrow> string" where
  "show_ip ip =
     (if ip = [] then ''<nil>''
      else (case to4 ip of
          Some p4 \<Rightarrow> show_v4 p4
        | None \<Rightarrow> if length ip \<noteq> 16 then CHR ''?'' # hex_encode ip else show_v6 ip))"

definition show_net :: "ipnet \<Rightarrow> string" where
  "show_net n =
     (case net_number_mask n of
        None \<Rightarrow> ''<nil>''
      | Some (nn, m) \<Rightarrow>
          (let l = mask_length m in
           show_ip nn @ ''/'' @ (if l = - 1 then hex_encode m else itoa l)))"

section \<open>Host and port\<close>

text \<open>\<open>SplitHostPort\<close>; only the host is used by the program, so the error text is dropped.\<close>

definition last_index :: "char \<Rightarrow> string \<Rightarrow> nat option" where
  "last_index c s =
     (let r = takeWhile (\<lambda>x. x \<noteq> c) (rev s) in
      if c \<in> set s then Some (length s - 1 - length r) else None)"

definition split_host_port :: "string \<Rightarrow> (string \<times> string) option" where
  "split_host_port hp =
     (case last_index CHR '':'' hp of
        None \<Rightarrow> None
      | Some i \<Rightarrow>
          if hd hp = CHR ''['' then
            (if CHR '']'' \<notin> set hp then None
             else (let e = length (takeWhile (\<lambda>c. c \<noteq> CHR '']'') hp) in
               if e + 1 \<noteq> i then None
               else if CHR ''['' \<in> set (drop 1 hp) then None
               else if CHR '']'' \<in> set (drop (e + 1) hp) then None
               else Some (take (e - 1) (drop 1 hp), drop (i + 1) hp)))
          else (let host = take i hp in
            if CHR '':'' \<in> set host then None
            else if CHR ''['' \<in> set hp \<or> CHR '']'' \<in> set hp then None
            else Some (host, drop (i + 1) hp)))"

end
