(* ===== verification/GoNetFacts.thy ===== *)
theory GoNetFacts
  imports GoNet
begin

text \<open>
  Facts about the address functions: dotted addresses are read back as printed, masks have
  the size they were made with, and containment in a network is agreement on the leading bits.
\<close>

section \<open>Decimal octets\<close>

lemma dtoi_loop_digits:
  assumes "list_all is_digit ds" and "0 < i + length ds"
    and "rest = [] \<or> \<not> is_digit (hd rest)"
    and "foldl (\<lambda>n c. n * 10 + digit_val c) n ds < big"
  shows "dtoi_loop n i (ds @ rest) =
    (foldl (\<lambda>n c. n * 10 + digit_val c) n ds, i + length ds, True)"
  using assms
proof (induction ds arbitrary: n i)
  case Nil
  then show ?case by (cases rest) auto
next
  case (Cons c ds)
  have mono: "m \<le> foldl (\<lambda>n c. n * 10 + digit_val c) m ds" for m
  proof (induction ds arbitrary: m)
    case (Cons a ds)
    show ?case using Cons [of "m * 10 + digit_val a"] by simp
  qed simp
  have "n * 10 + digit_val c < big"
    using mono [of "n * 10 + digit_val c"] Cons.prems(4) by simp
  then show ?case using Cons.IH [of "Suc i" "n * 10 + digit_val c"] Cons.prems
    by (simp add: Let_def)
qed

lemma dtoi_show_nat:
  assumes "n < big" and "rest = [] \<or> \<not> is_digit (hd rest)"
  shows "dtoi (show_nat n @ rest) = (n, length (show_nat n), True)"
  using dtoi_loop_digits [of "show_nat n" 0 rest 0] assms
    digits_val_show_nat [of n] show_nat_digits [of n]
  by (simp add: dtoi_def digits_val_def)

lemma byte_lt_256: "unat (b :: byte) < 256"
  using unsigned_less [of b] by simp

lemma dot_not_digit [simp]: "\<not> is_digit CHR ''.''"
  by (simp add: is_digit_def)

lemma slash_not_digit [simp]: "\<not> is_digit CHR ''/''"
  by (simp add: is_digit_def)

section \<open>IPv4 addresses are read back as printed\<close>

lemma parse_v4_octets_step:
  assumes "rest = [] \<or> hd rest = CHR ''.''"
  shows "parse_v4_octets (Suc k) True (show_nat (unat b) @ rest) =
      map_option ((#) b) (parse_v4_octets k False rest)"
    and "parse_v4_octets (Suc k) False (CHR ''.'' # show_nat (unat b) @ rest) =
      map_option ((#) b) (parse_v4_octets k False rest)"
proof -
  have b: "unat b < 256" by (rule byte_lt_256)
  have r: "rest = [] \<or> \<not> is_digit (hd rest)" using assms by auto
  have d: "dtoi (show_nat (unat b) @ rest) = (unat b, length (show_nat (unat b)), True)"
    using b r by (intro dtoi_show_nat) (simp_all add: big_def)
  show "parse_v4_octets (Suc k) True (show_nat (unat b) @ rest) =
      map_option ((#) b) (parse_v4_octets k False rest)"
    using b by (simp add: d Let_def)
  show "parse_v4_octets (Suc k) False (CHR ''.'' # show_nat (unat b) @ rest) =
      map_option ((#) b) (parse_v4_octets k False rest)"
    using b by (simp add: d Let_def)
qed

lemma parse_ipv4_show_v4:
  assumes "length p = 4"
  shows "parse_ipv4 (show_v4 p) = Some (v4_in_v6_prefix @ p)"
proof -
  obtain a b c d where p: "p = [a, b, c, d]"
    using assms by (auto simp: length_Suc_conv eval_nat_numeral)
  have "parse_v4_octets (Suc (Suc (Suc (Suc 0)))) True (show_v4 p) = Some p"
    unfolding p show_v4_def
    using parse_v4_octets_step(2) [of "[]"]
    by (simp add: parse_v4_octets_step del: parse_v4_octets.simps(2))
  then show ?thesis by (simp add: parse_ipv4_def eval_nat_numeral)
qed

lemma first_dot_digits:
  "list_all is_digit ds \<Longrightarrow> first_dot_or_colon (ds @ CHR ''.'' # rest) = Some CHR ''.''"
  by (induction ds) (auto simp: is_digit_def)

lemma parse_ip_show_v4:
  assumes "length p = 4"
  shows "parse_ip (show_v4 p) = Some (v4_in_v6_prefix @ p)"
proof -
  obtain a b c d where p: "p = [a, b, c, d]"
    using assms by (auto simp: length_Suc_conv eval_nat_numeral)
  have "first_dot_or_colon (show_v4 p) = Some CHR ''.''"
    by (simp add: p show_v4_def first_dot_digits [OF show_nat_digits])
  then show ?thesis using parse_ipv4_show_v4 [OF assms] by (simp add: parse_ip_def)
qed

lemma length_v4_prefix [simp]: "length v4_in_v6_prefix = 12"
  by (simp add: v4_in_v6_prefix_def)

lemma to4_v4_prefix [simp]: "length p = 4 \<Longrightarrow> to4 (v4_in_v6_prefix @ p) = Some p"
  by (simp add: to4_def)

lemma to4_length: "to4 x = Some y \<Longrightarrow> length y = 4"
  by (auto simp: to4_def split: if_splits)

lemma to4_of_4 [simp]: "length p = 4 \<Longrightarrow> to4 p = Some p"
  by (simp add: to4_def)

lemma parse_v4_octets_length: "parse_v4_octets k first s = Some bs \<Longrightarrow> length bs = k"
  by (induction k arbitrary: first s bs) (auto split: if_splits prod.splits simp: Let_def)

lemma parse_ipv4_Some:
  "parse_ipv4 s = Some x \<Longrightarrow> \<exists>p. x = v4_in_v6_prefix @ p \<and> length p = 4"
  using parse_v4_octets_length by (auto simp: parse_ipv4_def)

section \<open>Masks\<close>

lemma length_cidr_mask [simp]: "length (cidr_mask n l) = l"
  by (induction l arbitrary: n) simp_all

lemma cidr_mask_0: "list_all (\<lambda>b. b = 0) (cidr_mask 0 l)"
  by (induction l) simp_all

lemma lead_ones_mask:
  "n < 8 \<Longrightarrow> lead_ones 8 (NOT (drop_bit n 0xff)) = (n, 0)"
proof -
  assume "n < 8"
  then have "n \<in> {0, 1, 2, 3, 4, 5, 6, 7}" by auto
  moreover have "\<forall>n \<in> set [0, 1, 2, 3, 4, 5, 6, 7].
      lead_ones 8 (NOT (drop_bit n 0xff)) = (n, 0)" by code_simp
  ultimately show ?thesis by auto
qed

lemma mask_byte_not_ff: "n < 8 \<Longrightarrow> NOT (drop_bit n 0xff) \<noteq> (0xff :: byte)"
proof -
  assume "n < 8"
  then have "n \<in> {0, 1, 2, 3, 4, 5, 6, 7}" by auto
  then show ?thesis by auto
qed

lemma mask_length_cidr_mask:
  "n \<le> 8 * l \<Longrightarrow> mask_length (cidr_mask n l) = int n"
proof (induction l arbitrary: n)
  case 0
  then show ?case by simp
next
  case (Suc l)
  show ?case
  proof (cases "8 \<le> n")
    case True
    with Suc show ?thesis by (simp add: Let_def)
  next
    case False
    then show ?thesis
      using lead_ones_mask [of n] mask_byte_not_ff [of n] cidr_mask_0 [of l] by simp
  qed
qed

lemma mask_size_cidr_mask: "n \<le> 8 * l \<Longrightarrow> mask_size (cidr_mask n l) = int n"
  by (simp add: mask_size_def mask_length_cidr_mask)

section \<open>Containment is agreement on leading bits\<close>

definition byte_bits :: "byte \<Rightarrow> bool list" where
  "byte_bits b = map (\<lambda>i. bit b (7 - i)) [0..<8]"

definition ip_bits :: "ip \<Rightarrow> bool list" where
  "ip_bits x = concat (map byte_bits x)"

lemma length_byte_bits [simp]: "length (byte_bits b) = 8"
  by (simp add: byte_bits_def)

lemma length_ip_bits [simp]: "length (ip_bits x) = 8 * length x"
  by (induction x) (simp_all add: ip_bits_def)

lemma ip_bits_Cons: "ip_bits (b # x) = byte_bits b @ ip_bits x"
  by (simp add: ip_bits_def)

lemma ff_all_ones: "(0xff :: byte) = - 1"
  by simp

lemma bit_ff: "bit (0xff :: byte) i \<longleftrightarrow> i < 8"
  unfolding ff_all_ones by (simp add: bit_minus_1_iff)

lemma mask_bit: "bit (NOT (drop_bit n (0xff :: byte))) i \<longleftrightarrow> i < 8 \<and> \<not> n + i < 8"
  unfolding bit_not_iff bit_drop_bit_eq comp_def bit_ff by simp

lemma byte_agree:
  assumes "n \<le> 8"
  shows "a AND NOT (drop_bit n 0xff) = b AND NOT (drop_bit n (0xff :: byte))
    \<longleftrightarrow> take n (byte_bits a) = take n (byte_bits b)" (is "?L \<longleftrightarrow> ?R")
proof -
  have "?L \<longleftrightarrow> (\<forall>i<8. \<not> n + i < 8 \<longrightarrow> bit a i = bit b i)"
    unfolding bit_eq_iff bit_and_iff mask_bit by auto
  also have "\<dots> \<longleftrightarrow> (\<forall>j<n. bit a (7 - j) = bit b (7 - j))"
  proof
    assume "\<forall>i<8. \<not> n + i < 8 \<longrightarrow> bit a i = bit b i"
    then show "\<forall>j<n. bit a (7 - j) = bit b (7 - j)" using assms by auto
  next
    assume *: "\<forall>j<n. bit a (7 - j) = bit b (7 - j)"
    show "\<forall>i<8. \<not> n + i < 8 \<longrightarrow> bit a i = bit b i"
    proof (intro allI impI)
      fix i :: nat
      assume "i < 8" "\<not> n + i < 8"
      then show "bit a i = bit b i" using * [rule_format, of "7 - i"] by simp
    qed
  qed
  also have "\<dots> \<longleftrightarrow> ?R"
    using assms by (auto simp: byte_bits_def list_eq_iff_nth_eq)
  finally show ?thesis .
qed

lemma byte_agree_0: "a AND NOT (drop_bit 0 0xff) = (0 :: byte)"
proof -
  have "NOT (drop_bit 0 0xff) = (0 :: byte)" by (simp only: drop_bit_0 id_apply ff_all_ones) simp
  then show ?thesis by (simp only: and_zero_eq)
qed

lemma and_ff [simp]: "a AND 0xff = (a :: byte)"
  unfolding ff_all_ones by simp

lemma byte_bits_inj: "byte_bits a = byte_bits b \<longleftrightarrow> a = b"
proof -
  have "NOT (drop_bit 8 0xff) = (0xff :: byte)" by simp
  then show ?thesis using byte_agree [of 8 a b] by simp
qed

lemma and_bytes_Cons [simp]: "and_bytes (x # xs) (m # ms) = (x AND m) # and_bytes xs ms"
  by (simp add: and_bytes_def)

lemma and_bytes_agree:
  assumes "length x = l" and "length y = l" and "n \<le> 8 * l"
  shows "and_bytes x (cidr_mask n l) = and_bytes y (cidr_mask n l)
    \<longleftrightarrow> take n (ip_bits x) = take n (ip_bits y)"
  using assms
proof (induction l arbitrary: n x y)
  case 0
  then show ?case by simp
next
  case (Suc l)
  then obtain a x' b y' where xy: "x = a # x'" "y = b # y'" "length x' = l" "length y' = l"
    by (metis length_Suc_conv)
  show ?case
  proof (cases "8 \<le> n")
    case True
    with Suc.IH [of x' y' "n - 8"] Suc.prems xy show ?thesis
      by (auto simp: ip_bits_Cons byte_bits_inj)
  next
    case False
    with Suc.IH [of x' y' 0] xy byte_agree [of n a b] show ?thesis
      by (auto simp: ip_bits_Cons)
  qed
qed

lemma and_bytes_idem:
  "length x = length m \<Longrightarrow> and_bytes (and_bytes x m) m = and_bytes x m"
  by (induction x m rule: list_induct2) (simp_all add: and_bytes_def and.assoc)

lemma length_and_bytes [simp]: "length (and_bytes x m) = min (length x) (length m)"
  by (simp add: and_bytes_def)

end
