(* ===== verification/Filters.thy ===== *)
theory Filters
  imports GoNetFacts
begin

text \<open>
  \<open>pkg/util/filter.go\<close> and \<open>pkg/util/sql.go\<close>: reading the filters of a request, the test
  whether a prefix contains a subnet or an address, and the generation of the query behind the
  audit-log list.
\<close>

section \<open>Filters of a request\<close>

text \<open>The filter type belongs to the REST library; \<open>Eq\<close> is the one modifier the code names.\<close>

datatype modifier = Eq | OtherModifier string

record filter_rec =
  f_name :: string
  f_modifier :: modifier
  f_values :: "string list"

definition GetFilterValueWithEqModifierFromFilter :: "filter_rec \<Rightarrow> string option" where
  "GetFilterValueWithEqModifierFromFilter f =
     (if f_modifier f = Eq \<and> length (f_values f) = 1 then Some (f_values f ! 0) else None)"

fun GetFilterValueWithEqModifierFromFilters :: "string \<Rightarrow> filter_rec list \<Rightarrow> string option" where
  "GetFilterValueWithEqModifierFromFilters name [] = None"
| "GetFilterValueWithEqModifierFromFilters name (f # fs) =
     (if f_name f = name \<and> f_modifier f = Eq \<and> length (f_values f) = 1
      then Some (f_values f ! 0)
      else GetFilterValueWithEqModifierFromFilters name fs)"

text \<open>\<open>None\<close> is the nil map returned when there is no filter at all.\<close>

definition GenStrConditionsFromFilters ::
  "filter_rec list \<Rightarrow> string list \<Rightarrow> (string, string) gomap option" where
  "GenStrConditionsFromFilters filters filterNames =
     (if length filters = 0 then None
      else Some (fold (\<lambda>name conditions.
        case GetFilterValueWithEqModifierFromFilters name filters of
          Some value \<Rightarrow> AList.update name value conditions
        | None \<Rightarrow> conditions) filterNames []))"

text \<open>The search is for the first filter of that name that carries one value under \<open>Eq\<close>.\<close>

lemma filter_value_find:
  "GetFilterValueWithEqModifierFromFilters name fs =
     Option.bind (find (\<lambda>f. f_name f = name \<and> GetFilterValueWithEqModifierFromFilter f \<noteq> None) fs)
       GetFilterValueWithEqModifierFromFilter"
  by (induction fs) (auto simp: GetFilterValueWithEqModifierFromFilter_def)

lemma gen_str_conditions_fold:
  "map_of (fold (\<lambda>name conditions.
        case g name of Some value \<Rightarrow> AList.update name value conditions
        | None \<Rightarrow> conditions) names m) k =
    (if k \<in> set names \<and> g k \<noteq> None then g k else map_of m k)"
  by (induction names arbitrary: m) (auto simp: gomap_simps split: option.splits)

section \<open>Prefixes\<close>

definition PrefixContainsSubnetOrIP :: "string \<Rightarrow> string \<Rightarrow> (gerror, bool) res" where
  "PrefixContainsSubnetOrIP prefix subnetOrIp =
     (case parse_cidr prefix of
        Panic \<Rightarrow> Panic
      | Err e \<Rightarrow> Err (''parser prefix:'' @ prefix @ '' failed:'' @ e)
      | Ok (_, ipNet) \<Rightarrow>
          if str_contains subnetOrIp ''/'' then
            (case parse_cidr subnetOrIp of
               Panic \<Rightarrow> Panic
             | Err e \<Rightarrow> Err (''parser subnet:'' @ subnetOrIp @ '' failed:'' @ e)
             | Ok (ip, subIpNet) \<Rightarrow>
                 (let subSize = mask_size (net_mask subIpNet); size = mask_size (net_mask ipNet)
                  in Ok (net_contains ipNet ip \<and> (subSize = 0 \<or> size \<le> subSize))))
          else
            (case parse_ip subnetOrIp of
               None \<Rightarrow> Err (''bad ip:'' @ subnetOrIp)
             | Some ip \<Rightarrow> Ok (net_contains ipNet ip)))"

definition cidr_v4 :: "ip \<Rightarrow> nat \<Rightarrow> string" where
  "cidr_v4 p n = show_v4 p @ ''/'' @ show_nat n"

lemma show_nat_no_slash: "CHR ''/'' \<notin> set (show_nat n)"
  using show_nat_digits [of n] by (auto simp: list_all_iff is_digit_def)

lemma show_v4_no_slash: "CHR ''/'' \<notin> set (show_v4 p)"
proof -
  have "CHR ''/'' \<notin> set (str_join ''.'' ws)" if "\<forall>w \<in> set ws. CHR ''/'' \<notin> set w" for ws
    using that by (induction ws rule: induct_list012) auto
  then show ?thesis by (simp add: show_v4_def show_nat_no_slash)
qed

lemma ip_mask_v4:
  assumes "length p = 4"
  shows "ip_mask (v4_in_v6_prefix @ p) (cidr_mask n 4) = Some (and_bytes p (cidr_mask n 4))"
  using assms by (simp add: ip_mask_def Let_def)

lemma parse_cidr_v4:
  assumes "length p = 4" and "n \<le> 32"
  shows "parse_cidr (cidr_v4 p n) =
    Ok (v4_in_v6_prefix @ p, \<lparr>net_ip = and_bytes p (cidr_mask n 4), net_mask = cidr_mask n 4\<rparr>)"
proof -
  let ?slash = "\<lambda>c. c \<noteq> CHR ''/''"
  have tw: "takeWhile ?slash (show_v4 p @ CHR ''/'' # show_nat n) = show_v4 p"
    and dw: "dropWhile ?slash (show_v4 p @ CHR ''/'' # show_nat n) = CHR ''/'' # show_nat n"
    using show_v4_no_slash [of p] by (auto simp: takeWhile_append dropWhile_append takeWhile_eq_all_conv)
  have d: "dtoi (show_nat n) = (n, length (show_nat n), True)"
    using dtoi_show_nat [of n "[]"] assms(2) by (simp add: big_def)
  have "CHR ''/'' \<in> set (cidr_v4 p n)" by (simp add: cidr_v4_def)
  with tw dw d assms show ?thesis
    by (simp add: parse_cidr_def cidr_v4_def parse_ipv4_show_v4 ip_mask_v4 Let_def)
qed

lemma net_contains_v4:
  assumes "length p = 4" and "length a = 4" and "n \<le> 32"
  shows "net_contains \<lparr>net_ip = and_bytes p (cidr_mask n 4), net_mask = cidr_mask n 4\<rparr>
      (v4_in_v6_prefix @ a) \<longleftrightarrow> take n (ip_bits p) = take n (ip_bits a)"
  using assms and_bytes_agree [of p 4 a n] and_bytes_idem [of p "cidr_mask n 4"]
  by (simp add: net_contains_def net_number_mask_def Let_def)

lemma PrefixContains_v4_addr:
  assumes "length p = 4" and "length a = 4" and "n \<le> 32"
  shows "PrefixContainsSubnetOrIP (cidr_v4 p n) (show_v4 a) =
    Ok (take n (ip_bits p) = take n (ip_bits a))"
  using assms show_v4_no_slash [of a]
  by (simp add: PrefixContainsSubnetOrIP_def parse_cidr_v4 str_contains_char parse_ip_show_v4
      net_contains_v4)

lemma PrefixContains_v4_subnet:
  assumes "length p = 4" and "length a = 4" and "n \<le> 32" and "m \<le> 32"
  shows "PrefixContainsSubnetOrIP (cidr_v4 p n) (cidr_v4 a m) =
    Ok (take n (ip_bits p) = take n (ip_bits a) \<and> (m = 0 \<or> n \<le> m))"
proof -
  have "str_contains (cidr_v4 a m) ''/''" by (simp add: str_contains_char cidr_v4_def)
  with assms show ?thesis
    by (simp add: PrefixContainsSubnetOrIP_def parse_cidr_v4 net_contains_v4 mask_size_cidr_mask Let_def)
qed

text \<open>The addresses of a network, as a set: what containment ought to mean.\<close>

definition v4_range :: "ip \<Rightarrow> nat \<Rightarrow> ip set" where
  "v4_range p n = {a. length a = 4 \<and> take n (ip_bits a) = take n (ip_bits p)}"

lemma v4_range_subset_agree:
  assumes "length a = 4" and "v4_range a m \<subseteq> v4_range p n"
  shows "take n (ip_bits a) = take n (ip_bits p)"
  using assms by (auto simp: v4_range_def)

lemma v4_range_mono:
  assumes "n \<le> m" and "take n (ip_bits a) = take n (ip_bits p)"
  shows "v4_range a m \<subseteq> v4_range p n"
proof
  fix x assume "x \<in> v4_range a m"
  then have "length x = 4" and "take m (ip_bits x) = take m (ip_bits a)"
    by (simp_all add: v4_range_def)
  then have "take n (ip_bits x) = take n (ip_bits a)"
    using assms(1) by (metis min.absorb1 take_take)
  then show "x \<in> v4_range p n" using assms(2) \<open>length x = 4\<close> by (simp add: v4_range_def)
qed

text \<open>Flipping the last bit of the prefix part leaves the longer range but not the shorter.\<close>

definition byte_of_bits :: "bool list \<Rightarrow> byte" where
  "byte_of_bits bs = horner_sum of_bool 2 (rev bs)"

fun ip_of_bits :: "bool list \<Rightarrow> ip" where
  "ip_of_bits bs = (if length bs < 8 then [] else byte_of_bits (take 8 bs) # ip_of_bits (drop 8 bs))"

declare ip_of_bits.simps [simp del]

lemma byte_bits_of_bits: "length bs = 8 \<Longrightarrow> byte_bits (byte_of_bits bs) = bs"
proof (rule nth_equalityI)
  assume len: "length bs = 8"
  fix i
  assume "i < length (byte_bits (byte_of_bits bs))"
  then have "i < 8" "7 - i < 8" by simp_all
  with len show "byte_bits (byte_of_bits bs) ! i = bs ! i"
    by (simp add: byte_bits_def byte_of_bits_def bit_horner_sum_bit_word_iff rev_nth)
qed simp

lemma ip_bits_of_bits: "8 dvd length bs \<Longrightarrow> ip_bits (ip_of_bits bs) = bs"
proof (induction bs rule: ip_of_bits.induct)
  case (1 bs)
  show ?case
  proof (cases "length bs < 8")
    case True
    with 1 have "bs = []" using dvd_imp_le by fastforce
    then show ?thesis by (simp add: ip_of_bits.simps ip_bits_def)
  next
    case False
    with 1 show ?thesis
      by (subst ip_of_bits.simps) (simp add: ip_bits_Cons byte_bits_of_bits dvd_diff_nat)
  qed
qed

lemma v4_range_strict:
  assumes "length a = 4" and "m < n" and "n \<le> 32"
  shows "\<not> v4_range a m \<subseteq> v4_range p n"
proof
  assume sub: "v4_range a m \<subseteq> v4_range p n"
  let ?bs = "(ip_bits a)[n - 1 := \<not> ip_bits a ! (n - 1)]"
  let ?x = "ip_of_bits ?bs"
  have len: "length ?bs = 32" using assms(1) by simp
  then have bits: "ip_bits ?x = ?bs" by (intro ip_bits_of_bits) simp
  then have x4: "length ?x = 4" using length_ip_bits [of ?x] len by simp
  have "take m ?bs = take m (ip_bits a)" using assms(2) by (simp add: take_update_cancel)
  then have "?x \<in> v4_range a m" using bits x4 by (simp add: v4_range_def)
  then have "take n ?bs = take n (ip_bits p)" using sub bits by (auto simp: v4_range_def)
  also have "\<dots> = take n (ip_bits a)"
    using v4_range_subset_agree [OF assms(1) sub] by simp
  finally have "take n ?bs ! (n - 1) = take n (ip_bits a) ! (n - 1)" by simp
  then show False using assms by simp
qed

section \<open>Dates\<close>

text \<open>
  The calendar day of \<open>time.Now()\<close> is an input. \<open>AddDate(0, 0, -n)\<close> goes back one day at a
  time, and the layout 2006-01-02 prints four, two and two digits.
\<close>

record date =
  d_year :: nat
  d_month :: nat
  d_day :: nat

definition is_leap :: "nat \<Rightarrow> bool" where
  "is_leap y \<longleftrightarrow> y mod 4 = 0 \<and> (y mod 100 \<noteq> 0 \<or> y mod 400 = 0)"

definition days_in_month :: "nat \<Rightarrow> nat \<Rightarrow> nat" where
  "days_in_month y m =
     (if m = 2 then (if is_leap y then 29 else 28)
      else if m \<in> {4, 6, 9, 11} then 30 else 31)"

definition date_ok :: "date \<Rightarrow> bool" where
  "date_ok d \<longleftrightarrow> 1 \<le> d_month d \<and> d_month d \<le> 12 \<and> 1 \<le> d_day d \<and>
     d_day d \<le> days_in_month (d_year d) (d_month d)"

definition prev_day :: "date \<Rightarrow> date" where
  "prev_day d =
     (if 1 < d_day d then d\<lparr>d_day := d_day d - 1\<rparr>
      else if 1 < d_month d
      then d\<lparr>d_month := d_month d - 1, d_day := days_in_month (d_year d) (d_month d - 1)\<rparr>
      else d\<lparr>d_year := d_year d - 1, d_month := 12, d_day := 31\<rparr>)"

primrec days_before :: "nat \<Rightarrow> date \<Rightarrow> date" where
  "days_before 0 d = d"
| "days_before (Suc n) d = days_before n (prev_day d)"

primrec pad_digits :: "nat \<Rightarrow> nat \<Rightarrow> string" where
  "pad_digits 0 n = []"
| "pad_digits (Suc k) n = pad_digits k (n div 10) @ [digit_char (n mod 10)]"

definition format_date :: "date \<Rightarrow> string" where
  "format_date d =
     pad_digits 4 (d_year d) @ ''-'' @ pad_digits 2 (d_month d) @ ''-'' @ pad_digits 2 (d_day d)"

lemma days_in_month_bounds: "28 \<le> days_in_month y m" "days_in_month y 12 = 31"
  by (auto simp: days_in_month_def)

lemma prev_day_ok: "date_ok d \<Longrightarrow> date_ok (prev_day d)"
  using days_in_month_bounds(1) [of "d_year d" "d_month d - 1"]
  by (auto simp: date_ok_def prev_day_def days_in_month_bounds(2) simp del: One_nat_def)

lemma days_before_ok: "date_ok d \<Longrightarrow> date_ok (days_before n d)"
  by (induction n arbitrary: d) (simp_all add: prev_day_ok)

section \<open>The query of the audit log\<close>

definition TimeFromSuffix :: string where "TimeFromSuffix = '' 00:00''"
definition TimeToSuffix :: string where "TimeToSuffix = '' 23:59''"

record sql_params =
  sp_conditions :: "(string, string) gomap"
  sp_from :: string
  sp_to :: string

text \<open>One turn of the loop over the filters; \<open>slice_index\<close> is the search of the helper
  library, -1 when the name is not in the slice.\<close>

definition sql_filter_step ::
  "(string list \<Rightarrow> string \<Rightarrow> int) \<Rightarrow> string list \<Rightarrow> filter_rec \<Rightarrow> sql_params \<Rightarrow> sql_params" where
  "sql_filter_step slice_index filterNames f p =
     (if slice_index filterNames (f_name f) \<noteq> - 1 then
        (case GetFilterValueWithEqModifierFromFilter f of
           Some value \<Rightarrow> p\<lparr>sp_conditions :=
             AList.update (f_name f @ '' = $'') value (sp_conditions p)\<rparr>
         | None \<Rightarrow> p)
      else if f_name f = ''from'' then
        (case GetFilterValueWithEqModifierFromFilter f of
           Some v \<Rightarrow> p\<lparr>sp_from := v\<rparr> | None \<Rightarrow> p)
      else if f_name f = ''to'' then
        (case GetFilterValueWithEqModifierFromFilter f of
           Some v \<Rightarrow> p\<lparr>sp_to := v\<rparr> | None \<Rightarrow> p)
      else p)"

text \<open>The loop over the conditions: the placeholder number is the number of arguments so far.\<close>

fun sql_conditions :: "(string \<times> string) list \<Rightarrow> string list \<Rightarrow> string \<times> string list" where
  "sql_conditions [] args = ([], args)"
| "sql_conditions ((cond, arg) # cs) args =
     (let args' = args @ [arg]; (rest, final) = sql_conditions cs args'
      in (cond @ itoa (int (length args')) @ '' and '' @ rest, final))"

definition sql_range :: "string \<Rightarrow> string \<Rightarrow> string" where
  "sql_range timeFrom timeTo =
     ''create_time between '' @ [CHR 0x27] @ timeFrom @ TimeFromSuffix @ [CHR 0x27] @ '' and '' @
     [CHR 0x27] @ timeTo @ TimeToSuffix @ [CHR 0x27] @ '' order by create_time desc''"

definition GenSqlAndArgsByFileters ::
  "(string list \<Rightarrow> string \<Rightarrow> int) \<Rightarrow> (string list \<Rightarrow> string list) \<Rightarrow> date \<Rightarrow>
   string \<Rightarrow> string list \<Rightarrow> nat \<Rightarrow> filter_rec list \<Rightarrow> string \<times> string list" where
  "GenSqlAndArgsByFileters slice_index ord now table filterNames from filters =
     (let p = fold (sql_filter_step slice_index filterNames) filters
            \<lparr>sp_conditions = [], sp_from = format_date (days_before from now),
             sp_to = format_date now\<rparr>;
          (conds, args) = sql_conditions (gomap_range ord (sp_conditions p)) []
      in (''select * from gr_'' @ table @ '' where '' @ conds @ sql_range (sp_from p) (sp_to p), args))"

end
