(* ===== verification/Rest.thy ===== *)
theory Rest
  imports Filters
begin

text \<open>
  What the handlers share of the REST and database libraries. Those libraries are not part of
  the repository: their operations are parameters, grouped in records (\<open>tx_hooks\<close> for the
  life of a transaction, \<open>table\<close> for the operations on one table), and the laws the proofs
  rely on (\<open>tx_laws\<close>) are the documented meaning of begin, commit and roll back. A request
  context is a record of what the handlers read from it.
\<close>

section \<open>API errors and the request context\<close>

datatype error_code = ServerError | Unauthorized | PermissionDenied | InvalidAction

datatype api_error = APIError (api_code: error_code) (api_message: string)

text \<open>The values a request context carries under its keys.\<close>

datatype ctx_val = VString string | VStringList "string list" | VNil

record login_request =
  lr_username :: string
  lr_password :: string

record action =
  act_name :: string
  act_input :: login_request

record 'r ctx =
  c_resource :: 'r
  c_type :: string
  c_id :: string
  c_ancestors :: "string list"
  c_action :: "action option"
  c_method :: string
  c_remote_addr :: string
  c_auth_header :: string
  c_url_path :: string
  c_filters :: "filter_rec list"
  c_vals :: "string \<Rightarrow> ctx_val option"

definition ctx_set :: "string \<Rightarrow> ctx_val \<Rightarrow> 'r ctx \<Rightarrow> 'r ctx" where
  "ctx_set k v ctx = ctx\<lparr>c_vals := (c_vals ctx)(k := Some v)\<rparr>"

lemma ctx_set_simps [simp]:
  "c_resource (ctx_set k v ctx) = c_resource ctx"
  "c_type (ctx_set k v ctx) = c_type ctx"
  "c_id (ctx_set k v ctx) = c_id ctx"
  "c_ancestors (ctx_set k v ctx) = c_ancestors ctx"
  "c_method (ctx_set k v ctx) = c_method ctx"
  "c_action (ctx_set k v ctx) = c_action ctx"
  "c_auth_header (ctx_set k v ctx) = c_auth_header ctx"
  "c_remote_addr (ctx_set k v ctx) = c_remote_addr ctx"
  "c_vals (ctx_set k v ctx) = (c_vals ctx)(k := Some v)"
  by (simp_all add: ctx_set_def)

section \<open>The database\<close>

datatype dbval = DStr string | DStrs "string list" | DBool bool | DInt int

type_synonym columns = "(string \<times> dbval) list"

text \<open>The condition that selects a row by its identifier.\<close>

definition IDField :: string where "IDField = ''id''"

definition by_id :: "string \<Rightarrow> columns" where
  "by_id i = [(IDField, DStr i)]"

text \<open>The operations of a transaction on one table, on a database state \<open>'d\<close>.\<close>

record ('d, 'row) table =
  tb_insert :: "'row \<Rightarrow> ('d, gerror, 'row) comp"
  tb_get :: "columns \<Rightarrow> ('d, gerror, 'row list) comp"
  tb_update :: "columns \<Rightarrow> columns \<Rightarrow> ('d, gerror, int) comp"
  tb_delete :: "columns \<Rightarrow> ('d, gerror, int) comp"
  tb_exists :: "columns \<Rightarrow> ('d, gerror, bool) comp"
  tb_fill_ex :: "string \<Rightarrow> dbval list \<Rightarrow> ('d, gerror, 'row list) comp"
  tb_count_ex :: "string \<Rightarrow> dbval list \<Rightarrow> ('d, gerror, int) comp"
  tb_get_with_id :: "string \<Rightarrow> ('d, gerror, 'row) comp"

text \<open>
  Opening a transaction, and ending it. Both ends are given the database as it was when the
  transaction was opened and as it is now; the roll-back also passes on the closure's error.
\<close>

record 'd tx_hooks =
  tx_open :: "'d \<Rightarrow> gerror option \<times> 'd"
  tx_commit :: "'d \<Rightarrow> 'd \<Rightarrow> gerror option \<times> 'd"
  tx_rollback :: "gerror \<Rightarrow> 'd \<Rightarrow> 'd \<Rightarrow> gerror \<times> 'd"
  tx_exec :: "string \<Rightarrow> dbval list \<Rightarrow> ('d, gerror, int) comp"

definition tx_laws :: "('d, 'z) tx_hooks_scheme \<Rightarrow> bool" where
  "tx_laws P \<longleftrightarrow>
     (\<forall>d. snd (tx_open P d) = d) \<and>
     (\<forall>d0 d. tx_commit P d0 d = (None, d) \<or> (\<exists>e. tx_commit P d0 d = (Some e, d0))) \<and>
     (\<forall>e d0 d. tx_rollback P e d0 d = (e, d0))"

text \<open>The state of the server that the handlers share: the database and the table of active
  users, keyed by user name.\<close>

record ('d, 'u) world =
  w_db :: 'd
  w_active :: "string \<Rightarrow> 'u option"

definition on_db :: "('d, 'e, 'a) comp \<Rightarrow> (('d, 'u) world, 'e, 'a) comp" where
  "on_db m = (\<lambda>w. case m (w_db w) of (r, d) \<Rightarrow> (r, w\<lparr>w_db := d\<rparr>))"

text \<open>A call of \<open>restdb.WithTx\<close>: the closure runs once, between the two ends.\<close>

definition withTx ::
  "('d, 'z) tx_hooks_scheme \<Rightarrow> (('d, 'u) world, gerror, 'a) comp \<Rightarrow> (('d, 'u) world, gerror, 'a) comp"
  where
  "withTx P m = (\<lambda>w.
     case tx_open P (w_db w) of
       (Some e, d) \<Rightarrow> (Err e, w\<lparr>w_db := d\<rparr>)
     | (None, d) \<Rightarrow>
         (case m (w\<lparr>w_db := d\<rparr>) of
            (Panic, w') \<Rightarrow> (Panic, w')
          | (Ok a, w') \<Rightarrow>
              (case tx_commit P (w_db w) (w_db w') of
                 (None, d') \<Rightarrow> (Ok a, w'\<lparr>w_db := d'\<rparr>)
               | (Some e, d') \<Rightarrow> (Err e, w'\<lparr>w_db := d'\<rparr>))
          | (Err e, w') \<Rightarrow>
              (case tx_rollback P e (w_db w) (w_db w') of
                 (e', d') \<Rightarrow> (Err e', w'\<lparr>w_db := d'\<rparr>))))"

text \<open>A handler turns the error of its transaction into an API error.\<close>

definition server_error :: "(gerror \<Rightarrow> string) \<Rightarrow> ('s, gerror, 'a) comp \<Rightarrow> ('s, api_error, 'a) comp" where
  "server_error msg m = c_map_err (\<lambda>e. APIError ServerError (msg e)) m"

text \<open>\<open>db.GetResources\<close>.\<close>

definition GetResources ::
  "('d, 'z) tx_hooks_scheme \<Rightarrow> ('d, 'row) table \<Rightarrow> columns \<Rightarrow> (('d, 'u) world, gerror, 'row list) comp"
  where
  "GetResources P t conditions = withTx P (on_db (tb_get t conditions))"

lemma on_db_apply [tx_simps]:
  "on_db m w = (case m (w_db w) of (r, d) \<Rightarrow> (r, w\<lparr>w_db := d\<rparr>))"
  by (simp add: on_db_def)

lemma on_db_step [simp]: "m (w_db w) = (r, d) \<Longrightarrow> on_db m w = (r, w\<lparr>w_db := d\<rparr>)"
  by (simp add: on_db_def)

lemma on_db_active: "on_db m w = (r, w') \<Longrightarrow> w_active w' = w_active w"
  by (auto simp: on_db_def split: prod.splits)

lemma server_error_step [simp]:
  "m s = (Ok a, s') \<Longrightarrow> server_error msg m s = (Ok a, s')"
  "m s = (Err e, s') \<Longrightarrow> server_error msg m s = (Err (APIError ServerError (msg e)), s')"
  "m s = (Panic, s') \<Longrightarrow> server_error msg m s = (Panic, s')"
  by (simp_all add: server_error_def c_map_err_def)

lemma server_error_Ok_iff [simp]:
  "server_error msg m s = (Ok a, s') \<longleftrightarrow> m s = (Ok a, s')"
  by (auto simp: server_error_def c_map_err_def split: prod.splits)

lemma server_error_snd [simp]: "snd (server_error msg m s) = snd (m s)"
  by (auto simp: server_error_def c_map_err_def split: prod.splits)

lemma server_error_ErrE:
  assumes "server_error msg m s = (Err ae, s')"
  obtains e where "m s = (Err e, s')" and "ae = APIError ServerError (msg e)"
proof -
  obtain r s'' where m: "m s = (r, s'')" by (cases "m s")
  with assms have "res_map_err (\<lambda>e. APIError ServerError (msg e)) r = Err ae" "s'' = s'"
    by (simp_all add: server_error_def)
  then show thesis using m that by (cases r) auto
qed

section \<open>Transactions are atomic\<close>

text \<open>A transaction whose closure or commit fails leaves the database as it found it.\<close>

lemma withTx_Err_db:
  assumes "tx_laws P" and "withTx P m w = (Err e, w')"
  shows "w_db w' = w_db w"
proof -
  obtain eo d where op: "tx_open P (w_db w) = (eo, d)" by (cases "tx_open P (w_db w)")
  with assms(1) have d: "d = w_db w" by (metis snd_conv tx_laws_def)
  show ?thesis
  proof (cases eo)
    case (Some e')
    with op d assms(2) show ?thesis by (auto simp: withTx_def)
  next
    case None
    obtain r w1 where m: "m w = (r, w1)" by (cases "m w")
    show ?thesis
    proof (cases r)
      case (Ok a)
      from assms(1) have "tx_commit P (w_db w) (w_db w1) = (None, w_db w1) \<or>
          (\<exists>e. tx_commit P (w_db w) (w_db w1) = (Some e, w_db w))"
        by (simp add: tx_laws_def)
      with op d None m Ok assms(2) show ?thesis by (auto simp: withTx_def)
    next
      case (Err e')
      from assms(1) have "tx_rollback P e' (w_db w) (w_db w1) = (e', w_db w)"
        by (simp add: tx_laws_def)
      with op d None m Err assms(2) show ?thesis by (auto simp: withTx_def)
    next
      case Panic
      with op d None m assms(2) show ?thesis by (simp add: withTx_def)
    qed
  qed
qed

lemma withTx_OkE:
  assumes "tx_laws P" and "withTx P m w = (Ok a, w')"
  obtains "m w = (Ok a, w')"
proof -
  obtain eo d where op: "tx_open P (w_db w) = (eo, d)" by (cases "tx_open P (w_db w)")
  with assms(1) have d: "d = w_db w" by (metis snd_conv tx_laws_def)
  from assms(2) op have "eo = None" by (cases eo) (auto simp: withTx_def)
  obtain r w1 where m: "m w = (r, w1)" by (cases "m w")
  have "m w = (Ok a, w')"
  proof (cases r)
    case (Ok b)
    from assms(1) have "tx_commit P (w_db w) (w_db w1) = (None, w_db w1) \<or>
        (\<exists>e. tx_commit P (w_db w) (w_db w1) = (Some e, w_db w))"
      by (simp add: tx_laws_def)
    with op d \<open>eo = None\<close> m Ok assms(2) show ?thesis by (auto simp: withTx_def)
  next
    case (Err e')
    with op d \<open>eo = None\<close> m assms(2) show ?thesis by (simp add: withTx_def split: prod.splits)
  next
    case Panic
    with op d \<open>eo = None\<close> m assms(2) show ?thesis by (simp add: withTx_def)
  qed
  then show thesis by (rule that)
qed

text \<open>When the transaction opens and commits, the call is the closure.\<close>

definition tx_reliable :: "('d, 'z) tx_hooks_scheme \<Rightarrow> bool" where
  "tx_reliable P \<longleftrightarrow>
     (\<forall>d. tx_open P d = (None, d)) \<and> (\<forall>d0 d. tx_commit P d0 d = (None, d)) \<and>
     (\<forall>e d0 d. tx_rollback P e d0 d = (e, d0))"

lemma tx_reliable_laws: "tx_reliable P \<Longrightarrow> tx_laws P"
  by (simp add: tx_reliable_def tx_laws_def)

lemma withTx_reliable:
  assumes "tx_reliable P"
  shows "m w = (Ok a, w') \<Longrightarrow> withTx P m w = (Ok a, w')"
    and "m w = (Err e, w') \<Longrightarrow> withTx P m w = (Err e, w'\<lparr>w_db := w_db w\<rparr>)"
    and "m w = (Panic, w') \<Longrightarrow> withTx P m w = (Panic, w')"
  using assms by (simp_all add: withTx_def tx_reliable_def)

end
