(* ===== verification/Authorization.thy ===== *)
theory Authorization
  imports Rest
begin

text \<open>
  The resources of \<open>pkg/auth/resource\<close> and the role template of
  \<open>pkg/auth/authorization\<close>: the authority map every normal user starts from, and how the
  views and plans of the user's roles are merged into it.
\<close>

section \<open>Resources\<close>

type_synonym operations_type = string

definition OperationsTypeGET :: operations_type where "OperationsTypeGET = ''GET''"
definition OperationsTypePUT :: operations_type where "OperationsTypePUT = ''PUT''"
definition OperationsTypePOST :: operations_type where "OperationsTypePOST = ''POST''"
definition OperationsTypeDELETE :: operations_type where "OperationsTypeDELETE = ''DELETE''"
definition OperationsTypeACTION :: operations_type where "OperationsTypeACTION = ''ACTION''"

definition RoleTypeSUPER :: string where "RoleTypeSUPER = ''SUPER''"
definition RoleTypeNORMAL :: string where "RoleTypeNORMAL = ''NORMAL''"

record role_authority =
  ra_resource :: string
  ra_views :: "string list"
  ra_plans :: "string list"
  ra_filter :: bool
  ra_operations :: "operations_type list"

record role_authority_class =
  rc_base :: "role_authority list"
  rc_dns :: "role_authority list"
  rc_dhcp :: "role_authority list"

record role_template =
  rt_super :: role_authority_class
  rt_normal :: role_authority_class

type_synonym authority_map = "(string, role_authority) gomap"

record role =
  ro_id :: string
  ro_name :: string
  ro_comment :: string
  ro_views :: "string list"
  ro_plans :: "string list"

record ddiuser =
  u_id :: string
  u_name :: string
  u_password :: string
  u_comment :: string
  u_role_type :: string
  u_group_ids :: "string list"
  u_role_ids :: "string list"
  u_authority :: authority_map

record user_group =
  g_id :: string
  g_name :: string
  g_comment :: string
  g_user_ids :: "string list"
  g_role_ids :: "string list"

record whitelist =
  wl_id :: string
  wl_ips :: "string list"
  wl_privilege :: string
  wl_enabled :: bool

record user_info =
  ui_name :: string
  ui_type :: string
  ui_menu :: "role_authority list"

text \<open>\<open>RoleAuthorityToUserInfo\<close> lists the values of the authority map.\<close>

definition RoleAuthorityToUserInfo :: "(string list \<Rightarrow> string list) \<Rightarrow> ddiuser \<Rightarrow> user_info" where
  "RoleAuthorityToUserInfo ord u =
     \<lparr>ui_name = u_name u, ui_type = u_role_type u,
      ui_menu = map snd (gomap_range ord (u_authority u))\<rparr>"

section \<open>Building the authority map\<close>

definition all_operations :: "operations_type list" where
  "all_operations = [OperationsTypeGET, OperationsTypePUT, OperationsTypePOST,
     OperationsTypeDELETE, OperationsTypeACTION]"

definition view_authority :: "string list \<Rightarrow> role_authority \<Rightarrow> role_authority" where
  "view_authority views authority =
     (let a = authority\<lparr>ra_views := views\<rparr> in
      if ra_filter a
      then a\<lparr>ra_operations := (if length (ra_views a) > 0 then all_operations else [OperationsTypeGET])\<rparr>
      else a)"

definition CreateViewAuthority :: "role_template \<Rightarrow> string list \<Rightarrow> authority_map \<Rightarrow> authority_map" where
  "CreateViewAuthority tmpl views m =
     fold (\<lambda>authority m. AList.update (ra_resource authority) (view_authority views authority) m)
       (rc_dns (rt_normal tmpl)) m"

definition dhcp_authority :: "string list \<Rightarrow> role_authority \<Rightarrow> role_authority" where
  "dhcp_authority plans authority =
     (let a = authority\<lparr>ra_plans := plans\<rparr> in
      if ra_filter a
      then a\<lparr>ra_operations := (if length (ra_plans a) > 0 then all_operations else [OperationsTypeGET])\<rparr>
      else a)"

definition CreateDhcpAuthority :: "role_template \<Rightarrow> string list \<Rightarrow> authority_map \<Rightarrow> authority_map" where
  "CreateDhcpAuthority tmpl plans m =
     fold (\<lambda>authority m. AList.update (ra_resource authority) (dhcp_authority plans authority) m)
       (rc_dhcp (rt_normal tmpl)) m"

definition CreateBaseAuthority :: "role_template \<Rightarrow> authority_map" where
  "CreateBaseAuthority tmpl =
     CreateDhcpAuthority tmpl [] (CreateViewAuthority tmpl []
       (fold (\<lambda>authority m. AList.update (ra_resource authority) authority m)
          (rc_base (rt_normal tmpl)) []))"

section \<open>Facts about authority maps\<close>

text \<open>Every entry is stored under the resource it speaks about, and keys are not repeated.\<close>

definition authority_ok :: "authority_map \<Rightarrow> bool" where
  "authority_ok m \<longleftrightarrow> distinct (map fst m) \<and> (\<forall>(k, a) \<in> set m. ra_resource a = k)"

lemma authority_ok_Nil [simp]: "authority_ok []"
  by (simp add: authority_ok_def)

lemma authority_ok_update:
  assumes "authority_ok m" and "ra_resource a = k"
  shows "authority_ok (AList.update k a m)"
proof -
  have "set (AList.update k a m) \<subseteq> insert (k, a) (set m)"
    by (induction m) (auto split: if_splits)
  with assms show ?thesis by (fastforce simp: authority_ok_def gomap_simps)
qed

lemma authority_ok_fold:
  assumes "\<And>a. ra_resource (f a) = ra_resource a" and "authority_ok m"
  shows "authority_ok (fold (\<lambda>a m. AList.update (ra_resource a) (f a) m) as m)"
  using assms(2) by (induction as arbitrary: m) (simp_all add: authority_ok_update assms(1))

lemma view_authority_resource [simp]: "ra_resource (view_authority views a) = ra_resource a"
  by (simp add: view_authority_def Let_def)

lemma dhcp_authority_resource [simp]: "ra_resource (dhcp_authority plans a) = ra_resource a"
  by (simp add: dhcp_authority_def Let_def)

lemma CreateViewAuthority_ok: "authority_ok m \<Longrightarrow> authority_ok (CreateViewAuthority tmpl views m)"
  unfolding CreateViewAuthority_def by (rule authority_ok_fold) simp_all

lemma CreateDhcpAuthority_ok: "authority_ok m \<Longrightarrow> authority_ok (CreateDhcpAuthority tmpl plans m)"
  unfolding CreateDhcpAuthority_def by (rule authority_ok_fold) simp_all

lemma CreateBaseAuthority_ok: "authority_ok (CreateBaseAuthority tmpl)"
  unfolding CreateBaseAuthority_def
  by (intro CreateDhcpAuthority_ok CreateViewAuthority_ok authority_ok_fold [where f = "\<lambda>a. a"])
    simp_all

lemma find_append_case:
  "find P (xs @ ys) = (case find P xs of None \<Rightarrow> find P ys | Some x \<Rightarrow> Some x)"
  by (induction xs) auto

text \<open>Later entries for a resource win: the lookup after the loop.\<close>

lemma lookup_fold_update:
  "map_of (fold (\<lambda>a m. AList.update (ra_resource a) (f a) m) as m) k =
     (case find (\<lambda>a. ra_resource a = k) (rev as) of
        Some a \<Rightarrow> Some (f a) | None \<Rightarrow> map_of m k)"
proof (induction as arbitrary: m)
  case Nil
  then show ?case by simp
next
  case (Cons a as)
  then show ?case by (simp add: gomap_simps find_append_case split: option.splits)
qed

text \<open>The authority map of a user whose roles grant the given views and plans.\<close>

lemma lookup_view_then_dhcp:
  "map_of (CreateDhcpAuthority tmpl plans (CreateViewAuthority tmpl views m)) k =
     (case find (\<lambda>a. ra_resource a = k) (rev (rc_dhcp (rt_normal tmpl))) of
        Some a \<Rightarrow> Some (dhcp_authority plans a)
      | None \<Rightarrow>
        (case find (\<lambda>a. ra_resource a = k) (rev (rc_dns (rt_normal tmpl))) of
           Some a \<Rightarrow> Some (view_authority views a)
         | None \<Rightarrow> map_of m k))"
  by (simp add: CreateDhcpAuthority_def CreateViewAuthority_def lookup_fold_update
      split: option.splits)

lemma lookup_base:
  "map_of (CreateBaseAuthority tmpl) k =
     (case find (\<lambda>a. ra_resource a = k) (rev (rc_dhcp (rt_normal tmpl))) of
        Some a \<Rightarrow> Some (dhcp_authority [] a)
      | None \<Rightarrow>
        (case find (\<lambda>a. ra_resource a = k) (rev (rc_dns (rt_normal tmpl))) of
           Some a \<Rightarrow> Some (view_authority [] a)
         | None \<Rightarrow> find (\<lambda>a. ra_resource a = k) (rev (rc_base (rt_normal tmpl)))))"
  unfolding CreateBaseAuthority_def lookup_view_then_dhcp
  by (simp add: lookup_fold_update [where f = "\<lambda>a. a"] split: option.splits)

end
