(* ===== verification/Aes.thy ===== *)
theory Aes
  imports GoCrypto
begin

text \<open>
  \<open>pkg/util/aes.go\<close>: padding and unpadding, and the functions \<open>Encrypt\<close> and
  \<open>Decrypt\<close> under which the program stores passwords.
\<close>

section \<open>Padding\<close>

definition pad :: "byte list \<Rightarrow> byte list" where
  "pad src =
     (let padding = 16 - length src mod 16
      in src @ replicate padding (word_of_nat padding))"

text \<open>The last byte is read without a check: an empty slice makes the run-time panic.\<close>

definition unpad :: "byte list \<Rightarrow> (gerror, byte list) res" where
  "unpad src =
     (let n = length src in
      if n = 0 then Panic
      else (let unpadding = unat (src ! (n - 1)) in
        if unpadding > n
        then Err ''unpad error. This could happen when incorrect encryption key is used''
        else Ok (take (n - unpadding) src)))"

section \<open>Encrypt and Decrypt\<close>

definition new_cipher :: "byte list \<Rightarrow> (gerror, byte list list) res" where
  "new_cipher key =
     (if length key \<in> {16, 24, 32} then Ok (round_keys key)
      else Err (''crypto/aes: invalid key size '' @ itoa (int (length key))))"

text \<open>\<open>CryptBlocks\<close> panics when its input is not a whole number of blocks.\<close>

definition cbc_encrypter :: "byte list list \<Rightarrow> byte list \<Rightarrow> byte list \<Rightarrow> (gerror, byte list) res" where
  "cbc_encrypter rks iv src =
     (if length src mod 16 \<noteq> 0 then Panic else Ok (cbc_encrypt (aes_cipher rks) iv src))"

definition cbc_decrypter :: "byte list list \<Rightarrow> byte list \<Rightarrow> byte list \<Rightarrow> (gerror, byte list) res" where
  "cbc_decrypter rks iv src =
     (if length src mod 16 \<noteq> 0 then Panic else Ok (cbc_decrypt (aes_inv_cipher rks) iv src))"

definition zero_iv :: "byte list" where
  "zero_iv = replicate 16 0"

definition Encrypt :: "byte list \<Rightarrow> string \<Rightarrow> (gerror, string) res" where
  "Encrypt key txt =
     res_bind (new_cipher key) (\<lambda>block.
       let msg = pad (bytes_of_string txt) in
       res_bind (cbc_encrypter block zero_iv msg) (\<lambda>ciphertext. Ok (hex_encode ciphertext)))"

definition Decrypt :: "byte list \<Rightarrow> string \<Rightarrow> (gerror, string) res" where
  "Decrypt key txt =
     res_bind (new_cipher key) (\<lambda>block.
       res_bind (cbc_decrypter block zero_iv (hex_decode txt)) (\<lambda>msg.
         res_bind (unpad msg) (\<lambda>unpadMsg. Ok (string_of_bytes unpadMsg))))"

section \<open>Padding is undone\<close>

lemma small_byte: "p \<le> 16 \<Longrightarrow> unat (word_of_nat p :: byte) = p"
  by (simp add: unat_of_nat)

lemma pad_amount: "1 \<le> 16 - n mod 16 \<and> 16 - n mod 16 \<le> (16 :: nat)"
  by (simp add: Suc_leI)

lemma pad_length_dvd: "16 dvd length (pad src)"
proof -
  have "length (pad src) = length src - length src mod 16 + 16"
    using pad_amount [of "length src"] by (simp add: pad_def Let_def)
  then show ?thesis by presburger
qed

lemma unpad_replicate:
  assumes "1 \<le> p" and "p \<le> 16"
  shows "unpad (src @ replicate p (word_of_nat p)) = Ok src"
proof -
  let ?x = "src @ replicate p (word_of_nat p :: byte)"
  have "?x \<noteq> []" and "last ?x = word_of_nat p" using assms by simp_all
  then have "?x ! (length ?x - 1) = word_of_nat p" by (metis last_conv_nth)
  then show ?thesis using assms small_byte [of p] by (simp add: unpad_def Let_def)
qed

lemma unpad_pad [simp]: "unpad (pad src) = Ok src"
  unfolding pad_def Let_def using unpad_replicate pad_amount by blast

lemma new_cipher_Ok: "new_cipher key = Ok rks \<Longrightarrow> rks_ok rks"
  by (auto simp: new_cipher_def round_keys_ok split: if_splits)

lemma new_cipher_not_Panic [simp]: "new_cipher key \<noteq> Panic"
  by (simp add: new_cipher_def)

text \<open>With a key of a legal size, what \<open>Encrypt\<close> writes \<open>Decrypt\<close> reads back.\<close>

lemma Encrypt_Ok_iff: "(\<exists>c. Encrypt key txt = Ok c) \<longleftrightarrow> length key \<in> {16, 24, 32}"
proof -
  have m: "length (pad (bytes_of_string txt)) mod 16 = 0"
    using pad_length_dvd [of "bytes_of_string txt"] by (simp add: dvd_eq_mod_eq_0)
  show ?thesis
    by (cases "length key \<in> {16, 24, 32}")
       (simp_all only: Encrypt_def new_cipher_def cbc_encrypter_def Let_def m if_True if_False
         res_bind.simps res.simps simp_thms ex_simps refl)
qed

lemma Encrypt_cases:
  obtains c where "Encrypt key txt = Ok c" | e where "Encrypt key txt = Err e"
proof (cases "length key \<in> {16, 24, 32}")
  case True
  then obtain c where "Encrypt key txt = Ok c" using Encrypt_Ok_iff by blast
  then show thesis by (rule that(1))
next
  case False
  then have "\<exists>e. Encrypt key txt = Err e" by (simp add: Encrypt_def new_cipher_def)
  then show thesis using that(2) by blast
qed

lemma Decrypt_Encrypt_aux:
  assumes "Encrypt key txt = Ok c"
  shows "Decrypt key c = Ok txt"
proof -
  let ?m = "pad (bytes_of_string txt)"
  from assms obtain rks where rks: "new_cipher key = Ok rks"
    and c: "c = hex_encode (cbc_encrypt (aes_cipher rks) zero_iv ?m)"
    by (auto simp: Encrypt_def res_bind_eq_Ok cbc_encrypter_def Let_def split: if_splits)
  have "rks_ok rks" "length zero_iv = 16" "16 dvd length ?m"
    using new_cipher_Ok [OF rks] pad_length_dvd by (simp_all add: zero_iv_def)
  then have "cbc_decrypt (aes_inv_cipher rks) zero_iv (cbc_encrypt (aes_cipher rks) zero_iv ?m) = ?m"
    and "length (cbc_encrypt (aes_cipher rks) zero_iv ?m) mod 16 = 0"
    using aes.cbc_roundtrip aes.cbc_length by (auto simp: dvd_eq_mod_eq_0)
  then show ?thesis using rks c by (simp add: Decrypt_def cbc_decrypter_def)
qed

lemma Encrypt_inj:
  "Encrypt key a = Ok c \<Longrightarrow> Encrypt key b = Ok c \<Longrightarrow> a = b"
  using Decrypt_Encrypt_aux by (metis res.inject(1))

end
