(* ===== verification/UserHandler.thy ===== *)
theory UserHandler
  imports Authorization Aes
begin

text \<open>
  \<open>pkg/auth/handler/user_handler.go\<close>: the table of active users, passwords, the reload of
  a user's authority from the groups and roles in the database, and the operations of the
  user resource.
\<close>

section \<open>The database the auth handlers use\<close>

record 'd auth_db = "'d tx_hooks" +
  users :: "('d, ddiuser) table"
  roles :: "('d, role) table"
  groups :: "('d, user_group) table"
  whitelists :: "('d, whitelist) table"

type_synonym 'd aworld = "('d, ddiuser) world"
type_synonym ('d, 'a) atx = "('d aworld, gerror, 'a) comp"
type_synonym ('d, 'a) ahandler = "('d aworld, api_error, 'a) comp"

text \<open>What never changes while the server runs: the database access, the role template and
  the order in which the run-time ranges over maps.\<close>

record 'd auth_env =
  env_db :: "'d auth_db"
  env_template :: role_template
  env_order :: "string list \<Rightarrow> string list"

definition Admin :: string where "Admin = ''admin''"
definition aesKey :: "byte list" where "aesKey = bytes_of_string ''linkingthing.com''"
definition AuditlogIgnore :: string where "AuditlogIgnore = ''auditlogIgnore''"
definition AuthUser :: string where "AuthUser = ''user''"

section \<open>Sets of names as slices\<close>

text \<open>\<open>recombineSlices\<close>: the names of the first slice, with those of the second added or
  removed; the result lists the keys of a map, in whatever order the run-time visits them.\<close>

definition recombineSlices ::
  "(string list \<Rightarrow> string list) \<Rightarrow> string list \<Rightarrow> string list \<Rightarrow> bool \<Rightarrow> string list" where
  "recombineSlices ord first second deleteSecond =
     (let m1 = fold (\<lambda>s m. AList.update s True m) first [];
          m2 = fold (\<lambda>s m. if deleteSecond then AList.delete s m else AList.update s True m) second m1
      in map fst (gomap_range ord m2))"

lemma fold_update_keys:
  "set (map fst (fold (\<lambda>s m. AList.update s v m) xs m)) = set xs \<union> set (map fst m)"
proof (induction xs arbitrary: m)
  case (Cons x xs)
  have "set (map fst (AList.update x v m)) = insert x (set (map fst m))"
    by (induction m) auto
  with Cons show ?case by simp
qed simp

lemma fold_delete_keys:
  "set (map fst (fold AList.delete xs m)) = set (map fst m) - set xs"
proof (induction xs arbitrary: m)
  case (Cons x xs)
  have "set (map fst (AList.delete x m)) = set (map fst m) - {x}"
    by (auto simp: AList.delete_eq)
  with Cons show ?case by auto
qed simp

lemma distinct_fold_update:
  "distinct (map fst m) \<Longrightarrow> distinct (map fst (fold (\<lambda>s m. AList.update s v m) xs m))"
  by (induction xs arbitrary: m) (simp_all add: gomap_simps)

lemma distinct_fold_delete:
  "distinct (map fst m) \<Longrightarrow> distinct (map fst (fold AList.delete xs m))"
  by (induction xs arbitrary: m) (simp_all add: distinct_delete)

lemma keys_gomap_range: "map fst (gomap_range ord m) = ord (map fst m)"
  by (simp add: gomap_range_def comp_def)

lemma recombineSlices_set:
  assumes "order_ok ord"
  shows "set (recombineSlices ord xs ys del) = (if del then set xs - set ys else set xs \<union> set ys)"
  using assms fold_update_keys [of True xs "[]"]
  by (auto simp: recombineSlices_def Let_def keys_gomap_range order_ok_set fold_update_keys
      fold_delete_keys simp del: set_map)

lemma recombineSlices_distinct:
  assumes "order_ok ord"
  shows "distinct (recombineSlices ord xs ys del)"
  using assms distinct_fold_update [of "[]" True xs]
  by (cases del) (simp_all add: recombineSlices_def Let_def keys_gomap_range order_ok_distinct
      distinct_fold_update distinct_fold_delete)

section \<open>Reloading a user's authority\<close>

definition quote :: string where "quote = [CHR 0x27]"

definition in_clause :: "string \<Rightarrow> string list \<Rightarrow> string" where
  "in_clause tbl ids =
     ''select * from '' @ tbl @ '' where id in ('' @ quote @
       str_join (quote @ '','' @ quote) ids @ quote @ '')''"

definition reloadUserAuthority :: "'d auth_env \<Rightarrow> ddiuser \<Rightarrow> ('d, ddiuser) atx" where
  "reloadUserAuthority env user =
     (if u_role_type user = RoleTypeSUPER then c_return user
      else
        (let tmpl = env_template env; ord = env_order env;
             user1 = user\<lparr>u_authority := CreateBaseAuthority tmpl\<rparr>
         in c_bind (on_db (tb_fill_ex (groups (env_db env))
                (in_clause ''gr_user_group'' (u_group_ids user1)) []))
            (\<lambda>groupList.
              let ids = u_role_ids user1 @ concat (map g_role_ids groupList);
                  user2 = user1\<lparr>u_role_ids := recombineSlices ord ids [] False\<rparr>
              in if length (u_role_ids user2) = 0 then c_return user2
                 else c_bind (on_db (tb_fill_ex (roles (env_db env))
                        (in_clause ''gr_role'' (u_role_ids user2)) []))
                   (\<lambda>roleList.
                     let views = recombineSlices ord (concat (map ro_views roleList)) [] False;
                         plans = [];
                         m = CreateViewAuthority tmpl views (u_authority user2)
                     in c_return (user2\<lparr>u_authority := CreateDhcpAuthority tmpl plans m\<rparr>)))))"

definition updateUserToDB :: "'d auth_env \<Rightarrow> string \<Rightarrow> columns \<Rightarrow> ('d, unit) atx" where
  "updateUserToDB env userId con =
     c_bind (on_db (tb_update (users (env_db env)) con (by_id userId))) (\<lambda>_. c_return ())"

section \<open>The active users\<close>

definition store_active :: "string \<Rightarrow> ddiuser \<Rightarrow> 'd aworld \<Rightarrow> 'd aworld" where
  "store_active name u w = w\<lparr>w_active := (w_active w)(name := Some u)\<rparr>"

definition delete_active :: "string \<Rightarrow> 'd aworld \<Rightarrow> 'd aworld" where
  "delete_active name w = w\<lparr>w_active := (w_active w)(name := None)\<rparr>"

lemma active_simps [simp]:
  "w_active (store_active name u w) = (w_active w)(name := Some u)"
  "w_active (delete_active name w) = (w_active w)(name := None)"
  "w_db (store_active name u w) = w_db w"
  "w_db (delete_active name w) = w_db w"
  by (simp_all add: store_active_def delete_active_def)

section \<open>Starting up\<close>

text \<open>The loop over the users in the database: every one of them becomes active.\<close>

fun load_users :: "'d auth_env \<Rightarrow> ddiuser list \<Rightarrow> bool \<Rightarrow> ('d, bool) atx" where
  "load_users env [] haveAdmin = c_return haveAdmin"
| "load_users env (u # us) haveAdmin =
     c_bind (reloadUserAuthority env u) (\<lambda>user.
       c_bind (c_modify (store_active (u_name user) user)) (\<lambda>_.
         load_users env us (if u_name user = Admin then True else haveAdmin)))"

definition new_user :: "string \<Rightarrow> string \<Rightarrow> string \<Rightarrow> ddiuser" where
  "new_user name password roleType =
     \<lparr>u_id = name, u_name = name, u_password = password, u_comment = [], u_role_type = roleType,
      u_group_ids = [], u_role_ids = [], u_authority = []\<rparr>"

definition NewUserHandler :: "'d auth_env \<Rightarrow> ('d, unit) atx" where
  "NewUserHandler env =
     c_map_err (\<lambda>e. ''could not insert admin and password:'' @ e)
       (withTx (env_db env)
         (c_bind (on_db (tb_get (users (env_db env)) [])) (\<lambda>us.
            c_bind (load_users env us False) (\<lambda>haveAdmin.
              if haveAdmin then c_return ()
              else c_bind (c_lift (Encrypt aesKey Admin)) (\<lambda>encryptText.
                c_bind (on_db (tb_insert (users (env_db env))
                    (new_user Admin encryptText RoleTypeSUPER))) (\<lambda>user.
                  c_modify (store_active (u_name user) user)))))))"

section \<open>Passwords and user information for the login\<close>

definition CheckPassword :: "'d auth_env \<Rightarrow> string \<Rightarrow> string \<Rightarrow> ('d, unit) atx" where
  "CheckPassword env userName password =
     withTx (env_db env)
       (c_bind (on_db (tb_get (users (env_db env)) (by_id userName))) (\<lambda>ddiUsers.
          if length ddiUsers \<noteq> 1 then c_fail ''user or password is incorrect''
          else c_bind (c_lift (Decrypt aesKey (u_password (ddiUsers ! 0)))) (\<lambda>passwordDecrypt.
            if passwordDecrypt \<noteq> password then c_fail ''user or password is incorrect''
            else c_return ())))"

text \<open>The first row is taken without looking whether there is one.\<close>

definition GetUserInfo :: "'d auth_env \<Rightarrow> string \<Rightarrow> ('d, ddiuser) atx" where
  "GetUserInfo env userName =
     withTx (env_db env)
       (c_bind (on_db (tb_get (users (env_db env)) (by_id userName))) (\<lambda>out.
          case out of [] \<Rightarrow> c_panic | u # _ \<Rightarrow> reloadUserAuthority env u))"

section \<open>The operations of the user resource\<close>

text \<open>\<open>Create\<close>: the pointer stored among the active users is the one whose password is
  cleared right after, so the stored user has no password either.\<close>

definition user_Create :: "'d auth_env \<Rightarrow> ddiuser ctx \<Rightarrow> ('d, ddiuser) ahandler" where
  "user_Create env ctx =
     (let user = c_resource ctx in
      if u_password user = [] then c_fail (APIError ServerError ''password should not be empty'')
      else (case Encrypt aesKey (u_password user) of
          Panic \<Rightarrow> c_panic
        | Err _ \<Rightarrow> c_fail (APIError ServerError ''get password failed'')
        | Ok encryptText \<Rightarrow>
            (let user1 = user\<lparr>u_password := encryptText, u_id := u_name user,
                   u_role_type := RoleTypeNORMAL\<rparr>
             in c_bind (server_error (\<lambda>e. ''create user '' @ u_name user @ '' failed: '' @ e)
                  (withTx (env_db env)
                    (c_bind (on_db (tb_insert (users (env_db env)) user1)) (reloadUserAuthority env))))
                (\<lambda>user2. c_bind (c_modify (store_active (u_name user2) (user2\<lparr>u_password := []\<rparr>)))
                  (\<lambda>_. c_return (user2\<lparr>u_password := []\<rparr>))))))"

definition user_Update :: "'d auth_env \<Rightarrow> ddiuser ctx \<Rightarrow> ('d, ddiuser) ahandler" where
  "user_Update env ctx =
     (case c_vals ctx AuthUser of
        None \<Rightarrow> c_fail (APIError ServerError ''bad user'')
      | Some user \<Rightarrow>
          (let ddiUser = c_resource ctx in
           if user \<noteq> VString Admin \<and> user \<noteq> VString (u_id ddiUser)
           then c_fail (APIError ServerError (''can'' @ quote @ ''t update other user'' @
                  quote @ ''s info''))
           else c_bind (server_error (\<lambda>e. ''update user '' @ u_name ddiUser @ '' to db failed: '' @ e)
                  (withTx (env_db env)
                    (c_bind (updateUserToDB env (u_id ddiUser)
                        [(''comment'', DStr (u_comment ddiUser)),
                         (''user_group_ids'', DStrs (u_group_ids ddiUser)),
                         (''role_ids'', DStrs (u_role_ids ddiUser))])
                      (\<lambda>_. reloadUserAuthority env ddiUser))))
                (\<lambda>u. let u' = u\<lparr>u_password := []\<rparr> in
                   c_bind (c_modify (store_active (u_name u') u')) (\<lambda>_. c_return u'))))"

definition user_Delete :: "'d auth_env \<Rightarrow> ddiuser ctx \<Rightarrow> ('d, unit) ahandler" where
  "user_Delete env ctx =
     (let i = u_id (c_resource ctx) in
      if i = Admin
      then c_fail (APIError ServerError (''can'' @ quote @ ''t delete user admin''))
      else c_bind (server_error (\<lambda>e. ''delete user '' @ i @ '' from db failed: '' @ e)
             (withTx (env_db env) (on_db (tb_delete (users (env_db env)) (by_id i)))))
           (\<lambda>_. c_modify (delete_active i)))"

definition user_Get :: "'d auth_env \<Rightarrow> ddiuser ctx \<Rightarrow> ('d, ddiuser) ahandler" where
  "user_Get env ctx =
     (let userId = u_id (c_resource ctx) in
      c_bind (server_error (\<lambda>e. ''get user '' @ userId @ '' from db failed: '' @ e)
          (on_db (tb_get_with_id (users (env_db env)) userId)))
        (\<lambda>user. c_return (user\<lparr>u_password := []\<rparr>)))"

definition user_List :: "'d auth_env \<Rightarrow> ddiuser ctx \<Rightarrow> ('d, ddiuser list) ahandler" where
  "user_List env ctx =
     c_bind (server_error (\<lambda>e. ''list user from db failed: '' @ e)
         (GetResources (env_db env) (users (env_db env)) [(''orderby'', DStr ''create_time'')]))
       (\<lambda>us. c_return (map (\<lambda>u. u\<lparr>u_password := []\<rparr>) (filter (\<lambda>u. u_id u \<noteq> Admin) us)))"

section \<open>Actions\<close>

datatype action_result =
    LogoutResponse bool string
  | CurrentUserInfo user_info
  | LoginRequestEcho login_request

definition Logout :: "ddiuser ctx \<Rightarrow> ('d, action_result) ahandler" where
  "Logout ctx =
     (case c_vals ctx AuthUser of
        None \<Rightarrow> c_fail (APIError InvalidAction ''unknown user'')
      | Some user \<Rightarrow>
          c_bind (c_modify (case user of VString name \<Rightarrow> delete_active name | _ \<Rightarrow> (\<lambda>w. w)))
            (\<lambda>_. c_return (LogoutResponse True [])))"

definition CurrentUser :: "'d auth_env \<Rightarrow> ddiuser ctx \<Rightarrow> ('d, action_result) ahandler" where
  "CurrentUser env ctx =
     (case c_vals ctx AuthUser of
        None \<Rightarrow> c_fail (APIError InvalidAction ''unknown user'')
      | Some userId \<Rightarrow>
          c_bind (c_gets (\<lambda>w. case userId of VString name \<Rightarrow> w_active w name | _ \<Rightarrow> None))
            (\<lambda>userInter. case userInter of
               None \<Rightarrow> c_fail (APIError InvalidAction ''unknown user'')
             | Some u \<Rightarrow> c_return (CurrentUserInfo (RoleAuthorityToUserInfo (env_order env) u))))"

text \<open>Both password actions end the same way: encrypt, write, and echo the request.\<close>

definition write_password :: "'d auth_env \<Rightarrow> login_request \<Rightarrow> ('d, action_result) ahandler" where
  "write_password env input =
     (if lr_password input = []
      then c_fail (APIError ServerError ''password should not be empty'')
      else (case Encrypt aesKey (lr_password input) of
          Panic \<Rightarrow> c_panic
        | Err e \<Rightarrow> c_fail (APIError ServerError e)
        | Ok encryptText \<Rightarrow>
            c_bind (server_error (\<lambda>e. ''update password failed:'' @ e)
              (withTx (env_db env)
                (updateUserToDB env (lr_username input) [(''password'', DStr encryptText)])))
              (\<lambda>_. c_return (LoginRequestEcho (input\<lparr>lr_password := []\<rparr>)))))"

definition changePassword :: "'d auth_env \<Rightarrow> ddiuser ctx \<Rightarrow> ('d, action_result) ahandler" where
  "changePassword env ctx =
     (case c_vals ctx AuthUser of
        None \<Rightarrow> c_fail (APIError ServerError ''unknown user'')
      | Some user \<Rightarrow>
          (case c_action ctx of
             None \<Rightarrow> c_panic
           | Some act \<Rightarrow>
               (let input = act_input act in
                if user \<noteq> VString Admin \<and> user \<noteq> VString (lr_username input)
                then c_fail (APIError ServerError ''bad option'')
                else write_password env input)))"

definition resetPassword :: "'d auth_env \<Rightarrow> ddiuser ctx \<Rightarrow> ('d, action_result) ahandler" where
  "resetPassword env ctx =
     (case c_vals ctx AuthUser of
        None \<Rightarrow> c_fail (APIError ServerError ''bad user'')
      | Some user \<Rightarrow>
          if user \<noteq> VString Admin then c_fail (APIError ServerError ''permission denied'')
          else (case c_action ctx of
             None \<Rightarrow> c_panic
           | Some act \<Rightarrow> write_password env (act_input act)))"

text \<open>\<open>Action\<close> also marks the context, so that the audit log skips the request.\<close>

definition user_Action ::
  "'d auth_env \<Rightarrow> ddiuser ctx \<Rightarrow> ddiuser ctx \<times> ('d, action_result) ahandler" where
  "user_Action env ctx0 =
     (let ctx = ctx_set AuditlogIgnore VNil ctx0 in
      (ctx,
       case c_action ctx of
         None \<Rightarrow> c_panic
       | Some act \<Rightarrow>
           if act_name act = ''logout'' then Logout ctx
           else if act_name act = ''currentUser'' then CurrentUser env ctx
           else if act_name act = ''changePassword'' then changePassword env ctx
           else if act_name act = ''resetPassword'' then resetPassword env ctx
           else c_fail (APIError InvalidAction (''action '' @ act_name act @ '' is unknown''))))"

end
