(* ===== verification/RoleHandler.thy ===== *)
theory RoleHandler
  imports UserHandler
begin

text \<open>
  \<open>pkg/auth/handler/role_handler.go\<close> and \<open>usergroup_handler.go\<close>: roles and user groups,
  and the refresh of the users that a changed role or group concerns.
\<close>

section \<open>Roles\<close>

definition role_Create :: "'d auth_env \<Rightarrow> role ctx \<Rightarrow> ('d, role) ahandler" where
  "role_Create env ctx =
     (let role = (c_resource ctx)\<lparr>ro_id := ro_name (c_resource ctx)\<rparr> in
      server_error (\<lambda>e. ''create role '' @ ro_name role @ '' to db failed: '' @ e)
        (withTx (env_db env) (on_db (tb_insert (roles (env_db env)) role))))"

text \<open>The loop over the users that hold the role or belong to the group: reload, write back.\<close>

definition refresh_user :: "'d auth_env \<Rightarrow> ddiuser \<Rightarrow> ('d, unit) atx" where
  "refresh_user env user =
     c_bind (reloadUserAuthority env user) (\<lambda>user'.
       updateUserToDB env (u_id user')
         [(''role_ids'', DStrs (u_role_ids user')), (''user_group_ids'', DStrs (u_group_ids user'))])"

definition updateRoleAuthority :: "'d auth_env \<Rightarrow> string \<Rightarrow> ('d, unit) atx" where
  "updateRoleAuthority env roleID =
     c_bind (on_db (tb_fill_ex (users (env_db env))
         ''select * from gr_ddiuser where $1=any(role_ids)'' [DStr roleID]))
       (\<lambda>us. c_forM us (refresh_user env))"

definition role_Update :: "'d auth_env \<Rightarrow> role ctx \<Rightarrow> ('d, role) ahandler" where
  "role_Update env ctx =
     (let role = c_resource ctx in
      c_bind (server_error (\<lambda>e. ''update role '' @ ro_name role @ '' to db failed: '' @ e)
        (withTx (env_db env)
          (c_bind (c_map_err (\<lambda>e. ''update role '' @ ro_name role @ '' err:'' @ e)
              (on_db (tb_update (roles (env_db env))
                [(''comment'', DStr (ro_comment role)), (''views'', DStrs (ro_views role)),
                 (''plans'', DStrs (ro_plans role))] (by_id (ro_id role)))))
            (\<lambda>_. updateRoleAuthority env (ro_id role)))))
        (\<lambda>_. c_return role))"

definition role_Delete :: "'d auth_env \<Rightarrow> role ctx \<Rightarrow> ('d, unit) ahandler" where
  "role_Delete env ctx =
     (let i = ro_id (c_resource ctx) in
      c_bind (server_error (\<lambda>e. ''delete role '' @ i @ '' from db failed: '' @ e)
        (withTx (env_db env)
          (c_bind (on_db (tb_count_ex (users (env_db env))
              ''select count(1) from gr_ddiuser where $1=any(role_ids)'' [DStr i]))
            (\<lambda>c. if c > 0 then c_fail ''the role has bind other users''
                 else on_db (tb_delete (roles (env_db env)) (by_id i))))))
        (\<lambda>_. c_return ()))"

definition role_Get :: "'d auth_env \<Rightarrow> role ctx \<Rightarrow> ('d, role) ahandler" where
  "role_Get env ctx =
     (let roleId = ro_id (c_resource ctx) in
      server_error (\<lambda>e. ''get role '' @ roleId @ '' from db failed: '' @ e)
        (on_db (tb_get_with_id (roles (env_db env)) roleId)))"

definition role_List :: "'d auth_env \<Rightarrow> role ctx \<Rightarrow> ('d, role list) ahandler" where
  "role_List env ctx =
     server_error (\<lambda>e. ''list role from db failed: '' @ e)
       (GetResources (env_db env) (roles (env_db env)) [(''orderby'', DStr ''create_time'')])"

section \<open>User groups\<close>

definition group_members_query :: string where
  "group_members_query = ''select * from gr_ddiuser where $1=any(user_group_ids)''"

definition updateUserGroupAuthority ::
  "'d auth_env \<Rightarrow> string \<Rightarrow> string list \<Rightarrow> bool \<Rightarrow> ('d, unit) atx" where
  "updateUserGroupAuthority env groupId userIds isDelete =
     c_bind (if isDelete
         then on_db (tb_fill_ex (users (env_db env)) group_members_query [DStr groupId])
         else on_db (tb_fill_ex (users (env_db env)) (in_clause ''gr_ddiuser'' userIds) []))
       (\<lambda>us. c_forM us (\<lambda>user. refresh_user env (user\<lparr>u_group_ids :=
          recombineSlices (env_order env) (u_group_ids user) [groupId] isDelete\<rparr>)))"

text \<open>The insertion gives the group its identifier, which the refresh then uses.\<close>

definition group_Create :: "'d auth_env \<Rightarrow> user_group ctx \<Rightarrow> ('d, user_group) ahandler" where
  "group_Create env ctx =
     (let userGroup = c_resource ctx in
      server_error (\<lambda>e. e)
        (withTx (env_db env)
          (c_bind (c_map_err (\<lambda>e. ''insert user group '' @ g_name userGroup @ '' into db fail:'' @ e)
              (on_db (tb_insert (groups (env_db env)) userGroup)))
            (\<lambda>g. c_bind (updateUserGroupAuthority env (g_id g) (g_user_ids g) False)
              (\<lambda>_. c_return g)))))"

definition group_Update :: "'d auth_env \<Rightarrow> user_group ctx \<Rightarrow> ('d, user_group) ahandler" where
  "group_Update env ctx =
     (let userGroup = c_resource ctx in
      server_error (\<lambda>e. e)
        (withTx (env_db env)
          (c_bind (c_map_err (\<lambda>e. ''update usergroup failed:'' @ e)
              (on_db (tb_update (groups (env_db env))
                [(''comment'', DStr (g_comment userGroup)), (''role_ids'', DStrs (g_role_ids userGroup))]
                (by_id (g_id userGroup)))))
            (\<lambda>_. c_bind (updateUserGroupAuthority env (g_id userGroup) (g_user_ids userGroup) False)
              (\<lambda>_. c_return userGroup)))))"

definition group_Delete :: "'d auth_env \<Rightarrow> user_group ctx \<Rightarrow> ('d, unit) ahandler" where
  "group_Delete env ctx =
     (let i = g_id (c_resource ctx) in
      server_error (\<lambda>e. ''delete user group '' @ i @ '' from db failed: '' @ e)
        (withTx (env_db env)
          (c_bind (on_db (tb_get (groups (env_db env)) (by_id i))) (\<lambda>res.
            case res of
              [] \<Rightarrow> c_panic
            | userGroup # _ \<Rightarrow>
                c_bind (on_db (tb_delete (groups (env_db env)) (by_id i)))
                  (\<lambda>_. updateUserGroupAuthority env (g_id userGroup) (g_user_ids userGroup) True)))))"

definition group_Get :: "'d auth_env \<Rightarrow> user_group ctx \<Rightarrow> ('d, user_group) ahandler" where
  "group_Get env ctx =
     (let userGroupId = g_id (c_resource ctx) in
      server_error (\<lambda>e. ''get user group failed:'' @ e)
        (withTx (env_db env)
          (c_bind (on_db (tb_get (groups (env_db env)) (by_id userGroupId))) (\<lambda>out.
            case out of
              [] \<Rightarrow> c_panic
            | userGroup # _ \<Rightarrow>
                c_bind (on_db (tb_fill_ex (users (env_db env)) group_members_query
                    [DStr (g_id userGroup)]))
                  (\<lambda>us. c_return (userGroup\<lparr>g_user_ids :=
                     g_user_ids userGroup @ map u_id us\<rparr>))))))"

definition group_List :: "'d auth_env \<Rightarrow> user_group ctx \<Rightarrow> ('d, user_group list) ahandler" where
  "group_List env ctx =
     server_error (\<lambda>e. ''list userGroup from db failed: '' @ e)
       (GetResources (env_db env) (groups (env_db env)) [(''orderby'', DStr ''create_time'')])"

end
