(* ===== verification/WhiteListHandler.thy ===== *)
theory WhiteListHandler
  imports UserHandler
begin

text \<open>
  \<open>pkg/auth/handler/whitelist_handler.go\<close>: the one white-list record, its creation at
  start-up, and the check of the addresses and subnets written into it.
\<close>

definition WhiteListID :: string where "WhiteListID = ''whitelist''"

text \<open>\<open>serverIP\<close> is the address of this server in the configuration.\<close>

definition NewWhiteListHandler :: "'d auth_env \<Rightarrow> string \<Rightarrow> ('d, unit) atx" where
  "NewWhiteListHandler env serverIP =
     c_map_err (\<lambda>e. ''insert whitelist data into db failed:'' @ e)
       (withTx (env_db env)
         (c_bind (on_db (tb_exists (whitelists (env_db env)) (by_id WhiteListID))) (\<lambda>exists.
            if \<not> exists
            then c_bind (on_db (tb_insert (whitelists (env_db env))
                \<lparr>wl_id = WhiteListID, wl_ips = [], wl_privilege = serverIP, wl_enabled = False\<rparr>))
              (\<lambda>_. c_return ())
            else c_return ())))"

definition checkIP :: "string \<Rightarrow> (gerror, unit) res" where
  "checkIP subnetOrIp =
     (if str_contains subnetOrIp ''/'' then
        (case parse_cidr subnetOrIp of
           Panic \<Rightarrow> Panic
         | Err e \<Rightarrow> Err e
         | Ok (_, subnet) \<Rightarrow>
             if show_net subnet \<noteq> subnetOrIp then Err (''bad subnet:'' @ subnetOrIp) else Ok ())
      else if parse_ip subnetOrIp = None then Err (''bad ip:'' @ subnetOrIp)
      else Ok ())"

fun check_ips :: "string list \<Rightarrow> (gerror, unit) res" where
  "check_ips [] = Ok ()"
| "check_ips (ip # ips) = res_bind (checkIP ip) (\<lambda>_. check_ips ips)"

definition whitelist_Update :: "'d auth_env \<Rightarrow> whitelist ctx \<Rightarrow> ('d, whitelist) ahandler" where
  "whitelist_Update env ctx =
     (let whiteList = c_resource ctx in
      if wl_enabled whiteList \<and> length (wl_ips whiteList) = 0
      then c_fail (APIError ServerError ''ips should not be empty'')
      else c_bind (server_error (\<lambda>e. e) (c_lift (check_ips (wl_ips whiteList)))) (\<lambda>_.
        c_bind (server_error (\<lambda>e. e) (withTx (env_db env)
            (c_map_err (\<lambda>e. ''update WhiteList rr:'' @ e)
              (on_db (tb_update (whitelists (env_db env))
                [(''ips'', DStrs (wl_ips whiteList)), (''enabled'', DBool (wl_enabled whiteList))]
                (by_id (wl_id whiteList)))))))
          (\<lambda>_. c_return whiteList)))"

definition whitelist_Get :: "'d auth_env \<Rightarrow> whitelist ctx \<Rightarrow> ('d, whitelist) ahandler" where
  "whitelist_Get env ctx =
     (let i = wl_id (c_resource ctx) in
      server_error (\<lambda>e. ''get WhiteList '' @ i @ '' failed: '' @ e)
        (on_db (tb_get_with_id (whitelists (env_db env)) i)))"

definition whitelist_List :: "'d auth_env \<Rightarrow> whitelist ctx \<Rightarrow> ('d, whitelist list) ahandler" where
  "whitelist_List env ctx =
     server_error (\<lambda>e. ''list WhiteList failed: '' @ e)
       (GetResources (env_db env) (whitelists (env_db env)) [(''orderby'', DStr ''create_time'')])"

section \<open>What the check accepts\<close>

lemma show_net_v4:
  assumes "length p = 4" and "n \<le> 32"
  shows "show_net \<lparr>net_ip = and_bytes p (cidr_mask n 4), net_mask = cidr_mask n 4\<rparr> =
    cidr_v4 (and_bytes p (cidr_mask n 4)) n"
proof -
  have "length (and_bytes p (cidr_mask n 4)) = 4" using assms(1) by simp
  then have "and_bytes p (cidr_mask n 4) \<noteq> []" by (metis list.size(3) zero_neq_numeral)
  then show ?thesis using assms mask_length_cidr_mask [of n 4]
    by (simp add: show_net_def net_number_mask_def show_ip_def cidr_v4_def itoa_def Let_def)
qed

lemma str_join_inj_dot:
  assumes "length p = 4" and "length q = 4" and "show_v4 p = show_v4 q"
  shows "p = q"
proof -
  have "Some (v4_in_v6_prefix @ p) = Some (v4_in_v6_prefix @ q)"
    by (metis parse_ipv4_show_v4 assms)
  then show ?thesis by simp
qed

lemma cidr_v4_inj:
  assumes "length p = 4" and "length q = 4" and "n \<le> 32" and "cidr_v4 p n = cidr_v4 q n"
  shows "p = q"
  using str_join_inj_dot assms by (simp add: cidr_v4_def)

text \<open>An IPv4 subnet is accepted when no bit is set behind the prefix.\<close>

lemma checkIP_subnet_v4:
  assumes "length p = 4" and "n \<le> 32"
  shows "checkIP (cidr_v4 p n) =
    (if and_bytes p (cidr_mask n 4) = p then Ok () else Err (''bad subnet:'' @ cidr_v4 p n))"
proof -
  have "str_contains (cidr_v4 p n) ''/''" by (simp add: str_contains_char cidr_v4_def)
  moreover have "cidr_v4 (and_bytes p (cidr_mask n 4)) n = cidr_v4 p n \<longleftrightarrow>
      and_bytes p (cidr_mask n 4) = p"
    using cidr_v4_inj [of "and_bytes p (cidr_mask n 4)" p n] assms by auto
  ultimately show ?thesis using assms by (simp add: checkIP_def parse_cidr_v4 show_net_v4)
qed

lemma checkIP_not_Panic: "checkIP s \<noteq> Panic"
proof -
  have "parse_cidr s \<noteq> Panic"
    by (auto simp: parse_cidr_def Let_def split: option.splits prod.splits)
  then show ?thesis by (auto simp: checkIP_def split: res.splits)
qed

lemma check_ips_Ok_iff: "check_ips ips = Ok () \<longleftrightarrow> (\<forall>ip \<in> set ips. checkIP ip = Ok ())"
  by (induction ips) (auto simp: res_bind_eq_Ok)

lemma check_ips_not_Panic: "check_ips ips \<noteq> Panic"
proof (induction ips)
  case (Cons ip ips)
  then show ?case using checkIP_not_Panic [of ip] by (cases "checkIP ip") auto
qed simp

end
