(* ===== verification/Authentification.thy ===== *)
theory Authentification
  imports RoleHandler WhiteListHandler
begin

text \<open>
  \<open>pkg/auth/authentification/authentification.go\<close>: the white list, the login, the middle
  ware that decides on every request, and the filters for views and prefixes.
\<close>

definition ViewKey :: string where "ViewKey = ''authViewList''"
definition PrefixKey :: string where "PrefixKey = ''authPlanList''"

section \<open>Tokens\<close>

text \<open>
  The token library is a parameter: signing the claims of a user, and parsing a token, which
  fails, or yields whether the token is valid and, if the claims are of the expected type, the
  user name in them.
\<close>

datatype parsed_token = ParseError | Parsed bool "string option"

record jwt =
  jwt_sign :: "string \<Rightarrow> (gerror, string) res"
  jwt_parse :: "string \<Rightarrow> parsed_token"

section \<open>The white list\<close>

text \<open>\<open>getClientIP\<close>: the host part of the remote address, empty when it has no port.\<close>

definition getClientIP :: "string \<Rightarrow> string" where
  "getClientIP remoteAddr =
     (case split_host_port (trim_space remoteAddr) of Some (ip, _) \<Rightarrow> ip | None \<Rightarrow> [])"

fun ip_listed :: "string list \<Rightarrow> string \<Rightarrow> (gerror, bool) res" where
  "ip_listed [] remoteIP = Ok False"
| "ip_listed (ip # ips) remoteIP =
     (if parse_ip ip \<noteq> None \<and> ip = remoteIP then Ok True
      else (case PrefixContainsSubnetOrIP ip remoteIP of
          Panic \<Rightarrow> Panic
        | Ok True \<Rightarrow> Ok True
        | _ \<Rightarrow> ip_listed ips remoteIP))"

definition checkWhiteList :: "'d auth_env \<Rightarrow> string \<Rightarrow> ('d, unit) atx" where
  "checkWhiteList env remoteIP =
     withTx (env_db env)
       (c_bind (c_map_err (\<lambda>e. ''get whitelist failed:'' @ e)
           (on_db (tb_get (whitelists (env_db env)) (by_id WhiteListID)))) (\<lambda>wls.
         if length wls \<noteq> 1 then c_fail ''get whitelist failed:record is not 1''
         else (let whiteList = wls ! 0 in
           if \<not> wl_enabled whiteList \<or> wl_privilege whiteList = remoteIP then c_return ()
           else c_bind (c_lift (ip_listed (wl_ips whiteList) remoteIP)) (\<lambda>ok.
             if ok then c_return () else c_fail (''ip not in whitelist:'' @ remoteIP)))))"

section \<open>Login\<close>

text \<open>The body of the request is what reading and decoding it gave: a request, or an error.
  The result is the error code with its message, or the token put into the response header.\<close>

definition checkLogin ::
  "'d auth_env \<Rightarrow> jwt \<Rightarrow> string \<Rightarrow> login_request option \<Rightarrow> ('d, string) ahandler" where
  "checkLogin env j clientIP body =
     c_bind (c_map_err (APIError Unauthorized) (checkWhiteList env clientIP)) (\<lambda>_.
       case body of
         None \<Rightarrow> c_fail (APIError ServerError ''bad data'')
       | Some login \<Rightarrow>
           c_bind (server_error (\<lambda>e. e) (CheckPassword env (lr_username login) (lr_password login)))
             (\<lambda>_. c_bind (server_error (\<lambda>_. ''authorization error'')
                 (c_lift (jwt_sign j (lr_username login))))
               (\<lambda>tokenString. c_bind (server_error (\<lambda>_. ''authorization error'')
                   (GetUserInfo env (lr_username login)))
                 (\<lambda>user. c_bind (c_modify (store_active (lr_username login) user))
                   (\<lambda>_. c_return tokenString)))))"

record login_response =
  lo_code :: int
  lo_message :: string

text \<open>\<open>Login\<close> answers with the status of the error code, or 200 and the token.\<close>

definition Login ::
  "(error_code \<Rightarrow> int) \<Rightarrow> 'd auth_env \<Rightarrow> jwt \<Rightarrow> string \<Rightarrow> login_request option \<Rightarrow> 'd aworld \<Rightarrow>
   (login_response \<times> string option) option \<times> 'd aworld" where
  "Login status env j clientIP body w =
     (case checkLogin env j clientIP body w of
        (Panic, w') \<Rightarrow> (None, w')
      | (Err (APIError code msg), w') \<Rightarrow>
          (Some (\<lparr>lo_code = status code, lo_message = msg\<rparr>, None), w')
      | (Ok token, w') \<Rightarrow> (Some (\<lparr>lo_code = 200, lo_message = []\<rparr>, Some token), w'))"

section \<open>The decision on a request\<close>

definition checkView :: "'r ctx \<Rightarrow> role_authority \<Rightarrow> bool" where
  "checkView ctx roleAuthority \<longleftrightarrow>
     c_id ctx = [] \<or> length (ra_views roleAuthority) = 0 \<or>
     list_ex (\<lambda>view. view = c_id ctx \<or> list_ex (\<lambda>a. a = view) (c_ancestors ctx))
       (ra_views roleAuthority)"

text \<open>
  The loop of \<open>checkAuthority\<close> over the entries of the authority map. An entry for the
  resource whose operations include the method leaves its plans in the context, and, if its
  views admit the request, its views too, which ends the loop.
\<close>

fun authority_loop :: "role_authority list \<Rightarrow> 'r ctx \<Rightarrow> bool \<times> 'r ctx" where
  "authority_loop [] ctx = (False, ctx)"
| "authority_loop (a # as) ctx =
     (if ra_resource a = c_type ctx \<and> list_ex (\<lambda>operation. operation = c_method ctx) (ra_operations a)
      then (let ctx' = ctx_set PrefixKey (VStringList (ra_plans a)) ctx in
        if checkView ctx' a then (True, ctx_set ViewKey (VStringList (ra_views a)) ctx')
        else authority_loop as ctx')
      else authority_loop as ctx)"

definition checkAuthority :: "(string list \<Rightarrow> string list) \<Rightarrow> 'r ctx \<Rightarrow> ddiuser \<Rightarrow> gerror option \<times> 'r ctx" where
  "checkAuthority ord ctx user =
     (case authority_loop (map snd (gomap_range ord (u_authority user))) ctx of
        (haveAuthority, ctx') \<Rightarrow>
          (if \<not> haveAuthority then Some ''permission denied'' else None, ctx'))"

text \<open>
  The middle ware: the error it answers with, if any, and the context as it leaves it. A request that is
  refused for its authority has its user, and perhaps the plans of an entry, in the context already.
\<close>

definition authentification_ctx ::
  "'d auth_env \<Rightarrow> jwt \<Rightarrow> 'r ctx \<Rightarrow> ('d, api_error option \<times> 'r ctx) ahandler" where
  "authentification_ctx env j ctx = (\<lambda>w.
     let refuse = (\<lambda>msg. c_return (Some (APIError Unauthorized (''forbidden:'' @ msg)), ctx))
     in case checkWhiteList env (getClientIP (c_remote_addr ctx)) w of
       (Panic, w') \<Rightarrow> c_panic w'
     | (Err e, w') \<Rightarrow> refuse e w'
     | (Ok _, w') \<Rightarrow>
         (if c_auth_header ctx = [] then refuse ''token not exists''
          else (case jwt_parse j (c_auth_header ctx) of
              ParseError \<Rightarrow> refuse ''token invalid''
            | Parsed valid claims \<Rightarrow>
                if \<not> valid then refuse ''token invalid''
                else (case claims of
                    None \<Rightarrow> refuse ''token invalid''
                  | Some userName \<Rightarrow>
                      c_bind (c_gets (\<lambda>w. w_active w userName)) (\<lambda>active.
                        case active of
                          None \<Rightarrow> refuse ''token not exists''
                        | Some user \<Rightarrow>
                            (let ctx1 = ctx_set AuthUser (VString userName) ctx in
                             if userName \<noteq> Admin then
                               (case checkAuthority (env_order env) ctx1 user of
                                  (Some e, ctx2) \<Rightarrow> c_return (Some (APIError PermissionDenied e), ctx2)
                                | (None, ctx2) \<Rightarrow> c_return (None, ctx2))
                             else c_return (None, ctx1)))))) w')"

text \<open>What follows on it: the next handler with that context, or the error.\<close>

definition authentification :: "'d auth_env \<Rightarrow> jwt \<Rightarrow> 'r ctx \<Rightarrow> ('d, 'r ctx) ahandler" where
  "authentification env j ctx =
     c_bind (authentification_ctx env j ctx) (\<lambda>(err, ctx').
       case err of Some e \<Rightarrow> c_fail e | None \<Rightarrow> c_return ctx')"

lemma authentification_eq:
  "authentification env j ctx =
     c_bind (c_map_err (\<lambda>e. APIError Unauthorized (''forbidden:'' @ e))
         (checkWhiteList env (getClientIP (c_remote_addr ctx)))) (\<lambda>_.
       if c_auth_header ctx = [] then c_fail (APIError Unauthorized ''forbidden:token not exists'')
       else (case jwt_parse j (c_auth_header ctx) of
           ParseError \<Rightarrow> c_fail (APIError Unauthorized ''forbidden:token invalid'')
         | Parsed valid claims \<Rightarrow>
             if \<not> valid then c_fail (APIError Unauthorized ''forbidden:token invalid'')
             else (case claims of
                 None \<Rightarrow> c_fail (APIError Unauthorized ''forbidden:token invalid'')
               | Some userName \<Rightarrow>
                   c_bind (c_gets (\<lambda>w. w_active w userName)) (\<lambda>active.
                     case active of
                       None \<Rightarrow> c_fail (APIError Unauthorized ''forbidden:token not exists'')
                     | Some user \<Rightarrow>
                         (let ctx1 = ctx_set AuthUser (VString userName) ctx in
                          if userName \<noteq> Admin then
                            (case checkAuthority (env_order env) ctx1 user of
                               (Some e, _) \<Rightarrow> c_fail (APIError PermissionDenied e)
                             | (None, ctx2) \<Rightarrow> c_return ctx2)
                          else c_return ctx1)))))"
  unfolding authentification_def authentification_ctx_def
  by (rule ext) (auto simp: c_bind_def c_map_err_def c_gets_def Let_def
    split: prod.splits res.splits parsed_token.splits option.splits)

section \<open>Filters on views and prefixes\<close>

definition ViewFilter :: "'r ctx \<Rightarrow> string \<Rightarrow> (gerror, bool) res" where
  "ViewFilter ctx viewId =
     (case c_vals ctx AuthUser of
        None \<Rightarrow> Ok False
      | Some user \<Rightarrow>
          if user = VString Admin then Ok True
          else (case c_vals ctx ViewKey of
              None \<Rightarrow> Ok False
            | Some (VStringList vs) \<Rightarrow> Ok (list_ex (\<lambda>v. v = viewId) vs)
            | Some _ \<Rightarrow> Panic))"

text \<open>Both loops return false at the first pair that differs or is not contained.\<close>

fun plans_cover :: "string list \<Rightarrow> string \<Rightarrow> (gerror, bool) res" where
  "plans_cover [] s = Ok True"
| "plans_cover (authPlan # ps) s =
     (if authPlan \<noteq> s then Ok False
      else (case PrefixContainsSubnetOrIP authPlan s of
          Panic \<Rightarrow> Panic
        | Ok True \<Rightarrow> plans_cover ps s
        | _ \<Rightarrow> Ok False))"

fun prefixes_covered :: "string list \<Rightarrow> string list \<Rightarrow> (gerror, bool) res" where
  "prefixes_covered ps [] = Ok True"
| "prefixes_covered ps (s # ss) =
     res_bind (plans_cover ps s) (\<lambda>ok. if ok then prefixes_covered ps ss else Ok False)"

definition PrefixFilter :: "'r ctx \<Rightarrow> string list \<Rightarrow> (gerror, bool) res" where
  "PrefixFilter ctx subnetOrIps =
     (case c_vals ctx AuthUser of
        None \<Rightarrow> Ok False
      | Some user \<Rightarrow>
          if user = VString Admin then Ok True
          else (case c_vals ctx PrefixKey of
              None \<Rightarrow> Ok False
            | Some (VStringList ps) \<Rightarrow>
                if length ps = 0 \<or> length subnetOrIps = 0 then Ok False
                else prefixes_covered ps subnetOrIps
            | Some _ \<Rightarrow> Panic))"

end
