(* ===== verification/AuthDb.thy ===== *)
theory AuthDb
  imports Authentification
begin

text \<open>
  What the proofs about the auth handlers assume of the database, stated over an abstraction of
  its contents: the rows of the four tables. Transactions begin, commit and roll back
  (\<open>tx_reliable\<close>); insert, update, delete and the queries that the handlers send mean what SQL
  says they mean. A list-backed database that interprets the queries satisfies all of it, so
  the assumptions can be met.
\<close>

section \<open>The contents of the database\<close>

record auth_data =
  ad_users :: "ddiuser list"
  ad_roles :: "role list"
  ad_groups :: "user_group list"
  ad_whitelists :: "whitelist list"

text \<open>A user row keeps everything but the authority map, which has no column.\<close>

definition persist :: "ddiuser \<Rightarrow> ddiuser" where
  "persist u = u\<lparr>u_authority := []\<rparr>"

fun set_column :: "string \<times> dbval \<Rightarrow> ddiuser \<Rightarrow> ddiuser" where
  "set_column (c, DStr s) u =
     (if c = ''password'' then u\<lparr>u_password := s\<rparr>
      else if c = ''comment'' then u\<lparr>u_comment := s\<rparr> else u)"
| "set_column (c, DStrs ss) u =
     (if c = ''role_ids'' then u\<lparr>u_role_ids := ss\<rparr>
      else if c = ''user_group_ids'' then u\<lparr>u_group_ids := ss\<rparr> else u)"
| "set_column (c, _) u = u"

definition set_columns :: "columns \<Rightarrow> ddiuser \<Rightarrow> ddiuser" where
  "set_columns cols u = fold set_column cols u"

definition update_users :: "columns \<Rightarrow> string \<Rightarrow> ddiuser list \<Rightarrow> ddiuser list" where
  "update_users cols i us = map (\<lambda>u. if u_id u = i then set_columns cols u else u) us"

text \<open>Names that can be put between quotes as they are.\<close>

definition plain :: "string \<Rightarrow> bool" where
  "plain s \<longleftrightarrow> CHR 0x27 \<notin> set s"

definition in_ids :: "string list \<Rightarrow> string list" where
  "in_ids ids = (if ids = [] then [[]] else ids)"

section \<open>The laws\<close>

definition user_laws :: "('d \<Rightarrow> auth_data) \<Rightarrow> 'd auth_db \<Rightarrow> bool" where
  "user_laws V P \<longleftrightarrow>
     (\<forall>i d. tb_get (users P) (by_id i) d = (Ok (filter (\<lambda>u. u_id u = i) (ad_users (V d))), d)) \<and>
     (\<forall>d. tb_get (users P) [] d = (Ok (ad_users (V d)), d)) \<and>
     (\<forall>u d. if u_id u \<in> u_id ` set (ad_users (V d))
        then \<exists>e d'. tb_insert (users P) u d = (Err e, d')
        else \<exists>d'. tb_insert (users P) u d = (Ok u, d') \<and>
          V d' = (V d)\<lparr>ad_users := ad_users (V d) @ [persist u]\<rparr>) \<and>
     (\<forall>cols i d. \<exists>n d'. tb_update (users P) cols (by_id i) d = (Ok n, d') \<and>
        V d' = (V d)\<lparr>ad_users := update_users cols i (ad_users (V d))\<rparr>) \<and>
     (\<forall>i d. \<exists>n d'. tb_delete (users P) (by_id i) d = (Ok n, d') \<and>
        V d' = (V d)\<lparr>ad_users := filter (\<lambda>u. u_id u \<noteq> i) (ad_users (V d))\<rparr>) \<and>
     (\<forall>g d. tb_fill_ex (users P) group_members_query [DStr g] d =
        (Ok (filter (\<lambda>u. g \<in> set (u_group_ids u)) (ad_users (V d))), d)) \<and>
     (\<forall>r d. tb_fill_ex (users P) ''select * from gr_ddiuser where $1=any(role_ids)'' [DStr r] d =
        (Ok (filter (\<lambda>u. r \<in> set (u_role_ids u)) (ad_users (V d))), d)) \<and>
     (\<forall>r d. tb_count_ex (users P) ''select count(1) from gr_ddiuser where $1=any(role_ids)'' [DStr r] d =
        (Ok (int (length (filter (\<lambda>u. r \<in> set (u_role_ids u)) (ad_users (V d))))), d)) \<and>
     (\<forall>ids d. list_all plain ids \<longrightarrow>
        tb_fill_ex (users P) (in_clause ''gr_ddiuser'' ids) [] d =
          (Ok (filter (\<lambda>u. u_id u \<in> set (in_ids ids)) (ad_users (V d))), d))"

definition role_laws :: "('d \<Rightarrow> auth_data) \<Rightarrow> 'd auth_db \<Rightarrow> bool" where
  "role_laws V P \<longleftrightarrow>
     (\<forall>ids d. list_all plain ids \<longrightarrow>
        tb_fill_ex (roles P) (in_clause ''gr_role'' ids) [] d =
          (Ok (filter (\<lambda>r. ro_id r \<in> set (in_ids ids)) (ad_roles (V d))), d)) \<and>
     (\<forall>i d. \<exists>n d'. tb_delete (roles P) (by_id i) d = (Ok n, d') \<and>
        V d' = (V d)\<lparr>ad_roles := filter (\<lambda>r. ro_id r \<noteq> i) (ad_roles (V d))\<rparr>) \<and>
     (\<forall>ids d. list_all plain ids \<longrightarrow>
        tb_fill_ex (groups P) (in_clause ''gr_user_group'' ids) [] d =
          (Ok (filter (\<lambda>g. g_id g \<in> set (in_ids ids)) (ad_groups (V d))), d)) \<and>
     (\<forall>i d. tb_get (groups P) (by_id i) d = (Ok (filter (\<lambda>g. g_id g = i) (ad_groups (V d))), d)) \<and>
     (\<forall>i d. \<exists>n d'. tb_delete (groups P) (by_id i) d = (Ok n, d') \<and>
        V d' = (V d)\<lparr>ad_groups := filter (\<lambda>g. g_id g \<noteq> i) (ad_groups (V d))\<rparr>) \<and>
     (\<forall>i d. tb_get (whitelists P) (by_id i) d =
        (Ok (filter (\<lambda>l. wl_id l = i) (ad_whitelists (V d))), d))"

definition auth_db_ok :: "('d \<Rightarrow> auth_data) \<Rightarrow> 'd auth_db \<Rightarrow> bool" where
  "auth_db_ok V P \<longleftrightarrow> tx_reliable P \<and> user_laws V P \<and> role_laws V P"

text \<open>What the start-up does with the table of white lists.\<close>

definition whitelist_laws :: "('d \<Rightarrow> auth_data) \<Rightarrow> 'd auth_db \<Rightarrow> bool" where
  "whitelist_laws V P \<longleftrightarrow>
     (\<forall>i d. tb_exists (whitelists P) (by_id i) d = (Ok (list_ex (\<lambda>l. wl_id l = i) (ad_whitelists (V d))), d)) \<and>
     (\<forall>l d. \<not> list_ex (\<lambda>k. wl_id k = wl_id l) (ad_whitelists (V d)) \<longrightarrow>
        (\<exists>d'. tb_insert (whitelists P) l d = (Ok l, d') \<and>
          V d' = (V d)\<lparr>ad_whitelists := ad_whitelists (V d) @ [l]\<rparr>))"

lemma auth_db_okD [dest]:
  "auth_db_ok V P \<Longrightarrow> tx_reliable P"
  "auth_db_ok V P \<Longrightarrow> user_laws V P"
  "auth_db_ok V P \<Longrightarrow> role_laws V P"
  by (simp_all add: auth_db_ok_def)

section \<open>A list-backed database\<close>

text \<open>The list of an in-clause is read back from the text of the query: the pieces between
  quotes.\<close>

fun odds :: "'a list \<Rightarrow> 'a list" where
  "odds (x # y # r) = y # odds r"
| "odds r = []"

definition quoted :: "string \<Rightarrow> string list" where
  "quoted sql = odds (str_split (CHR 0x27) sql)"

definition id_condition :: "columns \<Rightarrow> string option" where
  "id_condition c = (case c of [(k, DStr i)] \<Rightarrow> if k = IDField then Some i else None | _ \<Rightarrow> None)"

lemma id_condition_simps [simp]: "id_condition (by_id i) = Some i" "id_condition [] = None"
  by (simp_all add: id_condition_def by_id_def)

definition mem_users :: "(auth_data, ddiuser) table" where
  "mem_users =
     \<lparr>tb_insert = (\<lambda>u d. if u_id u \<in> u_id ` set (ad_users d) then (Err ''duplicate key'', d)
        else (Ok u, d\<lparr>ad_users := ad_users d @ [persist u]\<rparr>)),
      tb_get = (\<lambda>c d. (Ok (case id_condition c of Some i \<Rightarrow> filter (\<lambda>u. u_id u = i) (ad_users d)
        | None \<Rightarrow> ad_users d), d)),
      tb_update = (\<lambda>cols c d. case id_condition c of Some i \<Rightarrow>
          (Ok 1, d\<lparr>ad_users := update_users cols i (ad_users d)\<rparr>) | None \<Rightarrow> (Ok 0, d)),
      tb_delete = (\<lambda>c d. case id_condition c of Some i \<Rightarrow>
          (Ok 1, d\<lparr>ad_users := filter (\<lambda>u. u_id u \<noteq> i) (ad_users d)\<rparr>) | None \<Rightarrow> (Ok 0, d)),
      tb_exists = (\<lambda>c d. (Ok True, d)),
      tb_fill_ex = (\<lambda>sql args d. (Ok (case args of
          [DStr a] \<Rightarrow> if sql = group_members_query
            then filter (\<lambda>u. a \<in> set (u_group_ids u)) (ad_users d)
            else filter (\<lambda>u. a \<in> set (u_role_ids u)) (ad_users d)
        | _ \<Rightarrow> filter (\<lambda>u. u_id u \<in> set (quoted sql)) (ad_users d)), d)),
      tb_count_ex = (\<lambda>sql args d. (Ok (case args of
          [DStr a] \<Rightarrow> int (length (filter (\<lambda>u. a \<in> set (u_role_ids u)) (ad_users d))) | _ \<Rightarrow> 0), d)),
      tb_get_with_id = (\<lambda>i d. case filter (\<lambda>u. u_id u = i) (ad_users d) of
          u # _ \<Rightarrow> (Ok u, d) | [] \<Rightarrow> (Err ''not found'', d))\<rparr>"

definition mem_roles :: "(auth_data, role) table" where
  "mem_roles =
     \<lparr>tb_insert = (\<lambda>r d. (Ok r, d\<lparr>ad_roles := ad_roles d @ [r]\<rparr>)),
      tb_get = (\<lambda>c d. (Ok (case id_condition c of Some i \<Rightarrow> filter (\<lambda>r. ro_id r = i) (ad_roles d)
        | None \<Rightarrow> ad_roles d), d)),
      tb_update = (\<lambda>cols c d. (Ok 0, d)),
      tb_delete = (\<lambda>c d. case id_condition c of Some i \<Rightarrow>
          (Ok 1, d\<lparr>ad_roles := filter (\<lambda>r. ro_id r \<noteq> i) (ad_roles d)\<rparr>) | None \<Rightarrow> (Ok 0, d)),
      tb_exists = (\<lambda>c d. (Ok True, d)),
      tb_fill_ex = (\<lambda>sql args d. (Ok (filter (\<lambda>r. ro_id r \<in> set (quoted sql)) (ad_roles d)), d)),
      tb_count_ex = (\<lambda>sql args d. (Ok 0, d)),
      tb_get_with_id = (\<lambda>i d. case filter (\<lambda>r. ro_id r = i) (ad_roles d) of
          r # _ \<Rightarrow> (Ok r, d) | [] \<Rightarrow> (Err ''not found'', d))\<rparr>"

definition mem_groups :: "(auth_data, user_group) table" where
  "mem_groups =
     \<lparr>tb_insert = (\<lambda>g d. (Ok g, d\<lparr>ad_groups := ad_groups d @ [g]\<rparr>)),
      tb_get = (\<lambda>c d. (Ok (case id_condition c of Some i \<Rightarrow> filter (\<lambda>g. g_id g = i) (ad_groups d)
        | None \<Rightarrow> ad_groups d), d)),
      tb_update = (\<lambda>cols c d. (Ok 0, d)),
      tb_delete = (\<lambda>c d. case id_condition c of Some i \<Rightarrow>
          (Ok 1, d\<lparr>ad_groups := filter (\<lambda>g. g_id g \<noteq> i) (ad_groups d)\<rparr>) | None \<Rightarrow> (Ok 0, d)),
      tb_exists = (\<lambda>c d. (Ok True, d)),
      tb_fill_ex = (\<lambda>sql args d. (Ok (filter (\<lambda>g. g_id g \<in> set (quoted sql)) (ad_groups d)), d)),
      tb_count_ex = (\<lambda>sql args d. (Ok 0, d)),
      tb_get_with_id = (\<lambda>i d. case filter (\<lambda>g. g_id g = i) (ad_groups d) of
          g # _ \<Rightarrow> (Ok g, d) | [] \<Rightarrow> (Err ''not found'', d))\<rparr>"

definition mem_whitelists :: "(auth_data, whitelist) table" where
  "mem_whitelists =
     \<lparr>tb_insert = (\<lambda>l d. (Ok l, d\<lparr>ad_whitelists := ad_whitelists d @ [l]\<rparr>)),
      tb_get = (\<lambda>c d. (Ok (case id_condition c of Some i \<Rightarrow> filter (\<lambda>l. wl_id l = i) (ad_whitelists d)
        | None \<Rightarrow> ad_whitelists d), d)),
      tb_update = (\<lambda>cols c d. (Ok 0, d)),
      tb_delete = (\<lambda>c d. (Ok 0, d)),
      tb_exists = (\<lambda>c d. (Ok (list_ex (\<lambda>l. id_condition c \<in> {None, Some (wl_id l)}) (ad_whitelists d)), d)),
      tb_fill_ex = (\<lambda>sql args d. (Ok [], d)),
      tb_count_ex = (\<lambda>sql args d. (Ok 0, d)),
      tb_get_with_id = (\<lambda>i d. case filter (\<lambda>l. wl_id l = i) (ad_whitelists d) of
          l # _ \<Rightarrow> (Ok l, d) | [] \<Rightarrow> (Err ''not found'', d))\<rparr>"

definition mem_db :: "auth_data auth_db" where
  "mem_db =
     \<lparr>tx_open = (\<lambda>d. (None, d)), tx_commit = (\<lambda>d0 d. (None, d)),
      tx_rollback = (\<lambda>e d0 d. (e, d0)), tx_exec = (\<lambda>sql args d. (Ok 0, d)),
      users = mem_users, roles = mem_roles, groups = mem_groups, whitelists = mem_whitelists\<rparr>"

lemma mem_db_tables [simp]:
  "users mem_db = mem_users" "roles mem_db = mem_roles" "groups mem_db = mem_groups"
  "whitelists mem_db = mem_whitelists"
  by (simp_all add: mem_db_def)

lemma odds_split_join:
  assumes "ids \<noteq> []" and "\<forall>i \<in> set ids. d \<notin> set i" and "d \<notin> set pre"
    and "d \<notin> set post" and "d \<notin> set sep"
  shows "odds (str_split d (pre @ [d] @ str_join ([d] @ sep @ [d]) ids @ [d] @ post)) = ids"
  using assms(1,2,3)
proof (induction ids arbitrary: pre rule: induct_list012)
  case (2 i)
  then show ?case using assms(4) by (simp add: str_split_append_sep str_split_no_sep)
next
  case (3 i j ids)
  have "odds (str_split d (sep @ [d] @ str_join ([d] @ sep @ [d]) (j # ids) @ [d] @ post)) = j # ids"
    using "3.IH"(2) [of sep] "3.prems" assms(5) by simp
  then show ?case using "3.prems" by (simp add: str_split_append_sep)
qed simp

lemma quoted_in_clause:
  assumes "list_all plain ids" and "plain tbl"
  shows "quoted (in_clause tbl ids) = in_ids ids"
proof -
  have "in_clause tbl ids = in_clause tbl (in_ids ids)"
    by (simp add: in_clause_def in_ids_def)
  moreover have "in_ids ids \<noteq> []" "\<forall>i \<in> set (in_ids ids). CHR 0x27 \<notin> set i"
    using assms by (auto simp: in_ids_def list_all_iff plain_def)
  ultimately show ?thesis
    using odds_split_join [of "in_ids ids" "CHR 0x27" "''select * from '' @ tbl @ '' where id in (''"
      "'')''" "'',''"] assms(2)
    by (simp add: quoted_def in_clause_def quote_def plain_def)
qed

lemma mem_db_ok: "auth_db_ok (\<lambda>d. d) mem_db"
proof -
  have "tx_reliable mem_db" by (simp add: tx_reliable_def mem_db_def)
  moreover have "user_laws (\<lambda>d. d) mem_db"
    by (simp add: user_laws_def mem_users_def quoted_in_clause plain_def
        group_members_query_def)
  moreover have "role_laws (\<lambda>d. d) mem_db"
    by (simp add: role_laws_def mem_roles_def mem_groups_def mem_whitelists_def
        quoted_in_clause plain_def)
  ultimately show ?thesis by (simp add: auth_db_ok_def)
qed

lemma mem_db_whitelists: "whitelist_laws (\<lambda>d. d) mem_db"
  by (auto simp: whitelist_laws_def mem_whitelists_def list_ex_iff)

end
