(* ===== verification/AccessFacts.thy ===== *)
theory AccessFacts
  imports AuthDb
begin

text \<open>
  What the properties of the auth component rest on: what a reload of a user's authority
  returns (with and without knowing the database), the effect of the refresh that follows a
  change of a role or a group, and the outcome of the white list and of the authority loop.
\<close>

section \<open>Reloading\<close>

definition granted_views :: "'d auth_env \<Rightarrow> role list \<Rightarrow> string list" where
  "granted_views env rs = recombineSlices (env_order env) (concat (map ro_views rs)) [] False"

text \<open>The user a reload returns, given the groups and roles it read.\<close>

definition reloaded :: "'d auth_env \<Rightarrow> user_group list \<Rightarrow> (string list \<Rightarrow> role list) \<Rightarrow> ddiuser \<Rightarrow> ddiuser" where
  "reloaded env gs rolesOf u =
     (let rids = recombineSlices (env_order env) (u_role_ids u @ concat (map g_role_ids gs)) [] False;
          base = CreateBaseAuthority (env_template env)
      in u\<lparr>u_role_ids := rids,
           u_authority := (if rids = [] then base
             else CreateDhcpAuthority (env_template env) []
               (CreateViewAuthority (env_template env) (granted_views env (rolesOf rids)) base))\<rparr>)"

lemma reload_super [simp]:
  "u_role_type u = RoleTypeSUPER \<Longrightarrow> reloadUserAuthority env u w = (Ok u, w)"
  by (simp add: reloadUserAuthority_def)

text \<open>Without any law of the database: a reload that returns a user has read some groups and
  some roles, and touched nothing but the database handle.\<close>

lemma reload_OkE:
  assumes "reloadUserAuthority env u w = (Ok u', w')" and "u_role_type u \<noteq> RoleTypeSUPER"
  obtains gs rolesOf where "u' = reloaded env gs rolesOf u" and "w_active w' = w_active w"
proof -
  let ?tmpl = "env_template env" and ?ord = "env_order env"
  let ?u1 = "u\<lparr>u_authority := CreateBaseAuthority ?tmpl\<rparr>"
  obtain r1 w1 where q1: "on_db (tb_fill_ex (groups (env_db env))
      (in_clause ''gr_user_group'' (u_group_ids u)) []) w = (r1, w1)"
    by fastforce
  then have a1: "w_active w1 = w_active w" by (rule on_db_active)
  from assms q1 obtain gs where gs: "r1 = Ok gs"
    by (cases r1) (simp_all add: reloadUserAuthority_def Let_def)
  let ?rids = "recombineSlices ?ord (u_role_ids u @ concat (map g_role_ids gs)) [] False"
  show thesis
  proof (cases "?rids = []")
    case True
    with assms q1 gs have "u' = ?u1\<lparr>u_role_ids := []\<rparr>" "w' = w1"
      by (simp_all add: reloadUserAuthority_def Let_def)
    with a1 True that [of gs] show thesis by (simp add: reloaded_def Let_def)
  next
    case False
    obtain r2 w2 where q2: "on_db (tb_fill_ex (roles (env_db env))
        (in_clause ''gr_role'' ?rids) []) w1 = (r2, w2)"
      by fastforce
    then have a2: "w_active w2 = w_active w1" by (rule on_db_active)
    from assms q1 gs False q2 obtain rs where rs: "r2 = Ok rs"
      by (cases r2) (simp_all add: reloadUserAuthority_def Let_def)
    with assms q1 gs False q2 have "u' = reloaded env gs (\<lambda>_. rs) u" "w' = w2"
      by (simp_all add: reloadUserAuthority_def Let_def reloaded_def granted_views_def)
    with a1 a2 that show thesis by simp
  qed
qed

lemma reload_active: "reloadUserAuthority env u w = (r, w') \<Longrightarrow> w_active w' = w_active w"
  by (auto simp: reloadUserAuthority_def Let_def c_bind_def on_db_def
      split: if_splits prod.splits res.splits)

lemma reloaded_simps [simp]:
  "u_id (reloaded env gs ro u) = u_id u"
  "u_name (reloaded env gs ro u) = u_name u"
  "u_password (reloaded env gs ro u) = u_password u"
  "u_group_ids (reloaded env gs ro u) = u_group_ids u"
  "u_role_type (reloaded env gs ro u) = u_role_type u"
  by (simp_all add: reloaded_def Let_def)

lemma reloaded_role_ids:
  assumes "order_ok (env_order env)"
  shows "set (u_role_ids (reloaded env gs ro u)) = set (u_role_ids u) \<union> (\<Union>g \<in> set gs. set (g_role_ids g))"
  using assms by (simp add: reloaded_def Let_def recombineSlices_set)

lemma reloaded_authority_ok: "authority_ok (u_authority (reloaded env gs ro u))"
  by (simp add: reloaded_def Let_def CreateBaseAuthority_ok CreateDhcpAuthority_ok
      CreateViewAuthority_ok)

text \<open>
  A typing of the entries of authority maps: an entry is one of the base class of the template,
  or one of the DNS class with some views put in, or one of the DHCP class with no plans. A map
  is well typed if its entries are and stand under the resources they speak about.
\<close>

inductive typed_authority :: "role_template \<Rightarrow> role_authority \<Rightarrow> bool" for tmpl where
  typed_base: "a \<in> set (rc_base (rt_normal tmpl)) \<Longrightarrow> typed_authority tmpl a"
| typed_dns: "a \<in> set (rc_dns (rt_normal tmpl)) \<Longrightarrow> typed_authority tmpl (view_authority views a)"
| typed_dhcp: "a \<in> set (rc_dhcp (rt_normal tmpl)) \<Longrightarrow> typed_authority tmpl (dhcp_authority [] a)"

definition typed_map :: "role_template \<Rightarrow> authority_map \<Rightarrow> bool" where
  "typed_map tmpl m \<longleftrightarrow> authority_ok m \<and> (\<forall>a \<in> snd ` set m. typed_authority tmpl a)"

lemma typed_map_Nil [simp]: "typed_map tmpl []"
  by (simp add: typed_map_def)

lemma typed_map_fold:
  assumes "\<And>a. a \<in> set as \<Longrightarrow> typed_authority tmpl (f a)" and "\<And>a. ra_resource (f a) = ra_resource a"
    and "typed_map tmpl m"
  shows "typed_map tmpl (fold (\<lambda>a m. AList.update (ra_resource a) (f a) m) as m)"
  using assms(1,3)
proof (induction as arbitrary: m)
  case (Cons a as)
  have "set (AList.update (ra_resource a) (f a) m) \<subseteq> insert (ra_resource a, f a) (set m)"
    by (induction m) (auto split: if_splits)
  moreover have "authority_ok (AList.update (ra_resource a) (f a) m)"
    using Cons.prems(2) assms(2) by (simp add: typed_map_def authority_ok_update)
  ultimately have "typed_map tmpl (AList.update (ra_resource a) (f a) m)"
    using Cons.prems by (fastforce simp: typed_map_def)
  then show ?case using Cons by simp
qed simp

lemma typed_view_map: "typed_map tmpl m \<Longrightarrow> typed_map tmpl (CreateViewAuthority tmpl views m)"
  unfolding CreateViewAuthority_def by (rule typed_map_fold) (simp_all add: typed_dns)

lemma typed_dhcp_map: "typed_map tmpl m \<Longrightarrow> typed_map tmpl (CreateDhcpAuthority tmpl [] m)"
  unfolding CreateDhcpAuthority_def by (rule typed_map_fold) (simp_all add: typed_dhcp)

lemma typed_base_map: "typed_map tmpl (CreateBaseAuthority tmpl)"
  unfolding CreateBaseAuthority_def
  by (intro typed_dhcp_map typed_view_map typed_map_fold [where f = "\<lambda>a. a"]) (simp_all add: typed_base)

lemma reloaded_typed: "typed_map (env_template env) (u_authority (reloaded env gs ro u))"
  by (simp add: reloaded_def Let_def typed_base_map typed_dhcp_map typed_view_map)

text \<open>With the laws of the database: which groups and roles those are.\<close>

definition groups_of :: "auth_data \<Rightarrow> ddiuser \<Rightarrow> user_group list" where
  "groups_of D u = filter (\<lambda>g. g_id g \<in> set (in_ids (u_group_ids u))) (ad_groups D)"

definition roles_of :: "auth_data \<Rightarrow> string list \<Rightarrow> role list" where
  "roles_of D ids = filter (\<lambda>r. ro_id r \<in> set ids) (ad_roles D)"

text \<open>The names that the query of a reload puts between quotes.\<close>

definition plain_user :: "auth_data \<Rightarrow> ddiuser \<Rightarrow> bool" where
  "plain_user D u \<longleftrightarrow> list_all plain (u_group_ids u) \<and> list_all plain (u_role_ids u) \<and>
     (\<forall>g \<in> set (groups_of D u). list_all plain (g_role_ids g))"

lemma reload_db:
  assumes "auth_db_ok V (env_db env)" and "order_ok (env_order env)"
    and "plain_user (V (w_db w)) u" and "u_role_type u \<noteq> RoleTypeSUPER"
  shows "reloadUserAuthority env u w =
    (Ok (reloaded env (groups_of (V (w_db w)) u) (roles_of (V (w_db w))) u), w)"
proof -
  let ?D = "V (w_db w)"
  let ?gs = "groups_of ?D u"
  let ?rids = "recombineSlices (env_order env) (u_role_ids u @ concat (map g_role_ids ?gs)) [] False"
  from assms(1) have laws: "role_laws V (env_db env)" by blast
  have q1: "on_db (tb_fill_ex (groups (env_db env))
      (in_clause ''gr_user_group'' (u_group_ids u)) []) w = (Ok ?gs, w)"
    using laws assms(3) by (simp add: role_laws_def plain_user_def groups_of_def on_db_def)
  have plain: "list_all plain ?rids"
    using assms(2,3) by (auto simp: list_all_iff recombineSlices_set plain_user_def)
  have q2: "on_db (tb_fill_ex (roles (env_db env)) (in_clause ''gr_role'' ?rids) []) w =
      (Ok (roles_of ?D ?rids), w)" if "?rids \<noteq> []"
    using laws plain that by (simp add: role_laws_def roles_of_def on_db_def in_ids_def)
  show ?thesis
  proof (cases "?rids = []")
    case True
    with q1 assms(4) show ?thesis by (simp add: reloadUserAuthority_def Let_def reloaded_def)
  next
    case False
    with q1 q2 assms(4) show ?thesis
      by (simp add: reloadUserAuthority_def Let_def reloaded_def granted_views_def)
  qed
qed

section \<open>The authority of a reloaded user\<close>

text \<open>The three classes of the template do not share resources, and name each resource once.\<close>

definition template_ok :: "role_template \<Rightarrow> bool" where
  "template_ok tmpl \<longleftrightarrow> distinct (map ra_resource
     (rc_base (rt_normal tmpl) @ rc_dns (rt_normal tmpl) @ rc_dhcp (rt_normal tmpl)))"

lemma find_key_distinct:
  assumes "distinct (map f as)" and "a \<in> set as"
  shows "find (\<lambda>b. f b = f a) (rev as) = Some a"
proof (cases "find (\<lambda>b. f b = f a) (rev as)")
  case None
  with assms(2) show ?thesis by (auto simp: find_None_iff)
next
  case (Some b)
  then have "b \<in> set as" "f b = f a" by (auto simp: find_Some_iff rev_nth)
  with assms have "b = a" by (simp add: distinct_map inj_on_def)
  with Some show ?thesis by simp
qed

lemma find_key_None: "f ` set as \<inter> {k} = {} \<Longrightarrow> find (\<lambda>b. f b = k) (rev as) = None"
  by (auto simp: find_None_iff)

lemma lookup_base_dns:
  assumes "template_ok tmpl" and "a \<in> set (rc_dns (rt_normal tmpl))"
  shows "map_of (CreateDhcpAuthority tmpl ps (CreateViewAuthority tmpl vs m)) (ra_resource a) =
    Some (view_authority vs a)"
proof -
  have "ra_resource ` set (rc_dhcp (rt_normal tmpl)) \<inter> {ra_resource a} = {}"
    and d: "distinct (map ra_resource (rc_dns (rt_normal tmpl)))"
    using assms by (auto simp: template_ok_def)
  then show ?thesis
    using find_key_distinct [OF d assms(2)] by (simp add: lookup_view_then_dhcp find_key_None)
qed

lemma base_authority_unfold:
  "CreateBaseAuthority tmpl = CreateDhcpAuthority tmpl [] (CreateViewAuthority tmpl []
     (fold (\<lambda>authority m. AList.update (ra_resource authority) authority m)
        (rc_base (rt_normal tmpl)) []))"
  by (simp add: CreateBaseAuthority_def)

text \<open>A resource of the DHCP class is looked up in the last loop, which got no plans.\<close>

lemma reloaded_dhcp:
  assumes "a \<in> set (rc_dhcp (rt_normal (env_template env)))"
    and "map_of (u_authority (reloaded env gs ro u)) (ra_resource a) = Some b"
  obtains c where "c \<in> set (rc_dhcp (rt_normal (env_template env)))"
    and "ra_resource c = ra_resource a" and "b = dhcp_authority [] c"
proof -
  let ?as = "rc_dhcp (rt_normal (env_template env))"
  obtain c where c: "find (\<lambda>b. ra_resource b = ra_resource a) (rev ?as) = Some c"
    using assms(1) by (cases "find (\<lambda>b. ra_resource b = ra_resource a) (rev ?as)")
      (auto simp: find_None_iff)
  then have "c \<in> set ?as" "ra_resource c = ra_resource a" by (auto simp: find_Some_iff rev_nth)
  moreover have "b = dhcp_authority [] c"
    using assms(2) c
    by (simp add: reloaded_def Let_def base_authority_unfold lookup_view_then_dhcp split: if_splits)
  ultimately show thesis by (rule that)
qed

end
