(* ===== verification/AuthExample.thy ===== *)
theory AuthExample
  imports AccessFacts
begin

text \<open>
  A small server on the list-backed database: one base, one DNS and one DHCP resource in the
  template, an administrator and two users, one of whom has a session. The witnesses of the
  auth properties apply them here.
\<close>

definition ex_template :: role_template where
  "ex_template =
     \<lparr>rt_super = \<lparr>rc_base = [], rc_dns = [], rc_dhcp = []\<rparr>,
      rt_normal =
        \<lparr>rc_base = [\<lparr>ra_resource = ''node'', ra_views = [], ra_plans = [], ra_filter = False,
            ra_operations = [OperationsTypeGET]\<rparr>],
         rc_dns = [\<lparr>ra_resource = ''zone'', ra_views = [], ra_plans = [], ra_filter = True,
            ra_operations = []\<rparr>],
         rc_dhcp = [\<lparr>ra_resource = ''subnet'', ra_views = [], ra_plans = [], ra_filter = True,
            ra_operations = []\<rparr>]\<rparr>\<rparr>"

definition ex_env :: "auth_data auth_env" where
  "ex_env = \<lparr>env_db = mem_db, env_template = ex_template, env_order = (\<lambda>ks. ks)\<rparr>"

definition ex_alice :: ddiuser where
  "ex_alice = (new_user ''alice'' [] RoleTypeNORMAL)\<lparr>u_group_ids := [''ops''], u_role_ids := [''r1'']\<rparr>"

definition ex_bob :: ddiuser where
  "ex_bob = new_user ''bob'' [] RoleTypeNORMAL"

definition ex_zone :: role_authority where
  "ex_zone = \<lparr>ra_resource = ''zone'', ra_views = [''v1''], ra_plans = [], ra_filter = True,
     ra_operations = all_operations\<rparr>"

definition ex_role1 :: role where
  "ex_role1 = \<lparr>ro_id = ''r1'', ro_name = ''r1'', ro_comment = [], ro_views = [''v1''], ro_plans = [''p1'']\<rparr>"

definition ex_role2 :: role where
  "ex_role2 = \<lparr>ro_id = ''r2'', ro_name = ''r2'', ro_comment = [], ro_views = [''v2''], ro_plans = []\<rparr>"

definition ex_group :: user_group where
  "ex_group = \<lparr>g_id = ''ops'', g_name = ''ops'', g_comment = [], g_user_ids = [], g_role_ids = [''r2'']\<rparr>"

definition ex_whitelist :: whitelist where
  "ex_whitelist = \<lparr>wl_id = WhiteListID, wl_ips = [''10.0.0.0/8''], wl_privilege = ''192.168.0.1'',
     wl_enabled = False\<rparr>"

definition ex_data :: auth_data where
  "ex_data = \<lparr>ad_users = [ex_alice, ex_bob], ad_roles = [ex_role1, ex_role2],
     ad_groups = [ex_group], ad_whitelists = [ex_whitelist]\<rparr>"

definition ex_world :: "auth_data aworld" where
  "ex_world = \<lparr>w_db = ex_data,
     w_active = [''alice'' \<mapsto> ex_alice\<lparr>u_authority := [(''zone'', ex_zone)]\<rparr>]\<rparr>"

definition ex_jwt :: jwt where
  "ex_jwt = \<lparr>jwt_sign = Ok, jwt_parse = (\<lambda>t. Parsed True (Some t))\<rparr>"

text \<open>A request by a user on a resource of a type, with an identifier.\<close>

definition ex_ctx :: "string \<Rightarrow> string \<Rightarrow> string \<Rightarrow> string \<Rightarrow> 'r \<Rightarrow> 'r ctx" where
  "ex_ctx name method typ i r =
     \<lparr>c_resource = r, c_type = typ, c_id = i, c_ancestors = [], c_action = None,
      c_method = method, c_remote_addr = ''10.1.2.3:80'', c_auth_header = name, c_url_path = [],
      c_filters = [], c_vals = [AuthUser \<mapsto> VString name]\<rparr>"

lemma ex_ctx_fields [simp]:
  "c_resource (ex_ctx name method typ i r) = r" "c_type (ex_ctx name method typ i r) = typ"
  "c_id (ex_ctx name method typ i r) = i" "c_method (ex_ctx name method typ i r) = method"
  "c_auth_header (ex_ctx name method typ i r) = name"
  "c_vals (ex_ctx name method typ i r) = [AuthUser \<mapsto> VString name]"
  by (simp_all add: ex_ctx_def)

lemmas ex_simps = ex_env_def ex_world_def ex_jwt_def ex_ctx_def ex_data_def

lemma ex_env_ok: "auth_db_ok (\<lambda>d. d) (env_db ex_env)" "order_ok (env_order ex_env)"
  by (simp_all add: ex_env_def mem_db_ok)

lemma ex_env_fields [simp]:
  "env_db ex_env = mem_db" "env_template ex_env = ex_template" "env_order ex_env = (\<lambda>ks. ks)"
  by (simp_all add: ex_env_def)

end
