(* ===== verification/AccessControl.thy ===== *)
theory AccessControl
  imports AuthExample
begin

text \<open>
  The decision of the middle ware on a request (\<open>authentification.go\<close>), with what it rests
  on: the white list, the authority map of the session, and the sessions' invariant.
\<close>

section \<open>The white list\<close>

definition wl_admits :: "whitelist list \<Rightarrow> string \<Rightarrow> bool" where
  "wl_admits wls ip \<longleftrightarrow>
     (case filter (\<lambda>l. wl_id l = WhiteListID) wls of
        [l] \<Rightarrow> \<not> wl_enabled l \<or> wl_privilege l = ip \<or> ip_listed (wl_ips l) ip = Ok True
      | _ \<Rightarrow> False)"

text \<open>The transaction of the check only reads, and its result is a function of the table.\<close>

definition wl_result :: "whitelist list \<Rightarrow> string \<Rightarrow> (gerror, unit) res" where
  "wl_result ls ip =
     (case filter (\<lambda>l. wl_id l = WhiteListID) ls of
        [l] \<Rightarrow> if \<not> wl_enabled l \<or> wl_privilege l = ip then Ok ()
          else res_bind (ip_listed (wl_ips l) ip) (\<lambda>ok. if ok then Ok () else Err (''ip not in whitelist:'' @ ip))
      | _ \<Rightarrow> Err ''get whitelist failed:record is not 1'')"

lemma wl_result_Ok: "wl_result ls ip = Ok () \<longleftrightarrow> wl_admits ls ip"
  by (auto simp: wl_result_def wl_admits_def res_bind_eq_Ok split: list.split)

lemma withTx_read:
  assumes "tx_reliable P" and "m w = (r, w)"
  shows "withTx P m w = (r, w)"
  using withTx_reliable [OF assms(1), of m w] assms(2) by (cases r) simp_all

lemma checkWhiteList_result:
  assumes "auth_db_ok V (env_db env)"
  shows "checkWhiteList env ip w = (wl_result (ad_whitelists (V (w_db w))) ip, w)"
proof -
  let ?wls = "filter (\<lambda>l. wl_id l = WhiteListID) (ad_whitelists (V (w_db w)))"
  let ?body = "c_bind (c_map_err (\<lambda>e. ''get whitelist failed:'' @ e)
           (on_db (tb_get (whitelists (env_db env)) (by_id WhiteListID)))) (\<lambda>wls.
         if length wls \<noteq> 1 then c_fail ''get whitelist failed:record is not 1''
         else (let whiteList = wls ! 0 in
           if \<not> wl_enabled whiteList \<or> wl_privilege whiteList = ip then c_return ()
           else c_bind (c_lift (ip_listed (wl_ips whiteList) ip)) (\<lambda>ok.
             if ok then c_return () else c_fail (''ip not in whitelist:'' @ ip))))"
  from assms have rel: "tx_reliable (env_db env)" and laws: "role_laws V (env_db env)" by blast+
  have get: "on_db (tb_get (whitelists (env_db env)) (by_id WhiteListID)) w = (Ok ?wls, w)"
    using laws by (simp add: role_laws_def on_db_def)
  have body: "?body w = (wl_result (ad_whitelists (V (w_db w))) ip, w)"
  proof (cases "length ?wls = 1")
    case False
    then show ?thesis using get by (auto simp: wl_result_def split: list.split)
  next
    case True
    then obtain l where "?wls = [l]" by (auto simp: length_Suc_conv)
    then show ?thesis
      using get by (cases "ip_listed (wl_ips l) ip") (simp_all add: wl_result_def c_bind_def)
  qed
  show ?thesis unfolding checkWhiteList_def by (rule withTx_read [OF rel]) (rule body)
qed

lemma checkWhiteList_outcome:
  fixes env :: "'a auth_env"
  assumes "auth_db_ok V (env_db env)"
  shows "\<exists>r. checkWhiteList env ip w = (r, w) \<and>
    (r = Ok () \<longleftrightarrow> wl_admits (ad_whitelists (V (w_db w))) ip)"
  using checkWhiteList_result [OF assms] wl_result_Ok by blast

section \<open>The authority loop\<close>

definition entry_admits :: "'r ctx \<Rightarrow> role_authority \<Rightarrow> bool" where
  "entry_admits ctx a \<longleftrightarrow> ra_resource a = c_type ctx \<and> c_method ctx \<in> set (ra_operations a) \<and>
     (c_id ctx = [] \<or> ra_views a = [] \<or>
      (\<exists>v \<in> set (ra_views a). v = c_id ctx \<or> v \<in> set (c_ancestors ctx)))"

definition granted_ctx :: "'r ctx \<Rightarrow> role_authority \<Rightarrow> 'r ctx" where
  "granted_ctx ctx a =
     ctx_set ViewKey (VStringList (ra_views a)) (ctx_set PrefixKey (VStringList (ra_plans a)) ctx)"

lemma checkView_iff:
  "checkView ctx a \<longleftrightarrow> c_id ctx = [] \<or> ra_views a = [] \<or>
     (\<exists>v \<in> set (ra_views a). v = c_id ctx \<or> v \<in> set (c_ancestors ctx))"
  by (auto simp: checkView_def list_ex_iff)

lemma checkView_ctx_set [simp]: "checkView (ctx_set k v ctx) a = checkView ctx a"
  by (simp add: checkView_def)

lemma authority_loop_none:
  assumes "\<forall>a \<in> set as. ra_resource a \<noteq> c_type ctx"
  shows "authority_loop as ctx = (False, ctx)"
  using assms by (induction as) auto

text \<open>With at most one entry for the resource, that entry decides.\<close>

lemma authority_loop_unique:
  assumes "distinct (map ra_resource as)"
  shows "authority_loop as ctx =
    (case find (\<lambda>a. ra_resource a = c_type ctx) as of
       None \<Rightarrow> (False, ctx)
     | Some a \<Rightarrow>
         if entry_admits ctx a then (True, granted_ctx ctx a)
         else (False, if c_method ctx \<in> set (ra_operations a)
            then ctx_set PrefixKey (VStringList (ra_plans a)) ctx else ctx))"
  using assms
proof (induction as)
  case (Cons a as)
  show ?case
  proof (cases "ra_resource a = c_type ctx")
    case True
    with Cons.prems have "\<forall>b \<in> set as. ra_resource b \<noteq> c_type ctx" by force
    then have "authority_loop as ctx' = (False, ctx')" if "c_type ctx' = c_type ctx" for ctx' :: "'a ctx"
      using authority_loop_none [of as ctx'] that by simp
    with True show ?thesis
      by (simp add: Let_def checkView_iff entry_admits_def granted_ctx_def list_ex_iff)
  qed (use Cons in simp)
qed simp

lemma find_map_range:
  assumes "order_ok ord" and "authority_ok m"
  shows "find (\<lambda>a. ra_resource a = k) (map snd (gomap_range ord m)) = map_of m k"
proof -
  have d: "distinct (map fst m)" and res: "\<And>i a. (i, a) \<in> set m \<Longrightarrow> ra_resource a = i"
    using assms(2) by (auto simp: authority_ok_def)
  have mem: "set (map snd (gomap_range ord m)) = snd ` set m"
    using gomap_range_set [OF assms(1) d] by simp
  show ?thesis
  proof (cases "map_of m k")
    case None
    then have "\<forall>a \<in> snd ` set m. ra_resource a \<noteq> k"
      using res by (force simp: map_of_eq_None_iff image_iff)
    with mem None show ?thesis by (auto simp: find_None_iff)
  next
    case (Some a)
    then have "a \<in> snd ` set m" and "ra_resource a = k"
      using res by (force dest: map_of_SomeD)+
    with mem have "find (\<lambda>a. ra_resource a = k) (map snd (gomap_range ord m)) \<noteq> None"
      by (auto simp: find_None_iff)
    then obtain b where b: "find (\<lambda>a. ra_resource a = k) (map snd (gomap_range ord m)) = Some b"
      by blast
    then have "b \<in> set (map snd (gomap_range ord m))" and bk: "ra_resource b = k"
      by (auto simp: find_Some_iff)
    with mem obtain i where i: "(i, b) \<in> set m" by auto
    with res bk have "i = k" by blast
    with i d Some have "b = a" by (metis map_of_is_SomeI option.inject)
    with b Some show ?thesis by simp
  qed
qed

lemma distinct_range_resources:
  assumes "order_ok ord" and "authority_ok m"
  shows "distinct (map ra_resource (map snd (gomap_range ord m)))"
proof -
  have "ra_resource (the (map_of m k)) = k" if "k \<in> set (map fst m)" for k
  proof -
    from that obtain a where "map_of m k = Some a" by (cases "map_of m k") (auto simp: map_of_eq_None_iff)
    with assms(2) show ?thesis by (force simp: authority_ok_def dest: map_of_SomeD)
  qed
  then have "map ra_resource (map snd (gomap_range ord m)) = ord (map fst m)"
    using assms(1) by (auto simp: gomap_range_def comp_def order_ok_set intro!: map_idI)
  moreover have "distinct (map fst m)" using assms(2) by (simp add: authority_ok_def)
  ultimately show ?thesis using assms(1) by (simp add: order_ok_distinct)
qed

lemma checkAuthority_lookup:
  assumes "order_ok ord" and "authority_ok (u_authority user)"
  shows "checkAuthority ord ctx user =
    (case map_of (u_authority user) (c_type ctx) of
       None \<Rightarrow> (Some ''permission denied'', ctx)
     | Some a \<Rightarrow>
         if entry_admits ctx a then (None, granted_ctx ctx a)
         else (Some ''permission denied'', if c_method ctx \<in> set (ra_operations a)
            then ctx_set PrefixKey (VStringList (ra_plans a)) ctx else ctx))"
  using authority_loop_unique [OF distinct_range_resources [OF assms], of ctx]
    find_map_range [OF assms, of "c_type ctx"]
  by (simp add: checkAuthority_def split: option.splits)

section \<open>The sessions' invariant\<close>

definition sessions_ok :: "'d aworld \<Rightarrow> bool" where
  "sessions_ok w \<longleftrightarrow> (\<forall>name u. w_active w name = Some u \<longrightarrow> authority_ok (u_authority u))"

lemma reload_authority_ok:
  assumes "reloadUserAuthority env u w = (Ok u', w')" and "authority_ok (u_authority u)"
  shows "authority_ok (u_authority u')"
proof (cases "u_role_type u = RoleTypeSUPER")
  case False
  with assms(1) reload_OkE obtain gs ro where "u' = reloaded env gs ro u" by metis
  then show ?thesis by (simp add: reloaded_authority_ok)
qed (use assms in simp)

section \<open>Properties\<close>

text \<open>What the middle ware hands to the handlers, when the white list admits the address, the
  token is valid and names an active user.\<close>

definition granted :: "'d aworld \<Rightarrow> jwt \<Rightarrow> 'r ctx \<Rightarrow> 'r ctx \<Rightarrow> bool" where
  "granted w j ctx ctx' \<longleftrightarrow>
     c_auth_header ctx \<noteq> [] \<and>
     (\<exists>name user. jwt_parse j (c_auth_header ctx) = Parsed True (Some name) \<and>
        w_active w name = Some user \<and>
        (let ctx1 = ctx_set AuthUser (VString name) ctx in
         if name = Admin then ctx' = ctx1
         else \<exists>a. map_of (u_authority user) (c_type ctx) = Some a \<and> entry_admits ctx1 a \<and>
           ctx' = granted_ctx ctx1 a))"

text \<open>C1. The middle ware lets a request through exactly when the white list admits the host
  part of its remote address, its token is valid and names a user with an active session, and
  that user is the administrator or has an entry for the resource type whose operations
  include the method and whose views, if any, include the resource or one of its ancestors;
  the handlers then see the user, and the views and plans of that one entry. Nothing is
  written.\<close>

theorem authentification_grants_iff:
  assumes "auth_db_ok V (env_db env)" and "order_ok (env_order env)" and "sessions_ok w"
  shows "authentification env j ctx w = (Ok ctx', w) \<longleftrightarrow>
    wl_admits (ad_whitelists (V (w_db w))) (getClientIP (c_remote_addr ctx)) \<and> granted w j ctx ctx'"
proof -
  obtain r where wl: "checkWhiteList env (getClientIP (c_remote_addr ctx)) w = (r, w)"
    and iff: "r = Ok () \<longleftrightarrow>
      wl_admits (ad_whitelists (V (w_db w))) (getClientIP (c_remote_addr ctx))"
    using checkWhiteList_outcome [OF assms(1)] by blast
  show ?thesis
  proof (cases "r = Ok ()")
    case False
    with wl have "\<nexists>c. authentification env j ctx w = (Ok c, w)"
      by (cases r) (simp_all add: authentification_eq)
    with False iff show ?thesis by auto
  next
    case True
    show ?thesis
    proof (cases "\<exists>name user. jwt_parse j (c_auth_header ctx) = Parsed True (Some name) \<and>
        w_active w name = Some user")
      case False
      with True wl have "authentification env j ctx w \<noteq> (Ok ctx', w)"
        by (auto simp: authentification_eq split: parsed_token.splits option.splits)
      with False show ?thesis by (auto simp: granted_def)
    next
      case found: True
      then obtain name user where tok: "jwt_parse j (c_auth_header ctx) = Parsed True (Some name)"
        and act: "w_active w name = Some user"
        by blast
      with assms(3) have ok: "authority_ok (u_authority user)" by (simp add: sessions_ok_def)
      show ?thesis
        using True wl iff tok act
        by (auto simp: authentification_eq granted_def Let_def
            checkAuthority_lookup [OF assms(2) ok] split: option.splits if_splits)
    qed
  qed
qed

lemma ex_world_sessions_ok: "sessions_ok ex_world"
  by (simp add: sessions_ok_def ex_world_def authority_ok_def ex_zone_def)

lemma ex_world_wl: "wl_admits (ad_whitelists (w_db ex_world)) ip"
  by (simp add: wl_admits_def ex_world_def ex_data_def ex_whitelist_def)

theorem authentification_grants_iff_witness:
  "authentification ex_env ex_jwt (ex_ctx ''alice'' ''PUT'' ''zone'' ''v1'' ()) ex_world =
     (Ok (granted_ctx (ex_ctx ''alice'' ''PUT'' ''zone'' ''v1'' ()) ex_zone), ex_world)"
proof -
  let ?ctx = "ex_ctx ''alice'' ''PUT'' ''zone'' ''v1'' ()"
  have "ctx_set AuthUser (VString ''alice'') ?ctx = ?ctx"
    by (simp add: ex_ctx_def ctx_set_def)
  then have "granted ex_world ex_jwt ?ctx (granted_ctx ?ctx ex_zone)"
    by (simp add: granted_def ex_world_def ex_jwt_def Admin_def)
      (simp add: ex_ctx_def entry_admits_def ex_zone_def all_operations_def OperationsTypePUT_def)
  then show ?thesis
    using authentification_grants_iff [OF ex_env_ok ex_world_sessions_ok, of ex_jwt ?ctx] ex_world_wl
    by simp
qed

section \<open>The white list over IPv4\<close>

text \<open>The entries an administrator writes: an address, or a subnet in prefix notation.\<close>

datatype wl_entry = WlAddr ip | WlNet ip nat

fun entry_text :: "wl_entry \<Rightarrow> string" where
  "entry_text (WlAddr p) = show_v4 p"
| "entry_text (WlNet p n) = cidr_v4 p n"

fun entry_v4 :: "wl_entry \<Rightarrow> bool" where
  "entry_v4 (WlAddr p) = (length p = 4)"
| "entry_v4 (WlNet p n) = (length p = 4 \<and> n \<le> 32)"

fun entry_range :: "wl_entry \<Rightarrow> ip set" where
  "entry_range (WlAddr p) = {p}"
| "entry_range (WlNet p n) = v4_range p n"

lemma parse_cidr_no_slash: "CHR ''/'' \<notin> set s \<Longrightarrow> \<exists>e. parse_cidr s = Err e"
  by (simp add: parse_cidr_def)

lemma ip_listed_v4:
  assumes "\<forall>e \<in> set es. entry_v4 e" and "length a = 4"
  shows "ip_listed (map entry_text es) (show_v4 a) = Ok (\<exists>e \<in> set es. a \<in> entry_range e)"
  using assms(1)
proof (induction es)
  case (Cons e es)
  show ?case
  proof (cases e)
    case (WlAddr p)
    then have p: "length p = 4" using Cons.prems by simp
    obtain err where "PrefixContainsSubnetOrIP (show_v4 p) (show_v4 a) = Err err"
      using parse_cidr_no_slash [OF show_v4_no_slash [of p]]
      by (auto simp: PrefixContainsSubnetOrIP_def)
    moreover have "show_v4 p = show_v4 a \<longleftrightarrow> a = p"
      using str_join_inj_dot [OF p assms(2)] by auto
    ultimately show ?thesis using Cons WlAddr p by (simp add: parse_ip_show_v4)
  next
    case (WlNet p n)
    then have p: "length p = 4" "n \<le> 32" using Cons.prems by simp_all
    have "CHR ''/'' \<in> set (cidr_v4 p n)" by (simp add: cidr_v4_def)
    then have "cidr_v4 p n \<noteq> show_v4 a" using show_v4_no_slash [of a] by metis
    then show ?thesis
      using Cons WlNet p assms(2) PrefixContains_v4_addr [OF p(1) assms(2) p(2)]
      by (cases "take n (ip_bits p) = take n (ip_bits a)") (auto simp: v4_range_def)
  qed
qed simp

text \<open>C2. With an enabled white list of IPv4 addresses and subnets, a client with an IPv4 address
  passes exactly when it has the address of the server itself, or its address is one of those
  listed or belongs to one of the subnets listed.\<close>

theorem whitelist_v4_iff:
  assumes "auth_db_ok V (env_db env)" and "ad_whitelists (V (w_db w)) = [l]"
    and "wl_id l = WhiteListID" and "wl_enabled l" and "wl_ips l = map entry_text es"
    and "\<forall>e \<in> set es. entry_v4 e" and "length a = 4"
  shows "fst (checkWhiteList env (show_v4 a) w) = Ok () \<longleftrightarrow>
    wl_privilege l = show_v4 a \<or> (\<exists>e \<in> set es. a \<in> entry_range e)"
  using checkWhiteList_outcome [OF assms(1), of "show_v4 a" w] assms(2-5)
    ip_listed_v4 [OF assms(6,7)]
  by (auto simp: wl_admits_def)

theorem whitelist_v4_iff_witness:
  "fst (checkWhiteList ex_env (show_v4 [10, 9, 9, 9])
     (ex_world\<lparr>w_db := ex_data\<lparr>ad_whitelists := [ex_whitelist\<lparr>wl_enabled := True\<rparr>]\<rparr>\<rparr>)) = Ok ()"
proof -
  have entry: "entry_text (WlNet [10, 0, 0, 0] 8) = ''10.0.0.0/8''" by code_simp
  have mem: "[10, 9, 9, 9] \<in> entry_range (WlNet [10, 0, 0, 0] 8)"
    by (simp add: v4_range_def ip_bits_Cons)
  show ?thesis
    using mem entry whitelist_v4_iff [OF ex_env_ok(1), of
        "ex_world\<lparr>w_db := ex_data\<lparr>ad_whitelists := [ex_whitelist\<lparr>wl_enabled := True\<rparr>]\<rparr>\<rparr>"
        "ex_whitelist\<lparr>wl_enabled := True\<rparr>" "[WlNet [10, 0, 0, 0] 8]" "[10, 9, 9, 9]"]
    by (simp add: ex_whitelist_def)
qed

end
