(* ===== verification/GoTime.thy ===== *)
theory GoTime
  imports Prelude
begin

text \<open>
  What the program uses of \<open>AddDate\<close> of Go's package \<open>time\<close> where the time of day matters: moving a time by
  a number of days. Times are instants, counted in fractions of a second from 1970 on, \<open>unit\<close> of
  them a second (the clock and the files have nanoseconds, the columns of the database microseconds).
  Of the location, the database of time zones on the machine, the offset from Greenwich in seconds at every
  second is a parameter.
\<close>

type_synonym location = "int \<Rightarrow> int"

text \<open>
  \<open>Date\<close> looks up the offset as if the wall clock showed the time of Greenwich, takes it off, and looks again
  where that leads to. (Go 1.13 takes the neighbouring zone instead, which is the same as long as a zone
  lasts for longer than its offset.)
\<close>

definition unix_of_wall :: "location \<Rightarrow> int \<Rightarrow> int" where
  "unix_of_wall loc wall = (if loc wall = 0 then wall else wall - loc (wall - loc wall))"

text \<open>\<open>t.AddDate(0, 0, n)\<close>: the same time of day on the wall clock, \<open>n\<close> days later.\<close>

definition AddDays :: "int \<Rightarrow> location \<Rightarrow> int \<Rightarrow> int \<Rightarrow> int" where
  "AddDays unit loc n t =
     (let wall = t div unit + loc (t div unit) + n * (24 * 60 * 60)
      in unix_of_wall loc wall * unit + t mod unit)"

text \<open>The days have twenty-four hours, but for a change of the offset between the two times.\<close>

lemma AddDays_offsets:
  "\<exists>s. AddDays unit loc n t = t + (n * (24 * 60 * 60) + loc (t div unit) - loc s) * unit"
proof -
  let ?wall = "t div unit + loc (t div unit) + n * (24 * 60 * 60)"
  obtain s where "unix_of_wall loc ?wall = ?wall - loc s"
    by (cases "loc ?wall = 0") (auto simp: unix_of_wall_def)
  then have "AddDays unit loc n t = (?wall - loc s) * unit + t mod unit" by (simp add: AddDays_def Let_def)
  moreover have "t = t div unit * unit + t mod unit" by simp
  ultimately have "AddDays unit loc n t = t + (n * (24 * 60 * 60) + loc (t div unit) - loc s) * unit"
    by (simp add: algebra_simps)
  then show ?thesis by blast
qed

lemma AddDays_fixed [simp]: "AddDays unit (\<lambda>_. z) n t = t + n * (24 * 60 * 60) * unit"
  using AddDays_offsets [of unit "\<lambda>_. z" n t] by simp

end
