(* ===== verification/AuditLog.thy ===== *)
theory AuditLog
  imports AccessControl GoTime
begin

text \<open>
  \<open>pkg/log/handler/auditlog_handler.go\<close>: the record written after every changing request, and
  the list of records behind the generated query.
\<close>

section \<open>The handler\<close>

record audit_log =
  al_username :: string
  al_source_ip :: string
  al_method :: string
  al_resource_kind :: string
  al_resource_path :: string
  al_resource_id :: string
  al_parameters :: string
  al_succeed :: bool
  al_err_message :: string
  al_expire :: int

definition DefaultAuditLogValidPeriod :: int where "DefaultAuditLogValidPeriod = 180"
definition AuditLogFilterNames :: "string list" where "AuditLogFilterNames = [''source_ip'']"
definition TableAuditLog :: string where "TableAuditLog = ''audit_log''"

text \<open>The handler keeps the period for which records are valid, which is always the built-in one.\<close>

record audit_handler =
  defaultAuditLogValidPeriod :: int

definition NewAuditLogHandler :: audit_handler where
  "NewAuditLogHandler = \<lparr>defaultAuditLogValidPeriod = DefaultAuditLogValidPeriod\<rparr>"

lemma NewAuditLogHandler_period [simp]: "defaultAuditLogValidPeriod NewAuditLogHandler = DefaultAuditLogValidPeriod"
  by (simp add: NewAuditLogHandler_def)

text \<open>The handler looks at the method of the HTTP request, which is POST for an action too.\<close>

record 'r audit_ctx = "'r ctx" +
  rq_method :: string
  rq_kind :: string

text \<open>What is marshalled: the resource, the input of the action, or nothing. Encoding it as JSON
  is the standard library's business, a parameter.\<close>

datatype 'r audit_params = ParamResource 'r | ParamInput login_request | ParamNil

definition audit_source_ip :: "string \<Rightarrow> string" where
  "audit_source_ip remoteAddr =
     (if str_contains remoteAddr '':'' then hd (str_split CHR '':'' remoteAddr) else remoteAddr)"

text \<open>The expiry is an instant, in the microseconds of its column: \<open>now\<close> is the clock when the record is made,
  \<open>loc\<close> the location of the machine. The result is the error the handler answers with, if any.\<close>

definition AuditLoggerHandler ::
  "audit_handler \<Rightarrow> 'd tx_hooks \<Rightarrow> ('d, audit_log) table \<Rightarrow> ('r audit_params \<Rightarrow> (gerror, string) res) \<Rightarrow>
   (api_error \<Rightarrow> string) \<Rightarrow> location \<Rightarrow> int \<Rightarrow> 'r audit_ctx \<Rightarrow> api_error option \<Rightarrow>
   (('d, 'u) world, api_error, unit) comp" where
  "AuditLoggerHandler h P t marshal errText loc now ctx respErr =
     (if c_vals ctx AuditlogIgnore \<noteq> None then c_return ()
      else
        (let chosen =
           (if rq_method ctx = ''POST'' then
              (case c_action ctx of
                 Some act \<Rightarrow> Some (act_name act, ParamInput (act_input act))
               | None \<Rightarrow> Some (''POST'', ParamResource (c_resource ctx)))
            else if rq_method ctx = ''PUT'' then Some (''PUT'', ParamResource (c_resource ctx))
            else if rq_method ctx = ''DELETE'' then Some (''DELETE'', ParamNil)
            else None)
         in case chosen of
           None \<Rightarrow> c_return ()
         | Some (method, params) \<Rightarrow>
             c_bind (server_error (\<lambda>e. ''marshal '' @ method @ '' '' @ c_type ctx @ '' auditlog failed '' @ e)
                 (c_lift (marshal params))) (\<lambda>data.
               case c_vals ctx AuthUser of
                 Some (VString currentUser) \<Rightarrow>
                   (let auditLog =
                      \<lparr>al_username = currentUser, al_source_ip = audit_source_ip (c_remote_addr ctx),
                       al_method = method, al_resource_kind = rq_kind ctx,
                       al_resource_path = c_url_path ctx, al_resource_id = c_id ctx,
                       al_parameters = data, al_succeed = (respErr = None),
                       al_err_message = (case respErr of None \<Rightarrow> [] | Some e \<Rightarrow> errText e),
                       al_expire = AddDays 1000000 loc (defaultAuditLogValidPeriod h) now\<rparr>
                    in c_bind (server_error (\<lambda>e. ''insert auditlog '' @ al_resource_kind auditLog @
                         '' to db failed '' @ e) (withTx P (on_db (tb_insert t auditLog))))
                       (\<lambda>_. c_return ()))
               | _ \<Rightarrow> c_panic)))"

definition auditlog_List ::
  "audit_handler \<Rightarrow> 'd tx_hooks \<Rightarrow> ('d, audit_log) table \<Rightarrow> (string list \<Rightarrow> string \<Rightarrow> int) \<Rightarrow> (string list \<Rightarrow> string list) \<Rightarrow>
   date \<Rightarrow> 'r ctx \<Rightarrow> (('d, 'u) world, api_error, audit_log list) comp" where
  "auditlog_List h P t slice_index ord now ctx =
     server_error (\<lambda>e. ''list auditlog faield: '' @ e)
       (withTx P (case GenSqlAndArgsByFileters slice_index ord now TableAuditLog AuditLogFilterNames
            (nat (defaultAuditLogValidPeriod h)) (c_filters ctx) of
          (sql, args) \<Rightarrow> on_db (tb_fill_ex t sql (map DStr args))))"

text \<open>The daily removal of expired records.\<close>

definition audit_expire :: "'d tx_hooks \<Rightarrow> (('d, 'u) world, gerror, unit) comp" where
  "audit_expire P = withTx P
     (c_bind (on_db (tx_exec P ''delete from gr_audit_log where expire < now()'' [])) (\<lambda>_. c_return ()))"

section \<open>The laws of the table\<close>

definition audit_laws :: "('d \<Rightarrow> audit_log list) \<Rightarrow> 'd tx_hooks \<Rightarrow> ('d, audit_log) table \<Rightarrow> bool" where
  "audit_laws V P t \<longleftrightarrow> tx_reliable P \<and>
     (\<forall>l d. \<exists>d'. tb_insert t l d = (Ok l, d') \<and> V d' = V d @ [l])"

definition ex_audit_hooks :: "audit_log list tx_hooks" where
  "ex_audit_hooks = \<lparr>tx_open = (\<lambda>d. (None, d)), tx_commit = (\<lambda>d0 d. (None, d)),
      tx_rollback = (\<lambda>e d0 d. (e, d0)), tx_exec = (\<lambda>sql args d. (Ok 0, d))\<rparr>"

definition ex_audit_table :: "(audit_log list, audit_log) table" where
  "ex_audit_table = \<lparr>tb_insert = (\<lambda>l d. (Ok l, d @ [l])), tb_get = (\<lambda>c d. (Ok d, d)),
     tb_update = (\<lambda>cols c d. (Ok 0, d)), tb_delete = (\<lambda>c d. (Ok 0, d)), tb_exists = (\<lambda>c d. (Ok True, d)),
     tb_fill_ex = (\<lambda>sql args d. (Ok d, d)), tb_count_ex = (\<lambda>sql args d. (Ok 0, d)),
     tb_get_with_id = (\<lambda>i d. (Err ''not found'', d))\<rparr>"

lemma ex_audit_laws: "audit_laws (\<lambda>d. d) ex_audit_hooks ex_audit_table"
  by (simp add: audit_laws_def tx_reliable_def ex_audit_hooks_def ex_audit_table_def)

section \<open>The source address\<close>

lemma show_v4_no_colon: "CHR '':'' \<notin> set (show_v4 a)"
proof -
  have digits: "CHR '':'' \<notin> set (show_nat n)" for n
    using show_nat_digits [of n] by (auto simp: list_all_iff is_digit_def)
  have "CHR '':'' \<notin> set (str_join ''.'' ws)" if "\<forall>w \<in> set ws. CHR '':'' \<notin> set w" for ws
    using that by (induction ws rule: induct_list012) auto
  then show ?thesis by (simp add: show_v4_def digits)
qed

lemma audit_source_first: "CHR '':'' \<notin> set h \<Longrightarrow> audit_source_ip (h @ '':'' @ rest) = h"
  by (simp add: audit_source_ip_def str_contains_char hd_str_split takeWhile_append)

section \<open>Properties\<close>

text \<open>The kind of record a request leaves, if any.\<close>

definition audited :: "'r audit_ctx \<Rightarrow> (string \<times> 'r audit_params) option" where
  "audited ctx =
     (if c_vals ctx AuditlogIgnore \<noteq> None then None
      else if rq_method ctx = ''POST'' then
        Some (case c_action ctx of
            Some act \<Rightarrow> (act_name act, ParamInput (act_input act))
          | None \<Rightarrow> (''POST'', ParamResource (c_resource ctx)))
      else if rq_method ctx = ''PUT'' then Some (''PUT'', ParamResource (c_resource ctx))
      else if rq_method ctx = ''DELETE'' then Some (''DELETE'', ParamNil)
      else None)"

text \<open>After a request that creates, updates, deletes or acts on a resource, and that was not
  marked to be ignored, exactly one record is written: the user and the address it came from,
  the method or the name of the action, the marshalled parameters (none for a deletion), and
  whether the request succeeded. Reading requests leave no record. When the context has no
  user, as for a request that was refused before the user was known, the handler panics.\<close>

theorem audit_record:
  assumes "audit_laws V P t" and "\<And>p. marshal p = Ok (enc p)"
  shows "(audited ctx = None \<longrightarrow> AuditLoggerHandler NewAuditLogHandler P t marshal errText loc now ctx respErr w = (Ok (), w)) \<and>
    (\<forall>method params name. audited ctx = Some (method, params) \<longrightarrow> c_vals ctx AuthUser = Some (VString name) \<longrightarrow>
      (\<exists>d. AuditLoggerHandler NewAuditLogHandler P t marshal errText loc now ctx respErr w = (Ok (), w\<lparr>w_db := d\<rparr>) \<and>
        V d = V (w_db w) @ [\<lparr>al_username = name, al_source_ip = audit_source_ip (c_remote_addr ctx),
          al_method = method, al_resource_kind = rq_kind ctx, al_resource_path = c_url_path ctx,
          al_resource_id = c_id ctx, al_parameters = enc params, al_succeed = (respErr = None),
          al_err_message = (case respErr of None \<Rightarrow> [] | Some e \<Rightarrow> errText e),
          al_expire = AddDays 1000000 loc DefaultAuditLogValidPeriod now\<rparr>])) \<and>
    (audited ctx \<noteq> None \<longrightarrow> c_vals ctx AuthUser = None \<longrightarrow>
      AuditLoggerHandler NewAuditLogHandler P t marshal errText loc now ctx respErr w = (Panic, w))"
proof (intro conjI allI impI)
  assume "audited ctx = None"
  then show "AuditLoggerHandler NewAuditLogHandler P t marshal errText loc now ctx respErr w = (Ok (), w)"
    by (auto simp: audited_def AuditLoggerHandler_def Let_def split: if_splits)
next
  fix mth params name
  assume some: "audited ctx = Some (mth, params)" and user: "c_vals ctx AuthUser = Some (VString name)"
  let ?l = "\<lparr>al_username = name, al_source_ip = audit_source_ip (c_remote_addr ctx),
          al_method = mth, al_resource_kind = rq_kind ctx, al_resource_path = c_url_path ctx,
          al_resource_id = c_id ctx, al_parameters = enc params, al_succeed = (respErr = None),
          al_err_message = (case respErr of None \<Rightarrow> [] | Some e \<Rightarrow> errText e),
          al_expire = AddDays 1000000 loc DefaultAuditLogValidPeriod now\<rparr>"
  from assms(1) obtain d where ins: "tb_insert t ?l (w_db w) = (Ok ?l, d)" and V: "V d = V (w_db w) @ [?l]"
    unfolding audit_laws_def by blast
  have rel: "tx_reliable P" using assms(1) by (simp add: audit_laws_def)
  have "on_db (tb_insert t ?l) w = (Ok ?l, w\<lparr>w_db := d\<rparr>)" using ins by simp
  then have "withTx P (on_db (tb_insert t ?l)) w = (Ok ?l, w\<lparr>w_db := d\<rparr>)"
    by (rule withTx_reliable(1) [OF rel])
  then have "AuditLoggerHandler NewAuditLogHandler P t marshal errText loc now ctx respErr w = (Ok (), w\<lparr>w_db := d\<rparr>)"
    using some user assms(2)
    by (auto simp: audited_def AuditLoggerHandler_def Let_def split: if_splits option.splits)
  with V show "\<exists>d. AuditLoggerHandler NewAuditLogHandler P t marshal errText loc now ctx respErr w = (Ok (), w\<lparr>w_db := d\<rparr>) \<and>
      V d = V (w_db w) @ [?l]"
    by blast
next
  assume "audited ctx \<noteq> None" and "c_vals ctx AuthUser = None"
  then show "AuditLoggerHandler NewAuditLogHandler P t marshal errText loc now ctx respErr w = (Panic, w)"
    using assms(2)
    by (auto simp: audited_def AuditLoggerHandler_def Let_def split: if_splits option.splits)
qed

definition ex_audit_ctx :: "string \<Rightarrow> unit audit_ctx" where
  "ex_audit_ctx method = ctx.extend (ex_ctx ''alice'' ''PUT'' ''zone'' ''z1'' ())
     \<lparr>rq_method = method, rq_kind = ''zone''\<rparr>"

theorem audit_record_witness:
  "\<exists>d. AuditLoggerHandler NewAuditLogHandler ex_audit_hooks ex_audit_table (\<lambda>_. Ok ''{}'') api_message (\<lambda>_. 0) 0 (ex_audit_ctx ''DELETE'') None
      \<lparr>w_db = [], w_active = Map.empty\<rparr> = (Ok (), \<lparr>w_db = d, w_active = Map.empty\<rparr>) \<and>
     map al_source_ip d = [''10.1.2.3'']"
proof -
  let ?c = "ex_audit_ctx ''DELETE''"
  have "audited ?c = Some (''DELETE'', ParamNil)" and "c_vals ?c AuthUser = Some (VString ''alice'')"
    by (simp_all add: audited_def ex_audit_ctx_def ctx.defs ex_ctx_def AuthUser_def AuditlogIgnore_def)
  moreover have "audit_source_ip (c_remote_addr ?c) = ''10.1.2.3''" by code_simp
  ultimately show ?thesis
    using audit_record [OF ex_audit_laws, of "\<lambda>_. Ok ''{}''" "\<lambda>_. ''{}''" ?c api_message "\<lambda>_. 0" 0 None
        "\<lparr>w_db = [], w_active = Map.empty\<rparr>"]
    by auto
qed

lemma digits_no: "\<not> is_digit c \<Longrightarrow> c \<notin> set (show_nat n)"
  using show_nat_digits [of n] by (auto simp: list_all_iff)

lemma show_v4_chars: "c \<in> set (show_v4 a) \<Longrightarrow> is_digit c \<or> c = CHR ''.''"
proof -
  assume c: "c \<in> set (show_v4 a)"
  have "\<forall>c \<in> set (str_join ''.'' ws). is_digit c \<or> c = CHR ''.''"
    if "\<forall>w \<in> set ws. list_all is_digit w" for ws
    using that by (induction ws rule: induct_list012) (auto simp: list_all_iff)
  from this [of "map (\<lambda>b. show_nat (unat b)) a"] c show ?thesis
    by (simp add: show_v4_def show_nat_digits)
qed

lemma getClientIP_v4:
  assumes "length a = 4"
  shows "getClientIP (show_v4 a @ '':'' @ show_nat port) = show_v4 a"
proof -
  let ?p = "show_nat port"
  let ?s = "show_v4 a @ CHR '':'' # ?p"
  have chars: "\<forall>c \<in> set ?s. is_digit c \<or> c = CHR ''.'' \<or> c = CHR '':''"
    using show_v4_chars [of _ a] show_nat_digits [of port] by (auto simp: list_all_iff)
  have "\<not> is_space c" if "is_digit c \<or> c = CHR ''.'' \<or> c = CHR '':''" for c
    using that by (auto simp: is_digit_def is_space_def Let_def)
  with chars have sp: "\<forall>c \<in> set ?s. \<not> is_space c" by blast
  have "\<not> is_digit CHR ''[''" "\<not> is_digit CHR '']''" "\<not> is_digit CHR '':''"
    by (simp_all add: is_digit_def)
  with chars have no: "CHR '':'' \<notin> set ?p" "CHR ''['' \<notin> set ?s" "CHR '']'' \<notin> set ?s"
    using digits_no by auto
  have tw: "takeWhile (\<lambda>x. x \<noteq> CHR '':'') (rev ?s) = rev ?p"
    using no(1) by (auto simp: takeWhile_append takeWhile_eq_all_conv)
  then have last: "last_index CHR '':'' ?s = Some (length (show_v4 a))"
    by (simp add: last_index_def Let_def)
  have "hd ?s \<noteq> CHR ''[''" using no(2) by (metis append_is_Nil_conv hd_in_set list.discI)
  then have "split_host_port ?s = Some (show_v4 a, ?p)"
    using last no show_v4_no_colon [of a] by (simp add: split_host_port_def Let_def)
  moreover have "trim_space ?s = ?s"
  proof (rule trim_space_id)
    show "\<not> is_space (hd ?s)" "\<not> is_space (last ?s)"
      using sp hd_in_set [of ?s] last_in_set [of ?s] by blast+
  qed simp
  ultimately show ?thesis by (simp add: getClientIP_def)
qed

text \<open>The source address that is recorded is the whole address of an IPv4 client, the same the
  white list checks. For an IPv6 client, whose remote address starts with a bracket, the record
  only holds what stands before the first colon, so that the address is lost.\<close>

theorem audit_source_address:
  assumes "length a = 4" and "CHR '':'' \<notin> set g"
  shows "audit_source_ip (show_v4 a @ '':'' @ show_nat port) = show_v4 a \<and>
    getClientIP (show_v4 a @ '':'' @ show_nat port) = show_v4 a \<and>
    audit_source_ip (''['' @ g @ '':'' @ rest) = ''['' @ g"
  using audit_source_first [OF show_v4_no_colon, of a "show_nat port"]
    audit_source_first [of "''['' @ g" rest] getClientIP_v4 [OF assms(1)] assms(2)
  by simp

theorem audit_source_address_witness:
  "audit_source_ip ''[2001:db8::1]:443'' = ''[2001''"
  using audit_source_address [of "[10, 0, 0, 1]" "''2001''" 443 "''db8::1]:443''"]
  by simp

end
