(* ===== verification/Sessions.thy ===== *)
theory Sessions
  imports AccessControl
begin

text \<open>
  The server as a state machine: every operation of the auth handlers is a step on the database
  and the table of sessions, and the reachable states keep an invariant of the sessions. The
  table of sessions is also described by the laws its clients rely on.
\<close>

section \<open>The table of sessions as an interface\<close>

text \<open>The laws of the concurrent map that holds the sessions, as its clients use them.\<close>

locale session_store =
  fixes store :: "string \<Rightarrow> ddiuser \<Rightarrow> 's \<Rightarrow> 's"
    and delete :: "string \<Rightarrow> 's \<Rightarrow> 's"
    and load :: "'s \<Rightarrow> string \<Rightarrow> ddiuser option"
  assumes load_store: "load (store k u s) = (load s)(k := Some u)"
    and load_delete: "load (delete k s) = (load s)(k := None)"
begin

definition all_sessions :: "(string \<Rightarrow> ddiuser \<Rightarrow> bool) \<Rightarrow> 's \<Rightarrow> bool" where
  "all_sessions Q s \<longleftrightarrow> (\<forall>k u. load s k = Some u \<longrightarrow> Q k u)"

lemma all_sessions_store: "all_sessions Q s \<Longrightarrow> Q k u \<Longrightarrow> all_sessions Q (store k u s)"
  by (simp add: all_sessions_def load_store)

lemma all_sessions_delete: "all_sessions Q s \<Longrightarrow> all_sessions Q (delete k s)"
  by (simp add: all_sessions_def load_delete)

lemma all_sessions_load: "load s' = load s \<Longrightarrow> all_sessions Q s' = all_sessions Q s"
  by (simp add: all_sessions_def)

lemma gone: "load (delete k s) k = None"
  by (simp add: load_delete)

lemma others_stay: "k' \<noteq> k \<Longrightarrow> load (delete k s) k' = load s k'"
  by (simp add: load_delete)

end

interpretation sess: session_store store_active delete_active w_active
  by unfold_locales (simp_all add: fun_eq_iff)

lemma sessions_ok_all: "sessions_ok = sess.all_sessions (\<lambda>_ u. authority_ok (u_authority u))"
  by (simp add: sessions_ok_def sess.all_sessions_def fun_eq_iff)

section \<open>Operations that leave the sessions alone\<close>

text \<open>An operation may also leave a part of the database alone, which \<open>W\<close> looks at.\<close>

definition leaves :: "('d \<Rightarrow> 'x) \<Rightarrow> ('d aworld, 'e, 'a) comp \<Rightarrow> bool" where
  "leaves W m \<longleftrightarrow>
     (\<forall>w. w_active (snd (m w)) = w_active w \<and> W (w_db (snd (m w))) = W (w_db w))"

abbreviation keeps_active :: "('d aworld, 'e, 'a) comp \<Rightarrow> bool" where
  "keeps_active \<equiv> leaves (\<lambda>_. ())"

text \<open>The ends of a transaction do not change that part, and neither do statements on the tables of
  users, roles and groups.\<close>

definition tx_untouched :: "('d \<Rightarrow> 'x) \<Rightarrow> ('d, 'z) tx_hooks_scheme \<Rightarrow> bool" where
  "tx_untouched W P \<longleftrightarrow> (\<forall>d. W (snd (tx_open P d)) = W d) \<and>
     (\<forall>d0 d. W d = W d0 \<longrightarrow> W (snd (tx_commit P d0 d)) = W d0) \<and>
     (\<forall>e d0 d. W d = W d0 \<longrightarrow> W (snd (tx_rollback P e d0 d)) = W d0)"

definition table_untouched :: "('d \<Rightarrow> 'x) \<Rightarrow> ('d, 'row) table \<Rightarrow> bool" where
  "table_untouched W t \<longleftrightarrow> (\<forall>r d. W (snd (tb_insert t r d)) = W d) \<and>
     (\<forall>c d. W (snd (tb_get t c d)) = W d) \<and> (\<forall>cols c d. W (snd (tb_update t cols c d)) = W d) \<and>
     (\<forall>c d. W (snd (tb_delete t c d)) = W d) \<and>
     (\<forall>sql args d. W (snd (tb_fill_ex t sql args d)) = W d) \<and>
     (\<forall>sql args d. W (snd (tb_count_ex t sql args d)) = W d)"

definition untouched :: "('d \<Rightarrow> 'x) \<Rightarrow> 'd auth_db \<Rightarrow> bool" where
  "untouched W P \<longleftrightarrow> tx_untouched W P \<and> table_untouched W (users P) \<and>
     table_untouched W (roles P) \<and> table_untouched W (groups P)"

named_theorems keeps \<open>introduction rules for leaving sessions and a part of the database alone\<close>

lemma tx_untouched_unit [simp, keeps]: "tx_untouched (\<lambda>_. ()) P"
  by (simp add: tx_untouched_def)

lemma untouched_unit [simp, keeps]: "untouched (\<lambda>_. ()) P"
  by (simp add: untouched_def tx_untouched_def table_untouched_def)

lemma untouched_tx [keeps]: "untouched W P \<Longrightarrow> tx_untouched W P"
  by (simp add: untouched_def)

lemma leavesD:
  assumes "leaves W m" and "m w = (r, w')"
  shows "w_active w' = w_active w" and "W (w_db w') = W (w_db w)"
  using assms unfolding leaves_def by (metis snd_conv)+

lemma keeps_activeD: "keeps_active m \<Longrightarrow> m w = (r, w') \<Longrightarrow> w_active w' = w_active w"
  by (rule leavesD(1))

lemma keeps_simple [keeps]:
  "leaves W (c_return a)" "leaves W (c_fail e)" "leaves W c_panic"
  "leaves W (c_lift r)" "leaves W (c_gets f)"
  by (simp_all add: leaves_def)

lemma keeps_on_db [keeps]: "keeps_active (on_db d)"
  by (simp add: leaves_def on_db_def split: prod.splits)

lemma leaves_table [keeps]:
  assumes "table_untouched W t"
  shows "leaves W (on_db (tb_insert t r))" and "leaves W (on_db (tb_get t c))"
    and "leaves W (on_db (tb_update t cols c))" and "leaves W (on_db (tb_delete t c))"
    and "leaves W (on_db (tb_fill_ex t sql args))" and "leaves W (on_db (tb_count_ex t sql args))"
  using assms unfolding leaves_def table_untouched_def on_db_def
  by (auto split: prod.splits) (metis snd_conv)+

lemma untouched_tables [keeps]:
  "untouched W P \<Longrightarrow> table_untouched W (users P)"
  "untouched W P \<Longrightarrow> table_untouched W (roles P)"
  "untouched W P \<Longrightarrow> table_untouched W (groups P)"
  by (simp_all add: untouched_def)

lemma keeps_bind [keeps]:
  assumes "leaves W m" and "\<And>a. leaves W (f a)"
  shows "leaves W (c_bind m f)"
  unfolding leaves_def
proof
  fix w
  obtain r w1 where m: "m w = (r, w1)" by fastforce
  note one = leavesD [OF assms(1) m]
  show "w_active (snd (c_bind m f w)) = w_active w \<and> W (w_db (snd (c_bind m f w))) = W (w_db w)"
    using m one assms(2) by (cases r) (simp_all add: leaves_def)
qed

lemma keeps_map_err [keeps]: "leaves W m \<Longrightarrow> leaves W (c_map_err g m)"
  by (simp add: leaves_def c_map_err_def split: prod.splits) (metis snd_conv)

lemma keeps_server_error [keeps]: "leaves W m \<Longrightarrow> leaves W (server_error g m)"
  by (simp add: leaves_def)

lemma keeps_withTx [keeps]:
  fixes m :: "('d, 'a) atx"
  assumes "tx_untouched W P" and "leaves W m"
  shows "leaves W (withTx P m)"
  unfolding leaves_def
proof
  fix w :: "'d aworld"
  obtain eo d where op: "tx_open P (w_db w) = (eo, d)" by fastforce
  then have d: "W d = W (w_db w)" using assms(1) unfolding tx_untouched_def by (metis snd_conv)
  obtain r w1 where m: "m (w\<lparr>w_db := d\<rparr>) = (r, w1)" by fastforce
  with leavesD [OF assms(2) this] d have a: "w_active w1 = w_active w" "W (w_db w1) = W (w_db w)" by simp_all
  have ends: "tx_commit P (w_db w) (w_db w1) = (x, d') \<Longrightarrow> W d' = W (w_db w)"
    "tx_rollback P e (w_db w) (w_db w1) = (y, d') \<Longrightarrow> W d' = W (w_db w)" for e x y d'
    using assms(1) a(2) unfolding tx_untouched_def by (metis snd_conv)+
  show "w_active (snd (withTx P m w)) = w_active w \<and> W (w_db (snd (withTx P m w))) = W (w_db w)"
    using op m a d by (cases eo; cases r) (auto simp: withTx_def split: prod.splits option.splits dest: ends)
qed

lemma keeps_forM [keeps]: "(\<And>x. leaves W (f x)) \<Longrightarrow> leaves W (c_forM xs f)"
  by (induction xs) (simp_all add: keeps)

lemma keeps_if [keeps]: "leaves W a \<Longrightarrow> leaves W b \<Longrightarrow> leaves W (if c then a else b)"
  by simp

lemma keeps_reload [keeps]: "untouched W (env_db env) \<Longrightarrow> leaves W (reloadUserAuthority env u)"
  unfolding reloadUserAuthority_def Let_def by (intro keeps)

lemma keeps_update [keeps]: "untouched W (env_db env) \<Longrightarrow> leaves W (updateUserToDB env i cols)"
  unfolding updateUserToDB_def by (intro keeps)

lemma keeps_refresh [keeps]: "untouched W (env_db env) \<Longrightarrow> leaves W (refresh_user env u)"
  unfolding refresh_user_def by (intro keeps)

lemma keeps_group_authority [keeps]:
  "untouched W (env_db env) \<Longrightarrow> leaves W (updateUserGroupAuthority env g us del)"
  unfolding updateUserGroupAuthority_def by (intro keeps)

lemma keeps_role_authority [keeps]: "untouched W (env_db env) \<Longrightarrow> leaves W (updateRoleAuthority env r)"
  unfolding updateRoleAuthority_def by (intro keeps)

lemma keeps_roles:
  assumes "untouched W (env_db env)"
  shows "leaves W (role_Create env rctx)" "leaves W (role_Update env rctx)" "leaves W (role_Delete env rctx)"
  using assms unfolding role_Create_def role_Update_def role_Delete_def Let_def
  by (intro keeps; assumption)+

lemma keeps_groups:
  assumes "untouched W (env_db env)"
  shows "leaves W (group_Create env gctx)" "leaves W (group_Update env gctx)"
  using assms unfolding group_Create_def group_Update_def Let_def by (intro keeps; assumption)+

lemma keeps_group_Delete:
  assumes "untouched W (env_db env)"
  shows "leaves W (group_Delete env gctx)"
proof -
  have "leaves W (case res of [] \<Rightarrow> c_panic | userGroup # _ \<Rightarrow>
      c_bind (on_db (tb_delete (groups (env_db env)) (by_id (g_id (c_resource gctx)))))
        (\<lambda>_. updateUserGroupAuthority env (g_id userGroup) (g_user_ids userGroup) True))" for res
    using assms by (cases res) (simp_all add: keeps)
  with assms show ?thesis unfolding group_Delete_def Let_def by (intro keeps; assumption?)
qed

lemma keeps_whitelist: "keeps_active (whitelist_Update env wctx)"
  unfolding whitelist_Update_def Let_def by (intro keeps)

lemma keeps_checkWhiteList [keeps]: "keeps_active (checkWhiteList env ip)"
  unfolding checkWhiteList_def Let_def by (intro keeps)

lemma keeps_CheckPassword [keeps]: "keeps_active (CheckPassword env n p)"
  unfolding CheckPassword_def by (intro keeps)

lemma keeps_GetUserInfo [keeps]: "keeps_active (GetUserInfo env n)"
proof -
  have "keeps_active (case out of [] \<Rightarrow> c_panic | u # _ \<Rightarrow> reloadUserAuthority env u)" for out
    by (cases out) (simp_all add: keeps)
  then show ?thesis unfolding GetUserInfo_def by (intro keeps)
qed

lemma keeps_write_password [keeps]: "keeps_active (write_password env input)"
  unfolding write_password_def
  by (cases "Encrypt aesKey (lr_password input)") (simp_all add: keeps)

section \<open>The server as a state machine\<close>

text \<open>
  The authority of a user resource has neither a JSON nor a database field (both are tagged
  "-"), so that a resource decoded from a request body, and a row read back, carry none.
\<close>

definition bare :: "ddiuser \<Rightarrow> bool" where
  "bare u \<longleftrightarrow> u_authority u = []"

definition rows_bare :: "'d auth_db \<Rightarrow> bool" where
  "rows_bare P \<longleftrightarrow>
     (\<forall>c d us d'. tb_get (users P) c d = (Ok us, d') \<longrightarrow> (\<forall>u \<in> set us. bare u)) \<and>
     (\<forall>u d u' d'. tb_insert (users P) u d = (Ok u', d') \<longrightarrow> u_authority u' = u_authority u)"

inductive server_step :: "'d auth_env \<Rightarrow> jwt \<Rightarrow> 'd aworld \<Rightarrow> 'd aworld \<Rightarrow> bool" for env j where
  step_login: "server_step env j w (snd (checkLogin env j ip body w))"
| step_user_create: "bare (c_resource ctx) \<Longrightarrow> server_step env j w (snd (user_Create env ctx w))"
| step_user_update: "bare (c_resource ctx) \<Longrightarrow> server_step env j w (snd (user_Update env ctx w))"
| step_user_delete: "server_step env j w (snd (user_Delete env uctx w))"
| step_user_action: "server_step env j w (snd (snd (user_Action env uctx) w))"
| step_role_create: "server_step env j w (snd (role_Create env rctx w))"
| step_role_update: "server_step env j w (snd (role_Update env rctx w))"
| step_role_delete: "server_step env j w (snd (role_Delete env rctx w))"
| step_group_create: "server_step env j w (snd (group_Create env gctx w))"
| step_group_update: "server_step env j w (snd (group_Update env gctx w))"
| step_group_delete: "server_step env j w (snd (group_Delete env gctx w))"
| step_whitelist_update: "server_step env j w (snd (whitelist_Update env wctx w))"

text \<open>The server starts with no sessions, and serves only if the user handler came up. The other parts of
  the program use the same database, and leave the sessions alone.\<close>

inductive reachable :: "'d auth_env \<Rightarrow> jwt \<Rightarrow> 'd aworld \<Rightarrow> bool" for env j where
  reach_start: "w_active w = Map.empty \<Longrightarrow> NewUserHandler env w = (Ok (), w') \<Longrightarrow> reachable env j w'"
| reach_step: "reachable env j w \<Longrightarrow> server_step env j w w' \<Longrightarrow> reachable env j w'"
| reach_other: "reachable env j w \<Longrightarrow> w_active w' = w_active w \<Longrightarrow> reachable env j w'"

definition dhcp_read_only :: "role_template \<Rightarrow> authority_map \<Rightarrow> bool" where
  "dhcp_read_only tmpl m \<longleftrightarrow>
     (\<forall>a \<in> set (rc_dhcp (rt_normal tmpl)). \<forall>b. map_of m (ra_resource a) = Some b \<longrightarrow>
        (\<exists>c \<in> set (rc_dhcp (rt_normal tmpl)). ra_resource c = ra_resource a \<and> b = dhcp_authority [] c))"

definition good_session :: "role_template \<Rightarrow> ddiuser \<Rightarrow> bool" where
  "good_session tmpl u \<longleftrightarrow> typed_map tmpl (u_authority u) \<and> dhcp_read_only tmpl (u_authority u)"

abbreviation good_sessions :: "'d auth_env \<Rightarrow> 'd aworld \<Rightarrow> bool" where
  "good_sessions env \<equiv> sess.all_sessions (\<lambda>_. good_session (env_template env))"

lemma bare_good: "bare u \<Longrightarrow> good_session tmpl u"
  by (simp add: bare_def good_session_def dhcp_read_only_def)

lemma good_session_password [simp]: "good_session tmpl (u\<lparr>u_password := p\<rparr>) = good_session tmpl u"
  by (simp add: good_session_def)

lemma reloaded_good: "good_session (env_template env) (reloaded env gs ro u)"
proof -
  have "dhcp_read_only (env_template env) (u_authority (reloaded env gs ro u))"
    unfolding dhcp_read_only_def
  proof (intro ballI allI impI)
    fix a b
    assume "a \<in> set (rc_dhcp (rt_normal (env_template env)))"
      and "map_of (u_authority (reloaded env gs ro u)) (ra_resource a) = Some b"
    then obtain c where "c \<in> set (rc_dhcp (rt_normal (env_template env)))"
      and "ra_resource c = ra_resource a" and "b = dhcp_authority [] c"
      by (rule reloaded_dhcp)
    then show "\<exists>c \<in> set (rc_dhcp (rt_normal (env_template env))).
        ra_resource c = ra_resource a \<and> b = dhcp_authority [] c"
      by blast
  qed
  then show ?thesis by (simp add: good_session_def reloaded_typed)
qed

lemma reload_good:
  assumes "reloadUserAuthority env u w = (Ok u', w')" and "bare u"
  shows "good_session (env_template env) u'"
proof (cases "u_role_type u = RoleTypeSUPER")
  case True
  with assms show ?thesis by (simp add: bare_good)
next
  case False
  then show ?thesis using assms(1) by (elim reload_OkE) (simp_all add: reloaded_good)
qed

lemma good_sessions_active: "w_active w' = w_active w \<Longrightarrow> good_sessions env w' = good_sessions env w"
  by (rule sess.all_sessions_load)

lemma keeps_good: "keeps_active m \<Longrightarrow> good_sessions env w \<Longrightarrow> good_sessions env (snd (m w))"
  by (simp add: leaves_def sess.all_sessions_def)

definition is_Ok :: "('e, 'a) res \<Rightarrow> bool" where
  "is_Ok r = (case r of Ok _ \<Rightarrow> True | _ \<Rightarrow> False)"

section \<open>Every step keeps the sessions good\<close>

text \<open>A computation whose result is stored, after one that leaves the sessions alone.\<close>

lemma good_bind:
  assumes "keeps_active m" and "good_sessions env w"
    and "\<And>a w1. m w = (Ok a, w1) \<Longrightarrow> good_sessions env w1 \<Longrightarrow> good_sessions env (snd (f a w1))"
  shows "good_sessions env (snd (c_bind m f w))"
proof -
  obtain r w1 where m: "m w = (r, w1)" by fastforce
  have "good_sessions env w1" using keeps_good [OF assms(1,2)] m by simp
  with m assms(3) show ?thesis by (cases r) simp_all
qed

lemma good_store:
  "good_sessions env w \<Longrightarrow> good_session (env_template env) u \<Longrightarrow>
   good_sessions env (snd (c_bind (c_modify (store_active k u)) (\<lambda>_. c_return a) w))"
  by (simp add: c_bind_def sess.all_sessions_store)

lemma withTx_Ok_closure:
  assumes "withTx P m w = (Ok a, w')"
  obtains d w1 where "m (w\<lparr>w_db := d\<rparr>) = (Ok a, w1)"
  using assms by (auto simp: withTx_def split: prod.splits option.splits res.splits)

lemma rows_bare_get:
  assumes "rows_bare P" and "on_db (tb_get (users P) c) w = (Ok us, w')" and "u \<in> set us"
  shows "bare u"
  using assms unfolding rows_bare_def by (auto simp: on_db_def split: prod.splits)

lemma rows_bare_insert:
  assumes "rows_bare P" and "on_db (tb_insert (users P) u) w = (Ok u', w')" and "bare u"
  shows "bare u'"
proof -
  obtain d where "tb_insert (users P) u (w_db w) = (Ok u', d)"
    using assms(2) by (auto simp: on_db_def split: prod.splits)
  with assms(1) have "u_authority u' = u_authority u" unfolding rows_bare_def by blast
  with assms(3) show ?thesis by (simp add: bare_def)
qed

lemma good_login:
  assumes "rows_bare (env_db env)" and "good_sessions env w"
  shows "good_sessions env (snd (checkLogin env j ip body w))"
proof -
  have info: "good_session (env_template env) u"
    if call: "GetUserInfo env n w1 = (Ok u, w2)" for n u w1 w2
  proof -
    from call obtain d w3 where "(c_bind (on_db (tb_get (users (env_db env)) (by_id n))) (\<lambda>out.
          case out of [] \<Rightarrow> c_panic | u # _ \<Rightarrow> reloadUserAuthority env u)) (w1\<lparr>w_db := d\<rparr>) = (Ok u, w3)"
      unfolding GetUserInfo_def by (rule withTx_Ok_closure)
    then obtain out w4 where get: "on_db (tb_get (users (env_db env)) (by_id n)) (w1\<lparr>w_db := d\<rparr>) = (Ok out, w4)"
      and load: "(case out of [] \<Rightarrow> c_panic | u # _ \<Rightarrow> reloadUserAuthority env u) w4 = (Ok u, w3)"
      by (rule c_bind_OkE)
    from get assms(1) have "\<forall>u \<in> set out. bare u" by (metis rows_bare_get)
    with load show ?thesis by (cases out) (auto intro: reload_good)
  qed
  show ?thesis
    unfolding checkLogin_def
  proof (rule good_bind [OF _ assms(2)])
    show "keeps_active (c_map_err (APIError Unauthorized) (checkWhiteList env ip))"
      by (intro keeps)
  qed (cases body; auto intro!: good_bind keeps good_store dest!: info)
qed

lemma good_user_Create:
  assumes "rows_bare (env_db env)" and "bare (c_resource ctx)" and "good_sessions env w"
  shows "good_sessions env (snd (user_Create env ctx w))"
proof -
  let ?P = "env_db env"
  have created: "good_session (env_template env) u"
    if "bare u1" and call: "withTx ?P (c_bind (on_db (tb_insert (users ?P) u1)) (reloadUserAuthority env)) w1 = (Ok u, w2)"
    for u1 u w1 w2
  proof -
    from call obtain d w3 where "(c_bind (on_db (tb_insert (users ?P) u1)) (reloadUserAuthority env))
        (w1\<lparr>w_db := d\<rparr>) = (Ok u, w3)"
      by (rule withTx_Ok_closure)
    then obtain row w4 where ins: "on_db (tb_insert (users ?P) u1) (w1\<lparr>w_db := d\<rparr>) = (Ok row, w4)"
      and load: "reloadUserAuthority env row w4 = (Ok u, w3)"
      by (rule c_bind_OkE)
    from assms(1) ins that(1) have "bare row" by (rule rows_bare_insert)
    with load show ?thesis by (rule reload_good)
  qed
  have b: "bare ((c_resource ctx)\<lparr>u_password := p, u_id := i, u_role_type := t\<rparr>)" for p i t
    using assms(2) by (simp add: bare_def)
  show ?thesis unfolding user_Create_def Let_def
    using assms(3) by (auto split: res.split intro!: good_bind keeps good_store dest!: created [OF b])
qed

lemma good_user_Update:
  assumes "bare (c_resource ctx)" and "good_sessions env w"
  shows "good_sessions env (snd (user_Update env ctx w))"
proof -
  let ?P = "env_db env"
  have updated: "good_session (env_template env) u"
    if call: "withTx ?P (c_bind (updateUserToDB env i cols) (\<lambda>_. reloadUserAuthority env (c_resource ctx))) w1 = (Ok u, w2)"
    for i cols u w1 w2
  proof -
    from call obtain d w3 where "(c_bind (updateUserToDB env i cols) (\<lambda>_. reloadUserAuthority env (c_resource ctx)))
        (w1\<lparr>w_db := d\<rparr>) = (Ok u, w3)"
      by (rule withTx_Ok_closure)
    then obtain w4 where "reloadUserAuthority env (c_resource ctx) w4 = (Ok u, w3)"
      by (auto elim: c_bind_OkE)
    with assms(1) show ?thesis by (auto intro: reload_good)
  qed
  show ?thesis unfolding user_Update_def Let_def
    using assms(2) by (auto split: option.split intro!: good_bind keeps good_store dest!: updated)
qed

lemma good_user_Delete:
  assumes "good_sessions env w"
  shows "good_sessions env (snd (user_Delete env ctx w))"
  unfolding user_Delete_def Let_def
  using assms by (auto intro!: good_bind keeps simp: sess.all_sessions_delete)

lemma good_user_Action:
  assumes "good_sessions env w"
  shows "good_sessions env (snd (snd (user_Action env ctx) w))"
proof -
  have out: "good_sessions env (snd (Logout ctx' w))" for ctx'
    using assms unfolding Logout_def
    by (auto simp: c_bind_def sess.all_sessions_delete split: option.split ctx_val.split)
  have cur: "keeps_active (CurrentUser env ctx')" for ctx'
    unfolding CurrentUser_def by (auto split: option.split intro!: keeps)
  have chg: "keeps_active (changePassword env ctx')" "keeps_active (resetPassword env ctx')" for ctx'
    unfolding changePassword_def resetPassword_def Let_def by (auto split: option.split intro!: keeps)
  show ?thesis
    using out keeps_good [OF cur assms] keeps_good [OF chg(1) assms] keeps_good [OF chg(2) assms] assms
    by (simp add: user_Action_def Let_def split: option.split)
qed

lemma server_step_good:
  assumes "server_step env j w w'" and "rows_bare (env_db env)" and "good_sessions env w"
  shows "good_sessions env w'"
  using assms
  by cases (simp_all add: good_login good_user_Create good_user_Update good_user_Delete
      good_user_Action keeps_good keeps_roles keeps_groups keeps_group_Delete keeps_whitelist)

section \<open>Reachable states\<close>

lemma good_load_users:
  assumes "good_sessions env w" and "\<forall>u \<in> set us. bare u"
  shows "good_sessions env (snd (load_users env us b w))"
  using assms
proof (induction us arbitrary: b w)
  case (Cons u us)
  have bu: "bare u" and rest: "\<forall>u \<in> set us. bare u" using Cons.prems(2) by simp_all
  show ?case
    unfolding load_users.simps
  proof (rule good_bind [OF keeps_reload [OF untouched_unit] Cons.prems(1)])
    fix u' w1
    assume ld: "reloadUserAuthority env u w = (Ok u', w1)" and g: "good_sessions env w1"
    have "good_sessions env (store_active (u_name u') u' w1)"
      using g reload_good [OF ld bu] by (rule sess.all_sessions_store)
    then show "good_sessions env (snd (c_bind (c_modify (store_active (u_name u') u'))
        (\<lambda>_. load_users env us (if u_name u' = Admin then True else b)) w1))"
      using Cons.IH [OF _ rest] by (simp add: c_bind_def)
  qed
qed simp

lemma good_NewUserHandler:
  assumes "rows_bare (env_db env)" and "good_sessions env w" and "NewUserHandler env w = (Ok (), w')"
  shows "good_sessions env w'"
proof -
  let ?P = "env_db env"
  let ?tail = "\<lambda>haveAdmin. if haveAdmin then c_return ()
    else c_bind (c_lift (Encrypt aesKey Admin)) (\<lambda>encryptText.
      c_bind (on_db (tb_insert (users ?P) (new_user Admin encryptText RoleTypeSUPER))) (\<lambda>user.
        c_modify (store_active (u_name user) user)))"
  let ?body = "c_bind (on_db (tb_get (users ?P) [])) (\<lambda>us. c_bind (load_users env us False) ?tail)"
  have tail: "good_sessions env (snd (?tail b w1))" if "good_sessions env w1" for b w1
  proof -
    have "bare (new_user Admin e RoleTypeSUPER)" for e by (simp add: bare_def new_user_def)
    then show ?thesis
      using that by (auto intro!: good_bind keeps sess.all_sessions_store bare_good
          dest: rows_bare_insert [OF assms(1)])
  qed
  have body: "good_sessions env (snd (?body w1))" if g: "good_sessions env w1" for w1
  proof (rule good_bind [OF _ g])
    show "keeps_active (on_db (tb_get (users ?P) []))" by (intro keeps)
  next
    fix us w2
    assume "on_db (tb_get (users ?P) []) w1 = (Ok us, w2)" and g2: "good_sessions env w2"
    then have "\<forall>u \<in> set us. bare u" using rows_bare_get [OF assms(1)] by blast
    then have g3: "good_sessions env (snd (load_users env us False w2))"
      using g2 by (intro good_load_users)
    obtain r w3 where "load_users env us False w2 = (r, w3)" by fastforce
    with g3 tail show "good_sessions env (snd (c_bind (load_users env us False) ?tail w2))"
      by (cases r) simp_all
  qed
  from assms(3) have "withTx ?P ?body w = (Ok (), w')"
    by (auto simp: NewUserHandler_def c_map_err_def split: prod.splits)
  then obtain d d0 w1 where "?body (w\<lparr>w_db := d0\<rparr>) = (Ok (), w1)" and "w' = w1\<lparr>w_db := d\<rparr>"
    by (auto simp: withTx_def split: prod.splits option.splits res.splits)
  moreover have "good_sessions env (w\<lparr>w_db := d0\<rparr>)"
    using assms(2) by (simp add: sess.all_sessions_def)
  ultimately show ?thesis using body [of "w\<lparr>w_db := d0\<rparr>"] by (simp add: sess.all_sessions_def)
qed

lemma reachable_good:
  assumes "reachable env j w" and "rows_bare (env_db env)"
  shows "good_sessions env w"
  using assms
proof induction
  case (reach_start w w')
  then have "good_sessions env w" by (simp add: sess.all_sessions_def)
  with reach_start show ?case by (blast intro: good_NewUserHandler)
next
  case (reach_step w w')
  then show ?case by (blast intro: server_step_good)
next
  case (reach_other w w')
  then show ?case by (simp add: sess.all_sessions_def)
qed

lemma good_sessions_ok: "good_sessions env w \<Longrightarrow> sessions_ok w"
  by (simp add: sessions_ok_all sess.all_sessions_def good_session_def typed_map_def)

lemma authentification_OkE:
  assumes "authentification env j ctx w = (Ok ctx', w')"
  obtains name user where "jwt_parse j (c_auth_header ctx) = Parsed True (Some name)"
    and "w_active w name = Some user"
    and "name \<noteq> Admin \<Longrightarrow>
      checkAuthority (env_order env) (ctx_set AuthUser (VString name) ctx) user = (None, ctx')"
proof -
  from assms obtain w1 where wl: "c_map_err (\<lambda>e. APIError Unauthorized (''forbidden:'' @ e))
      (checkWhiteList env (getClientIP (c_remote_addr ctx))) w = (Ok (), w1)"
    unfolding authentification_eq by (elim c_bind_OkE) simp
  have "keeps_active (c_map_err (\<lambda>e. APIError Unauthorized (''forbidden:'' @ e))
      (checkWhiteList env (getClientIP (c_remote_addr ctx))))"
    by (intro keeps)
  then have "w_active w1 = w_active w" using wl by (rule keeps_activeD)
  with assms wl that show thesis
    by (auto simp: authentification_eq Let_def split: if_splits parsed_token.splits option.splits
        prod.splits)
qed

section \<open>Properties\<close>

text \<open>C3. Whatever requests the server has served since it started, a user other than the
  administrator who is let through to a filtered DHCP resource can only read it: the method is
  GET, and the handlers see an empty list of plans, so that the prefix filter refuses every
  prefix. The plans a role names are collected and dropped when a session's authority is
  built, so no role ever gives access to a prefix.\<close>

theorem dhcp_is_read_only:
  assumes "reachable env j w" and "rows_bare (env_db env)" and "order_ok (env_order env)"
    and "template_ok (env_template env)"
    and "a \<in> set (rc_dhcp (rt_normal (env_template env)))" and "ra_filter a"
    and "c_type ctx = ra_resource a" and "jwt_parse j (c_auth_header ctx) = Parsed True (Some name)"
    and "name \<noteq> Admin" and "authentification env j ctx w = (Ok ctx', w')"
  shows "c_method ctx = OperationsTypeGET \<and> PrefixFilter ctx' prefixes = Ok False"
proof -
  from assms(10,8,9) obtain user where act: "w_active w name = Some user"
    and chk: "checkAuthority (env_order env) (ctx_set AuthUser (VString name) ctx) user = (None, ctx')"
    by (elim authentification_OkE) simp
  from reachable_good [OF assms(1,2)] act have good: "good_session (env_template env) user"
    by (simp add: sess.all_sessions_def)
  then have ok: "authority_ok (u_authority user)" by (simp add: good_session_def typed_map_def)
  from chk obtain b where b: "map_of (u_authority user) (ra_resource a) = Some b"
    and adm: "entry_admits (ctx_set AuthUser (VString name) ctx) b"
    and ctx': "ctx' = granted_ctx (ctx_set AuthUser (VString name) ctx) b"
    by (auto simp: checkAuthority_lookup [OF assms(3) ok] assms(7) split: option.splits if_splits)
  from good b assms(5) obtain c where "c \<in> set (rc_dhcp (rt_normal (env_template env)))"
    and "ra_resource c = ra_resource a" and bc: "b = dhcp_authority [] c"
    by (auto simp: good_session_def dhcp_read_only_def)
  with assms(4,5) have "c = a"
    using find_key_distinct [of ra_resource "rc_dhcp (rt_normal (env_template env))"]
    by (auto simp: template_ok_def distinct_map inj_on_def)
  with bc assms(6) have "ra_plans b = []" "ra_operations b = [OperationsTypeGET]"
    by (simp_all add: dhcp_authority_def Let_def)
  with adm ctx' assms(9) show ?thesis
    by (simp add: entry_admits_def granted_ctx_def PrefixFilter_def AuthUser_def PrefixKey_def
        ViewKey_def)
qed

text \<open>A server whose database hands out bare rows, right after it has come up.\<close>

definition ex_bare_env :: "auth_data auth_env" where
  "ex_bare_env = ex_env\<lparr>env_db := mem_db\<lparr>users := mem_users\<lparr>tb_get := (\<lambda>c d.
     case tb_get mem_users c d of
       (Ok us, d') \<Rightarrow> (Ok (map persist us), d') | r \<Rightarrow> r)\<rparr>\<rparr>\<rparr>"

definition ex_boot :: "auth_data aworld" where
  "ex_boot = \<lparr>w_db = ex_data\<lparr>ad_users := [new_user Admin [] RoleTypeSUPER, ex_alice]\<rparr>,
     w_active = Map.empty\<rparr>"

definition ex_up :: "auth_data aworld" where
  "ex_up = snd (NewUserHandler ex_bare_env ex_boot)"

lemma ex_bare_rows: "rows_bare (env_db ex_bare_env)"
proof -
  have "bare (persist u)" for u by (simp add: bare_def persist_def)
  then show ?thesis
    unfolding rows_bare_def ex_bare_env_def
    by (auto simp: mem_users_def split: prod.splits res.splits if_splits)
qed

lemma ex_up_reachable: "reachable ex_bare_env j ex_up"
proof (rule reach_start)
  show "w_active ex_boot = Map.empty" by (simp add: ex_boot_def)
  have "is_Ok (fst (NewUserHandler ex_bare_env ex_boot))" by code_simp
  then show "NewUserHandler ex_bare_env ex_boot = (Ok (), ex_up)"
    by (cases "NewUserHandler ex_bare_env ex_boot")
      (auto simp: ex_up_def is_Ok_def split: res.splits)
qed

theorem dhcp_is_read_only_witness:
  "\<exists>ctx' w'. authentification ex_bare_env ex_jwt (ex_ctx ''alice'' ''GET'' ''subnet'' ''s'' ()) ex_up = (Ok ctx', w') \<and>
     PrefixFilter ctx' [''10.0.0.0/8''] = Ok False"
proof -
  let ?ctx = "ex_ctx ''alice'' ''GET'' ''subnet'' ''s'' ()"
  have "is_Ok (fst (authentification ex_bare_env ex_jwt ?ctx ex_up))" by code_simp
  then obtain ctx' w' where auth: "authentification ex_bare_env ex_jwt ?ctx ex_up = (Ok ctx', w')"
    by (cases "authentification ex_bare_env ex_jwt ?ctx ex_up") (auto simp: is_Ok_def split: res.splits)
  have "order_ok (env_order ex_bare_env)" "template_ok (env_template ex_bare_env)"
    by (simp_all add: ex_bare_env_def template_ok_def ex_template_def)
  then have "PrefixFilter ctx' [''10.0.0.0/8''] = Ok False"
    using dhcp_is_read_only [OF ex_up_reachable ex_bare_rows _ _ _ _ _ _ _ auth,
        of "rc_dhcp (rt_normal ex_template) ! 0" "''alice''" "[''10.0.0.0/8'']"]
    by (simp add: ex_bare_env_def ex_template_def ex_ctx_def ex_jwt_def Admin_def)
  with auth show ?thesis by blast
qed

text \<open>Changing or deleting a role, or creating, changing or deleting a group, leaves every
  running session as it is, whatever the database does: the authority of a session is only rebuilt at
  the next login.\<close>

theorem role_changes_miss_sessions:
  "w_active (snd (role_Update env rctx w)) = w_active w \<and>
   w_active (snd (role_Delete env rctx w)) = w_active w \<and>
   w_active (snd (group_Create env gctx w)) = w_active w \<and>
   w_active (snd (group_Update env gctx w)) = w_active w \<and>
   w_active (snd (group_Delete env gctx w)) = w_active w"
  by (simp add: keeps_roles [OF untouched_unit, unfolded leaves_def]
      keeps_groups [OF untouched_unit, unfolded leaves_def]
      keeps_group_Delete [OF untouched_unit, unfolded leaves_def])

end
