(* ===== verification/Accounts.thy ===== *)
theory Accounts
  imports Sessions
begin

text \<open>
  What the account operations do to the database and the sessions, under the laws of
  \<open>AuthDb\<close>: logging in, creating users and checking their passwords, and the refresh of the
  users that a change of a group or a role concerns.
\<close>

section \<open>Reading users\<close>

definition users_by_id :: "auth_data \<Rightarrow> string \<Rightarrow> ddiuser list" where
  "users_by_id D i = filter (\<lambda>u. u_id u = i) (ad_users D)"

lemma get_user:
  "auth_db_ok V P \<Longrightarrow> on_db (tb_get (users P) (by_id i)) w = (Ok (users_by_id (V (w_db w)) i), w)"
  by (drule auth_db_okD(2)) (simp add: user_laws_def on_db_def users_by_id_def)

lemma CheckPassword_outcome:
  assumes "auth_db_ok V (env_db env)"
  shows "\<exists>r. CheckPassword env n p w = (r, w) \<and>
    (r = Ok () \<longleftrightarrow> (\<exists>u. users_by_id (V (w_db w)) n = [u] \<and> Decrypt aesKey (u_password u) = Ok p))"
proof -
  let ?us = "users_by_id (V (w_db w)) n"
  let ?body = "c_bind (on_db (tb_get (users (env_db env)) (by_id n))) (\<lambda>ddiUsers.
          if length ddiUsers \<noteq> 1 then c_fail ''user or password is incorrect''
          else c_bind (c_lift (Decrypt aesKey (u_password (ddiUsers ! 0)))) (\<lambda>passwordDecrypt.
            if passwordDecrypt \<noteq> p then c_fail ''user or password is incorrect''
            else c_return ()))"
  obtain r where r: "?body w = (r, w)"
    and iff: "r = Ok () \<longleftrightarrow> (\<exists>u. ?us = [u] \<and> Decrypt aesKey (u_password u) = Ok p)"
  proof (cases "length ?us = 1")
    case False
    with get_user [OF assms, of n w] have "?body w = (Err ''user or password is incorrect'', w)" by simp
    with False that show thesis by fastforce
  next
    case True
    then obtain u where u: "?us = [u]" by (auto simp: length_Suc_conv)
    with get_user [OF assms, of n w] have "?body w =
        c_bind (c_lift (Decrypt aesKey (u_password u))) (\<lambda>passwordDecrypt.
            if passwordDecrypt \<noteq> p then c_fail ''user or password is incorrect''
            else c_return ()) w"
      by simp
    then have "\<exists>r. ?body w = (r, w) \<and> (r = Ok () \<longleftrightarrow> Decrypt aesKey (u_password u) = Ok p)"
      by (cases "Decrypt aesKey (u_password u)") simp_all
    with u that show thesis by auto
  qed
  from assms have rel: "tx_reliable (env_db env)" by blast
  have "CheckPassword env n p w = (r, w)"
    unfolding CheckPassword_def using withTx_reliable [OF rel, of ?body w] r by (cases r) simp_all
  with iff show ?thesis by blast
qed

section \<open>The session of a user\<close>

definition session_of :: "'d auth_env \<Rightarrow> auth_data \<Rightarrow> ddiuser \<Rightarrow> ddiuser" where
  "session_of env D u =
     (if u_role_type u = RoleTypeSUPER then u else reloaded env (groups_of D u) (roles_of D) u)"

lemma reload_session:
  assumes "auth_db_ok V (env_db env)" and "order_ok (env_order env)" and "plain_user (V (w_db w)) u"
  shows "reloadUserAuthority env u w = (Ok (session_of env (V (w_db w)) u), w)"
  using reload_db [OF assms] by (simp add: session_of_def)

lemma session_of_simps [simp]:
  "u_id (session_of env D u) = u_id u" "u_name (session_of env D u) = u_name u"
  "u_group_ids (session_of env D u) = u_group_ids u"
  "u_password (session_of env D u) = u_password u"
  by (simp_all add: session_of_def)

lemma session_role_ids:
  assumes "order_ok (env_order env)"
  shows "set (u_role_ids u) \<subseteq> set (u_role_ids (session_of env D u))"
  using assms by (auto simp: session_of_def reloaded_role_ids)

lemma GetUserInfo_db:
  assumes "auth_db_ok V (env_db env)" and "order_ok (env_order env)"
    and "users_by_id (V (w_db w)) n = [u]" and "plain_user (V (w_db w)) u"
  shows "GetUserInfo env n w = (Ok (session_of env (V (w_db w)) u), w)"
proof -
  from assms(1) have rel: "tx_reliable (env_db env)" by blast
  have "c_bind (on_db (tb_get (users (env_db env)) (by_id n))) (\<lambda>out.
          case out of [] \<Rightarrow> c_panic | u # _ \<Rightarrow> reloadUserAuthority env u) w =
      (Ok (session_of env (V (w_db w)) u), w)"
    using get_user [OF assms(1), of n w] assms(3) reload_session [OF assms(1,2,4)] by simp
  then show ?thesis unfolding GetUserInfo_def by (rule withTx_reliable(1) [OF rel])
qed

section \<open>Refreshing users\<close>

lemma update_user_db:
  assumes "auth_db_ok V (env_db env)"
  obtains d where "updateUserToDB env i cols w = (Ok (), w\<lparr>w_db := d\<rparr>)"
    and "V d = (V (w_db w))\<lparr>ad_users := update_users cols i (ad_users (V (w_db w)))\<rparr>"
proof -
  from assms have "user_laws V (env_db env)" by blast
  then obtain n d where "tb_update (users (env_db env)) cols (by_id i) (w_db w) = (Ok n, d)"
    and V: "V d = (V (w_db w))\<lparr>ad_users := update_users cols i (ad_users (V (w_db w)))\<rparr>"
    unfolding user_laws_def by blast
  then have "updateUserToDB env i cols w = (Ok (), w\<lparr>w_db := d\<rparr>)"
    by (simp add: updateUserToDB_def)
  with V that show thesis by blast
qed

text \<open>The row of a user after a refresh that starts from \<open>u\<close>.\<close>

definition refreshed :: "'d auth_env \<Rightarrow> auth_data \<Rightarrow> ddiuser \<Rightarrow> ddiuser \<Rightarrow> ddiuser" where
  "refreshed env D u row =
     row\<lparr>u_role_ids := u_role_ids (session_of env D u), u_group_ids := u_group_ids u\<rparr>"

lemma roles_of_users [simp]: "roles_of (D\<lparr>ad_users := us\<rparr>) = roles_of D"
  by (simp add: roles_of_def fun_eq_iff)

lemma session_of_users [simp]:
  "session_of env (D\<lparr>ad_users := us\<rparr>) u = session_of env D u"
  "plain_user (D\<lparr>ad_users := us\<rparr>) u = plain_user D u"
  by (simp_all add: session_of_def groups_of_def plain_user_def)

lemma refreshed_users [simp]: "refreshed env (D\<lparr>ad_users := us\<rparr>) u row = refreshed env D u row"
  by (simp add: refreshed_def)

lemma refresh_user_db:
  assumes "auth_db_ok V (env_db env)" and "order_ok (env_order env)" and "plain_user (V (w_db w)) u"
  obtains d where "refresh_user env u w = (Ok (), w\<lparr>w_db := d\<rparr>)"
    and "V d = (V (w_db w))\<lparr>ad_users := map (\<lambda>x. if u_id x = u_id u
      then refreshed env (V (w_db w)) u x else x) (ad_users (V (w_db w)))\<rparr>"
proof -
  let ?s = "session_of env (V (w_db w)) u"
  let ?cols = "[(''role_ids'', DStrs (u_role_ids ?s)), (''user_group_ids'', DStrs (u_group_ids ?s))]"
  obtain d where upd: "updateUserToDB env (u_id ?s) ?cols w = (Ok (), w\<lparr>w_db := d\<rparr>)"
    and V: "V d = (V (w_db w))\<lparr>ad_users := update_users ?cols (u_id ?s) (ad_users (V (w_db w)))\<rparr>"
    by (rule update_user_db [OF assms(1)])
  have "refresh_user env u w = (Ok (), w\<lparr>w_db := d\<rparr>)"
    using upd reload_session [OF assms] by (simp add: refresh_user_def)
  moreover have "update_users ?cols (u_id ?s) us = map (\<lambda>x. if u_id x = u_id u
      then refreshed env (V (w_db w)) u x else x) us" for us
    by (simp add: update_users_def set_columns_def refreshed_def)
  ultimately show thesis using V that by simp
qed

text \<open>The loop over some users, each with an identifier of its own.\<close>

definition refresh_rows :: "'d auth_env \<Rightarrow> auth_data \<Rightarrow> ddiuser list \<Rightarrow> ddiuser list \<Rightarrow> ddiuser list" where
  "refresh_rows env D us rows =
     map (\<lambda>x. case find (\<lambda>u. u_id u = u_id x) us of
        Some u \<Rightarrow> refreshed env D u x | None \<Rightarrow> x) rows"

lemma refresh_rows_users [simp]:
  "refresh_rows env (D\<lparr>ad_users := rows'\<rparr>) us rows = refresh_rows env D us rows"
  by (simp add: refresh_rows_def cong: option.case_cong)

lemma refresh_rows_Cons:
  assumes "u_id u \<notin> u_id ` set us"
  shows "refresh_rows env D (u # us) rows =
    refresh_rows env D us (map (\<lambda>x. if u_id x = u_id u then refreshed env D u x else x) rows)"
proof -
  have "find (\<lambda>v. u_id v = u_id u) us = None"
    using assms by (metis (mono_tags, lifting) find_None_iff image_eqI)
  then show ?thesis by (auto simp: refresh_rows_def refreshed_def)
qed

lemma refresh_loop_db:
  assumes "auth_db_ok V (env_db env)" and "order_ok (env_order env)"
    and "\<forall>u \<in> set us. plain_user (V (w_db w)) u" and "distinct (map u_id us)"
  obtains d where "c_forM us (refresh_user env) w = (Ok (), w\<lparr>w_db := d\<rparr>)"
    and "V d = (V (w_db w))\<lparr>ad_users := refresh_rows env (V (w_db w)) us (ad_users (V (w_db w)))\<rparr>"
  using assms(3,4)
proof (induction us arbitrary: w thesis)
  case Nil
  then show ?case by (auto simp: refresh_rows_def intro: Nil.prems(1) [of "w_db w"])
next
  case (Cons u us)
  let ?D = "V (w_db w)"
  let ?rows = "map (\<lambda>x. if u_id x = u_id u then refreshed env ?D u x else x) (ad_users ?D)"
  from Cons.prems have "plain_user ?D u" by simp
  then obtain d where one: "refresh_user env u w = (Ok (), w\<lparr>w_db := d\<rparr>)"
    and V: "V d = ?D\<lparr>ad_users := ?rows\<rparr>"
    by (rule refresh_user_db [OF assms(1,2)])
  have plain: "\<forall>u \<in> set us. plain_user (V (w_db (w\<lparr>w_db := d\<rparr>))) u" and "distinct (map u_id us)"
    using Cons.prems V by simp_all
  then obtain d' where rest: "c_forM us (refresh_user env) (w\<lparr>w_db := d\<rparr>) =
      (Ok (), w\<lparr>w_db := d, w_db := d'\<rparr>)"
    and "V d' = (V d)\<lparr>ad_users := refresh_rows env (V d) us (ad_users (V d))\<rparr>"
    using Cons.IH [of "w\<lparr>w_db := d\<rparr>"] by auto
  then have V': "V d' = ?D\<lparr>ad_users := refresh_rows env ?D us ?rows\<rparr>"
    using V by simp
  show ?case
  proof (rule Cons.prems(1))
    show "c_forM (u # us) (refresh_user env) w = (Ok (), w\<lparr>w_db := d'\<rparr>)"
      using one rest by simp
    show "V d' = ?D\<lparr>ad_users := refresh_rows env ?D (u # us) (ad_users ?D)\<rparr>"
      using V' refresh_rows_Cons [of u us env ?D] Cons.prems(3) by simp
  qed
qed

section \<open>Creating a user\<close>

definition created_row :: "ddiuser \<Rightarrow> string \<Rightarrow> ddiuser" where
  "created_row u c = u\<lparr>u_password := c, u_id := u_name u, u_role_type := RoleTypeNORMAL\<rparr>"

lemma aesKey_length: "length aesKey = 16"
  by (simp add: aesKey_def bytes_of_string_def)

lemma aesKey_encrypts: obtains c where "Encrypt aesKey s = Ok c"
  using Encrypt_Ok_iff [of aesKey s] aesKey_length by auto

lemma user_Create_db:
  assumes "auth_db_ok V (env_db env)" and "order_ok (env_order env)"
    and "plain_user (V (w_db w)) (c_resource ctx)" and "u_password (c_resource ctx) \<noteq> []"
    and "Encrypt aesKey (u_password (c_resource ctx)) = Ok c"
  defines "row \<equiv> created_row (c_resource ctx) c"
  shows "if u_name (c_resource ctx) \<in> u_id ` set (ad_users (V (w_db w)))
    then \<exists>e. user_Create env ctx w = (Err e, w)
    else \<exists>d. user_Create env ctx w =
        (Ok ((session_of env (V (w_db w)) row)\<lparr>u_password := []\<rparr>),
         store_active (u_name row) ((session_of env (V (w_db w)) row)\<lparr>u_password := []\<rparr>) (w\<lparr>w_db := d\<rparr>)) \<and>
      V d = (V (w_db w))\<lparr>ad_users := ad_users (V (w_db w)) @ [persist row]\<rparr>"
proof -
  let ?P = "env_db env" and ?D = "V (w_db w)"
  let ?body = "c_bind (on_db (tb_insert (users ?P) row)) (reloadUserAuthority env)"
  from assms(1) have rel: "tx_reliable ?P" and laws: "user_laws V ?P" by blast+
  have unf: "user_Create env ctx w = c_bind (server_error (\<lambda>e. ''create user '' @
      u_name (c_resource ctx) @ '' failed: '' @ e) (withTx ?P ?body))
      (\<lambda>user2. c_bind (c_modify (store_active (u_name user2) (user2\<lparr>u_password := []\<rparr>)))
        (\<lambda>_. c_return (user2\<lparr>u_password := []\<rparr>))) w"
    using assms(4,5) by (simp add: user_Create_def Let_def row_def created_row_def)
  have row_id: "u_id row = u_name (c_resource ctx)" by (simp add: row_def created_row_def)
  show ?thesis
  proof (cases "u_id row \<in> u_id ` set (ad_users ?D)")
    case True
    from laws True obtain e d where "tb_insert (users ?P) row (w_db w) = (Err e, d)"
      unfolding user_laws_def by metis
    then have "?body w = (Err e, w\<lparr>w_db := d\<rparr>)" by simp
    then have "withTx ?P ?body w = (Err e, w)" using withTx_reliable(2) [OF rel] by fastforce
    with True row_id unf show ?thesis by simp
  next
    case False
    from laws False obtain d where ins: "tb_insert (users ?P) row (w_db w) = (Ok row, d)"
      and V: "V d = ?D\<lparr>ad_users := ad_users ?D @ [persist row]\<rparr>"
      unfolding user_laws_def by metis
    have "plain_user ?D row"
      using assms(3) by (simp add: row_def created_row_def plain_user_def groups_of_def)
    then have "reloadUserAuthority env row (w\<lparr>w_db := d\<rparr>) = (Ok (session_of env ?D row), w\<lparr>w_db := d\<rparr>)"
      using reload_session [OF assms(1,2), of "w\<lparr>w_db := d\<rparr>" row] V by simp
    with ins have "?body w = (Ok (session_of env ?D row), w\<lparr>w_db := d\<rparr>)" by simp
    then have "withTx ?P ?body w = (Ok (session_of env ?D row), w\<lparr>w_db := d\<rparr>)"
      by (rule withTx_reliable(1) [OF rel])
    with False row_id unf V show ?thesis by auto
  qed
qed

section \<open>Properties\<close>

lemma created_password:
  assumes "auth_db_ok V (env_db env)" and "order_ok (env_order env)"
    and "plain_user (V (w_db w)) (c_resource ctx)" and "user_Create env ctx w = (Ok u, w')"
  shows "fst (CheckPassword env (u_name (c_resource ctx)) p w') = Ok () \<longleftrightarrow>
    p = u_password (c_resource ctx)"
proof -
  let ?D = "V (w_db w)"
  have pw: "u_password (c_resource ctx) \<noteq> []"
    using assms(4) by (auto simp: user_Create_def Let_def)
  obtain c where c: "Encrypt aesKey (u_password (c_resource ctx)) = Ok c" by (rule aesKey_encrypts)
  let ?row = "created_row (c_resource ctx) c"
  from user_Create_db [OF assms(1-3) pw c] assms(4)
  have new: "u_name (c_resource ctx) \<notin> u_id ` set (ad_users ?D)"
    and V: "V (w_db w') = ?D\<lparr>ad_users := ad_users ?D @ [persist ?row]\<rparr>"
    by (auto split: if_splits)
  from new have "users_by_id ?D (u_name (c_resource ctx)) = []"
    by (force simp: users_by_id_def filter_empty_conv)
  with V have "users_by_id (V (w_db w')) (u_name (c_resource ctx)) = [persist ?row]"
    by (simp add: users_by_id_def persist_def created_row_def)
  moreover have "Decrypt aesKey (u_password (persist ?row)) = Ok (u_password (c_resource ctx))"
    using Decrypt_Encrypt_aux [OF c] by (simp add: persist_def created_row_def)
  ultimately show ?thesis
    using CheckPassword_outcome [OF assms(1), of "u_name (c_resource ctx)" p w'] by auto
qed

text \<open>C5. A user that was created can log in with exactly the password it was created with:
  the password is stored encrypted, and checking a password against the stored text succeeds
  for the original one and for no other.\<close>

theorem create_then_check:
  assumes "auth_db_ok V (env_db env)" and "order_ok (env_order env)"
    and "plain_user (V (w_db w)) (c_resource ctx)" and "user_Create env ctx w = (Ok u, w')"
  shows "fst (CheckPassword env (u_name (c_resource ctx)) p w') = Ok () \<longleftrightarrow>
    p = u_password (c_resource ctx)"
  by (rule created_password [OF assms])

theorem create_then_check_witness:
  "\<exists>u w'. user_Create ex_env (ex_ctx Admin ''POST'' ''ddiuser'' [] (new_user ''eve'' ''secret'' [])) ex_world = (Ok u, w') \<and>
     fst (CheckPassword ex_env ''eve'' ''secret'' w') = Ok () \<and>
     fst (CheckPassword ex_env ''eve'' ''public'' w') \<noteq> Ok ()"
proof -
  let ?ctx = "ex_ctx Admin ''POST'' ''ddiuser'' [] (new_user ''eve'' ''secret'' [])"
  have plain: "plain_user (w_db ex_world) (c_resource ?ctx)"
    by (simp add: plain_user_def groups_of_def new_user_def in_ids_def ex_world_def ex_data_def
        ex_group_def plain_def)
  obtain c where c: "Encrypt aesKey (u_password (c_resource ?ctx)) = Ok c" by (rule aesKey_encrypts)
  have "''eve'' \<notin> u_id ` set (ad_users (w_db ex_world))"
    by (simp add: ex_world_def ex_data_def ex_alice_def ex_bob_def new_user_def)
  then obtain u w' where made: "user_Create ex_env ?ctx ex_world = (Ok u, w')"
    using user_Create_db [OF ex_env_ok plain _ c] by (auto simp: new_user_def)
  from create_then_check [OF ex_env_ok plain made]
  show ?thesis using made by (auto simp: new_user_def)
qed

end
