(* ===== verification/AccountProps.thy ===== *)
theory AccountProps
  imports Accounts
begin

text \<open>
  The properties of logging in and out, of the authority a session carries, and of the roles,
  groups and passwords behind it.
\<close>

section \<open>Logging in\<close>

lemma checkWhiteList_db:
  assumes "auth_db_ok V (env_db env)"
  obtains (admitted) "wl_admits (ad_whitelists (V (w_db w))) ip" and "checkWhiteList env ip w = (Ok (), w)"
  | (refused) r where "\<not> wl_admits (ad_whitelists (V (w_db w))) ip" and "checkWhiteList env ip w = (r, w)"
      and "r \<noteq> Ok ()"
  using checkWhiteList_outcome [OF assms, of ip w] by auto

lemma login_admitted:
  assumes "auth_db_ok V (env_db env)" and "order_ok (env_order env)"
    and "\<forall>u \<in> set (ad_users (V (w_db w))). plain_user (V (w_db w)) u"
    and "checkWhiteList env ip w = (Ok (), w)"
  shows "checkLogin env j ip (Some lr) w = (Ok tok, w') \<longleftrightarrow>
    jwt_sign j (lr_username lr) = Ok tok \<and>
    (\<exists>u. users_by_id (V (w_db w)) (lr_username lr) = [u] \<and>
       Decrypt aesKey (u_password u) = Ok (lr_password lr) \<and>
       w' = store_active (lr_username lr) (session_of env (V (w_db w)) u) w)"
proof -
  let ?D = "V (w_db w)" and ?n = "lr_username lr"
  obtain r where chk: "CheckPassword env ?n (lr_password lr) w = (r, w)"
    and iff: "r = Ok () \<longleftrightarrow> (\<exists>u. users_by_id ?D ?n = [u] \<and> Decrypt aesKey (u_password u) = Ok (lr_password lr))"
    using CheckPassword_outcome [OF assms(1)] by blast
  show ?thesis
  proof (cases "r = Ok ()")
    case False
    with assms(4) chk have "checkLogin env j ip (Some lr) w \<noteq> (Ok tok, w')"
      by (cases r) (simp_all add: checkLogin_def)
    with False iff show ?thesis by blast
  next
    case True
    with iff obtain u where u: "users_by_id ?D ?n = [u]"
      and pw: "Decrypt aesKey (u_password u) = Ok (lr_password lr)"
      by blast
    then have "u \<in> set (ad_users ?D)" by (auto simp: users_by_id_def dest: filter_eq_ConsD)
    with assms(3) have info: "GetUserInfo env ?n w = (Ok (session_of env ?D u), w)"
      using GetUserInfo_db [OF assms(1,2) u] by blast
    from assms(4) chk True info u pw show ?thesis
      by (cases "jwt_sign j ?n") (auto simp: checkLogin_def c_bind_def)
  qed
qed

text \<open>C6. A login succeeds exactly when the white list admits the client, the body names a user
  with one row in the database whose stored password decrypts to the given one, and a token can
  be signed. The database is left as it was, and the user's session is replaced by the row with
  an authority rebuilt from the user's groups and roles as they are now.\<close>

theorem login_iff:
  assumes "auth_db_ok V (env_db env)" and "order_ok (env_order env)"
    and "\<forall>u \<in> set (ad_users (V (w_db w))). plain_user (V (w_db w)) u"
  shows "checkLogin env j ip (Some lr) w = (Ok tok, w') \<longleftrightarrow>
    wl_admits (ad_whitelists (V (w_db w))) ip \<and> jwt_sign j (lr_username lr) = Ok tok \<and>
    (\<exists>u. users_by_id (V (w_db w)) (lr_username lr) = [u] \<and>
       Decrypt aesKey (u_password u) = Ok (lr_password lr) \<and>
       w' = store_active (lr_username lr) (session_of env (V (w_db w)) u) w)"
  using assms(1)
proof (cases rule: checkWhiteList_db [where ip = ip and w = w])
  case (refused r)
  then show ?thesis by (cases r) (simp_all add: checkLogin_def)
next
  case admitted
  with login_admitted [OF assms] show ?thesis by simp
qed

theorem login_iff_witness:
  "\<exists>c w'. Encrypt aesKey ''secret'' = Ok c \<and>
     checkLogin ex_env ex_jwt ''10.1.1.1'' (Some \<lparr>lr_username = ''bob'', lr_password = ''secret''\<rparr>)
       (ex_world\<lparr>w_db := ex_data\<lparr>ad_users := [ex_bob\<lparr>u_password := c\<rparr>]\<rparr>\<rparr>) = (Ok ''bob'', w')"
proof -
  obtain c where c: "Encrypt aesKey ''secret'' = Ok c" by (rule aesKey_encrypts)
  let ?w = "ex_world\<lparr>w_db := ex_data\<lparr>ad_users := [ex_bob\<lparr>u_password := c\<rparr>]\<rparr>\<rparr>"
  have plain: "\<forall>u \<in> set (ad_users (w_db ?w)). plain_user (w_db ?w) u"
    by (simp add: plain_user_def groups_of_def ex_bob_def new_user_def in_ids_def ex_data_def
        ex_group_def plain_def)
  have "wl_admits (ad_whitelists (w_db ?w)) ip" for ip
    by (simp add: wl_admits_def ex_data_def ex_whitelist_def)
  moreover have "users_by_id (w_db ?w) ''bob'' = [ex_bob\<lparr>u_password := c\<rparr>]"
    by (simp add: users_by_id_def ex_bob_def new_user_def)
  ultimately show ?thesis
    using login_iff [OF ex_env_ok plain, of ex_jwt "''10.1.1.1''"
        "\<lparr>lr_username = ''bob'', lr_password = ''secret''\<rparr>"] c Decrypt_Encrypt_aux [OF c]
    by (simp add: ex_jwt_def)
qed

section \<open>The authority of a session\<close>

definition held_roles :: "auth_data \<Rightarrow> ddiuser \<Rightarrow> string set" where
  "held_roles D u = set (u_role_ids u) \<union> (\<Union>g \<in> set (groups_of D u). set (g_role_ids g))"

definition held_views :: "auth_data \<Rightarrow> ddiuser \<Rightarrow> string set" where
  "held_views D u = (\<Union>r \<in> set (filter (\<lambda>r. ro_id r \<in> held_roles D u) (ad_roles D)). set (ro_views r))"

lemma session_views:
  assumes "order_ok (env_order env)" and "template_ok (env_template env)"
    and "u_role_type u \<noteq> RoleTypeSUPER"
    and "a \<in> set (rc_dns (rt_normal (env_template env)))" and "ra_filter a"
  shows "set (u_role_ids (session_of env D u)) = held_roles D u \<and>
    distinct (u_role_ids (session_of env D u)) \<and>
    (\<exists>b. map_of (u_authority (session_of env D u)) (ra_resource a) = Some b \<and>
       set (ra_views b) = held_views D u \<and>
       ra_operations b = (if held_views D u = {} then [OperationsTypeGET] else all_operations))"
proof -
  let ?ids = "recombineSlices (env_order env) (u_role_ids u @ concat (map g_role_ids (groups_of D u))) [] False"
  let ?s = "session_of env D u"
  have s: "?s = reloaded env (groups_of D u) (roles_of D) u"
    using assms(3) by (simp add: session_of_def)
  have ids: "u_role_ids ?s = ?ids" by (simp add: s reloaded_def Let_def)
  have set_ids: "set ?ids = held_roles D u" using assms(1) by (auto simp: recombineSlices_set held_roles_def)
  define views where "views = (if ?ids = [] then [] else granted_views env (roles_of D ?ids))"
  have look: "map_of (u_authority ?s) (ra_resource a) = Some (view_authority views a)"
    using lookup_base_dns [OF assms(2,4)]
    by (simp add: s reloaded_def Let_def views_def base_authority_unfold)
  have views_set: "set views = held_views D u"
  proof (cases "?ids = []")
    case True
    with set_ids show ?thesis by (simp add: views_def held_views_def)
  next
    case False
    then show ?thesis using assms(1) set_ids
      by (auto simp: views_def granted_views_def recombineSlices_set roles_of_def held_views_def)
  qed
  then have "views = [] \<longleftrightarrow> held_views D u = {}" by auto
  with look views_set set_ids ids assms(1,5) show ?thesis
    by (simp add: view_authority_def Let_def recombineSlices_distinct)
qed

text \<open>C7. Loading the authority of a normal user, at the login and on every change of the account, reads the
  groups and roles of the user and leaves the world as it is. The user then holds the roles of its own and of
  its groups, each once, and for every filtered DNS resource of the template there is one entry, with the views
  of all those roles: with at least one view every operation is allowed there, with none only reading.\<close>

theorem session_grants_views:
  assumes "auth_db_ok V (env_db env)" and "order_ok (env_order env)" and "template_ok (env_template env)"
    and "plain_user (V (w_db w)) u" and "u_role_type u \<noteq> RoleTypeSUPER"
    and "a \<in> set (rc_dns (rt_normal (env_template env)))" and "ra_filter a"
  shows "\<exists>s b. reloadUserAuthority env u w = (Ok s, w) \<and>
    set (u_role_ids s) = held_roles (V (w_db w)) u \<and> distinct (u_role_ids s) \<and>
    map_of (u_authority s) (ra_resource a) = Some b \<and>
    set (ra_views b) = held_views (V (w_db w)) u \<and>
    ra_operations b = (if held_views (V (w_db w)) u = {} then [OperationsTypeGET] else all_operations)"
  using reload_session [OF assms(1,2,4)] session_views [OF assms(2,3,5,6,7), of "V (w_db w)"] by blast

theorem session_grants_views_witness:
  "\<exists>s b. reloadUserAuthority ex_env ex_alice ex_world = (Ok s, ex_world) \<and>
     map_of (u_authority s) ''zone'' = Some b \<and>
     set (ra_views b) = {''v1'', ''v2''} \<and> ra_operations b = all_operations"
proof -
  have "template_ok (env_template ex_env)" by (simp add: template_ok_def ex_template_def)
  moreover have "u_role_type ex_alice \<noteq> RoleTypeSUPER"
    by (simp add: ex_alice_def new_user_def RoleTypeNORMAL_def RoleTypeSUPER_def)
  moreover have groups: "groups_of ex_data ex_alice = [ex_group]"
    by (simp add: groups_of_def ex_data_def ex_alice_def ex_group_def in_ids_def)
  then have "held_roles ex_data ex_alice = {''r1'', ''r2''}"
    by (simp add: held_roles_def ex_alice_def ex_group_def insert_commute)
  then have "held_views ex_data ex_alice = {''v1'', ''v2''}"
    by (simp add: held_views_def ex_data_def ex_role1_def ex_role2_def insert_commute)
  moreover have "plain_user ex_data ex_alice" by code_simp
  moreover have "w_db ex_world = ex_data" by (simp add: ex_world_def)
  ultimately obtain s b where "reloadUserAuthority ex_env ex_alice ex_world = (Ok s, ex_world)"
    and "map_of (u_authority s) ''zone'' = Some b" and "set (ra_views b) = {''v1'', ''v2''}"
    and "ra_operations b = all_operations"
    using session_grants_views [OF ex_env_ok, of ex_world ex_alice "rc_dns (rt_normal ex_template) ! 0"]
    by (simp add: ex_template_def) (elim exE conjE, rule that)
  then show ?thesis by (intro exI conjI)
qed

end
