(* ===== verification/GroupProps.thy ===== *)
theory GroupProps
  imports AccountProps
begin

text \<open>
  The properties of roles and groups: when a role can be deleted, and what adding users to a
  group, or deleting a group, does to the rows of the users.
\<close>

section \<open>Deleting a role\<close>

text \<open>C8. A role that some user holds cannot be deleted, and the attempt changes nothing; a role
  that no user holds is deleted, and nothing else is touched.\<close>

theorem role_Delete_iff_unheld:
  assumes "auth_db_ok V (env_db env)"
  shows "if \<exists>u \<in> set (ad_users (V (w_db w))). ro_id (c_resource ctx) \<in> set (u_role_ids u)
    then \<exists>e. role_Delete env ctx w = (Err e, w)
    else \<exists>d. role_Delete env ctx w = (Ok (), w\<lparr>w_db := d\<rparr>) \<and>
      V d = (V (w_db w))\<lparr>ad_roles :=
        filter (\<lambda>r. ro_id r \<noteq> ro_id (c_resource ctx)) (ad_roles (V (w_db w)))\<rparr>"
proof -
  let ?P = "env_db env" and ?D = "V (w_db w)" and ?i = "ro_id (c_resource ctx)"
  let ?holders = "filter (\<lambda>u. ?i \<in> set (u_role_ids u)) (ad_users ?D)"
  from assms have rel: "tx_reliable ?P" and ul: "user_laws V ?P" and rl: "role_laws V ?P" by blast+
  let ?body = "c_bind (on_db (tb_count_ex (users ?P)
      ''select count(1) from gr_ddiuser where $1=any(role_ids)'' [DStr ?i]))
      (\<lambda>c. if c > 0 then c_fail ''the role has bind other users''
           else on_db (tb_delete (roles ?P) (by_id ?i)))"
  have unf: "role_Delete env ctx w = c_bind (server_error
      (\<lambda>e. ''delete role '' @ ?i @ '' from db failed: '' @ e) (withTx ?P ?body)) (\<lambda>_. c_return ()) w"
    by (simp add: role_Delete_def Let_def)
  have cnt: "tb_count_ex (users ?P) ''select count(1) from gr_ddiuser where $1=any(role_ids)''
      [DStr ?i] (w_db w) = (Ok (int (length ?holders)), w_db w)"
    using ul unfolding user_laws_def by blast
  have held: "(\<exists>u \<in> set (ad_users ?D). ?i \<in> set (u_role_ids u)) \<longleftrightarrow> 0 < length ?holders"
    by (auto simp: filter_empty_conv)
  show ?thesis
  proof (cases "0 < length ?holders")
    case True
    with cnt have "?body w = (Err ''the role has bind other users'', w)" by simp
    then have "withTx ?P ?body w = (Err ''the role has bind other users'', w)"
      using withTx_reliable(2) [OF rel] by fastforce
    with True held unf show ?thesis by simp
  next
    case False
    from rl obtain n d where del: "tb_delete (roles ?P) (by_id ?i) (w_db w) = (Ok n, d)"
      and V: "V d = ?D\<lparr>ad_roles := filter (\<lambda>r. ro_id r \<noteq> ?i) (ad_roles ?D)\<rparr>"
      unfolding role_laws_def by blast
    with False cnt have "?body w = (Ok n, w\<lparr>w_db := d\<rparr>)" by simp
    then have "withTx ?P ?body w = (Ok n, w\<lparr>w_db := d\<rparr>)" by (rule withTx_reliable(1) [OF rel])
    with False held unf V show ?thesis by auto
  qed
qed

theorem role_Delete_iff_unheld_witness:
  "\<exists>e. role_Delete ex_env (ex_ctx Admin ''DELETE'' ''role'' ''r1'' ex_role1) ex_world = (Err e, ex_world)"
proof -
  have "\<exists>u \<in> set (ad_users (w_db ex_world)). ro_id ex_role1 \<in> set (u_role_ids u)"
    by (simp add: ex_world_def ex_data_def ex_alice_def ex_role1_def)
  then show ?thesis
    using role_Delete_iff_unheld [OF ex_env_ok(1),
        of ex_world "ex_ctx Admin ''DELETE'' ''role'' ''r1'' ex_role1"]
    by simp
qed

section \<open>Users and groups\<close>

definition plain_data :: "auth_data \<Rightarrow> bool" where
  "plain_data D \<longleftrightarrow>
     (\<forall>u \<in> set (ad_users D). list_all plain (u_id u # u_group_ids u @ u_role_ids u)) \<and>
     (\<forall>g \<in> set (ad_groups D). list_all plain (g_id g # g_role_ids g))"

lemma plain_dataD:
  assumes "plain_data D" and "u \<in> set (ad_users D)" and "set gs \<subseteq> insert g (set (u_group_ids u))"
    and "plain g" and "set (ad_groups D') \<subseteq> set (ad_groups D)"
  shows "plain_user D' (u\<lparr>u_group_ids := gs\<rparr>)"
  using assms by (fastforce simp: plain_data_def plain_user_def groups_of_def list_all_iff)

lemma c_forM_map: "c_forM (map f xs) g = c_forM xs (\<lambda>x. g (f x))"
  by (induction xs) simp_all

text \<open>The rows after the users selected by \<open>sel\<close> have been refreshed with other groups.\<close>

definition regrouped ::
  "'d auth_env \<Rightarrow> auth_data \<Rightarrow> string \<Rightarrow> bool \<Rightarrow> (ddiuser \<Rightarrow> bool) \<Rightarrow> ddiuser \<Rightarrow> ddiuser" where
  "regrouped env D g del sel u =
     (if sel u then refreshed env D
        (u\<lparr>u_group_ids := recombineSlices (env_order env) (u_group_ids u) [g] del\<rparr>) u
      else u)"

lemma find_selected:
  assumes "distinct (map u_id us)" and "\<And>u. u_id (f u) = u_id u" and "x \<in> set us"
  shows "find (\<lambda>u. u_id u = u_id x) (map f (filter sel us)) = (if sel x then Some (f x) else None)"
proof -
  have inj: "y = x" if "y \<in> set us" "u_id y = u_id x" for y
    using assms that by (simp add: distinct_map inj_on_def)
  show ?thesis
  proof (cases "sel x")
    case False
    then have "\<forall>u \<in> set (map f (filter sel us)). u_id u \<noteq> u_id x"
      using inj assms(2) by auto
    with False show ?thesis by (simp add: find_None_iff)
  next
    case True
    with assms(3) have "find (\<lambda>u. u_id u = u_id x) (map f (filter sel us)) \<noteq> None"
      using assms(2) by (auto simp: find_None_iff)
    then obtain y where y: "find (\<lambda>u. u_id u = u_id x) (map f (filter sel us)) = Some y" by blast
    then have "y \<in> set (map f (filter sel us))" "u_id y = u_id x"
      by (auto dest: find_SomeD)
    then obtain z where "z \<in> set us" "y = f z" "u_id z = u_id x"
      using assms(2) by auto
    moreover from this inj have "z = x" by blast
    ultimately show ?thesis using y True by simp
  qed
qed

lemma regroup_db:
  assumes "auth_db_ok V (env_db env)" and "order_ok (env_order env)"
    and "plain_data D" and "distinct (map u_id (ad_users D))" and "plain g"
    and "V (w_db w) = D\<lparr>ad_groups := gs\<rparr>" and "set gs \<subseteq> set (ad_groups D)"
  obtains d where "c_forM (filter sel (ad_users D)) (\<lambda>user. refresh_user env (user\<lparr>u_group_ids :=
      recombineSlices (env_order env) (u_group_ids user) [g] del\<rparr>)) w = (Ok (), w\<lparr>w_db := d\<rparr>)"
    and "V d = D\<lparr>ad_groups := gs, ad_users := map (regrouped env (D\<lparr>ad_groups := gs\<rparr>) g del sel) (ad_users D)\<rparr>"
proof -
  let ?D = "D\<lparr>ad_groups := gs\<rparr>"
  let ?f = "\<lambda>user. user\<lparr>u_group_ids := recombineSlices (env_order env) (u_group_ids user) [g] del\<rparr>"
  let ?us = "map ?f (filter sel (ad_users D))"
  have plain: "\<forall>u \<in> set ?us. plain_user (V (w_db w)) u"
    using assms(2,3,5,6,7) by (auto simp: recombineSlices_set intro!: plain_dataD [of D] split: if_splits)
  have "distinct (map u_id ?us)" using assms(4) by (simp add: comp_def distinct_map_filter)
  with plain obtain d where loop: "c_forM ?us (refresh_user env) w = (Ok (), w\<lparr>w_db := d\<rparr>)"
    and V: "V d = (V (w_db w))\<lparr>ad_users := refresh_rows env (V (w_db w)) ?us (ad_users (V (w_db w)))\<rparr>"
    by (rule refresh_loop_db [OF assms(1,2)])
  have "refresh_rows env ?D ?us (ad_users D) = map (regrouped env ?D g del sel) (ad_users D)"
    using find_selected [OF assms(4), where f = ?f and sel = sel]
    by (auto simp: refresh_rows_def regrouped_def)
  with V assms(6) have "V d = D\<lparr>ad_groups := gs, ad_users := map (regrouped env ?D g del sel) (ad_users D)\<rparr>"
    by simp
  with loop that show thesis by (simp add: c_forM_map)
qed

section \<open>What a refresh does to a row\<close>

definition row_change :: "'d auth_env \<Rightarrow> auth_data \<Rightarrow> string \<Rightarrow> bool \<Rightarrow> ddiuser \<Rightarrow> ddiuser \<Rightarrow> bool" where
  "row_change env D g del u u' \<longleftrightarrow>
     u_id u' = u_id u \<and> u_name u' = u_name u \<and> u_password u' = u_password u \<and>
     set (u_group_ids u') = (if del then set (u_group_ids u) - {g} else insert g (set (u_group_ids u))) \<and>
     set (u_role_ids u') = (if u_role_type u = RoleTypeSUPER then set (u_role_ids u)
       else held_roles D (u\<lparr>u_group_ids := u_group_ids u'\<rparr>))"

lemma refreshed_row_change:
  assumes "order_ok (env_order env)"
  shows "row_change env D g del u (refreshed env D
    (u\<lparr>u_group_ids := recombineSlices (env_order env) (u_group_ids u) [g] del\<rparr>) u)"
  using assms
  by (auto simp: row_change_def refreshed_def recombineSlices_set session_of_def reloaded_role_ids
      held_roles_def)

lemma held_roles_own: "set (u_role_ids u) \<subseteq> held_roles D u"
  by (simp add: held_roles_def)

lemma row_change_leave:
  assumes "row_change env D g True u u'"
  shows "u_id u' = u_id u \<and> set (u_group_ids u') = set (u_group_ids u) - {g} \<and>
    set (u_role_ids u) \<subseteq> set (u_role_ids u')"
  using assms held_roles_own [of "u\<lparr>u_group_ids := u_group_ids u'\<rparr>" D]
  by (simp add: row_change_def split: if_splits)

lemma members_query:
  assumes "auth_db_ok V P"
  shows "tb_fill_ex (users P) group_members_query [DStr g] d =
    (Ok (filter (\<lambda>u. g \<in> set (u_group_ids u)) (ad_users (V d))), d)"
  using assms unfolding auth_db_ok_def user_laws_def by blast

lemma users_in_query:
  assumes "auth_db_ok V P" and "list_all plain ids"
  shows "tb_fill_ex (users P) (in_clause ''gr_ddiuser'' ids) [] d =
    (Ok (filter (\<lambda>u. u_id u \<in> set (in_ids ids)) (ad_users (V d))), d)"
  using assms unfolding auth_db_ok_def user_laws_def by blast

text \<open>Putting users into a group refreshes exactly the users named: each of them belongs to
  the group from then on, and the roles stored for the user become the ones held directly or
  through any of the user's groups, the new one included. All other rows, and the roles and
  groups themselves, stay as they are.\<close>

theorem join_group_rows:
  assumes "auth_db_ok V (env_db env)" and "order_ok (env_order env)"
    and "plain_data (V (w_db w))" and "distinct (map u_id (ad_users (V (w_db w))))"
    and "plain g" and "list_all plain ids" and "ids \<noteq> []"
  shows "\<exists>d us. updateUserGroupAuthority env g ids False w = (Ok (), w\<lparr>w_db := d\<rparr>) \<and>
    V d = (V (w_db w))\<lparr>ad_users := us\<rparr> \<and>
    list_all2 (\<lambda>u u'. if u_id u \<in> set ids then row_change env (V (w_db w)) g False u u' else u' = u)
      (ad_users (V (w_db w))) us"
proof -
  let ?D = "V (w_db w)"
  let ?sel = "\<lambda>u. u_id u \<in> set ids"
  obtain d where loop: "c_forM (filter ?sel (ad_users ?D)) (\<lambda>user. refresh_user env (user\<lparr>u_group_ids :=
      recombineSlices (env_order env) (u_group_ids user) [g] False\<rparr>)) w = (Ok (), w\<lparr>w_db := d\<rparr>)"
    and V: "V d = ?D\<lparr>ad_groups := ad_groups ?D, ad_users :=
      map (regrouped env (?D\<lparr>ad_groups := ad_groups ?D\<rparr>) g False ?sel) (ad_users ?D)\<rparr>"
    by (rule regroup_db [OF assms(1-5), where gs = "ad_groups ?D" and sel = ?sel and del = False])
      simp_all
  have "updateUserGroupAuthority env g ids False w = (Ok (), w\<lparr>w_db := d\<rparr>)"
    using loop users_in_query [OF assms(1,6)] assms(7)
    by (simp add: updateUserGroupAuthority_def in_ids_def)
  moreover have "list_all2 (\<lambda>u u'. if ?sel u then row_change env ?D g False u u' else u' = u)
      (ad_users ?D) (map (regrouped env ?D g False ?sel) (ad_users ?D))"
    using refreshed_row_change [OF assms(2)]
    by (simp add: list_all2_map2 list.rel_refl regrouped_def)
  ultimately show ?thesis using V by (intro exI conjI) (assumption | simp)+
qed

text \<open>The rows after the deletion of a group: the group is gone, and its members are refreshed without
  it.\<close>

abbreviation without_group :: "auth_data \<Rightarrow> string \<Rightarrow> auth_data" where
  "without_group D i \<equiv> D\<lparr>ad_groups := filter (\<lambda>h. g_id h \<noteq> i) (ad_groups D)\<rparr>"

lemma group_Delete_db:
  assumes "auth_db_ok V (env_db env)" and "order_ok (env_order env)"
    and "plain_data (V (w_db w))" and "distinct (map u_id (ad_users (V (w_db w))))"
    and "g \<in> set (ad_groups (V (w_db w)))" and "g_id g = g_id (c_resource ctx)"
  shows "\<exists>d. group_Delete env ctx w = (Ok (), w\<lparr>w_db := d\<rparr>) \<and>
    V d = (without_group (V (w_db w)) (g_id g))\<lparr>ad_users :=
      map (regrouped env (without_group (V (w_db w)) (g_id g)) (g_id g) True (\<lambda>u. g_id g \<in> set (u_group_ids u)))
        (ad_users (V (w_db w)))\<rparr>"
proof -
  let ?P = "env_db env" and ?D = "V (w_db w)" and ?i = "g_id g"
  let ?sel = "\<lambda>u. ?i \<in> set (u_group_ids u)"
  let ?gs = "filter (\<lambda>h. g_id h \<noteq> ?i) (ad_groups ?D)"
  from assms(1) have rel: "tx_reliable ?P" and rl: "role_laws V ?P" by blast+
  from rl have get: "tb_get (groups ?P) (by_id ?i) (w_db w) =
      (Ok (filter (\<lambda>h. g_id h = ?i) (ad_groups ?D)), w_db w)"
    unfolding role_laws_def by blast
  from assms(5) obtain h hs where hs: "filter (\<lambda>h. g_id h = ?i) (ad_groups ?D) = h # hs"
    and hi: "g_id h = ?i"
    by (cases "filter (\<lambda>h. g_id h = ?i) (ad_groups ?D)") (auto simp: filter_empty_conv filter_eq_Cons_iff)
  from rl obtain n d1 where del: "tb_delete (groups ?P) (by_id ?i) (w_db w) = (Ok n, d1)"
    and V1: "V d1 = ?D\<lparr>ad_groups := ?gs\<rparr>"
    unfolding role_laws_def by blast
  have pl: "plain ?i" using assms(3,5) by (simp add: plain_data_def)
  have V1': "V (w_db (w\<lparr>w_db := d1\<rparr>)) = ?D\<lparr>ad_groups := ?gs\<rparr>" using V1 by simp
  obtain d where loop: "c_forM (filter ?sel (ad_users ?D)) (\<lambda>user. refresh_user env (user\<lparr>u_group_ids :=
      recombineSlices (env_order env) (u_group_ids user) [?i] True\<rparr>)) (w\<lparr>w_db := d1\<rparr>) =
        (Ok (), w\<lparr>w_db := d1, w_db := d\<rparr>)"
    and V: "V d = ?D\<lparr>ad_groups := ?gs, ad_users :=
      map (regrouped env (?D\<lparr>ad_groups := ?gs\<rparr>) ?i True ?sel) (ad_users ?D)\<rparr>"
    by (rule regroup_db [OF assms(1-4) pl V1', where sel = ?sel and del = True]) auto
  have upd: "updateUserGroupAuthority env (g_id h) (g_user_ids h) True (w\<lparr>w_db := d1\<rparr>) =
      (Ok (), w\<lparr>w_db := d\<rparr>)"
    using loop members_query [OF assms(1), of ?i d1] V1 hi by (simp add: updateUserGroupAuthority_def)
  let ?body = "c_bind (on_db (tb_get (groups ?P) (by_id ?i))) (\<lambda>res.
      case res of [] \<Rightarrow> c_panic | userGroup # _ \<Rightarrow>
        c_bind (on_db (tb_delete (groups ?P) (by_id ?i)))
          (\<lambda>_. updateUserGroupAuthority env (g_id userGroup) (g_user_ids userGroup) True))"
  have "?body w = (Ok (), w\<lparr>w_db := d\<rparr>)" using get hs del upd by simp
  then have "withTx ?P ?body w = (Ok (), w\<lparr>w_db := d\<rparr>)" by (rule withTx_reliable(1) [OF rel])
  then have run: "group_Delete env ctx w = (Ok (), w\<lparr>w_db := d\<rparr>)"
    unfolding group_Delete_def Let_def assms(6) [symmetric] by simp
  with V show ?thesis by auto
qed

lemma regrouped_leave:
  assumes "order_ok (env_order env)"
  shows "u_id (regrouped env D i True (\<lambda>u. i \<in> set (u_group_ids u)) u) = u_id u \<and>
    set (u_group_ids (regrouped env D i True (\<lambda>u. i \<in> set (u_group_ids u)) u)) = set (u_group_ids u) - {i} \<and>
    set (u_role_ids u) \<subseteq> set (u_role_ids (regrouped env D i True (\<lambda>u. i \<in> set (u_group_ids u)) u))"
proof (cases "i \<in> set (u_group_ids u)")
  case True
  then have "row_change env D i True u (regrouped env D i True (\<lambda>u. i \<in> set (u_group_ids u)) u)"
    unfolding regrouped_def using refreshed_row_change [OF assms] by simp
  then show ?thesis by (rule row_change_leave)
qed (simp add: regrouped_def)

text \<open>C10. Deleting a group takes the membership away from every member, but no role: whatever
  roles were stored for a user before, those that came with the group included, are still
  stored for the user afterwards.\<close>

theorem group_Delete_keeps_roles:
  assumes "auth_db_ok V (env_db env)" and "order_ok (env_order env)"
    and "plain_data (V (w_db w))" and "distinct (map u_id (ad_users (V (w_db w))))"
    and "g \<in> set (ad_groups (V (w_db w)))" and "g_id g = g_id (c_resource ctx)"
  shows "\<exists>d. group_Delete env ctx w = (Ok (), w\<lparr>w_db := d\<rparr>) \<and>
    ad_groups (V d) = filter (\<lambda>h. g_id h \<noteq> g_id g) (ad_groups (V (w_db w))) \<and>
    list_all2 (\<lambda>u u'. u_id u' = u_id u \<and> set (u_group_ids u') = set (u_group_ids u) - {g_id g} \<and>
        set (u_role_ids u) \<subseteq> set (u_role_ids u'))
      (ad_users (V (w_db w))) (ad_users (V d))"
proof -
  let ?D = "V (w_db w)"
  let ?f = "regrouped env (without_group ?D (g_id g)) (g_id g) True (\<lambda>u. g_id g \<in> set (u_group_ids u))"
  from group_Delete_db [OF assms] obtain d where
    run: "group_Delete env ctx w = (Ok (), w\<lparr>w_db := d\<rparr>)"
    and V: "V d = (without_group ?D (g_id g))\<lparr>ad_users := map ?f (ad_users ?D)\<rparr>"
    by blast
  have "list_all2 (\<lambda>u u'. u_id u' = u_id u \<and> set (u_group_ids u') = set (u_group_ids u) - {g_id g} \<and>
      set (u_role_ids u) \<subseteq> set (u_role_ids u')) (ad_users ?D) (map ?f (ad_users ?D))"
    unfolding list_all2_map2 by (rule list.rel_refl_strong) (rule regrouped_leave [OF assms(2)])
  with run V show ?thesis by auto
qed

text \<open>The witnesses: Bob joins the group of the small server, and the group is deleted after
  Alice had received its role.\<close>

lemma ex_plain_data: "plain_data ex_data" "distinct (map u_id (ad_users ex_data))"
  by code_simp+

lemma ex_plain_names: "plain ''ops''" "list_all plain [''bob'']" "[''bob''] \<noteq> []"
  by code_simp+

lemma ex_world_db [simp]: "w_db ex_world = ex_data"
  by (simp add: ex_world_def)

theorem join_group_rows_witness:
  "\<exists>d u. updateUserGroupAuthority ex_env ''ops'' [''bob''] False ex_world = (Ok (), ex_world\<lparr>w_db := d\<rparr>) \<and>
     ad_users d ! 1 = u \<and> set (u_group_ids u) = {''ops''} \<and> set (u_role_ids u) = {''r2''}"
proof -
  from join_group_rows [OF ex_env_ok, of ex_world "''ops''" "[''bob'']", unfolded ex_world_db,
      OF ex_plain_data ex_plain_names]
  obtain d us where run: "updateUserGroupAuthority ex_env ''ops'' [''bob''] False ex_world =
      (Ok (), ex_world\<lparr>w_db := d\<rparr>)" and d: "d = ex_data\<lparr>ad_users := us\<rparr>"
    and rows: "list_all2 (\<lambda>u u'. if u_id u \<in> set [''bob''] then row_change ex_env ex_data ''ops'' False u u'
      else u' = u) (ad_users ex_data) us"
    by blast
  have "ad_users ex_data ! 1 = ex_bob" "1 < length (ad_users ex_data)" "u_id ex_bob = ''bob''"
    by (simp_all add: ex_data_def ex_bob_def new_user_def)
  with list_all2_nthD [OF rows] have rc: "row_change ex_env ex_data ''ops'' False ex_bob (us ! 1)"
    by fastforce
  have bob: "set (u_group_ids ex_bob) = {}" "set (u_role_ids ex_bob) = {}" "u_role_type ex_bob \<noteq> RoleTypeSUPER"
    by (simp_all add: ex_bob_def new_user_def RoleTypeNORMAL_def RoleTypeSUPER_def)
  with rc have gs: "set (u_group_ids (us ! 1)) = {''ops''}"
    and rs: "set (u_role_ids (us ! 1)) = held_roles ex_data (ex_bob\<lparr>u_group_ids := u_group_ids (us ! 1)\<rparr>)"
    by (simp_all add: row_change_def)
  from gs have "u_group_ids (us ! 1) \<noteq> []" by (metis empty_not_insert list.set(1))
  then have "groups_of ex_data (ex_bob\<lparr>u_group_ids := u_group_ids (us ! 1)\<rparr>) = [ex_group]"
    using gs by (simp add: groups_of_def in_ids_def ex_data_def ex_group_def)
  with rs bob have "set (u_role_ids (us ! 1)) = {''r2''}" by (simp add: held_roles_def ex_group_def)
  moreover have "ad_users d ! 1 = us ! 1" using d by simp
  ultimately show ?thesis using run gs by blast
qed

theorem group_Delete_keeps_roles_witness:
  "\<exists>d. group_Delete ex_env (ex_ctx Admin ''DELETE'' ''usergroup'' ''ops'' ex_group) ex_world =
     (Ok (), ex_world\<lparr>w_db := d\<rparr>) \<and> ad_groups d = []"
proof -
  let ?ctx = "ex_ctx Admin ''DELETE'' ''usergroup'' ''ops'' ex_group"
  have mem: "ex_group \<in> set (ad_groups ex_data)" by (simp add: ex_data_def)
  have same: "g_id ex_group = g_id (c_resource ?ctx)" by (simp only: ex_ctx_fields)
  obtain d where run: "group_Delete ex_env ?ctx ex_world = (Ok (), ex_world\<lparr>w_db := d\<rparr>)"
    and gs: "ad_groups d = filter (\<lambda>h. g_id h \<noteq> g_id ex_group) (ad_groups ex_data)"
    using group_Delete_keeps_roles [OF ex_env_ok, of ex_world ex_group ?ctx, unfolded ex_world_db,
        OF ex_plain_data mem same]
    by blast
  from gs have "ad_groups d = []" by (simp add: ex_data_def)
  with run show ?thesis by blast
qed

end
