(* ===== verification/SessionProps.thy ===== *)
theory SessionProps
  imports GroupProps
begin

text \<open>
  The properties of updating an account, of logging out, of the start-up, of what a failed
  request leaves behind, and of what responses reveal.
\<close>

section \<open>Updating an account\<close>

text \<open>C11. A user can be updated by the administrator and by the user, and by nobody else: anyone
  else gets an error and nothing changes. An update writes the comment, the groups and the
  roles given in the body, whoever sends it, and starts a session under the name in the body
  with the authority of those roles.\<close>

theorem user_Update_outcome:
  assumes "auth_db_ok V (env_db env)" and "order_ok (env_order env)"
    and "plain_user (V (w_db w)) (c_resource ctx)"
  shows "if c_vals ctx AuthUser \<in> {Some (VString Admin), Some (VString (u_id (c_resource ctx)))}
    then \<exists>d s. s = (session_of env (V (w_db w)) (c_resource ctx))\<lparr>u_password := []\<rparr> \<and>
      user_Update env ctx w = (Ok s, store_active (u_name (c_resource ctx)) s (w\<lparr>w_db := d\<rparr>)) \<and>
      V d = (V (w_db w))\<lparr>ad_users := map (\<lambda>u. if u_id u = u_id (c_resource ctx)
        then u\<lparr>u_comment := u_comment (c_resource ctx), u_group_ids := u_group_ids (c_resource ctx),
               u_role_ids := u_role_ids (c_resource ctx)\<rparr> else u) (ad_users (V (w_db w)))\<rparr>
    else \<exists>e. user_Update env ctx w = (Err e, w)"
proof (cases "c_vals ctx AuthUser \<in> {Some (VString Admin), Some (VString (u_id (c_resource ctx)))}")
  case False
  then show ?thesis by (cases "c_vals ctx AuthUser") (auto simp: user_Update_def Let_def)
next
  case True
  let ?D = "V (w_db w)" and ?u = "c_resource ctx"
  let ?cols = "[(''comment'', DStr (u_comment ?u)), (''user_group_ids'', DStrs (u_group_ids ?u)),
      (''role_ids'', DStrs (u_role_ids ?u))]"
  from assms(1) have rel: "tx_reliable (env_db env)" by blast
  obtain d where upd: "updateUserToDB env (u_id ?u) ?cols w = (Ok (), w\<lparr>w_db := d\<rparr>)"
    and V: "V d = ?D\<lparr>ad_users := update_users ?cols (u_id ?u) (ad_users ?D)\<rparr>"
    by (rule update_user_db [OF assms(1)])
  have "reloadUserAuthority env ?u (w\<lparr>w_db := d\<rparr>) = (Ok (session_of env ?D ?u), w\<lparr>w_db := d\<rparr>)"
    using reload_session [OF assms(1,2), of "w\<lparr>w_db := d\<rparr>" ?u] V assms(3) by simp
  with upd have "c_bind (updateUserToDB env (u_id ?u) ?cols) (\<lambda>_. reloadUserAuthority env ?u) w =
      (Ok (session_of env ?D ?u), w\<lparr>w_db := d\<rparr>)"
    by simp
  then have "withTx (env_db env) (c_bind (updateUserToDB env (u_id ?u) ?cols)
      (\<lambda>_. reloadUserAuthority env ?u)) w = (Ok (session_of env ?D ?u), w\<lparr>w_db := d\<rparr>)"
    by (rule withTx_reliable(1) [OF rel])
  moreover have "update_users ?cols i us = map (\<lambda>u. if u_id u = i
      then u\<lparr>u_comment := u_comment ?u, u_group_ids := u_group_ids ?u, u_role_ids := u_role_ids ?u\<rparr>
      else u) us" for i us
    by (simp add: update_users_def set_columns_def)
  ultimately show ?thesis using True V by (auto simp: user_Update_def Let_def)
qed

theorem user_Update_outcome_witness:
  "\<exists>d s. user_Update ex_env (ex_ctx ''bob'' ''PUT'' ''ddiuser'' ''bob''
       (ex_bob\<lparr>u_role_ids := [''r1'']\<rparr>)) ex_world = (Ok s, store_active ''bob'' s (ex_world\<lparr>w_db := d\<rparr>)) \<and>
     ''r1'' \<in> set (u_role_ids (ad_users d ! 1))"
proof -
  let ?ctx = "ex_ctx ''bob'' ''PUT'' ''ddiuser'' ''bob'' (ex_bob\<lparr>u_role_ids := [''r1'']\<rparr>)"
  have plain: "plain_user ex_data (c_resource ?ctx)"
    by (simp add: plain_user_def groups_of_def ex_bob_def new_user_def in_ids_def ex_data_def
        ex_group_def plain_def)
  have name: "u_id ex_bob = ''bob''" "u_name ex_bob = ''bob''"
    by (simp_all add: ex_bob_def new_user_def)
  have "ad_users ex_data ! 1 = ex_bob" "1 < length (ad_users ex_data)" by (simp_all add: ex_data_def)
  with user_Update_outcome [OF ex_env_ok, of ex_world ?ctx, unfolded ex_world_db, OF plain] name
  show ?thesis by auto
qed

section \<open>Logging out\<close>

text \<open>A user who logs out has no session any more, so that the middle ware turns away every
  request with a token of that user, although the token itself stays valid; all other sessions
  go on.\<close>

theorem logout_ends_session:
  assumes "c_action ctx = Some act" and "act_name act = ''logout''"
    and "c_vals ctx AuthUser = Some (VString name)"
  shows "fst (snd (user_Action env ctx) w) = Ok (LogoutResponse True []) \<and>
    (\<forall>name'. name' \<noteq> name \<longrightarrow>
      w_active (snd (snd (user_Action env ctx) w)) name' = w_active w name') \<and>
    (\<forall>(ctx' :: 'r ctx) ctx'' w'. jwt_parse j (c_auth_header ctx') = Parsed True (Some name) \<longrightarrow>
      authentification env j ctx' (snd (snd (user_Action env ctx) w)) \<noteq> (Ok ctx'', w'))"
proof -
  have run: "snd (user_Action env ctx) w = (Ok (LogoutResponse True []), delete_active name w)"
    using assms by (simp add: user_Action_def Let_def Logout_def AuthUser_def AuditlogIgnore_def c_bind_def ctx_set_def)
  have "authentification env j ctx' (delete_active name w) \<noteq> (Ok ctx'', w')"
    if "jwt_parse j (c_auth_header ctx') = Parsed True (Some name)" for ctx' ctx'' :: "'r ctx" and w'
    using that sess.gone [of name w] by (auto elim!: authentification_OkE)
  with run show ?thesis by (simp add: sess.others_stay)
qed

theorem logout_ends_session_witness:
  "fst (snd (user_Action ex_env (ex_ctx ''alice'' ''POST'' ''ddiuser'' ''alice'' ex_alice
     \<lparr>c_action := Some \<lparr>act_name = ''logout'', act_input = \<lparr>lr_username = [], lr_password = []\<rparr>\<rparr>\<rparr>)) ex_world) =
   Ok (LogoutResponse True [])"
  by (rule conjunct1 [OF logout_ends_session [where name = "''alice''" and j = ex_jwt and
      act = "\<lparr>act_name = ''logout'', act_input = \<lparr>lr_username = [], lr_password = []\<rparr>\<rparr>"]])
    (simp_all add: ex_ctx_def)

section \<open>Passwords stay inside\<close>

text \<open>No response with a user in it carries a password: creating, updating, getting and
  listing users all answer with the password cleared, and the list leaves the administrator
  out.\<close>

theorem responses_hide_passwords:
  "(user_Create env ctx w = (Ok u, w') \<longrightarrow> u_password u = []) \<and>
   (user_Update env ctx w = (Ok u, w') \<longrightarrow> u_password u = []) \<and>
   (user_Get env ctx w = (Ok u, w') \<longrightarrow> u_password u = []) \<and>
   (user_List env ctx w = (Ok us, w') \<longrightarrow> (\<forall>v \<in> set us. u_password v = [] \<and> u_id v \<noteq> Admin))"
proof (intro conjI impI)
  assume "user_Create env ctx w = (Ok u, w')"
  then show "u_password u = []"
    by (auto simp: user_Create_def Let_def split: if_splits res.splits elim!: c_bind_OkE)
next
  assume "user_Update env ctx w = (Ok u, w')"
  then show "u_password u = []"
    by (auto simp: user_Update_def Let_def split: if_splits option.splits elim!: c_bind_OkE)
next
  assume "user_Get env ctx w = (Ok u, w')"
  then show "u_password u = []" by (auto simp: user_Get_def Let_def elim!: c_bind_OkE)
next
  assume "user_List env ctx w = (Ok us, w')"
  then show "\<forall>v \<in> set us. u_password v = [] \<and> u_id v \<noteq> Admin"
    by (auto simp: user_List_def elim!: c_bind_OkE)
qed

theorem responses_hide_passwords_witness:
  "\<exists>us. user_List ex_env (ex_ctx Admin ''GET'' ''ddiuser'' [] ex_bob) ex_world = (Ok us, ex_world) \<and>
     length us = 2 \<and> (\<forall>v \<in> set us. u_password v = [])"
proof -
  have "user_List ex_env (ex_ctx Admin ''GET'' ''ddiuser'' [] ex_bob) ex_world =
      (Ok (map (\<lambda>u. u\<lparr>u_password := []\<rparr>) [ex_alice, ex_bob]), ex_world)"
    by (simp add: user_List_def GetResources_def withTx_def on_db_def mem_db_def mem_users_def
        id_condition_def IDField_def ex_world_def ex_data_def ex_alice_def ex_bob_def new_user_def Admin_def c_bind_def
        server_error_def c_map_err_def)
  then show ?thesis
    using responses_hide_passwords [of ex_env "ex_ctx Admin ''GET'' ''ddiuser'' [] ex_bob" ex_world]
    by fastforce
qed

section \<open>Starting up\<close>

primrec activate :: "'d auth_env \<Rightarrow> auth_data \<Rightarrow> ddiuser list \<Rightarrow> (string \<Rightarrow> ddiuser option) \<Rightarrow>
    string \<Rightarrow> ddiuser option" where
  "activate env D [] m = m"
| "activate env D (u # us) m = activate env D us (m(u_name u \<mapsto> session_of env D u))"

lemma load_users_db:
  assumes "auth_db_ok V (env_db env)" and "order_ok (env_order env)"
    and "\<forall>u \<in> set us. plain_user (V (w_db w)) u"
  shows "load_users env us b w =
    (Ok (b \<or> (\<exists>u \<in> set us. u_name u = Admin)),
     w\<lparr>w_active := activate env (V (w_db w)) us (w_active w)\<rparr>)"
  using assms(3)
proof (induction us arbitrary: w b)
  case (Cons u us)
  have "plain_user (V (w_db w)) u" using Cons.prems by simp
  then have "reloadUserAuthority env u w = (Ok (session_of env (V (w_db w)) u), w)"
    by (rule reload_session [OF assms(1,2)])
  then show ?case using Cons by (simp add: store_active_def c_bind_def fun_upd_def)
qed simp

lemma activate_lookup:
  assumes "distinct (map u_name us)" and "u \<in> set us"
  shows "activate env D us m (u_name u) = Some (session_of env D u)"
proof -
  have other: "activate env D us m k = m k" if "k \<notin> u_name ` set us" for us m k
    using that by (induction us arbitrary: m) simp_all
  from assms show ?thesis
  proof (induction us arbitrary: m)
    case (Cons v us)
    then show ?case using other [of "u_name v" us] by auto
  qed simp
qed

text \<open>The start-up in the two cases: the administrator is there, or is made.\<close>

abbreviation started :: "'d auth_env \<Rightarrow> ('d \<Rightarrow> auth_data) \<Rightarrow> ('d, ddiuser) world \<Rightarrow> ('d, ddiuser) world" where
  "started env V w \<equiv> w\<lparr>w_active := activate env (V (w_db w)) (ad_users (V (w_db w))) (w_active w)\<rparr>"

lemma startup_rest:
  assumes "auth_db_ok V (env_db env)" and "order_ok (env_order env)"
    and "\<forall>u \<in> set (ad_users (V (w_db w))). plain_user (V (w_db w)) u"
    and "(if \<exists>u \<in> set (ad_users (V (w_db w))). u_name u = Admin then c_return ()
      else c_bind (c_lift (Encrypt aesKey Admin)) (\<lambda>encryptText.
        c_bind (on_db (tb_insert (users (env_db env)) (new_user Admin encryptText RoleTypeSUPER))) (\<lambda>user.
          c_modify (store_active (u_name user) user)))) (started env V w) = (Ok (), w')"
  shows "NewUserHandler env w = (Ok (), w')"
proof -
  let ?P = "env_db env" and ?us = "ad_users (V (w_db w))"
  let ?have = "\<exists>u \<in> set ?us. u_name u = Admin"
  let ?rest = "\<lambda>haveAdmin. if haveAdmin then c_return ()
    else c_bind (c_lift (Encrypt aesKey Admin)) (\<lambda>encryptText.
      c_bind (on_db (tb_insert (users ?P) (new_user Admin encryptText RoleTypeSUPER))) (\<lambda>user.
        c_modify (store_active (u_name user) user)))"
  let ?body = "c_bind (on_db (tb_get (users ?P) [])) (\<lambda>us. c_bind (load_users env us False) ?rest)"
  from assms(1) have rel: "tx_reliable ?P" and ul: "user_laws V ?P" by blast+
  have get: "on_db (tb_get (users ?P) []) w = (Ok ?us, w)"
    using ul by (simp add: user_laws_def on_db_def)
  have load: "load_users env ?us False w = (Ok ?have, started env V w)"
    using load_users_db [OF assms(1,2), of ?us w False] assms(3) by simp
  have "?body w = c_bind (load_users env ?us False) ?rest w" by (rule c_bind_step(1)) (rule get)
  also have "\<dots> = ?rest ?have (started env V w)" by (rule c_bind_step(1)) (rule load)
  also have "\<dots> = (Ok (), w')" by (rule assms(4))
  finally have "?body w = (Ok (), w')" .
  then show ?thesis
    using withTx_reliable(1) [OF rel, of ?body w] by (simp add: NewUserHandler_def)
qed

text \<open>C14. When the server starts, every user in the database has a session at once, with the
  authority of the groups and roles of the moment, whether or not the user had logged out
  before; and there is an administrator with a session, whose row is created if it is missing
  and whose password is then the name itself.\<close>

theorem startup_activates_everyone:
  assumes "auth_db_ok V (env_db env)" and "order_ok (env_order env)"
    and "\<forall>u \<in> set (ad_users (V (w_db w))). plain_user (V (w_db w)) u \<and> u_id u = u_name u"
    and "distinct (map u_name (ad_users (V (w_db w))))"
  shows "\<exists>w'. NewUserHandler env w = (Ok (), w') \<and>
    (\<forall>u \<in> set (ad_users (V (w_db w))).
      w_active w' (u_name u) = Some (session_of env (V (w_db w)) u)) \<and>
    w_active w' Admin \<noteq> None \<and>
    (if \<exists>u \<in> set (ad_users (V (w_db w))). u_name u = Admin then w_db w' = w_db w
     else \<exists>c. Decrypt aesKey c = Ok Admin \<and> ad_users (V (w_db w')) =
       ad_users (V (w_db w)) @ [new_user Admin c RoleTypeSUPER])"
proof -
  let ?P = "env_db env" and ?D = "V (w_db w)" and ?w1 = "started env V w"
  let ?us = "ad_users ?D"
  from assms(3) have plain: "\<forall>u \<in> set ?us. plain_user ?D u" by blast
  note rest = startup_rest [OF assms(1,2) plain]
  have act: "\<forall>u \<in> set ?us. w_active ?w1 (u_name u) = Some (session_of env ?D u)"
    by (simp add: activate_lookup [OF assms(4)])
  show ?thesis
  proof (cases "\<exists>u \<in> set ?us. u_name u = Admin")
    case True
    with rest have "NewUserHandler env w = (Ok (), ?w1)" by simp
    moreover from True act have "w_active ?w1 Admin \<noteq> None" by fastforce
    ultimately show ?thesis using True act by auto
  next
    case False
    obtain c where c: "Encrypt aesKey Admin = Ok c" by (rule aesKey_encrypts)
    let ?a = "new_user Admin c RoleTypeSUPER"
    have pa: "persist ?a = ?a" "u_name ?a = Admin" "u_id ?a = Admin"
      by (simp_all add: persist_def new_user_def)
    have "u_id ?a \<notin> u_id ` set ?us" using False assms(3) pa(3) by force
    then obtain d where ins: "tb_insert (users ?P) ?a (w_db w) = (Ok ?a, d)"
      and V: "V d = ?D\<lparr>ad_users := ?us @ [?a]\<rparr>"
      using assms(1) pa(1) unfolding auth_db_ok_def user_laws_def by metis
    let ?w2 = "store_active Admin ?a (?w1\<lparr>w_db := d\<rparr>)"
    have run: "NewUserHandler env w = (Ok (), ?w2)" using False c ins pa by (intro rest) simp
    have "\<forall>u \<in> set ?us. w_active ?w2 (u_name u) = Some (session_of env ?D u)"
      using False act by auto
    moreover have "ad_users (V (w_db ?w2)) = ?us @ [?a]" using V by simp
    ultimately show ?thesis
      using run False Decrypt_Encrypt_aux [OF c] by (intro exI [of _ ?w2]) auto
  qed
qed

theorem startup_activates_everyone_witness:
  "\<exists>w'. NewUserHandler ex_env (ex_world\<lparr>w_active := Map.empty\<rparr>) = (Ok (), w') \<and>
     w_active w' ''bob'' = Some (session_of ex_env ex_data ex_bob) \<and> w_active w' Admin \<noteq> None"
proof -
  let ?w = "ex_world\<lparr>w_active := Map.empty\<rparr>"
  have db: "w_db ?w = ex_data" by simp
  have users: "ad_users ex_data = [ex_alice, ex_bob]" by (simp add: ex_data_def)
  have rows: "\<forall>u \<in> set (ad_users ex_data). plain_user ex_data u \<and> u_id u = u_name u"
    by code_simp
  have names: "distinct (map u_name (ad_users ex_data))" by code_simp
  from startup_activates_everyone [OF ex_env_ok, of ?w, unfolded db, OF rows names]
  obtain w' where "NewUserHandler ex_env ?w = (Ok (), w')"
    and "\<forall>u \<in> set (ad_users ex_data). w_active w' (u_name u) = Some (session_of ex_env ex_data u)"
    and "w_active w' Admin \<noteq> None"
    by blast
  moreover have "ex_bob \<in> set (ad_users ex_data)" "u_name ex_bob = ''bob''"
    by (simp_all add: users ex_bob_def new_user_def)
  ultimately show ?thesis by metis
qed

section \<open>Failed requests\<close>

definition atomic :: "('s, 'e, 'a) comp \<Rightarrow> bool" where
  "atomic m \<longleftrightarrow> (\<forall>s e s'. m s = (Err e, s') \<longrightarrow> s' = s)"

named_theorems atomics \<open>introduction rules for computations that fail without a trace\<close>

lemma atomic_withTx [atomics]:
  fixes m :: "('d, 'a) atx"
  assumes "tx_laws P" and "keeps_active m"
  shows "atomic (withTx P m)"
  unfolding atomic_def
proof (intro allI impI)
  fix w :: "'d aworld" and e w'
  assume run: "withTx P m w = (Err e, w')"
  have "w_db w' = w_db w" using withTx_Err_db [OF assms(1) run] .
  moreover have "w_active w' = w_active w"
    using keeps_withTx [OF tx_untouched_unit assms(2)] run by (rule keeps_activeD)
  ultimately show "w' = w" by simp
qed

lemma atomic_fail [atomics]: "atomic (c_fail e)" "atomic c_panic" "atomic (c_return a)" "atomic (c_lift r)"
  by (simp_all add: atomic_def)

lemma atomic_server_error [atomics]: "atomic m \<Longrightarrow> atomic (server_error g m)"
  by (auto simp: atomic_def elim: server_error_ErrE)

text \<open>What follows the transaction does not fail.\<close>

lemma atomic_bind [atomics]:
  assumes "atomic m" and "\<And>a s. \<exists>b s'. f a s = (Ok b, s')"
  shows "atomic (c_bind m f)"
  unfolding atomic_def
proof (intro allI impI)
  fix s e s'
  assume run: "c_bind m f s = (Err e, s')"
  obtain r s1 where m: "m s = (r, s1)" by fastforce
  show "s' = s"
  proof (cases r)
    case (Ok a)
    with m run have "f a s1 = (Err e, s')" by simp
    then show ?thesis using assms(2) [of a s1] by auto
  next
    case (Err e')
    with m run assms(1) show ?thesis by (auto simp: atomic_def)
  qed (use m run in simp)
qed

lemma atomic_lift_bind [atomics]: "(\<And>a. atomic (f a)) \<Longrightarrow> atomic (c_bind (c_lift r) f)"
  by (cases r) (simp_all add: atomic_def c_bind_def)

lemma atomic_check_bind [atomics]:
  "(\<And>a. atomic (f a)) \<Longrightarrow> atomic (c_bind (server_error g (c_lift r)) f)"
  by (cases r) (simp_all add: atomic_def c_bind_def server_error_def c_map_err_def)

lemma store_total [atomics]: "\<exists>b s'. c_bind (c_modify f) (\<lambda>_. c_return a) s = (Ok b, s')"
  by simp

text \<open>C15. A request that fails leaves no trace, whatever the database does as long as a failed
  transaction is rolled back: creating, updating or deleting a user, a role or a group, setting
  a password and updating the white list all leave the database and every session exactly as
  they found them when they return an error.\<close>

theorem failed_requests_change_nothing:
  assumes "tx_laws (env_db env)"
  shows "atomic (user_Create env uctx) \<and> atomic (user_Update env uctx) \<and>
    atomic (user_Delete env uctx) \<and> atomic (write_password env input) \<and>
    atomic (role_Create env rctx) \<and> atomic (role_Update env rctx) \<and> atomic (role_Delete env rctx) \<and>
    atomic (group_Create env gctx) \<and> atomic (group_Update env gctx) \<and>
    atomic (group_Delete env gctx) \<and> atomic (whitelist_Update env wctx)"
proof -
  note tx = atomic_withTx [OF assms]
  have del: "keeps_active (case res of [] \<Rightarrow> c_panic | userGroup # _ \<Rightarrow>
      c_bind (on_db (tb_delete (groups (env_db env)) (by_id i)))
        (\<lambda>_. updateUserGroupAuthority env (g_id userGroup) (g_user_ids userGroup) True))" for res i
    by (cases res) (simp_all add: keeps)
  have "atomic (user_Create env uctx)"
    unfolding user_Create_def Let_def
    by (auto split: res.split intro!: atomics tx keeps)
  moreover have "atomic (user_Update env uctx)"
    unfolding user_Update_def Let_def
    by (auto split: option.split intro!: atomics tx keeps)
  moreover have "atomic (user_Delete env uctx)"
    unfolding user_Delete_def Let_def by (auto intro!: atomics tx keeps)
  moreover have "atomic (write_password env input)"
    unfolding write_password_def by (auto split: res.split intro!: atomics tx keeps)
  moreover have "atomic (role_Create env rctx)" "atomic (role_Update env rctx)"
    unfolding role_Create_def role_Update_def Let_def by (auto intro!: atomics tx keeps)
  moreover have "atomic (role_Delete env rctx)"
    unfolding role_Delete_def Let_def by (auto intro!: atomics tx keeps)
  moreover have "atomic (group_Create env gctx)" "atomic (group_Update env gctx)"
    unfolding group_Create_def group_Update_def Let_def by (auto intro!: atomics tx keeps)
  moreover have "atomic (group_Delete env gctx)"
    unfolding group_Delete_def Let_def by (intro atomics tx keeps del)
  moreover have "atomic (whitelist_Update env wctx)"
    unfolding whitelist_Update_def Let_def by (auto intro!: atomics tx keeps)
  ultimately show ?thesis by simp
qed

theorem failed_requests_change_nothing_witness:
  "\<exists>e. user_Create ex_env (ex_ctx Admin ''POST'' ''ddiuser'' [] (new_user ''bob'' ''x'' [])) ex_world =
     (Err e, ex_world)"
proof -
  let ?ctx = "ex_ctx Admin ''POST'' ''ddiuser'' [] (new_user ''bob'' ''x'' [])"
  obtain c where c: "Encrypt aesKey ''x'' = Ok c" by (rule aesKey_encrypts)
  have "tb_insert mem_users (created_row (new_user ''bob'' ''x'' []) c) ex_data = (Err ''duplicate key'', ex_data)"
    by (simp add: mem_users_def ex_data_def created_row_def new_user_def ex_bob_def)
  then obtain e w' where run: "user_Create ex_env ?ctx ex_world = (Err e, w')"
    using c by (simp add: user_Create_def Let_def created_row_def withTx_def mem_db_def on_db_def
        c_bind_def server_error_def c_map_err_def new_user_def)
  moreover have "tx_laws (env_db ex_env)"
    using ex_env_ok(1) by (intro tx_reliable_laws) blast
  ultimately have "w' = ex_world"
    using conjunct1 [OF failed_requests_change_nothing [of ex_env ?ctx]] unfolding atomic_def by blast
  with run show ?thesis by blast
qed

end
