(* ===== verification/UtilProps.thy ===== *)
theory UtilProps
  imports Check AuditLog SessionProps
begin

text \<open>
  The properties of the utilities of \<open>pkg/util\<close> and of the white-list check: names, passwords,
  prefixes, filters and the query of the audit log.
\<close>

section \<open>Names\<close>

text \<open>C22. What the three name checks accept, in plain terms. A name is accepted when it is not
  empty, has only letters, digits and hyphens, is none of the reserved names in any case, and,
  if it has two characters or more, does not start or end with a hyphen. A domain name is
  accepted when it is not empty and has only letters, digits, stars, dots and at-signs; hyphens,
  which the first of its patterns lists, are always refused by the second. A zone name is
  accepted when it has only letters, digits and dots and is not made of dots alone.\<close>

theorem name_checks:
  "(CheckNameValid name = None \<longleftrightarrow>
     name \<noteq> [] \<and> (\<forall>c \<in> set name. is_alnum c \<or> c = CHR ''-'') \<and>
     str_lower name \<notin> set reserved_names \<and>
     (2 \<le> length name \<longrightarrow> hd name \<noteq> CHR ''-'' \<and> last name \<noteq> CHR ''-'')) \<and>
   (CheckDomainNameValid name = None \<longleftrightarrow>
     name \<noteq> [] \<and> (\<forall>c \<in> set name. is_alnum c \<or> c \<in> {CHR ''*'', CHR ''.'', CHR ''@''})) \<and>
   (CheckZoneNameValid name = None \<longleftrightarrow>
     (\<forall>c \<in> set name. is_alnum c \<or> c = CHR ''.'') \<and> (\<exists>c \<in> set name. c \<noteq> CHR ''.''))"
  by (intro conjI CheckNameValid_iff CheckDomainNameValid_iff CheckZoneNameValid_iff)

theorem name_checks_witness:
  "CheckNameValid ''a-c'' = None \<and> CheckNameValid ''any'' \<noteq> None \<and> CheckDomainNameValid ''a-b'' \<noteq> None"
  using name_checks [of "''a-c''"] name_checks [of "''any''"] name_checks [of "''a-b''"]
  by (simp add: is_alnum_def in_ranges_def reserved_names_def str_lower_def ascii_lower_def)

section \<open>Passwords\<close>

text \<open>C23. With a key of 16, 24 or 32 bytes every text can be encrypted, what was encrypted is
  decrypted to the text it came from, and different texts have different encryptions; with a key
  of any other length encryption and decryption fail with an error, never with a panic.\<close>

theorem encryption_roundtrip:
  "(length key \<in> {16, 24, 32} \<longrightarrow>
     (\<exists>c. Encrypt key pt = Ok c \<and> Decrypt key c = Ok pt \<and> (\<forall>pt'. Encrypt key pt' = Ok c \<longrightarrow> pt' = pt))) \<and>
   (length key \<notin> {16, 24, 32} \<longrightarrow> (\<exists>e. Encrypt key pt = Err e) \<and> (\<exists>e. Decrypt key pt = Err e))"
proof (intro conjI impI)
  assume "length key \<in> {16, 24, 32}"
  then obtain c where c: "Encrypt key pt = Ok c" using Encrypt_Ok_iff by blast
  then show "\<exists>c. Encrypt key pt = Ok c \<and> Decrypt key c = Ok pt \<and> (\<forall>pt'. Encrypt key pt' = Ok c \<longrightarrow> pt' = pt)"
    using Decrypt_Encrypt_aux [OF c] Encrypt_inj by blast
next
  assume "length key \<notin> {16, 24, 32}"
  then show "\<exists>e. Encrypt key pt = Err e" and "\<exists>e. Decrypt key pt = Err e"
    by (simp_all add: Encrypt_def Decrypt_def new_cipher_def)
qed

theorem encryption_roundtrip_witness:
  "\<exists>c. Encrypt aesKey ''admin'' = Ok c \<and> Decrypt aesKey c = Ok ''admin''"
  using encryption_roundtrip [of aesKey "''admin''"] aesKey_length by auto

section \<open>Prefixes\<close>

text \<open>C24. On IPv4 prefixes the containment test agrees with inclusion of the sets of addresses,
  except for the subnet of all addresses: a prefix of any length is said to contain it as soon
  as the base addresses agree, although it only does when its own length is zero too.\<close>

theorem prefix_containment:
  assumes "length p = 4" and "length a = 4" and "n \<le> 32" and "m \<le> 32"
  shows "PrefixContainsSubnetOrIP (cidr_v4 p n) (cidr_v4 a m) =
      Ok (if m = 0 then take n (ip_bits p) = take n (ip_bits a) else v4_range a m \<subseteq> v4_range p n) \<and>
    PrefixContainsSubnetOrIP (cidr_v4 p n) (show_v4 a) = Ok (a \<in> v4_range p n)"
proof -
  have "v4_range a m \<subseteq> v4_range p n \<longleftrightarrow> n \<le> m \<and> take n (ip_bits a) = take n (ip_bits p)"
  proof
    assume sub: "v4_range a m \<subseteq> v4_range p n"
    then have "\<not> m < n" using v4_range_strict [OF assms(2) _ assms(3)] by blast
    then show "n \<le> m \<and> take n (ip_bits a) = take n (ip_bits p)"
      using v4_range_subset_agree [OF assms(2) sub] by simp
  next
    assume "n \<le> m \<and> take n (ip_bits a) = take n (ip_bits p)"
    then show "v4_range a m \<subseteq> v4_range p n" using v4_range_mono by blast
  qed
  then show ?thesis
    using PrefixContains_v4_subnet [OF assms] PrefixContains_v4_addr [OF assms(1-3)] assms(2)
    by (auto simp: v4_range_def)
qed

theorem prefix_containment_witness:
  "PrefixContainsSubnetOrIP ''10.0.0.0/8'' ''10.0.0.0/0'' = Ok True \<and>
   PrefixContainsSubnetOrIP ''10.0.0.0/8'' ''10.0.0.0/4'' = Ok False"
proof -
  let ?p = "[10, 0, 0, 0] :: ip"
  have "cidr_v4 ?p 8 = ''10.0.0.0/8''" "cidr_v4 ?p 0 = ''10.0.0.0/0''" "cidr_v4 ?p 4 = ''10.0.0.0/4''"
    by code_simp+
  moreover have "\<not> v4_range ?p 4 \<subseteq> v4_range ?p 8" by (rule v4_range_strict) simp_all
  ultimately show ?thesis
    using prefix_containment [of ?p ?p 8 0] prefix_containment [of ?p ?p 8 4] by simp
qed

lemma whitelist_Update_run:
  assumes "tx_reliable (env_db env)"
    and "\<And>cols c d. \<exists>n. tb_update (whitelists (env_db env)) cols c d = (Ok n, upd cols c d)"
    and "check_ips (wl_ips wl) = Ok ()" and "\<not> (wl_enabled wl \<and> wl_ips wl = [])" and "wl = c_resource ctx"
  shows "whitelist_Update env ctx w = (Ok wl, w\<lparr>w_db :=
    upd [(''ips'', DStrs (wl_ips wl)), (''enabled'', DBool (wl_enabled wl))] (by_id (wl_id wl)) (w_db w)\<rparr>)"
proof -
  let ?cols = "[(''ips'', DStrs (wl_ips wl)), (''enabled'', DBool (wl_enabled wl))]"
  let ?body = "c_map_err (\<lambda>e. ''update WhiteList rr:'' @ e)
      (on_db (tb_update (whitelists (env_db env)) ?cols (by_id (wl_id wl))))"
  obtain n where "tb_update (whitelists (env_db env)) ?cols (by_id (wl_id wl)) (w_db w) =
      (Ok n, upd ?cols (by_id (wl_id wl)) (w_db w))"
    using assms(2) by blast
  then have "?body w = (Ok n, w\<lparr>w_db := upd ?cols (by_id (wl_id wl)) (w_db w)\<rparr>)" by simp
  then have tx: "withTx (env_db env) ?body w = (Ok n, w\<lparr>w_db := upd ?cols (by_id (wl_id wl)) (w_db w)\<rparr>)"
    by (rule withTx_reliable(1) [OF assms(1)])
  have tail: "c_bind (server_error (\<lambda>e. e) (withTx (env_db env) ?body)) (\<lambda>_. c_return wl) w =
      (Ok wl, w\<lparr>w_db := upd ?cols (by_id (wl_id wl)) (w_db w)\<rparr>)"
    by (rule trans [OF c_bind_step(1)], rule server_error_step(1), rule tx) simp
  have chk: "server_error (\<lambda>e. e) (c_lift (check_ips (wl_ips wl))) w = (Ok (), w)" by (simp add: assms(3))
  have ne: "(wl_enabled wl \<and> length (wl_ips wl) = 0) = False" using assms(4) by simp
  have "whitelist_Update env ctx w = c_bind (server_error (\<lambda>e. e) (c_lift (check_ips (wl_ips wl))))
      (\<lambda>_. c_bind (server_error (\<lambda>e. e) (withTx (env_db env) ?body)) (\<lambda>_. c_return wl)) w"
    unfolding whitelist_Update_def Let_def assms(5) [symmetric] by (simp only: ne if_False)
  also have "\<dots> = (Ok wl, w\<lparr>w_db := upd ?cols (by_id (wl_id wl)) (w_db w)\<rparr>)"
    by (rule trans [OF c_bind_step(1)]) (rule chk, rule tail)
  finally show ?thesis .
qed

lemma checkIP_entry:
  "entry_v4 e \<Longrightarrow> checkIP (entry_text e) = Ok () \<longleftrightarrow>
    (case e of WlAddr p \<Rightarrow> True | WlNet p n \<Rightarrow> and_bytes p (cidr_mask n 4) = p)"
proof (cases e)
  case (WlAddr p)
  moreover assume "entry_v4 e"
  ultimately show ?thesis
    using show_v4_no_slash [of p] by (simp add: checkIP_def str_contains_char parse_ip_show_v4)
qed (simp add: checkIP_subnet_v4)

text \<open>The white list is updated exactly when it is not enabled with an empty list and every
  entry passes the check; the check accepts an IPv4 address, and an IPv4 subnet exactly when no
  bit is set behind its prefix. A refused update changes nothing.\<close>

theorem whitelist_update_checks:
  assumes "tx_reliable (env_db env)"
    and "\<And>cols c d. \<exists>n. tb_update (whitelists (env_db env)) cols c d = (Ok n, upd cols c d)"
    and "wl_ips (c_resource ctx) = map entry_text es" and "\<forall>e \<in> set es. entry_v4 e"
  shows "(let wl = c_resource ctx;
          ok = (\<not> (wl_enabled wl \<and> es = []) \<and>
            (\<forall>e \<in> set es. case e of WlAddr p \<Rightarrow> True | WlNet p n \<Rightarrow> and_bytes p (cidr_mask n 4) = p))
      in if ok then whitelist_Update env ctx w = (Ok wl, w\<lparr>w_db :=
           upd [(''ips'', DStrs (wl_ips wl)), (''enabled'', DBool (wl_enabled wl))] (by_id (wl_id wl)) (w_db w)\<rparr>)
         else \<exists>e. whitelist_Update env ctx w = (Err e, w))"
proof -
  let ?wl = "c_resource ctx"
  let ?good = "\<lambda>e. case e of WlAddr p \<Rightarrow> True | WlNet p n \<Rightarrow> and_bytes p (cidr_mask n 4) = p"
  have all: "check_ips (wl_ips ?wl) = Ok () \<longleftrightarrow> (\<forall>e \<in> set es. ?good e)"
    using checkIP_entry assms(3,4) by (auto simp: check_ips_Ok_iff)
  show ?thesis
  proof (cases "check_ips (wl_ips ?wl)")
    case (Ok u)
    have "whitelist_Update env ctx w = (Ok ?wl, w\<lparr>w_db := upd [(''ips'', DStrs (wl_ips ?wl)),
        (''enabled'', DBool (wl_enabled ?wl))] (by_id (wl_id ?wl)) (w_db w)\<rparr>)"
      if "\<not> (wl_enabled ?wl \<and> es = [])"
      using that Ok assms(3) by (intro whitelist_Update_run [OF assms(1,2)]) simp_all
    moreover have "\<exists>e. whitelist_Update env ctx w = (Err e, w)" if "wl_enabled ?wl \<and> es = []"
      using that assms(3) by (simp add: whitelist_Update_def Let_def)
    ultimately show ?thesis using all Ok by (simp add: Let_def)
  next
    case (Err e)
    with all have "\<not> (\<forall>e \<in> set es. ?good e)" by simp
    with Err show ?thesis by (auto simp: whitelist_Update_def Let_def c_bind_def server_error_def c_map_err_def)
  next
    case Panic
    then show ?thesis using check_ips_not_Panic by blast
  qed
qed

theorem whitelist_update_checks_witness:
  "\<exists>e. whitelist_Update ex_env (ex_ctx Admin ''PUT'' ''whitelist'' WhiteListID
     (ex_whitelist\<lparr>wl_ips := [''10.0.0.1/8'']\<rparr>)) ex_world = (Err e, ex_world)"
proof -
  let ?ctx = "ex_ctx Admin ''PUT'' ''whitelist'' WhiteListID (ex_whitelist\<lparr>wl_ips := [''10.0.0.1/8'']\<rparr>)"
  have rel: "tx_reliable (env_db ex_env)" using ex_env_ok(1) by blast
  have upd: "\<exists>n. tb_update (whitelists (env_db ex_env)) cols c d = (Ok n, d)" for cols c d
    by (simp add: mem_whitelists_def)
  have net: "wl_ips (c_resource ?ctx) = map entry_text [WlNet [10, 0, 0, 1] 8]"
    by (simp, code_simp)
  have bad: "and_bytes [10, 0, 0, 1] (cidr_mask 8 4) \<noteq> ([10, 0, 0, 1] :: ip)" by code_simp
  from whitelist_update_checks [OF rel upd net, of ex_world] bad show ?thesis by simp
qed

section \<open>Filters\<close>

text \<open>The conditions generated from the filters of a request have, for each of the given
  names, the value of the first filter of that name that carries exactly one value under
  equality, and nothing else; without any filter there are no conditions at all.\<close>

theorem conditions_from_filters:
  "(filters = [] \<longrightarrow> GenStrConditionsFromFilters filters names = None) \<and>
   (filters \<noteq> [] \<longrightarrow> (\<exists>m. GenStrConditionsFromFilters filters names = Some m \<and>
     (\<forall>k. map_of m k = (if k \<in> set names
        then Option.bind (find (\<lambda>f. f_name f = k \<and> f_modifier f = Eq \<and> length (f_values f) = 1) filters)
               (\<lambda>f. Some (hd (f_values f)))
        else None))))"
proof (intro conjI impI)
  assume "filters \<noteq> []"
  have first: "GetFilterValueWithEqModifierFromFilters k fs =
      Option.bind (find (\<lambda>f. f_name f = k \<and> f_modifier f = Eq \<and> length (f_values f) = 1) fs)
        (\<lambda>f. Some (hd (f_values f)))" for k fs
    by (induction fs) (auto simp: length_Suc_conv)
  with \<open>filters \<noteq> []\<close> show "\<exists>m. GenStrConditionsFromFilters filters names = Some m \<and>
     (\<forall>k. map_of m k = (if k \<in> set names
        then Option.bind (find (\<lambda>f. f_name f = k \<and> f_modifier f = Eq \<and> length (f_values f) = 1) filters)
               (\<lambda>f. Some (hd (f_values f)))
        else None))"
    by (simp add: GenStrConditionsFromFilters_def gen_str_conditions_fold)
qed (simp add: GenStrConditionsFromFilters_def)

definition ex_filters :: "filter_rec list" where
  "ex_filters = [\<lparr>f_name = ''source_ip'', f_modifier = Eq, f_values = [''10.0.0.1'']\<rparr>,
     \<lparr>f_name = ''from'', f_modifier = Eq, f_values = [''2020-01-01'']\<rparr>]"

theorem conditions_from_filters_witness:
  "\<exists>m. GenStrConditionsFromFilters ex_filters [''source_ip''] = Some m \<and>
     map_of m ''source_ip'' = Some ''10.0.0.1'' \<and> map_of m ''from'' = None"
  using conditions_from_filters [of ex_filters "[''source_ip'']"]
  by (auto simp: ex_filters_def)

section \<open>The query of the audit log\<close>

definition last_value :: "string \<Rightarrow> filter_rec list \<Rightarrow> string option" where
  "last_value name fs =
     Option.bind (find (\<lambda>f. f_name f = name \<and> GetFilterValueWithEqModifierFromFilter f \<noteq> None) (rev fs))
       GetFilterValueWithEqModifierFromFilter"

lemma last_value_snoc:
  "last_value name (fs @ [f]) =
     (if f_name f = name \<and> GetFilterValueWithEqModifierFromFilter f \<noteq> None
      then GetFilterValueWithEqModifierFromFilter f else last_value name fs)"
  by (auto simp: last_value_def)

lemma last_value_Nil [simp]: "last_value name [] = None"
  by (simp add: last_value_def)

definition placeholder :: "string \<Rightarrow> string" where "placeholder name = name @ '' = $''"

lemma placeholder_inj [simp]: "placeholder a = placeholder b \<longleftrightarrow> a = b"
  by (simp add: placeholder_def)

lemma sql_fold:
  fixes from0 to0 :: string
  assumes "\<And>xs x. idx xs x \<noteq> - 1 \<longleftrightarrow> x \<in> set xs" and "''from'' \<notin> set names" and "''to'' \<notin> set names"
  defines "p0 \<equiv> \<lparr>sp_conditions = [], sp_from = from0, sp_to = to0\<rparr>"
  shows "(\<forall>n. map_of (sp_conditions (fold (sql_filter_step idx names) fs p0)) (placeholder n) =
            (if n \<in> set names then last_value n fs else None)) \<and>
    (\<forall>k \<in> set (map fst (sp_conditions (fold (sql_filter_step idx names) fs p0))). \<exists>n. k = placeholder n) \<and>
    distinct (map fst (sp_conditions (fold (sql_filter_step idx names) fs p0))) \<and>
    sp_from (fold (sql_filter_step idx names) fs p0) = (case last_value ''from'' fs of Some v \<Rightarrow> v | None \<Rightarrow> from0) \<and>
    sp_to (fold (sql_filter_step idx names) fs p0) = (case last_value ''to'' fs of Some v \<Rightarrow> v | None \<Rightarrow> to0)"
proof (induction fs rule: rev_induct)
  case (snoc f fs)
  let ?p = "fold (sql_filter_step idx names) fs p0"
  have step: "fold (sql_filter_step idx names) (fs @ [f]) p0 = sql_filter_step idx names f ?p" by simp
  have keys: "set (map fst (AList.update k v m)) = insert k (set (map fst m))" for k :: string and v :: string and m
    by (induction m) auto
  show ?case
  proof (cases "GetFilterValueWithEqModifierFromFilter f")
    case None
    then have "sql_filter_step idx names f ?p = ?p" by (simp add: sql_filter_step_def)
    with snoc None show ?thesis unfolding step last_value_snoc by simp
  next
    case (Some v)
    show ?thesis
    proof (cases "f_name f \<in> set names")
      case True
      then have s: "sql_filter_step idx names f ?p =
          ?p\<lparr>sp_conditions := AList.update (placeholder (f_name f)) v (sp_conditions ?p)\<rparr>"
        using assms(1) Some by (simp add: sql_filter_step_def placeholder_def)
      from True assms(2,3) have ne: "f_name f \<noteq> ''from''" "f_name f \<noteq> ''to''" by auto
      show ?thesis unfolding step s last_value_snoc
        using snoc True Some ne keys by (auto simp: gomap_simps simp del: set_map)
    next
      case False
      then have s: "sql_filter_step idx names f ?p =
          (if f_name f = ''from'' then ?p\<lparr>sp_from := v\<rparr>
           else if f_name f = ''to'' then ?p\<lparr>sp_to := v\<rparr> else ?p)"
        using assms(1) Some by (simp add: sql_filter_step_def)
      show ?thesis unfolding step s last_value_snoc
        using snoc False Some by (auto simp del: set_map)
    qed
  qed
qed (simp add: p0_def)

lemma sql_conditions_split:
  "sql_conditions (map (\<lambda>(n, v). (placeholder n, v)) conds) args =
     (concat (map (\<lambda>(i, (n, v)). n @ '' = $'' @ itoa (int (i + 1)) @ '' and '')
        (enumerate (length args) conds)),
      args @ map snd conds)"
  by (induction conds arbitrary: args) (auto simp: Let_def placeholder_def)

text \<open>The query of the audit log has one numbered placeholder for every filter name that some
  filter gives a value, with the last value given as the argument of that number, in the same
  order; the time range is not passed as arguments: the bounds given by the request are copied
  into the text of the query between quotes as they are, whatever characters they contain.\<close>

theorem audit_query:
  assumes "\<And>xs x. idx xs x \<noteq> - 1 \<longleftrightarrow> x \<in> set xs" and "order_ok ord"
    and "''from'' \<notin> set names" and "''to'' \<notin> set names"
  shows "\<exists>conds. GenSqlAndArgsByFileters idx ord now table names days filters =
      (''select * from gr_'' @ table @ '' where '' @
         concat (map (\<lambda>(i, (n, v)). n @ '' = $'' @ itoa (int (i + 1)) @ '' and '') (enumerate 0 conds)) @
         sql_range (case last_value ''from'' filters of Some v \<Rightarrow> v | None \<Rightarrow> format_date (days_before days now))
           (case last_value ''to'' filters of Some v \<Rightarrow> v | None \<Rightarrow> format_date now),
       map snd conds) \<and>
    distinct (map fst conds) \<and>
    set conds = {(n, v). n \<in> set names \<and> last_value n filters = Some v}"
proof -
  let ?p = "fold (sql_filter_step idx names) filters \<lparr>sp_conditions = [],
      sp_from = format_date (days_before days now), sp_to = format_date now\<rparr>"
  let ?m = "sp_conditions ?p"
  note inv = sql_fold [OF assms(1,3,4), of filters "format_date (days_before days now)" "format_date now"]
  have look: "map_of ?m (placeholder n) = (if n \<in> set names then last_value n filters else None)" for n
    using inv by blast
  have form: "\<forall>k \<in> set (map fst ?m). \<exists>n. k = placeholder n" and dist: "distinct (map fst ?m)"
    using inv by blast+
  have rng: "set (gomap_range ord ?m) = set ?m" using gomap_range_set [OF assms(2) dist] .
  then have "\<forall>c \<in> set (gomap_range ord ?m). \<exists>n. fst c = placeholder n" using form by auto
  then obtain name where name: "\<And>c. c \<in> set (gomap_range ord ?m) \<Longrightarrow> fst c = placeholder (name c)"
    by metis
  define conds where "conds = map (\<lambda>c. (name c, snd c)) (gomap_range ord ?m)"
  have ranged: "gomap_range ord ?m = map (\<lambda>(n, v). (placeholder n, v)) conds"
    unfolding conds_def using name by (auto simp: comp_def intro!: map_idI [symmetric] prod_eqI)
  have sql: "sql_conditions (gomap_range ord ?m) [] =
      (concat (map (\<lambda>(i, (n, v)). n @ '' = $'' @ itoa (int (i + 1)) @ '' and '') (enumerate 0 conds)),
       map snd conds)"
    unfolding ranged using sql_conditions_split [of conds "[]"] by simp
  have "map placeholder (map fst conds) = map fst (gomap_range ord ?m)"
    unfolding ranged by (simp add: case_prod_unfold)
  moreover have "distinct (map fst (gomap_range ord ?m))"
    using dist assms(2) by (simp add: keys_gomap_range order_ok_distinct)
  ultimately have d: "distinct (map fst conds)" by (metis distinct_map)
  have "(n, v) \<in> set conds \<longleftrightarrow> (placeholder n, v) \<in> set ?m" for n v
    unfolding rng [symmetric] ranged by auto
  then have "(n, v) \<in> set conds \<longleftrightarrow> n \<in> set names \<and> last_value n filters = Some v" for n v
    unfolding map_of_eq_Some_iff [OF dist, symmetric] look by simp
  then have c: "set conds = {(n, v). n \<in> set names \<and> last_value n filters = Some v}" by auto
  from inv have ends: "sp_from ?p = (case last_value ''from'' filters of Some v \<Rightarrow> v
        | None \<Rightarrow> format_date (days_before days now))"
      "sp_to ?p = (case last_value ''to'' filters of Some v \<Rightarrow> v | None \<Rightarrow> format_date now)"
    by blast+
  show ?thesis
    by (rule exI [of _ conds], intro conjI d c)
      (simp only: GenSqlAndArgsByFileters_def Let_def sql ends prod.case append_assoc)
qed

lemma distinct_single:
  assumes "distinct xs" and "set xs = {x}"
  shows "xs = [x]"
proof (cases xs)
  case (Cons y ys)
  with assms have "y = x" and "x \<notin> set ys" and "set ys \<subseteq> {x}" by auto
  then have "ys = []" by (cases ys) auto
  with Cons \<open>y = x\<close> show ?thesis by simp
qed (use assms in simp)

definition ex_slice_index :: "string list \<Rightarrow> string \<Rightarrow> int" where
  "ex_slice_index xs x = (if x \<in> set xs then int (length (takeWhile (\<lambda>y. y \<noteq> x) xs)) else - 1)"

theorem audit_query_witness:
  "\<exists>sql. GenSqlAndArgsByFileters ex_slice_index (\<lambda>ks. ks) \<lparr>d_year = 2020, d_month = 3, d_day = 1\<rparr> ''audit_log''
     [''source_ip''] 180 ex_filters = (sql, [''10.0.0.1''])"
proof -
  have idx: "ex_slice_index xs x \<noteq> - 1 \<longleftrightarrow> x \<in> set xs" for xs x
    by (simp add: ex_slice_index_def)
  obtain conds where "snd (GenSqlAndArgsByFileters ex_slice_index (\<lambda>ks. ks) \<lparr>d_year = 2020, d_month = 3, d_day = 1\<rparr>
      ''audit_log'' [''source_ip''] 180 ex_filters) = map snd conds" and d: "distinct (map fst conds)"
    and c: "set conds = {(n, v). n \<in> set [''source_ip''] \<and> last_value n ex_filters = Some v}"
    using audit_query [OF idx order_ok_id, of "[''source_ip'']" "\<lparr>d_year = 2020, d_month = 3, d_day = 1\<rparr>"
        "''audit_log''" 180 ex_filters] by auto
  moreover have "last_value ''source_ip'' ex_filters = Some ''10.0.0.1''"
    by (simp add: last_value_def ex_filters_def GetFilterValueWithEqModifierFromFilter_def)
  with c have "set conds = {(''source_ip'', ''10.0.0.1'')}" by auto
  with d have "conds = [(''source_ip'', ''10.0.0.1'')]" by (intro distinct_single) (simp_all add: distinct_map)
  ultimately have "snd (GenSqlAndArgsByFileters ex_slice_index (\<lambda>ks. ks) \<lparr>d_year = 2020, d_month = 3, d_day = 1\<rparr>
      ''audit_log'' [''source_ip''] 180 ex_filters) = [''10.0.0.1'']" by simp
  then show ?thesis by (metis prod.collapse)
qed

end
