(* ===== verification/AgentEvents.thy ===== *)
theory AgentEvents
  imports Rest
begin

text \<open>
  \<open>pkg/agentevent/handler\<close>: the log of recent agent events (\<open>agentevent_handler.go\<close>), filled
  from the database at start-up and by the consumer of agent messages, and the goroutine behind
  each web socket that follows the log (\<open>agentevent_websocket.go\<close>).
\<close>

section \<open>The log\<close>

type_synonym u64 = "64 word"

record agent_event =
  ae_created :: int
  ae_node :: string
  ae_node_type :: string
  ae_resource :: string
  ae_method :: string
  ae_succeed :: bool
  ae_error_message :: string
  ae_cmd_message :: string
  ae_operation_time :: string

record event =
  ev_index :: u64
  ev_event :: agent_event

text \<open>The list runs from its front to its back.\<close>

record agent_event_handler =
  eventList :: "event list"
  eventOffset :: u64

definition maxMessageLen :: nat where "maxMessageLen = 1000"

definition addEventList :: "agent_event \<Rightarrow> agent_event_handler \<Rightarrow> agent_event_handler" where
  "addEventList agentEvent h =
     (let kept = (if length (eventList h) > maxMessageLen then tl (eventList h) else eventList h)
      in h\<lparr>eventList := kept @ [\<lparr>ev_index = eventOffset h + 1, ev_event = agentEvent\<rparr>],
           eventOffset := eventOffset h + 1\<rparr>)"

definition getEvents :: "u64 \<Rightarrow> agent_event_handler \<Rightarrow> agent_event list" where
  "getEvents offset h = map ev_event (takeWhile (\<lambda>e. ev_index e > offset) (rev (eventList h)))"

section \<open>Filling the log\<close>

text \<open>The message format of the agents belongs to another repository: decoding a message is a
  parameter, and these are the fields that are read. The header may be missing.\<close>

record response_header =
  rh_resource :: string
  rh_method :: string

record ddi_response =
  dr_node :: string
  dr_node_type :: string
  dr_header :: "response_header option"
  dr_succeed :: bool
  dr_error_message :: string
  dr_cmd_message :: string
  dr_operation_time :: string

record ('d, 'row) counted_table = "('d, 'row) table" +
  tb_count :: "columns \<Rightarrow> ('d, gerror, nat) comp"

definition deleteAgentSql :: string where
  "deleteAgentSql = ''delete from gr_agent_event where create_time < $1 or create_time < $2''"

definition agent_event_of :: "ddi_response \<Rightarrow> agent_event" where
  "agent_event_of r =
     \<lparr>ae_created = 0, ae_node = dr_node r, ae_node_type = dr_node_type r,
      ae_resource = (case dr_header r of None \<Rightarrow> [] | Some h \<Rightarrow> rh_resource h),
      ae_method = (case dr_header r of None \<Rightarrow> [] | Some h \<Rightarrow> rh_method h),
      ae_succeed = dr_succeed r, ae_error_message = dr_error_message r,
      ae_cmd_message = dr_cmd_message r, ae_operation_time = dr_operation_time r\<rparr>"

text \<open>The event goes into the log only after it is in the database; the row that the insertion
  returns is the same event with its time of creation.\<close>

definition pushAgentEvent ::
  "'d tx_hooks \<Rightarrow> ('d, agent_event) counted_table \<Rightarrow> (string \<Rightarrow> (gerror, ddi_response) res) \<Rightarrow>
   string \<Rightarrow> agent_event_handler \<Rightarrow> (('d, 'u) world, gerror, agent_event_handler) comp" where
  "pushAgentEvent P t unmarshal message h =
     c_bind (c_map_err (\<lambda>e. ''pushAgentEvent Unmarshal message error:'' @ e) (c_lift (unmarshal message)))
       (\<lambda>ddiResponse.
         c_bind (withTx P (c_map_err (\<lambda>e. ''insert agentEvent failed:'' @ e @ '' '')
             (on_db (tb_insert t (agent_event_of ddiResponse)))))
           (\<lambda>agentEvent. c_return (addEventList agentEvent h)))"

text \<open>The loop over the rows: the first row gets index 1.\<close>

definition load_events :: "agent_event list \<Rightarrow> agent_event_handler" where
  "load_events agentEventList =
     \<lparr>eventList = map (\<lambda>(i, e). \<lparr>ev_index = word_of_nat (i + 1), ev_event = e\<rparr>)
        (enumerate 0 agentEventList),
      eventOffset = word_of_nat (length agentEventList)\<rparr>"

definition loadEventList ::
  "'d tx_hooks \<Rightarrow> ('d, agent_event) counted_table \<Rightarrow> int \<Rightarrow>
   (('d, 'u) world, gerror, agent_event_handler) comp" where
  "loadEventList P t monthAgo =
     withTx P
       (c_bind (c_map_err (\<lambda>e. ''list gr_agent_event failed:'' @ e)
           (on_db (tb_get t [(''orderby'', DStr ''create_time desc''),
              (''limit'', DInt (int maxMessageLen)), (''offset'', DInt 0)])))
         (\<lambda>agentEventList.
           if length agentEventList = 0 then c_return \<lparr>eventList = [], eventOffset = 0\<rparr>
           else c_bind (c_map_err (\<lambda>e. ''delete gr_agent_event cleanPreMonthData data failed:'' @ e)
               (on_db (tx_exec P deleteAgentSql
                 [DInt monthAgo, DInt (ae_created (agentEventList ! (length agentEventList - 1)))])))
             (\<lambda>_. c_return (load_events agentEventList))))"

text \<open>The monthly clean-up of the table.\<close>

definition cleanAgentEventHistory ::
  "'d tx_hooks \<Rightarrow> ('d, agent_event) counted_table \<Rightarrow> int \<Rightarrow> (('d, 'u) world, gerror, unit) comp" where
  "cleanAgentEventHistory P t monthAgo =
     withTx P
       (c_bind (c_map_err (\<lambda>e. ''delete gr_agent_event cleanPreMonthData data failed:'' @ e)
           (on_db (tx_exec P ''delete from gr_agent_event where create_time < $1'' [DInt monthAgo])))
         (\<lambda>_. c_bind (c_map_err (\<lambda>e. ''count gr_agent_event failed:'' @ e) (on_db (tb_count t [])))
           (\<lambda>count. if count \<le> maxMessageLen then c_return ()
             else c_bind (c_map_err (\<lambda>e. ''delete from gr_agent_event failed:'' @ e)
                 (on_db (tx_exec P (''delete from gr_agent_event where id in (select id from '' @
                   ''gr_agent_event order by create_time limit $1)'') [DInt (int maxMessageLen)])))
               (\<lambda>_. c_return ()))))"

text \<open>\<open>NewAgentEventHandler\<close>, and what its two goroutines do: at a tick of the clock the table is
  cleaned, and a message of the broker is pushed if it has the key of agent events. Both only
  report errors. The state is the handler with the database.\<close>

definition NewAgentEventHandler ::
  "'d tx_hooks \<Rightarrow> ('d, agent_event) counted_table \<Rightarrow> int \<Rightarrow>
   (('d, 'u) world, gerror, agent_event_handler) comp" where
  "NewAgentEventHandler P t monthAgo = loadEventList P t monthAgo"

definition history_tick ::
  "'d tx_hooks \<Rightarrow> ('d, agent_event) counted_table \<Rightarrow> int \<Rightarrow> (('d, 'u) world, gerror, unit) comp" where
  "history_tick P t monthAgo = (\<lambda>w. case cleanAgentEventHistory P t monthAgo w of
     (Err e, w') \<Rightarrow> (Ok (), w') | out \<Rightarrow> out)"

definition kafka_message ::
  "'d tx_hooks \<Rightarrow> ('d, agent_event) counted_table \<Rightarrow> (string \<Rightarrow> (gerror, ddi_response) res) \<Rightarrow>
   string \<Rightarrow> string \<times> string \<Rightarrow> (agent_event_handler \<times> ('d, 'u) world, gerror, unit) comp" where
  "kafka_message P t unmarshal agentEventKey message = (\<lambda>(h, w).
     if fst message = agentEventKey then
       (case pushAgentEvent P t unmarshal (snd message) h w of
          (Ok h', w') \<Rightarrow> (Ok (), (h', w'))
        | (Err e, w') \<Rightarrow> (Ok (), (h, w'))
        | (Panic, w') \<Rightarrow> (Panic, (h, w')))
     else (Ok (), (h, w)))"

text \<open>A message adds at most one event to the log.\<close>

lemma kafka_message_logged:
  "\<exists>es. fst (snd (kafka_message P t unmarshal k m (h, w))) = fold addEventList es h \<and> length es \<le> 1"
proof (cases "fst m = k \<and> (\<exists>h' w'. pushAgentEvent P t unmarshal (snd m) h w = (Ok h', w'))")
  case True
  then obtain h' w' where push: "pushAgentEvent P t unmarshal (snd m) h w = (Ok h', w')" by blast
  then obtain e where "h' = addEventList e h"
    unfolding pushAgentEvent_def by (elim c_bind_OkE) auto
  with True push show ?thesis by (intro exI [of _ "[e]"]) (simp add: kafka_message_def)
next
  case False
  then show ?thesis
    by (intro exI [of _ "[]"]) (auto simp: kafka_message_def split: prod.splits res.splits)
qed

lemma kafka_messages_logged:
  "\<exists>es. fst (snd (c_forM ms (kafka_message P t unmarshal k) (h, w))) = fold addEventList es h \<and>
    length es \<le> length ms"
proof (induction ms arbitrary: h w)
  case (Cons m ms)
  obtain r h1 w1 where one: "kafka_message P t unmarshal k m (h, w) = (r, (h1, w1))"
    by (metis prod.exhaust)
  from kafka_message_logged [of P t unmarshal k m h w] one
  obtain es where es: "h1 = fold addEventList es h" "length es \<le> 1" by auto
  from Cons.IH [of h1 w1] obtain es' where
    "fst (snd (c_forM ms (kafka_message P t unmarshal k) (h1, w1))) = fold addEventList es' h1"
    "length es' \<le> length ms" by blast
  with one es show ?case
    by (cases r) (auto simp: c_bind_def intro: exI [of _ "es @ es'"] exI [of _ es])
qed simp

section \<open>The log as a function of what was published\<close>

text \<open>All events ever put into the log, in order, determine it: it holds the last of them, with
  their positions as indices.\<close>

definition log_window :: nat where "log_window = maxMessageLen + 1"

definition numbered :: "nat \<Rightarrow> agent_event list \<Rightarrow> event list" where
  "numbered n es = map (\<lambda>(i, e). \<lparr>ev_index = word_of_nat (i + 1), ev_event = e\<rparr>) (enumerate n es)"

definition log_of :: "agent_event list \<Rightarrow> agent_event_handler" where
  "log_of hist =
     (let n = length hist - log_window
      in \<lparr>eventList = numbered n (drop n hist), eventOffset = word_of_nat (length hist)\<rparr>)"

lemma numbered_simps [simp]:
  "numbered n [] = []"
  "numbered n (e # es) = \<lparr>ev_index = word_of_nat (n + 1), ev_event = e\<rparr> # numbered (Suc n) es"
  by (simp_all add: numbered_def)

lemma numbered_length [simp]: "length (numbered n es) = length es"
  by (simp add: numbered_def)

lemma numbered_snoc:
  "numbered n (es @ [e]) = numbered n es @ [\<lparr>ev_index = word_of_nat (n + length es + 1), ev_event = e\<rparr>]"
  by (induction es arbitrary: n) simp_all

lemma tl_numbered: "tl (numbered n es) = numbered (Suc n) (tl es)"
  by (cases es) simp_all

lemma load_events_log_of: "length rows \<le> maxMessageLen \<Longrightarrow> load_events rows = log_of rows"
  by (simp add: load_events_def log_of_def log_window_def numbered_def)

lemma addEventList_log_of: "addEventList e (log_of hist) = log_of (hist @ [e])"
proof (cases "length hist < log_window")
  case True
  then have "\<not> length hist > maxMessageLen" "length hist - log_window = 0"
      "Suc (length hist) - log_window = 0"
    by (simp_all add: log_window_def)
  then show ?thesis by (simp add: addEventList_def log_of_def numbered_snoc Let_def)
next
  case False
  let ?n = "length hist - log_window"
  from False have n: "Suc (length hist) - log_window = Suc ?n" and le: "Suc ?n \<le> length hist"
    and full: "length (drop ?n hist) > maxMessageLen"
    by (simp_all add: log_window_def)
  have "tl (drop ?n hist) = drop (Suc ?n) hist" by (simp add: drop_Suc tl_drop)
  then have "eventList (addEventList e (log_of hist)) =
      numbered (Suc ?n) (drop (Suc ?n) hist) @ [\<lparr>ev_index = word_of_nat (length hist) + 1, ev_event = e\<rparr>]"
    using full by (simp add: addEventList_def log_of_def Let_def tl_numbered)
  also have "\<dots> = numbered (Suc ?n) (drop (Suc ?n) (hist @ [e]))"
    using le by (simp add: numbered_snoc)
  finally show ?thesis using n by (simp add: addEventList_def log_of_def Let_def)
qed

text \<open>Reading the log: the events behind an offset that are still there, newest first.\<close>

lemma newest_numbered:
  assumes "n + length es < 2 ^ 64"
  shows "map ev_event (takeWhile (\<lambda>e. ev_index e > off) (rev (numbered n es))) =
    rev (drop (unat off - n) es)"
  using assms
proof (induction es rule: rev_induct)
  case (snoc e es)
  have "unat (word_of_nat (n + length es + 1) :: u64) = n + length es + 1"
    using snoc.prems unat_of_nat [of "n + length es + 1", where 'a = 64] by simp
  then have "ev_index \<lparr>ev_index = word_of_nat (n + length es + 1), ev_event = e\<rparr> > off \<longleftrightarrow>
      unat off - n \<le> length es"
    by (simp only: event.select_convs word_less_nat_alt) auto
  then show ?case using snoc by (simp add: numbered_snoc del: of_nat_Suc of_nat_add)
qed simp

lemma getEvents_log_of:
  assumes "length hist < 2 ^ 64"
  shows "getEvents off (log_of hist) = rev (drop (max (unat off) (length hist - log_window)) hist)"
proof -
  let ?n = "length hist - log_window"
  have "getEvents off (log_of hist) = rev (drop (unat off - ?n) (drop ?n hist))"
    using newest_numbered [of ?n "drop ?n hist" off] assms by (simp add: getEvents_def log_of_def Let_def)
  then show ?thesis by (simp add: max_def)
qed

section \<open>The log as an interface\<close>

text \<open>What a follower of a log relies on: publishing appends to the history, and reading from an
  offset returns, newest first, the events behind it that the window still holds.\<close>

locale event_log =
  fixes repr :: "'e list \<Rightarrow> 's"
    and publish :: "'e \<Rightarrow> 's \<Rightarrow> 's"
    and since :: "u64 \<Rightarrow> 's \<Rightarrow> 'e list"
    and window :: nat
  assumes publish_repr: "publish e (repr hist) = repr (hist @ [e])"
    and since_repr: "length hist < 2 ^ 64 \<Longrightarrow>
      since off (repr hist) = rev (drop (max (unat off) (length hist - window)) hist)"
begin

lemma publish_all: "fold publish es (repr hist) = repr (hist @ es)"
  by (induction es arbitrary: hist) (simp_all add: publish_repr)

lemma since_length:
  "length hist < 2 ^ 64 \<Longrightarrow> length (since off (repr hist)) =
    length hist - max (unat off) (length hist - window)"
  by (simp add: since_repr)

lemma since_empty_iff:
  assumes "length hist < 2 ^ 64" and "0 < window"
  shows "since off (repr hist) = [] \<longleftrightarrow> length hist \<le> unat off"
proof -
  have "length hist \<le> max (unat off) (length hist - window) \<longleftrightarrow> length hist \<le> unat off"
    using assms(2) by (simp add: le_max_iff_disj) arith
  with assms(1) show ?thesis by (simp add: since_repr)
qed

text \<open>The next offset of a follower, which adds the number of events it was given.\<close>

lemma next_offset:
  assumes "length hist < 2 ^ 64" and "unat off \<le> length hist"
  shows "unat (off + word_of_nat (length (since off (repr hist)))) =
    unat off + min window (length hist - unat off)"
proof -
  have "length (since off (repr hist)) = min window (length hist - unat off)"
    using assms(1) by (auto simp: since_length)
  moreover have "unat off + min window (length hist - unat off) < 2 ^ 64"
    using assms by simp
  ultimately show ?thesis by (simp add: unat_word_ariths unat_of_nat)
qed

lemma read_in_step:
  assumes "length hist < 2 ^ 64" and "length hist - unat off \<le> window"
  shows "rev (since off (repr hist)) = drop (unat off) hist"
proof -
  have "length hist - window \<le> unat off" using assms(2) by arith
  then show ?thesis using assms(1) by (simp add: since_repr max_absorb1)
qed

end

interpretation ael: event_log log_of addEventList getEvents log_window
  by unfold_locales (simp_all add: addEventList_log_of getEvents_log_of)

section \<open>A follower\<close>

text \<open>
  The loop of \<open>publicAgentEvent\<close> for one listener, interleaved with the consumer that
  publishes. Between finding no events and waiting for a broadcast the log is not locked
  (\<open>BeforeWait\<close>). A stop request is only received where the loop selects on the stop channel:
  at its top and while sending. \<open>ws_hist\<close> (all events ever published) and \<open>ws_sent\<close> (what the
  listener's channel has carried) only record what happened.
\<close>

datatype phase = Polling | BeforeWait | Waiting | Sending "agent_event list" | Stopped

record ws_state =
  ws_log :: agent_event_handler
  ws_offset :: u64
  ws_phase :: phase
  ws_hist :: "agent_event list"
  ws_sent :: "agent_event list"

inductive publicAgentEvent_step :: "ws_state \<Rightarrow> ws_state \<Rightarrow> bool" where
  publish: "publicAgentEvent_step s (s\<lparr>ws_log := addEventList e (ws_log s), ws_hist := ws_hist s @ [e],
      ws_phase := (if ws_phase s = Waiting then Polling else ws_phase s)\<rparr>)"
| poll_none: "ws_phase s = Polling \<Longrightarrow> getEvents (ws_offset s) (ws_log s) = [] \<Longrightarrow>
    publicAgentEvent_step s (s\<lparr>ws_phase := BeforeWait\<rparr>)"
| poll_some: "ws_phase s = Polling \<Longrightarrow> getEvents (ws_offset s) (ws_log s) = events \<Longrightarrow> events \<noteq> [] \<Longrightarrow>
    publicAgentEvent_step s (s\<lparr>ws_offset := ws_offset s + word_of_nat (length events),
      ws_phase := Sending (rev events)\<rparr>)"
| cond_wait: "ws_phase s = BeforeWait \<Longrightarrow> publicAgentEvent_step s (s\<lparr>ws_phase := Waiting\<rparr>)"
| send: "ws_phase s = Sending (e # es) \<Longrightarrow>
    publicAgentEvent_step s (s\<lparr>ws_sent := ws_sent s @ [e], ws_phase := Sending es\<rparr>)"
| sent_all: "ws_phase s = Sending [] \<Longrightarrow> publicAgentEvent_step s (s\<lparr>ws_phase := Polling\<rparr>)"
| stop_polling: "ws_phase s = Polling \<Longrightarrow> publicAgentEvent_step s (s\<lparr>ws_phase := Stopped\<rparr>)"
| stop_sending: "ws_phase s = Sending (e # es) \<Longrightarrow> publicAgentEvent_step s (s\<lparr>ws_phase := Stopped\<rparr>)"

text \<open>\<open>AddListener\<close>: a new listener starts with offset zero, whatever the log holds.\<close>

definition AddListener :: "agent_event list \<Rightarrow> ws_state" where
  "AddListener hist = \<lparr>ws_log = log_of hist, ws_offset = 0, ws_phase = Polling, ws_hist = hist, ws_sent = []\<rparr>"

text \<open>The states reached through states that satisfy \<open>keep\<close>.\<close>

inductive ws_reach :: "(ws_state \<Rightarrow> bool) \<Rightarrow> agent_event list \<Rightarrow> ws_state \<Rightarrow> bool" for keep hist where
  ws_start: "ws_reach keep hist (AddListener hist)"
| ws_more: "ws_reach keep hist s \<Longrightarrow> keep s \<Longrightarrow> publicAgentEvent_step s s' \<Longrightarrow> ws_reach keep hist s'"

fun pending :: "phase \<Rightarrow> agent_event list" where
  "pending (Sending es) = es"
| "pending _ = []"

text \<open>No more events have been published behind the listener than the log holds.\<close>

definition in_step :: "ws_state \<Rightarrow> bool" where
  "in_step s \<longleftrightarrow> length (ws_hist s) - unat (ws_offset s) \<le> log_window \<and> length (ws_hist s) < 2 ^ 64"

inductive_cases step_cases: "publicAgentEvent_step s s'"

lemma ws_log_hist:
  assumes "ws_reach keep hist s"
  shows "ws_log s = log_of (ws_hist s)"
  using assms
proof induction
  case (ws_more s s')
  from ws_more.hyps(3) show ?case
    by cases (simp_all add: ws_more.IH addEventList_log_of)
qed (simp add: AddListener_def)

lemma log_window_pos: "0 < log_window"
  by (simp add: log_window_def)

definition ws_inv :: "ws_state \<Rightarrow> bool" where
  "ws_inv s \<longleftrightarrow> unat (ws_offset s) \<le> length (ws_hist s) \<and>
     (ws_phase s \<noteq> Stopped \<longrightarrow> ws_sent s @ pending (ws_phase s) = take (unat (ws_offset s)) (ws_hist s)) \<and>
     (\<exists>rest. ws_sent s @ rest = take (unat (ws_offset s)) (ws_hist s))"

lemma ws_inv_step:
  assumes "publicAgentEvent_step s s'" and "ws_log s = log_of (ws_hist s)" and "in_step s" and "ws_inv s"
  shows "ws_inv s'"
  using assms(1)
proof cases
  case (poll_some events)
  let ?h = "ws_hist s" and ?o = "ws_offset s"
  have fits: "length ?h < 2 ^ 64" and near: "length ?h - unat ?o \<le> log_window"
    using assms(3) by (simp_all add: in_step_def)
  have le: "unat ?o \<le> length ?h" using assms(4) by (simp add: ws_inv_def)
  have ev: "rev events = drop (unat ?o) ?h"
    using ael.read_in_step [OF fits near] poll_some(3) assms(2) by simp
  have "unat (?o + word_of_nat (length events)) = length ?h"
    using ael.next_offset [OF fits le] min_absorb2 [OF near] poll_some(3) assms(2) le by simp
  moreover have "ws_sent s = take (unat ?o) ?h" using assms(4) poll_some(2) by (simp add: ws_inv_def)
  ultimately show ?thesis using poll_some(1) ev
    by (simp add: ws_inv_def) (metis append_take_drop_id)
next
  case (publish e)
  then show ?thesis using assms(4) by (auto simp: ws_inv_def split: if_splits)
next
  case (stop_sending e es)
  then show ?thesis using assms(4) by (auto simp: ws_inv_def)
qed (use assms(4) in \<open>auto simp: ws_inv_def\<close>)

lemma ws_reach_inv: "ws_reach in_step hist s \<Longrightarrow> ws_inv s"
proof (induction rule: ws_reach.induct)
  case (ws_more s s')
  then show ?case using ws_inv_step ws_log_hist by blast
qed (simp add: ws_inv_def AddListener_def)

section \<open>Properties\<close>

text \<open>C16. After loading at most as many rows as a load asks for and publishing any events, the
  log holds the last events of the whole sequence, at most 1001 of them although the limit is
  called 1000; reading from any offset returns exactly the events behind that position that it
  still holds, newest first, and the offset counts all events.\<close>

theorem event_log_contents:
  assumes "length rows \<le> maxMessageLen" and "length (rows @ es) < 2 ^ 64"
  shows "getEvents off (fold addEventList es (load_events rows)) =
      rev (drop (max (unat off) (length (rows @ es) - (maxMessageLen + 1))) (rows @ es)) \<and>
    length (eventList (fold addEventList es (load_events rows))) =
      min (length (rows @ es)) (maxMessageLen + 1) \<and>
    unat (eventOffset (fold addEventList es (load_events rows))) = length (rows @ es)"
proof -
  have log: "fold addEventList es (load_events rows) = log_of (rows @ es)"
    using ael.publish_all [of es rows] load_events_log_of [OF assms(1)] by simp
  have "unat (word_of_nat (length (rows @ es)) :: u64) = length (rows @ es)"
    using assms(2) unat_of_nat [of "length (rows @ es)", where 'a = 64] by simp
  then show ?thesis
    unfolding log using ael.since_repr [OF assms(2), of off]
    by (simp add: log_of_def log_window_def Let_def)
qed

definition ex_event :: "string \<Rightarrow> agent_event" where
  "ex_event n = \<lparr>ae_created = 0, ae_node = n, ae_node_type = [], ae_resource = [], ae_method = [],
     ae_succeed = True, ae_error_message = [], ae_cmd_message = [], ae_operation_time = []\<rparr>"

theorem event_log_contents_witness:
  "getEvents 1 (fold addEventList [ex_event ''b'', ex_event ''c''] (load_events [ex_event ''a''])) =
     [ex_event ''c'', ex_event ''b'']"
  using event_log_contents [of "[ex_event ''a'']" "[ex_event ''b'', ex_event ''c'']" 1]
  by (simp add: maxMessageLen_def)

text \<open>C17. A listener that never falls behind by more than the log holds is sent every event of
  the history exactly once and in order: what it was sent, together with what it is about to be
  sent, is the history up to its offset.\<close>

theorem listener_exactly_once:
  assumes "ws_reach in_step hist s" and "ws_phase s \<noteq> Stopped"
  shows "ws_sent s @ pending (ws_phase s) = take (unat (ws_offset s)) (ws_hist s)"
  using ws_reach_inv [OF assms(1)] assms(2) by (simp add: ws_inv_def)

theorem listener_exactly_once_witness:
  "\<exists>s. ws_reach in_step [ex_event ''a''] s \<and> ws_offset s = 1 \<and> ws_phase s = Sending [ex_event ''a''] \<and>
     ws_sent s @ pending (ws_phase s) = [ex_event ''a'']"
proof -
  let ?s0 = "AddListener [ex_event ''a'']"
  have ev: "getEvents (ws_offset ?s0) (ws_log ?s0) = [ex_event ''a'']"
    using ael.since_repr [of "[ex_event ''a'']" 0] by (simp add: AddListener_def log_window_def maxMessageLen_def)
  let ?s1 = "?s0\<lparr>ws_offset := ws_offset ?s0 + word_of_nat (length [ex_event ''a'']),
      ws_phase := Sending (rev [ex_event ''a''])\<rparr>"
  have "publicAgentEvent_step ?s0 ?s1"
    by (rule poll_some [OF _ ev]) (simp_all add: AddListener_def)
  moreover have "in_step ?s0" by (simp add: in_step_def AddListener_def log_window_def)
  ultimately have reach: "ws_reach in_step [ex_event ''a''] ?s1"
    by (meson ws_more ws_start)
  have "ws_sent ?s1 @ pending (ws_phase ?s1) = [ex_event ''a'']"
    using listener_exactly_once [OF reach] by (simp add: AddListener_def)
  with reach show ?thesis
    by (intro exI [of _ ?s1]) (simp add: AddListener_def)
qed

lemma send_all:
  assumes "ws_reach (\<lambda>_. True) hist s" and "ws_phase s = Sending es"
  shows "ws_reach (\<lambda>_. True) hist (s\<lparr>ws_sent := ws_sent s @ es, ws_phase := Polling\<rparr>)"
  using assms
proof (induction es arbitrary: s)
  case Nil
  then have "publicAgentEvent_step s (s\<lparr>ws_phase := Polling\<rparr>)" by (intro sent_all)
  with Nil show ?case by (auto intro: ws_more)
next
  case (Cons e es)
  let ?t = "s\<lparr>ws_sent := ws_sent s @ [e], ws_phase := Sending es\<rparr>"
  from Cons.prems have "ws_reach (\<lambda>_. True) hist ?t" by (blast intro: ws_more send)
  from Cons.IH [OF this] show ?case by simp
qed

lemma read_and_send:
  assumes "ws_reach (\<lambda>_. True) hist s" and "ws_phase s = Polling" and "length (ws_hist s) < 2 ^ 64"
    and "unat (ws_offset s) < length (ws_hist s)"
  shows "ws_reach (\<lambda>_. True) hist (s\<lparr>ws_offset := ws_offset s + word_of_nat (length (getEvents (ws_offset s) (log_of (ws_hist s)))),
      ws_sent := ws_sent s @ drop (max (unat (ws_offset s)) (length (ws_hist s) - log_window)) (ws_hist s),
      ws_phase := Polling\<rparr>)"
proof -
  let ?ev = "getEvents (ws_offset s) (log_of (ws_hist s))"
  let ?t = "s\<lparr>ws_offset := ws_offset s + word_of_nat (length ?ev), ws_phase := Sending (rev ?ev)\<rparr>"
  have "?ev \<noteq> []" using ael.since_empty_iff [OF assms(3) log_window_pos] assms(4) by simp
  with assms(1,2) ws_log_hist [OF assms(1)] have "ws_reach (\<lambda>_. True) hist ?t"
    by (metis poll_some ws_more)
  from send_all [OF this] show ?thesis using ael.since_repr [OF assms(3)] by simp
qed

text \<open>C18. A listener that connects when more events have been published than the log holds is
  sent events twice: it starts at offset zero and adds the number of events it was given, not
  the index of the newest one, so after sending the whole log once it reads and sends part of
  the same events again, without anything having been published in between.\<close>

theorem late_listener_gets_duplicates:
  assumes "log_window < length hist" and "length hist < 2 ^ 64"
  shows "\<exists>s. ws_reach (\<lambda>_. True) hist s \<and> ws_hist s = hist \<and>
    ws_sent s = drop (length hist - log_window) hist @
      drop (max log_window (length hist - log_window)) hist"
proof -
  let ?s0 = "AddListener hist"
  have init: "ws_phase ?s0 = Polling" "ws_hist ?s0 = hist" "unat (ws_offset ?s0) = 0" "ws_sent ?s0 = []"
    by (simp_all add: AddListener_def)
  let ?ev = "getEvents (ws_offset ?s0) (log_of hist)"
  have "unat (ws_offset ?s0 + word_of_nat (length ?ev)) = log_window"
    using ael.next_offset [OF assms(2), of "ws_offset ?s0"] init(3) assms(1) by simp
  moreover have "ws_reach (\<lambda>_. True) hist (?s0\<lparr>ws_offset := ws_offset ?s0 + word_of_nat (length ?ev),
      ws_sent := drop (length hist - log_window) hist, ws_phase := Polling\<rparr>)"
  proof -
    have "hist \<noteq> []" using assms(1) by auto
    then show ?thesis using read_and_send [OF ws_start init(1)] init assms by (simp add: max_def)
  qed
  ultimately have "\<exists>s. ws_reach (\<lambda>_. True) hist s \<and> ws_phase s = Polling \<and> ws_hist s = hist \<and>
      unat (ws_offset s) = log_window \<and> ws_sent s = drop (length hist - log_window) hist"
    using init(2) by (intro exI conjI) (assumption | simp)+
  then obtain s where s: "ws_reach (\<lambda>_. True) hist s" "ws_phase s = Polling" "ws_hist s = hist"
      "unat (ws_offset s) = log_window" "ws_sent s = drop (length hist - log_window) hist"
    by blast
  let ?t = "s\<lparr>ws_offset := ws_offset s + word_of_nat (length (getEvents (ws_offset s) (log_of hist))),
      ws_sent := drop (length hist - log_window) hist @
        drop (max log_window (length hist - log_window)) hist,
      ws_phase := Polling\<rparr>"
  have "ws_reach (\<lambda>_. True) hist ?t" using read_and_send [OF s(1,2)] s assms by simp
  then show ?thesis using s(3) by (intro exI [of _ ?t]) simp
qed

theorem late_listener_gets_duplicates_witness:
  "\<exists>s. ws_reach (\<lambda>_. True) (replicate 2000 (ex_event ''a'')) s \<and> length (ws_sent s) = 2000"
proof -
  have "log_window = 1001" by (simp add: log_window_def maxMessageLen_def)
  then obtain s where "ws_reach (\<lambda>_. True) (replicate 2000 (ex_event ''a'')) s"
    and "ws_sent s = drop 999 (replicate 2000 (ex_event ''a'')) @ drop 1001 (replicate 2000 (ex_event ''a''))"
    using late_listener_gets_duplicates [of "replicate 2000 (ex_event ''a'')"] by auto
  then show ?thesis by auto
qed

text \<open>A wake-up can be lost: a listener that has found nothing to send but does not wait yet
  misses the broadcast of an event published at that moment, and then waits although the log
  has an event for it. Whatever happens while it waits, only the next publication moves it;
  in particular it cannot be stopped.\<close>

theorem lost_wakeup:
  "(\<exists>s. ws_reach (\<lambda>_. True) [] s \<and> ws_phase s = Waiting \<and> getEvents (ws_offset s) (ws_log s) = [e]) \<and>
   (\<forall>s s'. ws_phase s = Waiting \<longrightarrow> publicAgentEvent_step s s' \<longrightarrow>
      ws_phase s' = Polling \<and> (\<exists>e'. ws_hist s' = ws_hist s @ [e']))"
proof
  let ?s0 = "AddListener []"
  let ?s1 = "?s0\<lparr>ws_phase := BeforeWait\<rparr>"
  let ?s2 = "?s1\<lparr>ws_log := addEventList e (ws_log ?s1), ws_hist := ws_hist ?s1 @ [e],
      ws_phase := (if ws_phase ?s1 = Waiting then Polling else ws_phase ?s1)\<rparr>"
  let ?s3 = "?s2\<lparr>ws_phase := Waiting\<rparr>"
  have 1: "publicAgentEvent_step ?s0 ?s1"
    using ael.since_repr [of "[]" 0] by (intro poll_none) (simp_all add: AddListener_def)
  have 2: "publicAgentEvent_step ?s1 ?s2" by (rule publish)
  have 3: "publicAgentEvent_step ?s2 ?s3" by (rule cond_wait) simp
  have "ws_reach (\<lambda>_. True) [] ?s3" using ws_more [OF ws_more [OF ws_more [OF ws_start _ 1] _ 2] _ 3] by simp
  moreover have "getEvents (ws_offset ?s3) (ws_log ?s3) = [e]"
    using ael.since_repr [of "[e]" 0] addEventList_log_of [of e "[]"]
    by (simp add: AddListener_def log_window_def)
  ultimately show "\<exists>s. ws_reach (\<lambda>_. True) [] s \<and> ws_phase s = Waiting \<and> getEvents (ws_offset s) (ws_log s) = [e]"
    by (intro exI [of _ ?s3]) simp
  show "\<forall>s s'. ws_phase s = Waiting \<longrightarrow> publicAgentEvent_step s s' \<longrightarrow>
      ws_phase s' = Polling \<and> (\<exists>e'. ws_hist s' = ws_hist s @ [e'])"
    by (auto elim!: step_cases)
qed

theorem lost_wakeup_witness:
  "\<exists>s. ws_reach (\<lambda>_. True) [] s \<and> ws_phase s = Waiting \<and>
     getEvents (ws_offset s) (ws_log s) = [ex_event ''a'']"
  by (rule conjunct1 [OF lost_wakeup])

end
