(* ===== verification/Listeners.thy ===== *)
theory Listeners
  imports AgentEvents "HOL-Library.Sublist"
begin

text \<open>
  A web socket that follows the event log (\<open>pkg/agentevent/handler/agentevent_websocket.go\<close>): the
  loop of \<open>OpenAgentEvent\<close>, which writes to the socket what it reads from the listener's channel,
  the goroutine of \<open>publicAgentEvent\<close>, and the exchange on the stop channel between them.
\<close>

section \<open>Two goroutines and two channels\<close>

text \<open>
  Both channels are unbuffered: a value goes over when one side waits to send and the other to
  receive. The sender selects on the stop channel at the top of its loop, where it goes on at once
  if nobody waits to stop it (\<open>Top\<close>), and while it offers an event. Stopping takes a request
  (\<open>Stopping\<close>) and an answer (\<open>AwaitAck\<close>, \<open>Acking\<close>). The reader only learns that the client has
  gone when a write fails.
\<close>

datatype sender = Top | PollLog | AboutToWait | Parked | Offering "agent_event list" | Acking | Ended
datatype reader = Reading | Got agent_event | Stopping | AwaitAck | Closed

record conn =
  cn_log :: agent_event_handler
  cn_offset :: u64
  cn_sender :: sender
  cn_reader :: reader
  cn_hist :: "agent_event list"
  cn_sent :: "agent_event list"
  cn_written :: "agent_event list"

text \<open>The steps of the two goroutines of one connection.\<close>

inductive conn_step :: "conn \<Rightarrow> conn \<Rightarrow> bool" where
  top_default: "cn_sender s = Top \<Longrightarrow> cn_reader s \<noteq> Stopping \<Longrightarrow>
    conn_step s (s\<lparr>cn_sender := PollLog\<rparr>)"
| top_stopped: "cn_sender s = Top \<Longrightarrow> cn_reader s = Stopping \<Longrightarrow>
    conn_step s (s\<lparr>cn_sender := Acking, cn_reader := AwaitAck\<rparr>)"
| found_none: "cn_sender s = PollLog \<Longrightarrow> getEvents (cn_offset s) (cn_log s) = [] \<Longrightarrow>
    conn_step s (s\<lparr>cn_sender := AboutToWait\<rparr>)"
| found_some: "cn_sender s = PollLog \<Longrightarrow> getEvents (cn_offset s) (cn_log s) = events \<Longrightarrow> events \<noteq> [] \<Longrightarrow>
    conn_step s (s\<lparr>cn_offset := cn_offset s + word_of_nat (length events),
      cn_sender := Offering (rev events)\<rparr>)"
| park: "cn_sender s = AboutToWait \<Longrightarrow> conn_step s (s\<lparr>cn_sender := Parked\<rparr>)"
| hand_over: "cn_sender s = Offering (e # es) \<Longrightarrow> cn_reader s = Reading \<Longrightarrow>
    conn_step s (s\<lparr>cn_sender := Offering es, cn_reader := Got e, cn_sent := cn_sent s @ [e]\<rparr>)"
| offer_stopped: "cn_sender s = Offering (e # es) \<Longrightarrow> cn_reader s = Stopping \<Longrightarrow>
    conn_step s (s\<lparr>cn_sender := Acking, cn_reader := AwaitAck\<rparr>)"
| all_offered: "cn_sender s = Offering [] \<Longrightarrow> conn_step s (s\<lparr>cn_sender := Top\<rparr>)"
| wrote: "cn_reader s = Got e \<Longrightarrow>
    conn_step s (s\<lparr>cn_reader := Reading, cn_written := cn_written s @ [e]\<rparr>)"
| write_failed: "cn_reader s = Got e \<Longrightarrow> conn_step s (s\<lparr>cn_reader := Stopping\<rparr>)"
| stopped: "cn_sender s = Acking \<Longrightarrow> cn_reader s = AwaitAck \<Longrightarrow>
    conn_step s (s\<lparr>cn_sender := Ended, cn_reader := Closed\<rparr>)"

text \<open>The consumer of agent messages publishes an event, and the broadcast wakes a parked sender.\<close>

definition conn_publish :: "agent_event \<Rightarrow> conn \<Rightarrow> conn" where
  "conn_publish e s = s\<lparr>cn_log := addEventList e (cn_log s), cn_hist := cn_hist s @ [e],
     cn_sender := (if cn_sender s = Parked then Top else cn_sender s)\<rparr>"

definition OpenAgentEvent :: "agent_event list \<Rightarrow> conn" where
  "OpenAgentEvent hist = \<lparr>cn_log = log_of hist, cn_offset = 0, cn_sender = Top, cn_reader = Reading,
     cn_hist = hist, cn_sent = [], cn_written = []\<rparr>"

inductive conn_reach :: "(conn \<Rightarrow> bool) \<Rightarrow> agent_event list \<Rightarrow> conn \<Rightarrow> bool" for keep hist where
  opened: "conn_reach keep hist (OpenAgentEvent hist)"
| moved: "conn_reach keep hist s \<Longrightarrow> keep s \<Longrightarrow> conn_step s s' \<Longrightarrow> conn_reach keep hist s'"
| published: "conn_reach keep hist s \<Longrightarrow> keep s \<Longrightarrow> conn_reach keep hist (conn_publish e s)"

inductive_cases conn_stepE: "conn_step s s'"

section \<open>The follower inside a connection\<close>

text \<open>Without its reader a connection is the follower of \<open>AgentEvents\<close>.\<close>

fun phase_of :: "sender \<Rightarrow> phase" where
  "phase_of Top = Polling"
| "phase_of PollLog = Polling"
| "phase_of AboutToWait = BeforeWait"
| "phase_of Parked = Waiting"
| "phase_of (Offering es) = Sending es"
| "phase_of Acking = Stopped"
| "phase_of Ended = Stopped"

definition follower :: "conn \<Rightarrow> ws_state" where
  "follower s = \<lparr>ws_log = cn_log s, ws_offset = cn_offset s, ws_phase = phase_of (cn_sender s),
     ws_hist = cn_hist s, ws_sent = cn_sent s\<rparr>"

lemma follower_simps [simp]:
  "ws_log (follower s) = cn_log s" "ws_offset (follower s) = cn_offset s"
  "ws_phase (follower s) = phase_of (cn_sender s)" "ws_hist (follower s) = cn_hist s"
  "ws_sent (follower s) = cn_sent s"
  by (simp_all add: follower_def)

lemma phase_of_Waiting [simp]: "phase_of p = Waiting \<longleftrightarrow> p = Parked"
  by (cases p) simp_all

lemma conn_step_follower:
  assumes "conn_step s s'"
  shows "follower s' = follower s \<or> publicAgentEvent_step (follower s) (follower s')"
  using assms
proof cases
  case (found_none)
  then have "publicAgentEvent_step (follower s) ((follower s)\<lparr>ws_phase := BeforeWait\<rparr>)"
    by (intro poll_none) simp_all
  with found_none show ?thesis by (simp add: follower_def)
next
  case (found_some events)
  then have "publicAgentEvent_step (follower s) ((follower s)
      \<lparr>ws_offset := ws_offset (follower s) + word_of_nat (length events), ws_phase := Sending (rev events)\<rparr>)"
    by (intro poll_some) simp_all
  with found_some show ?thesis by (simp add: follower_def)
next
  case park
  then have "publicAgentEvent_step (follower s) ((follower s)\<lparr>ws_phase := Waiting\<rparr>)"
    by (intro cond_wait) simp
  with park show ?thesis by (simp add: follower_def)
next
  case (hand_over e es)
  then have "publicAgentEvent_step (follower s)
      ((follower s)\<lparr>ws_sent := ws_sent (follower s) @ [e], ws_phase := Sending es\<rparr>)"
    by (intro send) simp
  with hand_over show ?thesis by (simp add: follower_def)
next
  case all_offered
  then have "publicAgentEvent_step (follower s) ((follower s)\<lparr>ws_phase := Polling\<rparr>)"
    by (intro sent_all) simp
  with all_offered show ?thesis by (simp add: follower_def)
next
  case top_stopped
  then have "publicAgentEvent_step (follower s) ((follower s)\<lparr>ws_phase := Stopped\<rparr>)"
    by (intro stop_polling) simp
  with top_stopped show ?thesis by (simp add: follower_def)
next
  case (offer_stopped e es)
  then have "publicAgentEvent_step (follower s) ((follower s)\<lparr>ws_phase := Stopped\<rparr>)"
    by (intro stop_sending) simp
  with offer_stopped show ?thesis by (simp add: follower_def)
qed (simp_all add: follower_def)

lemma conn_publish_follower: "publicAgentEvent_step (follower s) (follower (conn_publish e s))"
proof -
  have "follower (conn_publish e s) = (follower s)\<lparr>ws_log := addEventList e (ws_log (follower s)),
      ws_hist := ws_hist (follower s) @ [e],
      ws_phase := (if ws_phase (follower s) = Waiting then Polling else ws_phase (follower s))\<rparr>"
    by (simp add: follower_def conn_publish_def)
  then show ?thesis by (metis publish)
qed

lemma conn_reach_follower:
  assumes "conn_reach (\<lambda>s. keep (follower s)) hist s"
  shows "ws_reach keep hist (follower s)"
  using assms
proof induction
  case opened
  have "follower (OpenAgentEvent hist) = AddListener hist"
    by (simp add: follower_def OpenAgentEvent_def AddListener_def)
  then show ?case by (simp add: ws_start)
next
  case (moved s s')
  then show ?case using conn_step_follower [OF moved.hyps(3)] by (auto intro: ws_more)
next
  case (published s e)
  then show ?case using conn_publish_follower by (blast intro: ws_more)
qed

section \<open>The connection as a whole\<close>

text \<open>The two sides stop together, the offset stays within the history, and what was written to
  the socket is what the channel carried, up to the event that the reader holds.\<close>

definition countable_hist :: "conn \<Rightarrow> bool" where
  "countable_hist s \<longleftrightarrow> length (cn_hist s) < 2 ^ 64"

fun holding :: "reader \<Rightarrow> conn \<Rightarrow> bool" where
  "holding Reading s \<longleftrightarrow> cn_sent s = cn_written s"
| "holding (Got e) s \<longleftrightarrow> cn_sent s = cn_written s @ [e]"
| "holding _ s \<longleftrightarrow> (\<exists>e. cn_sent s = cn_written s @ [e])"

definition conn_inv :: "conn \<Rightarrow> bool" where
  "conn_inv s \<longleftrightarrow> (cn_sender s = Acking \<longleftrightarrow> cn_reader s = AwaitAck) \<and>
     (cn_sender s = Ended \<longleftrightarrow> cn_reader s = Closed) \<and>
     cn_log s = log_of (cn_hist s) \<and> unat (cn_offset s) \<le> length (cn_hist s) \<and>
     length (pending (phase_of (cn_sender s))) \<le> unat (cn_offset s) \<and> holding (cn_reader s) s"

lemma offset_after_poll:
  assumes "countable_hist s" and "conn_inv s" and "getEvents (cn_offset s) (cn_log s) = events"
  shows "unat (cn_offset s + word_of_nat (length events)) = unat (cn_offset s) + length events"
    and "length events \<le> length (cn_hist s) - unat (cn_offset s)"
    and "events = [] \<longleftrightarrow> length (cn_hist s) = unat (cn_offset s)"
proof -
  have fits: "length (cn_hist s) < 2 ^ 64" and le: "unat (cn_offset s) \<le> length (cn_hist s)"
    and ev: "events = getEvents (cn_offset s) (log_of (cn_hist s))"
    using assms by (simp_all add: countable_hist_def conn_inv_def)
  have len: "length events = min log_window (length (cn_hist s) - unat (cn_offset s))"
    using ael.since_length [OF fits, of "cn_offset s"] ev by auto
  then show "unat (cn_offset s + word_of_nat (length events)) = unat (cn_offset s) + length events"
    using ael.next_offset [OF fits le] ev by simp
  show "length events \<le> length (cn_hist s) - unat (cn_offset s)" using len by simp
  show "events = [] \<longleftrightarrow> length (cn_hist s) = unat (cn_offset s)"
    using ael.since_empty_iff [OF fits log_window_pos] ev le by auto
qed

lemma conn_inv_step:
  assumes "conn_step s s'" and "countable_hist s" and "conn_inv s"
  shows "conn_inv s'"
  using assms(1)
proof cases
  case (found_some events)
  note off = offset_after_poll(1,2) [OF assms(2,3) found_some(3)]
  show ?thesis using assms(3) off unfolding found_some(1)
    by (cases "cn_reader s") (auto simp: conn_inv_def found_some(2))
qed (use assms(3) in \<open>cases "cn_reader s"; auto simp: conn_inv_def\<close>)+

lemma conn_inv_reach:
  "conn_reach keep hist s \<Longrightarrow> (\<And>s. keep s \<Longrightarrow> countable_hist s) \<Longrightarrow> conn_inv s"
proof (induction rule: conn_reach.induct)
  case (moved s s')
  then show ?case using conn_inv_step by blast
next
  case (published s e)
  then have "conn_inv s" by blast
  then show ?case
    by (cases "cn_reader s") (auto simp: conn_inv_def conn_publish_def addEventList_log_of)
qed (simp add: conn_inv_def OpenAgentEvent_def)

section \<open>Nothing runs for ever without a publication\<close>

fun sender_work :: "sender \<Rightarrow> nat" where
  "sender_work Top = 3"
| "sender_work PollLog = 2"
| "sender_work AboutToWait = 1"
| "sender_work Parked = 0"
| "sender_work (Offering es) = 4 + 2 * length es"
| "sender_work Acking = 1"
| "sender_work Ended = 0"

fun reader_work :: "reader \<Rightarrow> nat" where
  "reader_work Reading = 3"
| "reader_work (Got e) = 4"
| "reader_work Stopping = 2"
| "reader_work AwaitAck = 1"
| "reader_work Closed = 0"

definition conn_work :: "conn \<Rightarrow> nat" where
  "conn_work s = 5 * (length (cn_hist s) - unat (cn_offset s)) + sender_work (cn_sender s) + reader_work (cn_reader s)"

lemma conn_work_decreases:
  assumes "conn_step s s'" and "countable_hist s" and "conn_inv s"
  shows "conn_work s' < conn_work s"
  using assms(1)
proof cases
  case (found_some events)
  note off = offset_after_poll(1,2) [OF assms(2,3) found_some(3)]
  with found_some(4) show ?thesis unfolding found_some(1)
    by (cases events) (simp_all add: conn_work_def found_some(2))
qed (simp_all add: conn_work_def)

lemma conn_run:
  assumes "(conn_step ^^ n) s t" and "countable_hist s" and "conn_inv s"
  shows "n + conn_work t \<le> conn_work s \<and> conn_inv t \<and> cn_hist t = cn_hist s"
  using assms(1)
proof (induction n arbitrary: t)
  case (Suc n)
  from Suc.prems obtain u where u: "(conn_step ^^ n) s u" and ut: "conn_step u t" by auto
  from Suc.IH [OF u] have IH: "n + conn_work u \<le> conn_work s" "conn_inv u" "cn_hist u = cn_hist s" by auto
  then have "countable_hist u" using assms(2) by (simp add: countable_hist_def)
  moreover have "cn_hist t = cn_hist u" using ut by cases simp_all
  ultimately show ?case
    using conn_work_decreases [OF ut] conn_inv_step [OF ut] IH by force
qed (use assms in simp)

lemma conn_work_bound: "conn_inv s \<Longrightarrow> conn_work s \<le> 5 * length (cn_hist s) + 8"
  by (cases "cn_sender s"; cases "cn_reader s") (auto simp: conn_inv_def conn_work_def)

text \<open>Where no step is possible.\<close>

lemma conn_stuck:
  assumes "conn_inv s" and "countable_hist s" and "\<nexists>t. conn_step s t"
  shows "cn_sender s = Parked \<and> cn_reader s \<in> {Reading, Stopping} \<or> cn_sender s = Ended \<and> cn_reader s = Closed"
proof -
  have reader: "cn_reader s \<noteq> Got e" for e using assms(3) wrote by blast
  have poll: "cn_sender s \<noteq> PollLog" using assms(3) found_none found_some by blast
  have "cn_sender s \<notin> {Top, AboutToWait, Offering []}"
    using assms(3) top_default top_stopped park all_offered by blast
  moreover have "cn_sender s \<noteq> Offering (e # es)" for e es
  proof
    assume offering: "cn_sender s = Offering (e # es)"
    then have "cn_reader s \<notin> {Reading, Stopping}" using assms(3) hand_over offer_stopped by blast
    with offering reader assms(1) show False by (cases "cn_reader s") (auto simp: conn_inv_def)
  qed
  moreover have "cn_sender s \<noteq> Acking" using assms(1,3) stopped by (auto simp: conn_inv_def)
  ultimately show ?thesis using assms(1) poll reader
    by (cases "cn_sender s"; cases "cn_reader s") (auto simp: conn_inv_def neq_Nil_conv)
qed

text \<open>Without a publication, whoever waits has read the whole log.\<close>

definition caught_up :: "conn \<Rightarrow> bool" where
  "caught_up s \<longleftrightarrow> (cn_sender s = AboutToWait \<or> cn_sender s = Parked \<longrightarrow>
     unat (cn_offset s) = length (cn_hist s))"

lemma caught_up_step:
  assumes "conn_step s t" and "countable_hist s" and "conn_inv s" and "caught_up s"
  shows "caught_up t"
  using assms(1)
proof cases
  case found_none
  then show ?thesis using offset_after_poll(3) [OF assms(2,3) found_none(3)] by (simp add: caught_up_def)
qed (use assms(4) in \<open>auto simp: caught_up_def\<close>)

lemma caught_up_run:
  assumes "(conn_step ^^ n) s t" and "countable_hist s" and "conn_inv s" and "caught_up s"
  shows "caught_up t"
  using assms(1)
proof (induction n arbitrary: t)
  case (Suc n)
  from Suc.prems obtain u where u: "(conn_step ^^ n) s u" and ut: "conn_step u t" by auto
  from conn_run [OF u assms(2,3)] have "conn_inv u" "countable_hist u"
    using assms(2) by (simp_all add: countable_hist_def)
  with Suc.IH [OF u] ut show ?case by (blast intro: caught_up_step)
qed (use assms(4) in simp)

lemma OpenAgentEvent_inv: "conn_inv (OpenAgentEvent hist) \<and> caught_up (OpenAgentEvent hist)"
  by (simp add: conn_inv_def caught_up_def OpenAgentEvent_def)

lemma short_run_reach:
  assumes "(conn_step ^^ n) (OpenAgentEvent hist) t" and "length hist \<le> log_window"
  shows "conn_reach (\<lambda>s. in_step (follower s)) hist t \<and> cn_hist t = hist"
  using assms(1)
proof (induction n arbitrary: t)
  case (Suc n)
  from Suc.prems obtain u where u: "(conn_step ^^ n) (OpenAgentEvent hist) u" and ut: "conn_step u t" by auto
  have "cn_hist t = cn_hist u" using ut by cases simp_all
  moreover have "in_step (follower u)"
    using Suc.IH [OF u] assms(2) by (simp add: in_step_def log_window_def maxMessageLen_def)
  ultimately show ?case using Suc.IH [OF u] ut by (blast intro: moved)
qed (auto simp: OpenAgentEvent_def intro: opened [unfolded OpenAgentEvent_def])

lemma written_sent: "conn_inv s \<Longrightarrow> prefix (cn_written s) (cn_sent s)"
  by (cases "cn_reader s") (auto simp: conn_inv_def)

lemma stuck_publish:
  assumes "cn_sender t = Parked" and "cn_reader t = Stopping"
    and "conn_step (conn_publish e t) u" and "conn_step u v"
  shows "cn_sender v = Ended \<and> cn_reader v = Closed"
proof -
  have "cn_sender u = Acking \<and> cn_reader u = AwaitAck"
    using assms(3) by cases (use assms(1,2) in \<open>simp_all add: conn_publish_def\<close>)
  then show ?thesis using assms(4) by (auto elim: conn_stepE)
qed

section \<open>Properties\<close>

text \<open>C19. However a connection got where it is, without a further publication it makes at most
  five steps for every event of the history and eight more. It ends with both sides stopped, or
  with a sender that waits while the reader reads, or with a sender that waits while the reader
  waits to stop it. In the last case the two are stuck, and the next publication stops them.\<close>

theorem connection_settles:
  assumes "conn_reach countable_hist hist s" and "countable_hist s" and "(conn_step ^^ n) s t"
  shows "n \<le> 5 * length (cn_hist s) + 8 \<and>
    ((\<exists>u. conn_step t u) \<or>
      cn_sender t = Ended \<and> cn_reader t = Closed \<or>
      cn_sender t = Parked \<and> (cn_reader t = Reading \<or> cn_reader t = Stopping \<and>
        (\<forall>e u v. conn_step (conn_publish e t) u \<and> conn_step u v \<longrightarrow>
          cn_sender v = Ended \<and> cn_reader v = Closed)))"
proof
  have inv: "conn_inv s"
    using assms(1) by (rule conn_inv_reach)
  note run = conn_run [OF assms(3,2) inv]
  show "n \<le> 5 * length (cn_hist s) + 8" using run conn_work_bound [OF inv] by simp
  have "countable_hist t" using run assms(2) by (simp add: countable_hist_def)
  then show "(\<exists>u. conn_step t u) \<or>
      cn_sender t = Ended \<and> cn_reader t = Closed \<or>
      cn_sender t = Parked \<and> (cn_reader t = Reading \<or> cn_reader t = Stopping \<and>
        (\<forall>e u v. conn_step (conn_publish e t) u \<and> conn_step u v \<longrightarrow>
          cn_sender v = Ended \<and> cn_reader v = Closed))"
    using conn_stuck [of t] run stuck_publish [of t] by blast
qed

text \<open>A client that has gone by the time it is sent the only event of the log: the sender waits
  before the failed write makes the reader stop it.\<close>

definition ex_parked :: conn where
  "ex_parked = (OpenAgentEvent [ex_event ''a''])\<lparr>cn_offset := 1, cn_sender := Parked,
     cn_reader := Stopping, cn_sent := [ex_event ''a'']\<rparr>"

lemma ex_parked_run: "(conn_step ^^ 8) (OpenAgentEvent [ex_event ''a'']) ex_parked"
proof -
  let ?e = "ex_event ''a''"
  let ?s0 = "OpenAgentEvent [?e]"
  let ?s1 = "?s0\<lparr>cn_sender := PollLog\<rparr>"
  let ?s2 = "?s1\<lparr>cn_offset := cn_offset ?s1 + word_of_nat (length [?e]), cn_sender := Offering (rev [?e])\<rparr>"
  let ?s3 = "?s2\<lparr>cn_sender := Offering [], cn_reader := Got ?e, cn_sent := cn_sent ?s2 @ [?e]\<rparr>"
  let ?s4 = "?s3\<lparr>cn_sender := Top\<rparr>"
  let ?s5 = "?s4\<lparr>cn_sender := PollLog\<rparr>"
  let ?s6 = "?s5\<lparr>cn_sender := AboutToWait\<rparr>"
  let ?s7 = "?s6\<lparr>cn_sender := Parked\<rparr>"
  have log: "getEvents off (log_of [?e]) = rev (drop (unat off) [?e])" for off
    using ael.since_repr [of "[?e]" off] by (simp add: log_window_def maxMessageLen_def)
  have "conn_step ?s0 ?s1" by (rule top_default) (simp_all add: OpenAgentEvent_def)
  moreover have "conn_step ?s1 ?s2" by (rule found_some) (simp_all add: OpenAgentEvent_def log)
  moreover have "conn_step ?s2 ?s3" by (rule hand_over) (simp_all add: OpenAgentEvent_def)
  moreover have "conn_step ?s3 ?s4" by (rule all_offered) simp
  moreover have "conn_step ?s4 ?s5" by (rule top_default) simp_all
  moreover have "conn_step ?s5 ?s6" by (rule found_none) (simp_all add: OpenAgentEvent_def log)
  moreover have "conn_step ?s6 ?s7" by (rule park) simp
  moreover have "conn_step ?s7 (?s7\<lparr>cn_reader := Stopping\<rparr>)" by (rule write_failed) simp
  moreover have "?s7\<lparr>cn_reader := Stopping\<rparr> = ex_parked"
    by (simp add: ex_parked_def OpenAgentEvent_def)
  ultimately show ?thesis by (simp add: numeral_eq_Suc relcompp_apply) metis
qed

theorem connection_settles_witness:
  "(8::nat) \<le> 5 * length [ex_event ''a''] + 8 \<and> cn_reader ex_parked = Stopping \<and>
   (\<exists>u v. conn_step (conn_publish (ex_event ''b'') ex_parked) u \<and> conn_step u v \<and>
      cn_sender v = Ended \<and> cn_reader v = Closed)"
proof -
  let ?t = "conn_publish (ex_event ''b'') ex_parked"
  let ?u = "?t\<lparr>cn_sender := Acking, cn_reader := AwaitAck\<rparr>"
  let ?v = "?u\<lparr>cn_sender := Ended, cn_reader := Closed\<rparr>"
  have parked: "cn_sender ex_parked = Parked" "cn_reader ex_parked = Stopping"
    by (simp_all add: ex_parked_def)
  have "countable_hist (OpenAgentEvent [ex_event ''a''])"
    by (simp add: countable_hist_def OpenAgentEvent_def)
  from connection_settles [OF opened this ex_parked_run]
  have "(8::nat) \<le> 5 * length [ex_event ''a''] + 8" by (simp add: OpenAgentEvent_def)
  moreover have "conn_step ?t ?u" by (rule top_stopped) (simp_all add: conn_publish_def parked)
  moreover have "conn_step ?u ?v" by (rule stopped) simp_all
  ultimately show ?thesis using parked(2) by (intro conjI exI [of _ ?u] exI [of _ ?v]) simp_all
qed

text \<open>A connection that opens on a log that still holds its whole history writes the
  history to the socket, event by event and in order: what it has written at any time is a
  prefix, and when nothing more can happen while the reader still reads, all of it.\<close>

theorem connection_delivers:
  assumes "length hist \<le> log_window" and "(conn_step ^^ n) (OpenAgentEvent hist) t"
  shows "prefix (cn_written t) hist \<and>
    (cn_reader t = Reading \<and> (\<nexists>u. conn_step t u) \<longrightarrow> cn_written t = hist)"
proof -
  let ?s = "OpenAgentEvent hist"
  have fits: "countable_hist ?s"
    using assms(1) by (simp add: countable_hist_def OpenAgentEvent_def log_window_def maxMessageLen_def)
  note inv = OpenAgentEvent_inv [of hist]
  note run = conn_run [OF assms(2) fits conjunct1 [OF inv]]
  note reach = short_run_reach [OF assms(2,1)]
  have "ws_reach in_step hist (follower t)" using conn_reach_follower reach by blast
  then have ws: "ws_inv (follower t)" by (rule ws_reach_inv)
  then obtain rest where "cn_sent t @ rest = take (unat (cn_offset t)) hist"
    using reach by (auto simp: ws_inv_def)
  then have "prefix (cn_sent t) hist" by (metis prefix_def prefix_order.trans take_is_prefix)
  moreover have "cn_written t = hist" if last: "cn_reader t = Reading" "\<nexists>u. conn_step t u"
  proof -
    have "countable_hist t" using fits run by (simp add: countable_hist_def)
    with conn_stuck [of t] run last have parked: "cn_sender t = Parked" by auto
    with caught_up_run [OF assms(2) fits] inv reach have "unat (cn_offset t) = length hist"
      by (simp add: caught_up_def)
    with ws parked reach have "cn_sent t = hist" by (simp add: ws_inv_def)
    with run last(1) show ?thesis by (simp add: conn_inv_def)
  qed
  ultimately show ?thesis using written_sent run by (blast intro: prefix_order.trans)
qed

theorem connection_delivers_witness: "prefix (cn_written ex_parked) [ex_event ''a'']"
  using connection_delivers [OF _ ex_parked_run] by (simp add: log_window_def maxMessageLen_def)

end
