(* ===== verification/NodeMetrics.thy ===== *)
theory NodeMetrics
  imports Rest "HOL-Library.Signed_Division" "HOL-Library.Sublist"
begin

text \<open>
  \<open>pkg/metric/handler/node_handler.go\<close>: the list of nodes with their usage over a period,
  put together from the answers of a metrics server. The queries are sent with the standard
  library's HTTP client and decoded from JSON: what a query is answered with is a parameter.
  Floating-point numbers are parsed, added and printed by the language: their operations are a
  parameter too, so that nothing here depends on rounding.
\<close>

section \<open>Data\<close>

record ratio_with_timestamp =
  rt_timestamp :: int
  rt_ratio :: string

record node =
  nd_id :: string
  nd_ip :: string
  nd_roles :: "string list"
  nd_host_name :: string
  nd_node_is_alive :: bool
  nd_dhcp_is_alive :: bool
  nd_dns_is_alive :: bool
  nd_cpu_usage :: "ratio_with_timestamp list"
  nd_memory_usage :: "ratio_with_timestamp list"
  nd_disc_usage :: "ratio_with_timestamp list"
  nd_network :: "ratio_with_timestamp list"
  nd_cpu_ratio :: string
  nd_mem_ratio :: string
  nd_master :: string
  nd_controller_ip :: string
  nd_start_time :: int
  nd_vip :: string

record time_period_params =
  tp_begin :: int
  tp_end :: int
  tp_step :: int

text \<open>The operations on \<open>float64\<close> that are used; \<open>fl_fmt n\<close> prints with \<open>n\<close> decimals.\<close>

record 'f float_ops =
  fl_parse :: "string \<Rightarrow> 'f option"
  fl_int :: "'f \<Rightarrow> int"
  fl_zero :: 'f
  fl_add :: "'f \<Rightarrow> 'f \<Rightarrow> 'f"
  fl_sub :: "'f \<Rightarrow> 'f \<Rightarrow> 'f"
  fl_div :: "'f \<Rightarrow> 'f \<Rightarrow> 'f"
  fl_is_zero :: "'f \<Rightarrow> bool"
  fl_fmt :: "nat \<Rightarrow> 'f \<Rightarrow> string"

text \<open>A value in an answer: a JSON number, a string, or anything else.\<close>

datatype 'f json_value = JNum 'f | JStr string | JOther

record 'f prometheus_result =
  pr_labels :: "string \<Rightarrow> string"
  pr_values :: "'f json_value list list"

section \<open>The period\<close>

definition DefaultPeriodValue :: string where "DefaultPeriodValue = ''6''"

definition period_values :: "string list" where
  "period_values = [''6'', ''12'', ''24'', ''168'', ''720'', ''2160'']"

fun getPeriodFromFilters :: "filter_rec list \<Rightarrow> string" where
  "getPeriodFromFilters [] = DefaultPeriodValue"
| "getPeriodFromFilters (f # fs) =
     (if f_name f = ''period'' \<and> f_modifier f = Eq
      then (case find (\<lambda>v. v \<in> set period_values) (f_values f) of
          Some v \<Rightarrow> v | None \<Rightarrow> getPeriodFromFilters fs)
      else getPeriodFromFilters fs)"

definition genTimePeriodParams :: "int \<Rightarrow> int \<Rightarrow> time_period_params" where
  "genTimePeriodParams now period =
     \<lparr>tp_begin = now - period * 3600, tp_end = now, tp_step = period * 12\<rparr>"

text \<open>The error of the conversion is dropped, and the number is then 0.\<close>

definition getTimePeriodParamFromFilter :: "int \<Rightarrow> filter_rec list \<Rightarrow> time_period_params" where
  "getTimePeriodParamFromFilter now filters =
     genTimePeriodParams now
       (case atoi (getPeriodFromFilters filters) of Some p \<Rightarrow> p | None \<Rightarrow> 0)"

section \<open>Samples on the grid of the period\<close>

text \<open>The loop over the points of time, which ends because every step is positive.\<close>

function time_points :: "int \<Rightarrow> int \<Rightarrow> int \<Rightarrow> ratio_with_timestamp list" where
  "time_points i stop step =
     (if i \<le> stop \<and> 0 < step
      then \<lparr>rt_timestamp = i, rt_ratio = ''0''\<rparr> # time_points (i + step) stop step else [])"
  by pat_completeness auto
termination by (relation "measure (\<lambda>(i, stop, step). nat (stop - i + 1))") auto

declare time_points.simps [simp del]

fun getTimestampAndValue :: "'f float_ops \<Rightarrow> 'f json_value list \<Rightarrow> int \<times> string \<Rightarrow> int \<times> string" where
  "getTimestampAndValue F [] (t, s) = (t, s)"
| "getTimestampAndValue F (JNum f # vs) (t, s) = getTimestampAndValue F vs (fl_int F f, s)"
| "getTimestampAndValue F (JStr v # vs) (t, s) = getTimestampAndValue F vs (t, v)"
| "getTimestampAndValue F (JOther # vs) (t, s) = getTimestampAndValue F vs (t, s)"

text \<open>Writing a sample at its index, rounded towards zero; outside the slice the run-time
  panics.\<close>

definition put_ratio ::
  "time_period_params \<Rightarrow> int \<Rightarrow> string \<Rightarrow> ratio_with_timestamp list \<Rightarrow> (gerror, ratio_with_timestamp list) res" where
  "put_ratio p t r rs =
     (let i = (t - tp_begin p) sdiv tp_step p in
      if 0 \<le> i \<and> i < int (length rs)
      then Ok (rs[nat i := (rs ! nat i)\<lparr>rt_ratio := r\<rparr>]) else Panic)"

fun put_samples ::
  "'f float_ops \<Rightarrow> time_period_params \<Rightarrow> 'f json_value list list \<Rightarrow> ratio_with_timestamp list \<Rightarrow>
   (gerror, ratio_with_timestamp list) res" where
  "put_samples F p [] rs = Ok rs"
| "put_samples F p (vs # vss) rs =
     (case getTimestampAndValue F vs (0, []) of
        (t, s) \<Rightarrow>
          if t \<noteq> 0 then
            (case fl_parse F s of
               Some f \<Rightarrow> res_bind (put_ratio p t (fl_fmt F 4 f) rs) (put_samples F p vss)
             | None \<Rightarrow> put_samples F p vss rs)
          else put_samples F p vss rs)"

definition getRatiosWithTimestamp ::
  "'f float_ops \<Rightarrow> 'f json_value list list \<Rightarrow> time_period_params \<Rightarrow>
   (gerror, ratio_with_timestamp list) res" where
  "getRatiosWithTimestamp F values period =
     put_samples F period values (time_points (tp_begin period) (tp_end period) (tp_step period))"

section \<open>Distributing the answers over the nodes\<close>

definition node_label :: "int \<Rightarrow> node \<Rightarrow> string" where
  "node_label exportPort nd = nd_ip nd @ '':'' @ itoa exportPort"

text \<open>All samples of the results that pass a test, in order.\<close>

fun collect_ratios ::
  "'f float_ops \<Rightarrow> time_period_params \<Rightarrow> ('f prometheus_result \<Rightarrow> bool) \<Rightarrow> 'f prometheus_result list \<Rightarrow>
   (gerror, ratio_with_timestamp list list) res" where
  "collect_ratios F p keep [] = Ok []"
| "collect_ratios F p keep (r # rs) =
     (if keep r
      then res_bind (getRatiosWithTimestamp F (pr_values r) p) (\<lambda>d.
        res_bind (collect_ratios F p keep rs) (\<lambda>ds. Ok (d # ds)))
      else collect_ratios F p keep rs)"

fun map_res :: "('a \<Rightarrow> ('e, 'b) res) \<Rightarrow> 'a list \<Rightarrow> ('e, 'b list) res" where
  "map_res f [] = Ok []"
| "map_res f (x # xs) = res_bind (f x) (\<lambda>y. res_bind (map_res f xs) (\<lambda>ys. Ok (y # ys)))"

definition labelled :: "int \<Rightarrow> node \<Rightarrow> 'f prometheus_result \<Rightarrow> bool" where
  "labelled exportPort nd r \<longleftrightarrow> node_label exportPort nd = pr_labels r ''instance''"

text \<open>Several results for one node overwrite each other.\<close>

definition resolveCPUValues ::
  "'f float_ops \<Rightarrow> int \<Rightarrow> node list \<Rightarrow> 'f prometheus_result list \<Rightarrow> time_period_params \<Rightarrow> (gerror, node list) res" where
  "resolveCPUValues F port nodes results period =
     map_res (\<lambda>nd. res_bind (collect_ratios F period (labelled port nd) results) (\<lambda>data.
       Ok (if data = [] then nd else nd\<lparr>nd_cpu_usage := last data\<rparr>))) nodes"

definition resolveMemoryValues ::
  "'f float_ops \<Rightarrow> int \<Rightarrow> node list \<Rightarrow> 'f prometheus_result list \<Rightarrow> time_period_params \<Rightarrow> (gerror, node list) res" where
  "resolveMemoryValues F port nodes results period =
     map_res (\<lambda>nd. res_bind (collect_ratios F period (labelled port nd) results) (\<lambda>data.
       Ok (if data = [] then nd else nd\<lparr>nd_memory_usage := last data\<rparr>))) nodes"

text \<open>The sum of the \<open>j\<close>-th samples, parsed back from their texts.\<close>

fun sum_at :: "'f float_ops \<Rightarrow> ratio_with_timestamp list list \<Rightarrow> nat \<Rightarrow> 'f \<Rightarrow> (gerror, 'f) res" where
  "sum_at F [] j acc = Ok acc"
| "sum_at F (d # ds) j acc =
     (if j < length d then
        (case fl_parse F (rt_ratio (d ! j)) of
           Some v \<Rightarrow> sum_at F ds j (fl_add F acc v)
         | None \<Rightarrow> Err ''invalid syntax'')
      else Panic)"

definition resolveDiscValues ::
  "'f float_ops \<Rightarrow> int \<Rightarrow> node list \<Rightarrow> 'f prometheus_result list \<Rightarrow> 'f prometheus_result list \<Rightarrow>
   time_period_params \<Rightarrow> (gerror, node list) res" where
  "resolveDiscValues F port nodes respFree respTotal period =
     map_res (\<lambda>nd.
       res_bind (collect_ratios F period (labelled port nd) respFree) (\<lambda>dataFree.
       res_bind (collect_ratios F period (labelled port nd) respTotal) (\<lambda>dataUsed.
         if length dataUsed \<noteq> length dataFree then Err ''no data got or data not correct''
         else if length dataUsed = 0 \<or> length dataFree = 0 then Ok nd
         else res_bind (map_res (\<lambda>j.
             res_bind (sum_at F dataFree j (fl_zero F)) (\<lambda>sumFree.
             res_bind (sum_at F dataUsed j (fl_zero F)) (\<lambda>sumUsed.
               Ok \<lparr>rt_timestamp = rt_timestamp (dataFree ! 0 ! j),
                   rt_ratio = (if \<not> fl_is_zero F sumUsed
                     then fl_fmt F 2 (fl_div F (fl_sub F sumUsed sumFree) sumUsed) else ''0'')\<rparr>)))
             [0..<length (dataFree ! 0)])
           (\<lambda>usage. Ok (nd\<lparr>nd_disc_usage := nd_disc_usage nd @ usage\<rparr>))))) nodes"

text \<open>Devices of containers are meant to be left out.\<close>

definition network_result :: "int \<Rightarrow> node \<Rightarrow> 'f prometheus_result \<Rightarrow> bool" where
  "network_result port nd r \<longleftrightarrow>
     \<not> (node_label port nd \<noteq> pr_labels r ''instance'' \<or>
        str_index (pr_labels r ''device'') ''docker'' > 0 \<or>
        str_index (pr_labels r ''device'') ''veth'' > 0)"

definition resolveNetworkValues ::
  "'f float_ops \<Rightarrow> int \<Rightarrow> node list \<Rightarrow> 'f prometheus_result list \<Rightarrow> time_period_params \<Rightarrow> (gerror, node list) res" where
  "resolveNetworkValues F port nodes results period =
     map_res (\<lambda>nd.
       res_bind (collect_ratios F period (network_result port nd) results) (\<lambda>data.
         if length data = 0 then Ok nd
         else res_bind (map_res (\<lambda>j.
             res_bind (sum_at F data j (fl_zero F)) (\<lambda>sum.
               Ok \<lparr>rt_timestamp = rt_timestamp (data ! 0 ! j), rt_ratio = fl_fmt F 2 sum\<rparr>))
             [0..<length (data ! 0)])
           (\<lambda>usage. Ok (nd\<lparr>nd_network := nd_network nd @ usage\<rparr>)))) nodes"

section \<open>Queries\<close>

text \<open>What the decoded body of an answer holds.\<close>

record 'f prometheus_response =
  ps_status :: string
  ps_results :: "'f prometheus_result list"

text \<open>The escaping of a query parameter: letters, digits and four signs stay, a blank becomes a
  plus, everything else its code.\<close>

definition hex_upper :: "nat \<Rightarrow> char" where
  "hex_upper n = (if n < 10 then char_of (48 + n) else char_of (55 + n))"

definition query_escape_char :: "char \<Rightarrow> string" where
  "query_escape_char c =
     (let n = of_char c :: nat in
      if (48 \<le> n \<and> n \<le> 57) \<or> (65 \<le> n \<and> n \<le> 90) \<or> (97 \<le> n \<and> n \<le> 122) \<or>
         c \<in> {CHR ''-'', CHR ''_'', CHR ''.'', CHR ''~''} then [c]
      else if c = CHR '' '' then ''+''
      else [CHR ''%'', hex_upper (n div 16), hex_upper (n mod 16)])"

definition query_escape :: "string \<Rightarrow> string" where
  "query_escape s = concat (map query_escape_char s)"

text \<open>The client is given by what a request for an address returns, and the decoder by what it
  makes of a body.\<close>

record 'f metrics_server =
  ms_addr :: string
  ms_export_port :: int
  ms_get :: "string \<Rightarrow> (gerror, string) res"
  ms_decode :: "string \<Rightarrow> (gerror, 'f prometheus_response) res"
  ms_floats :: "'f float_ops"

definition getPrometheusData ::
  "'f metrics_server \<Rightarrow> string \<Rightarrow> time_period_params \<Rightarrow> (gerror, 'f prometheus_result list) res" where
  "getPrometheusData h pql period =
     (let path = ''http://'' @ ms_addr h @ ''/api/v1/query_range?'' @ ''query='' @ query_escape pql @
        ''&start='' @ itoa (tp_begin period) @ ''&end='' @ itoa (tp_end period) @
        ''&step='' @ itoa (tp_step period)
      in res_bind (ms_get h path) (\<lambda>body.
        res_bind (res_map_err (\<lambda>e. ''unmarshal pronmetheus response failed: '' @ e) (ms_decode h body))
          (\<lambda>resp. if ps_status resp \<noteq> ''success''
            then Err (''get metric failed with status: '' @ ps_status resp)
            else Ok (ps_results resp))))"

definition getNodeAddrsLabel :: "node list \<Rightarrow> int \<Rightarrow> string" where
  "getNodeAddrsLabel nodes port = str_join ''|'' (map (\<lambda>nd. nd_id nd @ '':'' @ itoa port) nodes)"

definition dq :: string where "dq = [CHR 0x22]"

definition getMemoryRatio ::
  "'f metrics_server \<Rightarrow> string \<Rightarrow> node list \<Rightarrow> time_period_params \<Rightarrow> (gerror, node list) res" where
  "getMemoryRatio h label nodes period =
     res_bind (getPrometheusData h
       (''1 - (node_memory_MemFree_bytes{instance=~'' @ dq @ label @ dq @
        ''}+node_memory_Cached_bytes{instance=~'' @ dq @ label @ dq @
        ''}+node_memory_Buffers_bytes{instance=~'' @ dq @ label @ dq @
        ''}) / node_memory_MemTotal_bytes'') period)
       (\<lambda>resp. resolveMemoryValues (ms_floats h) (ms_export_port h) nodes resp period)"

definition getCPURatio ::
  "'f metrics_server \<Rightarrow> string \<Rightarrow> node list \<Rightarrow> time_period_params \<Rightarrow> (gerror, node list) res" where
  "getCPURatio h label nodes period =
     res_bind (getPrometheusData h
       (''1 - (avg(irate(node_cpu_seconds_total{instance=~'' @ dq @ label @ dq @ '', mode='' @ dq @
        ''idle'' @ dq @ ''}[5m])) by (instance))'') period)
       (\<lambda>resp. resolveCPUValues (ms_floats h) (ms_export_port h) nodes resp period)"

definition getDiscRatio ::
  "'f metrics_server \<Rightarrow> string \<Rightarrow> node list \<Rightarrow> time_period_params \<Rightarrow> (gerror, node list) res" where
  "getDiscRatio h label nodes period =
     res_bind (getPrometheusData h (''node_filesystem_free_bytes{instance=~'' @ dq @ label @ dq @
        '', fstype=~'' @ dq @ ''ext4|xfs'' @ dq @ ''}'') period) (\<lambda>respFree.
     res_bind (getPrometheusData h (''node_filesystem_size_bytes{instance=~'' @ dq @ label @ dq @
        '', fstype=~'' @ dq @ ''ext4|xfs'' @ dq @ ''}'') period) (\<lambda>respTotal.
       resolveDiscValues (ms_floats h) (ms_export_port h) nodes respFree respTotal period))"

definition getNetworkRatio ::
  "'f metrics_server \<Rightarrow> string \<Rightarrow> node list \<Rightarrow> time_period_params \<Rightarrow> (gerror, node list) res" where
  "getNetworkRatio h label nodes period =
     res_bind (getPrometheusData h
       (''irate(node_network_receive_bytes_total{device!='' @ dq @ ''lo'' @ dq @ '', instance=~'' @ dq @
        label @ dq @ ''}[5m]) + irate(node_network_transmit_bytes_total{device!='' @ dq @ ''lo'' @ dq @
        '', instance=~'' @ dq @ label @ dq @ ''}[5m])'') period)
       (\<lambda>resp. resolveNetworkValues (ms_floats h) (ms_export_port h) nodes resp period)"

text \<open>The last samples become the ratios of a node that is alive.\<close>

definition last_ratios :: "node \<Rightarrow> node" where
  "last_ratios nd =
     (if \<not> nd_node_is_alive nd then nd
      else (let nd1 = (if length (nd_cpu_usage nd) \<ge> 1
                 then nd\<lparr>nd_cpu_ratio := rt_ratio (nd_cpu_usage nd ! (length (nd_cpu_usage nd) - 1))\<rparr> else nd)
            in if length (nd_memory_usage nd1) \<ge> 1
               then nd1\<lparr>nd_mem_ratio := rt_ratio (nd_memory_usage nd1 ! (length (nd_memory_usage nd1) - 1))\<rparr>
               else nd1))"

definition setNodeMetrics ::
  "'f metrics_server \<Rightarrow> string \<Rightarrow> node list \<Rightarrow> time_period_params \<Rightarrow> (gerror, node list) res" where
  "setNodeMetrics h label nodes period =
     res_bind (res_map_err (\<lambda>e. ''get nodes memory metrics from prometheus failed: '' @ e)
         (getMemoryRatio h label nodes period)) (\<lambda>nodes.
     res_bind (res_map_err (\<lambda>e. ''get nodes cpu ratio metrics from prometheus failed: '' @ e)
         (getCPURatio h label nodes period)) (\<lambda>nodes.
     res_bind (res_map_err (\<lambda>e. ''get nodes disk ratio metric from prometheus failed: '' @ e)
         (getDiscRatio h label nodes period)) (\<lambda>nodes.
     res_bind (res_map_err (\<lambda>e. ''get nodes network metric from prometheus failed: '' @ e)
         (getNetworkRatio h label nodes period)) (\<lambda>nodes. Ok (map last_ratios nodes)))))"

definition node_List ::
  "'d tx_hooks \<Rightarrow> ('d, node) table \<Rightarrow> 'f metrics_server \<Rightarrow> int \<Rightarrow> node ctx \<Rightarrow>
   (('d, 'u) world, api_error, node list) comp" where
  "node_List P t h now ctx =
     c_bind (server_error (\<lambda>e. ''list nodes from db failed: '' @ e)
         (GetResources P t [(''orderby'', DStr ''roles, master'')])) (\<lambda>nodes.
       server_error (\<lambda>e. ''list nodes metrics from prometheus failed: '' @ e)
         (c_lift (setNodeMetrics h (getNodeAddrsLabel nodes (ms_export_port h)) nodes
            (getTimePeriodParamFromFilter now (c_filters ctx)))))"

text \<open>Reading one node fails unless there is exactly one.\<close>

definition node_Get ::
  "('d, node) table \<Rightarrow> 'f metrics_server \<Rightarrow> int \<Rightarrow> node ctx \<Rightarrow> (('d, 'u) world, api_error, node) comp" where
  "node_Get t h now ctx =
     (let ip = nd_id (c_resource ctx) in
      c_bind (server_error (\<lambda>e. ''get node '' @ ip @ '' from db failed: '' @ e)
          (on_db (tb_get_with_id t ip))) (\<lambda>nd.
        c_bind (server_error (\<lambda>e. ''get node '' @ ip @ '' metrics from prometheus failed: '' @ e)
          (c_lift (setNodeMetrics h (getNodeAddrsLabel [nd] (ms_export_port h)) [nd]
            (getTimePeriodParamFromFilter now (c_filters ctx))))) (\<lambda>nodes. c_return (nodes ! 0))))"

section \<open>The grid\<close>

lemma period_int:
  "\<exists>p \<in> {6, 12, 24, 168, 720, 2160}. getTimePeriodParamFromFilter now filters = genTimePeriodParams now p"
proof -
  have known: "getPeriodFromFilters filters \<in> set period_values"
  proof (induction filters)
    case (Cons f fs)
    then show ?case by (auto split: option.split dest: find_SomeD)
  qed (simp add: DefaultPeriodValue_def period_values_def)
  have "\<forall>v \<in> set period_values. \<exists>p \<in> {6, 12, 24, 168, 720, 2160}. atoi v = Some p"
    by code_simp
  with known obtain p where "p \<in> {6, 12, 24, 168, 720, 2160}" "atoi (getPeriodFromFilters filters) = Some p"
    by blast
  then show ?thesis by (intro bexI [of _ p]) (simp_all add: getTimePeriodParamFromFilter_def)
qed

lemma time_points_grid:
  assumes "0 < step"
  shows "time_points i (i + int n * step) step =
    map (\<lambda>k. \<lparr>rt_timestamp = i + int k * step, rt_ratio = ''0''\<rparr>) [0..<Suc n]"
proof (induction n arbitrary: i)
  case 0
  then show ?case using assms by (simp add: time_points.simps [of i] time_points.simps [of "i + step"])
next
  case (Suc n)
  have eq: "i + int (Suc n) * step = (i + step) + int n * step" by (simp add: algebra_simps)
  have le: "i \<le> (i + step) + int n * step" using assms by simp
  have "time_points i (i + int (Suc n) * step) step =
      \<lparr>rt_timestamp = i, rt_ratio = ''0''\<rparr> # time_points (i + step) ((i + step) + int n * step) step"
    unfolding eq using assms le by (subst time_points.simps) simp
  also have "\<dots> = \<lparr>rt_timestamp = i, rt_ratio = ''0''\<rparr> #
      map (\<lambda>k. \<lparr>rt_timestamp = (i + step) + int k * step, rt_ratio = ''0''\<rparr>) [0..<Suc n]"
    using Suc.IH [of "i + step"] by simp
  also have "\<dots> = map (\<lambda>k. \<lparr>rt_timestamp = i + int k * step, rt_ratio = ''0''\<rparr>) [0..<Suc (Suc n)]"
    by (simp add: upt_conv_Cons map_Suc_upt [symmetric] algebra_simps del: upt_Suc)
  finally show ?case .
qed

text \<open>A list of values as a sample: its time and its text, when it is counted at all.\<close>

definition sample :: "'f float_ops \<Rightarrow> 'f json_value list \<Rightarrow> (int \<times> string) option" where
  "sample F vs =
     (case getTimestampAndValue F vs (0, []) of
        (t, s) \<Rightarrow> if t \<noteq> 0 then map_option (\<lambda>f. (t, fl_fmt F 4 f)) (fl_parse F s) else None)"

definition grid_index :: "time_period_params \<Rightarrow> int \<Rightarrow> int" where
  "grid_index p t = (t - tp_begin p) sdiv tp_step p"

lemma put_samples_Cons:
  "put_samples F p (vs # vss) rs =
     (case sample F vs of
        Some (t, r) \<Rightarrow> res_bind (put_ratio p t r rs) (put_samples F p vss)
      | None \<Rightarrow> put_samples F p vss rs)"
  by (auto simp: sample_def split: prod.splits option.splits)

text \<open>The text at a point of the grid: that of the last sample with its index.\<close>

definition grid_value ::
  "'f float_ops \<Rightarrow> time_period_params \<Rightarrow> 'f json_value list list \<Rightarrow> int \<Rightarrow> string \<Rightarrow> string" where
  "grid_value F p vss k d =
     (case find (\<lambda>vs. case sample F vs of Some (t, _) \<Rightarrow> grid_index p t = k | None \<Rightarrow> False) (rev vss) of
        Some vs \<Rightarrow> snd (the (sample F vs)) | None \<Rightarrow> d)"

lemma grid_value_Nil [simp]: "grid_value F p [] k d = d"
  by (simp add: grid_value_def)

lemma find_append: "find P (xs @ ys) = (case find P xs of None \<Rightarrow> find P ys | Some x \<Rightarrow> Some x)"
  by (induction xs) auto

lemma grid_value_Cons:
  "grid_value F p (vs # vss) k d = grid_value F p vss k
     (case sample F vs of Some (t, r) \<Rightarrow> if grid_index p t = k then r else d | None \<Rightarrow> d)"
  by (auto simp: grid_value_def find_append split: option.splits prod.splits)

lemma put_samples_spec:
  "put_samples F p vss rs =
     (if \<exists>vs \<in> set vss. \<exists>t r. sample F vs = Some (t, r) \<and> \<not> (0 \<le> grid_index p t \<and> grid_index p t < int (length rs))
      then Panic
      else Ok (map (\<lambda>k. (rs ! k)\<lparr>rt_ratio := grid_value F p vss (int k) (rt_ratio (rs ! k))\<rparr>) [0..<length rs]))"
proof (induction vss arbitrary: rs)
  case Nil
  then show ?case by (simp add: map_nth)
next
  case (Cons vs vss)
  show ?case
  proof (cases "sample F vs")
    case None
    then show ?thesis using Cons by (simp add: put_samples_Cons grid_value_Cons del: put_samples.simps)
  next
    case (Some tr)
    obtain t r where tr: "tr = (t, r)" by fastforce
    let ?i = "grid_index p t"
    show ?thesis
    proof (cases "0 \<le> ?i \<and> ?i < int (length rs)")
      case False
      then have "put_ratio p t r rs = Panic" by (simp add: put_ratio_def grid_index_def Let_def)
      with False Some tr show ?thesis by (auto simp: put_samples_Cons simp del: put_samples.simps)
    next
      case True
      let ?rs = "rs[nat ?i := (rs ! nat ?i)\<lparr>rt_ratio := r\<rparr>]"
      from True have "put_ratio p t r rs = Ok ?rs" by (simp add: put_ratio_def grid_index_def Let_def)
      then have "put_samples F p (vs # vss) rs = put_samples F p vss ?rs"
        using Some tr by (simp add: put_samples_Cons del: put_samples.simps)
      moreover have "(?rs ! k)\<lparr>rt_ratio := grid_value F p vss (int k) (rt_ratio (?rs ! k))\<rparr> =
          (rs ! k)\<lparr>rt_ratio := grid_value F p (vs # vss) (int k) (rt_ratio (rs ! k))\<rparr>"
        if "k < length rs" for k
      proof (cases "int k = ?i")
        case True
        then have "nat ?i = k" by linarith
        with True Some tr that show ?thesis by (simp add: grid_value_Cons)
      next
        case False
        then have "nat ?i \<noteq> k" using \<open>0 \<le> ?i \<and> ?i < int (length rs)\<close> by linarith
        with False Some tr that show ?thesis by (simp add: grid_value_Cons)
      qed
      ultimately show ?thesis using Cons.IH [of ?rs] True Some tr by auto
    qed
  qed
qed

lemma zdiv_less:
  fixes a b c :: int
  assumes "0 < c"
  shows "a div c < b \<longleftrightarrow> a < b * c"
proof
  assume "a div c < b"
  then have "(a div c + 1) * c \<le> b * c" using assms by (intro mult_right_mono) auto
  moreover have "a < (a div c + 1) * c"
    using pos_mod_bound [OF assms, of a] div_mult_mod_eq [of a c]
    unfolding distrib_right by linarith
  ultimately show "a < b * c" by linarith
next
  assume less: "a < b * c"
  show "a div c < b"
  proof (rule ccontr)
    assume "\<not> a div c < b"
    then have "b * c \<le> a div c * c" using assms by (intro mult_right_mono) auto
    also have "\<dots> \<le> a"
      using pos_mod_sign [OF assms, of a] div_mult_mod_eq [of a c] by linarith
    finally show False using less by simp
  qed
qed

lemma grid_index_bounds:
  assumes "0 < tp_step p" and "tp_end p = tp_begin p + int n * tp_step p"
  shows "0 \<le> grid_index p t \<and> grid_index p t < int (Suc n) \<longleftrightarrow>
    tp_begin p - tp_step p < t \<and> t < tp_end p + tp_step p"
proof (cases "tp_begin p \<le> t")
  case True
  then have idx: "grid_index p t = (t - tp_begin p) div tp_step p"
    using assms(1) by (simp add: grid_index_def signed_divide_int_def sgn_if)
  have "(t - tp_begin p) div tp_step p < int (Suc n) \<longleftrightarrow> t - tp_begin p < int (Suc n) * tp_step p"
    using assms(1) by (simp add: zdiv_less)
  then show ?thesis using True assms idx by (auto simp: pos_imp_zdiv_nonneg_iff algebra_simps)
next
  case False
  then have idx: "grid_index p t = - ((tp_begin p - t) div tp_step p)"
    using assms(1) by (simp add: grid_index_def signed_divide_int_def sgn_if abs_if algebra_simps)
  have "0 \<le> (tp_begin p - t) div tp_step p" using False assms(1) by (simp add: pos_imp_zdiv_nonneg_iff)
  moreover have "(tp_begin p - t) div tp_step p < 1 \<longleftrightarrow> tp_begin p - t < tp_step p"
    using assms(1) by (simp add: zdiv_less)
  moreover have "0 \<le> int n * tp_step p" using assms(1) by simp
  moreover have "t < tp_begin p + int n * tp_step p + tp_step p"
    using calculation(3) assms(1) False by linarith
  ultimately show ?thesis using False assms idx by auto
qed

section \<open>Properties\<close>

lemma period_grid:
  assumes "p = getTimePeriodParamFromFilter now filters"
  shows "0 < tp_step p \<and> tp_end p = now \<and> now = tp_begin p + int 300 * tp_step p"
  using period_int [of now filters] assms by (auto simp: genTimePeriodParams_def)

text \<open>
  C28. For whatever filters and at whatever time, the usage of a node is a list of 301 samples,
  one for each of the times from the begin of the period to now in equal steps. The text of each
  is that of the last sample of the answer with its index, where a time between two points counts
  for the one nearer to the begin of the period, and the digit 0 if there is none. The run-time panics
  exactly if the answer has a readable sample a whole step or more before the begin of the period
  or after now.
\<close>

theorem usage_grid:
  "\<exists>start step. tp_begin (getTimePeriodParamFromFilter now filters) = start \<and>
     tp_step (getTimePeriodParamFromFilter now filters) = step \<and>
     step \<in> {72, 144, 288, 2016, 8640, 25920} \<and> start + 300 * step = now \<and>
     getRatiosWithTimestamp F values (getTimePeriodParamFromFilter now filters) =
       (if \<exists>vs t r. vs \<in> set values \<and> sample F vs = Some (t, r) \<and> (t \<le> start - step \<or> now + step \<le> t)
        then Panic
        else Ok (map (\<lambda>k. \<lparr>rt_timestamp = start + int k * step,
               rt_ratio = grid_value F (getTimePeriodParamFromFilter now filters) values (int k) ''0''\<rparr>)
             [0..<301]))"
proof -
  let ?p = "getTimePeriodParamFromFilter now filters"
  have p: "0 < tp_step ?p" "tp_end ?p = now" "now = tp_begin ?p + int 300 * tp_step ?p"
    using period_grid [OF refl] by blast+
  let ?point = "\<lambda>k. \<lparr>rt_timestamp = tp_begin ?p + int k * tp_step ?p, rt_ratio = ''0''\<rparr>"
  have points: "time_points (tp_begin ?p) (tp_end ?p) (tp_step ?p) = map ?point [0..<301]"
    using time_points_grid [OF p(1), of "tp_begin ?p" 300] p(2,3) by simp
  have "\<not> (0 \<le> grid_index ?p t \<and> grid_index ?p t < 301) \<longleftrightarrow>
      t \<le> tp_begin ?p - tp_step ?p \<or> now + tp_step ?p \<le> t" for t
    using grid_index_bounds [of ?p 300 t] p by auto
  moreover have "map (\<lambda>k. (map ?point [0..<301] ! k)\<lparr>rt_ratio :=
        grid_value F ?p values (int k) (rt_ratio (map ?point [0..<301] ! k))\<rparr>) [0..<301] =
      map (\<lambda>k. \<lparr>rt_timestamp = tp_begin ?p + int k * tp_step ?p,
        rt_ratio = grid_value F ?p values (int k) ''0''\<rparr>) [0..<301]"
    by (rule map_cong [OF refl]) simp
  ultimately have "getRatiosWithTimestamp F values ?p =
      (if \<exists>vs t r. vs \<in> set values \<and> sample F vs = Some (t, r) \<and>
           (t \<le> tp_begin ?p - tp_step ?p \<or> now + tp_step ?p \<le> t)
       then Panic
       else Ok (map (\<lambda>k. \<lparr>rt_timestamp = tp_begin ?p + int k * tp_step ?p,
               rt_ratio = grid_value F ?p values (int k) ''0''\<rparr>) [0..<301]))"
    unfolding getRatiosWithTimestamp_def points put_samples_spec length_map length_upt by (simp add: Bex_def)
  moreover have "tp_step ?p \<in> {72, 144, 288, 2016, 8640, 25920}"
    using period_int [of now filters] by (auto simp: genTimePeriodParams_def)
  ultimately show ?thesis using p by simp
qed

lemma str_index_pos: "str_index s sub > 0 \<longleftrightarrow> sublist sub s \<and> \<not> prefix sub s"
proof -
  have "0 \<le> str_index s sub \<longleftrightarrow> sublist sub s"
    using str_contains_iff [of s sub] by (simp add: str_contains_def sublist_def)
  moreover have "str_index s sub = 0 \<longleftrightarrow> prefix sub s"
    using str_index_ge [of _ sub]
    by (cases s) (auto simp: str_prefix_iff prefix_def Let_def dest: add_nonneg_eq_0_iff [THEN iffD1, rotated 2])
  ultimately show ?thesis by linarith
qed

text \<open>
  A series of network traffic is counted for a node exactly if it comes from the node's
  address and its device does not have the name of a container or of its interface somewhere
  behind its start: a device whose name starts with one of them, as those of containers do, is
  counted.
\<close>

theorem container_devices_counted:
  "network_result port nd r \<longleftrightarrow>
     pr_labels r ''instance'' = nd_ip nd @ '':'' @ itoa port \<and>
     \<not> (\<exists>d \<in> {''docker'', ''veth''}. sublist d (pr_labels r ''device'') \<and> \<not> prefix d (pr_labels r ''device''))"
  by (auto simp: network_result_def node_label_def str_index_pos)

end
