(* ===== verification/Config.thy ===== *)
theory Config
  imports Prelude
begin

text \<open>
  \<open>config/config.go\<close>: the configuration of the controller. Reading and parsing the file is the
  configuration library, a parameter that maps the file to a configuration.
\<close>

record db_conf =
  db_name :: string
  db_user :: string
  db_password :: string
  db_port :: int
  db_host :: string

record server_conf =
  sc_ip :: string
  sc_port :: string
  sc_hostname :: string
  sc_tls_cert_file :: string
  sc_tls_key_file :: string
  sc_master :: string
  sc_grpc_addr :: string
  sc_role_conf :: string

record api_grpc_conf =
  ac_grpc_addr :: string

record prometheus_conf =
  pc_addr :: string
  pc_export_port :: int

record monitor_node_conf =
  mc_time_out :: "64 word"

record elasticsearch_conf =
  ec_addr :: string
  ec_index :: string

record audit_log_conf =
  lc_valid_period :: "32 word"

record vip_conf =
  vc_begin_vip :: string
  vc_end_vip :: string
  vc_length :: "32 word"

record ddi_config =
  cf_path :: string
  cf_db :: db_conf
  cf_server :: server_conf
  cf_prometheus :: prometheus_conf
  cf_elasticsearch :: elasticsearch_conf
  cf_monitor_node :: monitor_node_conf
  cf_audit_log :: audit_log_conf
  cf_api_server :: api_grpc_conf
  cf_vip :: vip_conf

text \<open>The loader gives the configuration that the file at a path describes.\<close>

type_synonym loader = "string \<Rightarrow> (gerror, ddi_config) res"

text \<open>Both the configuration itself and the global one are replaced.\<close>

definition Reload :: "loader \<Rightarrow> (ddi_config \<times> ddi_config option, gerror, unit) comp" where
  "Reload load = (\<lambda>(c, gConf). case load (cf_path c) of
       Ok newConf \<Rightarrow> (let new = newConf\<lparr>cf_path := cf_path c\<rparr> in (Ok (), (new, Some new)))
     | Err e \<Rightarrow> (Err e, (c, gConf))
     | Panic \<Rightarrow> (Panic, (c, gConf)))"

definition zero_config :: ddi_config where
  "zero_config =
     \<lparr>cf_path = [], cf_db = \<lparr>db_name = [], db_user = [], db_password = [], db_port = 0, db_host = []\<rparr>,
      cf_server = \<lparr>sc_ip = [], sc_port = [], sc_hostname = [], sc_tls_cert_file = [],
        sc_tls_key_file = [], sc_master = [], sc_grpc_addr = [], sc_role_conf = []\<rparr>,
      cf_prometheus = \<lparr>pc_addr = [], pc_export_port = 0\<rparr>,
      cf_elasticsearch = \<lparr>ec_addr = [], ec_index = []\<rparr>,
      cf_monitor_node = \<lparr>mc_time_out = 0\<rparr>, cf_audit_log = \<lparr>lc_valid_period = 0\<rparr>,
      cf_api_server = \<lparr>ac_grpc_addr = []\<rparr>,
      cf_vip = \<lparr>vc_begin_vip = [], vc_end_vip = [], vc_length = 0\<rparr>\<rparr>"

definition LoadConfig :: "loader \<Rightarrow> string \<Rightarrow> (ddi_config option, gerror, ddi_config) comp" where
  "LoadConfig load path = (\<lambda>gConf.
     case Reload load (zero_config\<lparr>cf_path := path\<rparr>, gConf) of
       (Ok _, (conf, gConf')) \<Rightarrow> (Ok conf, gConf')
     | (Err e, (_, gConf')) \<Rightarrow> (Err e, gConf')
     | (Panic, (_, gConf')) \<Rightarrow> (Panic, gConf'))"

definition GetConfig :: "ddi_config option \<Rightarrow> ddi_config option" where
  "GetConfig gConf = gConf"

lemma LoadConfig_path:
  "LoadConfig load path g = (Ok c, g') \<Longrightarrow> cf_path c = path \<and> g' = Some c"
  by (auto simp: LoadConfig_def Reload_def zero_config_def Let_def split: res.splits)

end
