(* ===== verification/Monitor.thy ===== *)
theory Monitor
  imports NodeMetrics Config
begin

text \<open>
  \<open>pkg/metric/service\<close>: the service that the nodes report to (\<open>monitor.go\<close> behind the wrappers
  of \<open>service.go\<close>). Nodes register and send signs of life, a ticker declares those dead that were
  silent too long, and the high-availability service switches the controller between master and
  slave, which rewrites its configuration file. The requests and the names of the roles come from
  two other repositories: the requests are records of the fields that are read, the role codes
  and names are a parameter.
\<close>

section \<open>Requests and state\<close>

record register_req =
  rq_ip :: string
  rq_host_name :: string
  rq_roles :: "int list"
  rq_master :: string

record keepalive_req =
  ka_ip :: string
  ka_roles :: "int list"
  ka_cpu_usage :: string
  ka_mem_usage :: string
  ka_dns_alive :: bool
  ka_dhcp_alive :: bool
  ka_master :: string
  ka_vip :: string

record role_names =
  rc_controller :: int
  rc_dns :: int
  rc_dhcp :: int
  rn_controller :: string
  rn_dns :: string
  rn_dhcp :: string

text \<open>The map \<open>LastTime\<close> is kept beside the database, where the sessions are for the handlers of
  the users.\<close>

record monitor_handler =
  mh_conf :: ddi_config
  mh_timeout :: int
  mh_start_time :: int
  mh_config_file :: string
  mh_master_ip :: string
  mh_local_ip :: string

type_synonym 'd last_times = "('d, int) world"

abbreviation last_time :: "('d, int) world \<Rightarrow> string \<Rightarrow> int option" where
  "last_time \<equiv> w_active"

record 'd monitor =
  mo_handler :: monitor_handler
  mo_world :: "('d, int) world"
  mo_gconf :: "ddi_config option"
  mo_files :: "string \<Rightarrow> string option"

definition NewNodeMonitorHandler :: "ddi_config \<Rightarrow> int \<Rightarrow> monitor_handler" where
  "NewNodeMonitorHandler conf now =
     \<lparr>mh_conf = conf, mh_timeout = sint (mc_time_out (cf_monitor_node conf)), mh_start_time = now,
      mh_config_file = cf_path conf, mh_master_ip = sc_master (cf_server conf),
      mh_local_ip = sc_ip (cf_server conf)\<rparr>"

text \<open>The outside of the service: the database, the roles, and for the configuration file the
  YAML library and what a write makes of the files.\<close>

record 'd monitor_env =
  me_tx :: "'d tx_hooks"
  me_nodes :: "('d, node) table"
  me_roles :: role_names
  me_parse :: "string \<Rightarrow> (gerror, ddi_config) res"
  me_marshal :: "ddi_config \<Rightarrow> (gerror, string) res"
  me_write :: "string \<Rightarrow> string \<Rightarrow> (string \<Rightarrow> string option) \<Rightarrow> string \<Rightarrow> string option"

definition is_master :: "monitor_handler \<Rightarrow> bool" where
  "is_master h \<longleftrightarrow> sc_master (cf_server (mh_conf h)) = []"

section \<open>Registration and signs of life\<close>

definition monitorPbRolesToNodeRoles :: "role_names \<Rightarrow> int list \<Rightarrow> string list" where
  "monitorPbRolesToNodeRoles R pbRoles =
     concat (map (\<lambda>r. if r = rc_controller R then [rn_controller R]
       else if r = rc_dns R then [rn_dns R]
       else if r = rc_dhcp R then [rn_dhcp R] else []) pbRoles)"

definition registered_node :: "role_names \<Rightarrow> monitor_handler \<Rightarrow> register_req \<Rightarrow> node" where
  "registered_node R h req =
     \<lparr>nd_id = rq_ip req, nd_ip = rq_ip req, nd_roles = monitorPbRolesToNodeRoles R (rq_roles req),
      nd_host_name = rq_host_name req, nd_node_is_alive = False, nd_dhcp_is_alive = False,
      nd_dns_is_alive = False, nd_cpu_usage = [], nd_memory_usage = [], nd_disc_usage = [],
      nd_network = [], nd_cpu_ratio = [], nd_mem_ratio = [], nd_master = [],
      nd_controller_ip = sc_ip (cf_server (mh_conf h)), nd_start_time = mh_start_time h, nd_vip = []\<rparr>"

definition registered_columns :: "monitor_handler \<Rightarrow> register_req \<Rightarrow> node \<Rightarrow> columns" where
  "registered_columns h req node =
     [(''roles'', DStrs (nd_roles node)), (''host_name'', DStr (nd_host_name node)),
      (''master'', DStr (rq_master req)), (''controller_ip'', DStr (sc_ip (cf_server (mh_conf h)))),
      (''start_time'', DInt (nd_start_time node))]"

definition register_closure ::
  "('d, node) table \<Rightarrow> monitor_handler \<Rightarrow> register_req \<Rightarrow> node \<Rightarrow> (('d, int) world, gerror, unit) comp" where
  "register_closure t h req node =
     c_bind (on_db (tb_exists t (by_id (rq_ip req)))) (\<lambda>exists.
       if exists
       then c_bind (on_db (tb_update t (registered_columns h req node) (by_id (rq_ip req)))) (\<lambda>_. c_return ())
       else c_bind (on_db (tb_insert t node)) (\<lambda>_. c_return ()))"

definition Register ::
  "'d monitor_env \<Rightarrow> monitor_handler \<Rightarrow> register_req \<Rightarrow> (('d, int) world, gerror, unit) comp" where
  "Register E h req =
     (if is_master h then
        (let node = registered_node (me_roles E) h req in
         c_map_err (\<lambda>e. ''create node '' @ nd_host_name node @ '' failed: '' @ e)
           (withTx (me_tx E) (register_closure (me_nodes E) h req node)))
      else c_return ())"

text \<open>The time of the sign of life is stored inside the transaction's closure, also when the
  update has failed.\<close>

definition then_mark :: "(('d, int) world, gerror, 'a) comp \<Rightarrow> string \<Rightarrow> int \<Rightarrow> (('d, int) world, gerror, unit) comp" where
  "then_mark m ip now = (\<lambda>w. case m w of
       (Ok _, w') \<Rightarrow> (Ok (), w'\<lparr>w_active := (w_active w')(ip \<mapsto> now)\<rparr>)
     | (Err e, w') \<Rightarrow> (Err e, w'\<lparr>w_active := (w_active w')(ip \<mapsto> now)\<rparr>)
     | (Panic, w') \<Rightarrow> (Panic, w'))"

definition keepalive_columns :: "'d monitor_env \<Rightarrow> monitor_handler \<Rightarrow> keepalive_req \<Rightarrow> columns" where
  "keepalive_columns E h req =
     [(''roles'', DStrs (monitorPbRolesToNodeRoles (me_roles E) (ka_roles req))),
      (''node_is_alive'', DBool True), (''cpu_ratio'', DStr (ka_cpu_usage req)),
      (''mem_ratio'', DStr (ka_mem_usage req)), (''dns_is_alive'', DBool (ka_dns_alive req)),
      (''dhcp_is_alive'', DBool (ka_dhcp_alive req)), (''master'', DStr (ka_master req)),
      (''controller_ip'', DStr (sc_ip (cf_server (mh_conf h)))),
      (''start_time'', DInt (mh_start_time h)), (''vip'', DStr (ka_vip req))]"

definition KeepAlive ::
  "'d monitor_env \<Rightarrow> monitor_handler \<Rightarrow> int \<Rightarrow> keepalive_req \<Rightarrow> (('d, int) world, gerror, unit) comp" where
  "KeepAlive E h now req =
     (if is_master h then
        c_map_err (\<lambda>e. ''create node '' @ ka_ip req @ '' failed: '' @ e)
          (withTx (me_tx E) (then_mark
             (on_db (tb_update (me_nodes E) (keepalive_columns E h req) (by_id (ka_ip req))))
             (ka_ip req) now))
      else c_return ())"

section \<open>The ticker\<close>

text \<open>An error of a transaction is logged, and the next node is looked at; a panic ends the
  process. The clock gives the time at which a node is looked at. A node that never sent a sign
  of life has the time 0.\<close>

definition dead_columns :: "monitor_handler \<Rightarrow> columns" where
  "dead_columns h =
     [(''node_is_alive'', DBool False), (''cpu_ratio'', DStr ''0''), (''mem_ratio'', DStr ''0''),
      (''dhcp_is_alive'', DBool False), (''dns_is_alive'', DBool False),
      (''start_time'', DInt (mh_start_time h)), (''vip'', DStr [])]"

definition expired :: "monitor_handler \<Rightarrow> (string \<Rightarrow> int option) \<Rightarrow> (string \<Rightarrow> int) \<Rightarrow> string \<Rightarrow> bool" where
  "expired h lasts clock i \<longleftrightarrow>
     clock i - (case lasts i of Some t \<Rightarrow> t | None \<Rightarrow> 0) > mh_timeout h"

fun check_nodes ::
  "'d monitor_env \<Rightarrow> monitor_handler \<Rightarrow> (string \<Rightarrow> int) \<Rightarrow> node list \<Rightarrow> (('d, int) world, gerror, unit) comp" where
  "check_nodes E h clock [] w = (Ok (), w)"
| "check_nodes E h clock (nd # nds) w =
     (if expired h (last_time w) clock (nd_id nd) then
        (case withTx (me_tx E) (on_db (tb_update (me_nodes E) (dead_columns h) (by_id (nd_id nd)))) w of
           (Panic, w') \<Rightarrow> (Panic, w')
         | (_, w') \<Rightarrow> check_nodes E h clock nds w')
      else check_nodes E h clock nds w)"

text \<open>When the listing fails at its end, the nodes it has read are looked at nevertheless.\<close>

definition filled :: "'d monitor_env \<Rightarrow> ('d, int) world \<Rightarrow> node list" where
  "filled E w =
     (case tx_open (me_tx E) (w_db w) of
        (Some _, _) \<Rightarrow> []
      | (None, d) \<Rightarrow> (case tb_get (me_nodes E) [] d of (Ok nodes, _) \<Rightarrow> nodes | _ \<Rightarrow> []))"

definition check_tick ::
  "'d monitor_env \<Rightarrow> monitor_handler \<Rightarrow> (string \<Rightarrow> int) \<Rightarrow> (('d, int) world, gerror, unit) comp" where
  "check_tick E h clock = (\<lambda>w.
     if is_master h then
       (case GetResources (me_tx E) (me_nodes E) [] w of
          (Panic, w') \<Rightarrow> (Panic, w')
        | (_, w') \<Rightarrow> check_nodes E h clock (filled E w) w')
     else (Ok (), w))"

text \<open>Without a positive period the ticker cannot be made; the period is computed in 64 bits.\<close>

definition ticker_starts :: "monitor_handler \<Rightarrow> bool" where
  "ticker_starts h \<longleftrightarrow> 0 < sint (word_of_int (mh_timeout h * 1000000000) :: 64 word)"

section \<open>Switching between master and slave\<close>

definition load_file :: "'d monitor_env \<Rightarrow> (string \<Rightarrow> string option) \<Rightarrow> loader" where
  "load_file E files path =
     (case files path of None \<Rightarrow> Err (''open '' @ path @ '': no such file or directory'')
      | Some y \<Rightarrow> me_parse E y)"

definition set_master :: "string \<Rightarrow> ddi_config \<Rightarrow> ddi_config" where
  "set_master m c = c\<lparr>cf_server := (cf_server c)\<lparr>sc_master := m\<rparr>\<rparr>"

text \<open>The results of writing and of reloading are dropped.\<close>

definition MasterOper :: "'d monitor_env \<Rightarrow> string \<Rightarrow> ('d monitor, gerror, unit) comp" where
  "MasterOper E masterIp = (\<lambda>s.
     let h = mo_handler s; path = mh_config_file h in
     case mo_files s path of
       None \<Rightarrow> (Err (''open file '' @ path @ '' fail: open '' @ path @ '': no such file or directory''), s)
     | Some _ \<Rightarrow>
         (let conf = set_master masterIp (mh_conf h); s1 = s\<lparr>mo_handler := h\<lparr>mh_conf := conf\<rparr>\<rparr> in
          case me_marshal E conf of
            Err e \<Rightarrow> (Err (''marshal ddi-controller config err: '' @ e), s1)
          | Panic \<Rightarrow> (Panic, s1)
          | Ok y \<Rightarrow>
              (let files = me_write E path y (mo_files s) in
               case Reload (load_file E files) (conf, mo_gconf s) of
                 (Panic, _) \<Rightarrow> (Panic, s1\<lparr>mo_files := files\<rparr>)
               | (_, (conf', g)) \<Rightarrow>
                   (Ok (), s\<lparr>mo_handler := h\<lparr>mh_conf := conf'\<rparr>, mo_gconf := g, mo_files := files\<rparr>))))"

text \<open>The alarm for a switch is commented out: nothing is sent.\<close>

definition sendHAEventIfNeed :: "string \<Rightarrow> 'd monitor \<Rightarrow> 'd monitor" where
  "sendHAEventIfNeed masterIp s = s"

lemma sendHAEventIfNeed_id [simp]: "sendHAEventIfNeed masterIp s = s"
  by (simp add: sendHAEventIfNeed_def)

text \<open>The address compared with is the master at construction.\<close>

definition MasterUp :: "'d monitor_env \<Rightarrow> string \<Rightarrow> ('d monitor, gerror, unit) comp" where
  "MasterUp E masterIp =
     (\<lambda>s. if masterIp = mh_master_ip (mo_handler s) then MasterOper E masterIp s else (Ok (), s)) \<circ>
     sendHAEventIfNeed masterIp"

definition MasterDown :: "'d monitor_env \<Rightarrow> string \<Rightarrow> ('d monitor, gerror, unit) comp" where
  "MasterDown E masterIp =
     (\<lambda>s. if masterIp = mh_master_ip (mo_handler s) then MasterOper E [] s else (Ok (), s)) \<circ>
     sendHAEventIfNeed masterIp"

section \<open>The service\<close>

record reply =
  rp_success :: bool
  rp_msg :: string

text \<open>Every operation is answered by a reply and by the error itself.\<close>

definition answer :: "(gerror, unit) res \<Rightarrow> (gerror, reply \<times> gerror option) res" where
  "answer r = (case r of
       Ok _ \<Rightarrow> Ok (\<lparr>rp_success = True, rp_msg = []\<rparr>, None)
     | Err e \<Rightarrow> Ok (\<lparr>rp_success = False, rp_msg = e\<rparr>, Some e)
     | Panic \<Rightarrow> Panic)"

definition in_world ::
  "(monitor_handler \<Rightarrow> (('d, int) world, gerror, unit) comp) \<Rightarrow> ('d monitor, gerror, unit) comp" where
  "in_world f = (\<lambda>s. case f (mo_handler s) (mo_world s) of (r, w) \<Rightarrow> (r, s\<lparr>mo_world := w\<rparr>))"

definition service_Register ::
  "'d monitor_env \<Rightarrow> register_req \<Rightarrow> 'd monitor \<Rightarrow> (gerror, reply \<times> gerror option) res \<times> 'd monitor" where
  "service_Register E req s = (case in_world (\<lambda>h. Register E h req) s of (r, s') \<Rightarrow> (answer r, s'))"

definition service_KeepAlive ::
  "'d monitor_env \<Rightarrow> int \<Rightarrow> keepalive_req \<Rightarrow> 'd monitor \<Rightarrow> (gerror, reply \<times> gerror option) res \<times> 'd monitor" where
  "service_KeepAlive E now req s = (case in_world (\<lambda>h. KeepAlive E h now req) s of (r, s') \<Rightarrow> (answer r, s'))"

text \<open>The replies to the high-availability service have no message.\<close>

definition succeed_answer :: "(gerror, unit) res \<Rightarrow> (gerror, bool \<times> gerror option) res" where
  "succeed_answer r = (case r of Ok _ \<Rightarrow> Ok (True, None) | Err e \<Rightarrow> Ok (False, Some e) | Panic \<Rightarrow> Panic)"

definition service_MasterUp ::
  "'d monitor_env \<Rightarrow> string \<Rightarrow> 'd monitor \<Rightarrow> (gerror, bool \<times> gerror option) res \<times> 'd monitor" where
  "service_MasterUp E ip s = (case MasterUp E ip s of (r, s') \<Rightarrow> (succeed_answer r, s'))"

definition service_MasterDown ::
  "'d monitor_env \<Rightarrow> string \<Rightarrow> 'd monitor \<Rightarrow> (gerror, bool \<times> gerror option) res \<times> 'd monitor" where
  "service_MasterDown E ip s = (case MasterDown E ip s of (r, s') \<Rightarrow> (succeed_answer r, s'))"

text \<open>Starting the service starts the ticker.\<close>

definition service_New :: "ddi_config \<Rightarrow> int \<Rightarrow> (gerror, monitor_handler) res" where
  "service_New conf now =
     (let h = NewNodeMonitorHandler conf now in if ticker_starts h then Ok h else Panic)"

end
