(* ===== verification/Simulation.thy ===== *)
theory Simulation
  imports Prelude
begin

text \<open>
  The interface between a component that handles events and its specification as a machine: every
  event is handled without an error, keeps the component's invariant, and changes the abstraction
  of its state the way the machine does. Whoever shows this for single events gets it for runs.
\<close>

locale simulated =
  fixes handle :: "'ev \<Rightarrow> ('s, 'e, unit) comp"
    and inv :: "'s \<Rightarrow> bool"
    and abst :: "'s \<Rightarrow> 'a"
    and spec :: "'ev \<Rightarrow> 'a \<Rightarrow> 'a"
  assumes one_event: "inv s \<Longrightarrow> \<exists>s'. handle ev s = (Ok (), s') \<and> inv s' \<and> abst s' = spec ev (abst s)"
begin

lemma event_Ok: "inv s \<Longrightarrow> handle ev s = (Ok (), snd (handle ev s))"
  using one_event [of s ev] by auto

lemma event_inv: "inv s \<Longrightarrow> inv (snd (handle ev s))"
  using one_event [of s ev] by auto

text \<open>A run of the component is a run of the machine.\<close>

lemma run:
  assumes "inv s"
  shows "\<exists>s'. c_forM evs handle s = (Ok (), s') \<and> inv s' \<and> abst s' = fold spec evs (abst s)"
  using assms
proof (induction evs arbitrary: s)
  case (Cons ev evs)
  from one_event [OF Cons.prems, of ev] obtain s1 where s1: "handle ev s = (Ok (), s1)" "inv s1"
    "abst s1 = spec ev (abst s)"
    by blast
  from Cons.IH [OF s1(2)] s1 show ?case by simp
qed simp

text \<open>What a step passes on once it holds, or makes true by a certain kind of event, holds after
  every run that starts with it or contains such an event.\<close>

lemma run_carries:
  assumes "\<And>ev s s'. inv s \<Longrightarrow> handle ev s = (Ok (), s') \<Longrightarrow> Q s \<or> makes ev \<Longrightarrow> Q s'"
    and "inv s" and "c_forM evs handle s = (Ok (), s')" and "Q s \<or> list_ex makes evs"
  shows "Q s'"
  using assms(2-)
proof (induction evs arbitrary: s)
  case (Cons ev evs)
  from one_event [OF Cons.prems(1), of ev] obtain s1 where s1: "handle ev s = (Ok (), s1)" "inv s1"
    by blast
  with Cons.prems(2) have rest: "c_forM evs handle s1 = (Ok (), s')" by simp
  from assms(1) [OF Cons.prems(1) s1(1)] Cons.prems(3)
  show ?case by (intro Cons.IH [OF s1(2) rest]) auto
qed simp

end

end
