(* ===== verification/MonitorProps.thy ===== *)
theory MonitorProps
  imports Monitor Simulation
begin

text \<open>
  What the service of \<open>Monitor\<close> does over any sequence of calls and ticks: a small machine that
  keeps for each node whether it is alive and when it was last heard of, and for the controller
  whose slave it is, is refined by the handlers over the database and the configuration file.
\<close>

section \<open>The outside\<close>

text \<open>The columns of the node table that the handlers write.\<close>

fun set_node_column :: "string \<times> dbval \<Rightarrow> node \<Rightarrow> node" where
  "set_node_column (c, DBool b) nd =
     (if c = ''node_is_alive'' then nd\<lparr>nd_node_is_alive := b\<rparr>
      else if c = ''dns_is_alive'' then nd\<lparr>nd_dns_is_alive := b\<rparr>
      else if c = ''dhcp_is_alive'' then nd\<lparr>nd_dhcp_is_alive := b\<rparr> else nd)"
| "set_node_column (c, DStr s) nd =
     (if c = ''host_name'' then nd\<lparr>nd_host_name := s\<rparr>
      else if c = ''cpu_ratio'' then nd\<lparr>nd_cpu_ratio := s\<rparr>
      else if c = ''mem_ratio'' then nd\<lparr>nd_mem_ratio := s\<rparr>
      else if c = ''master'' then nd\<lparr>nd_master := s\<rparr>
      else if c = ''controller_ip'' then nd\<lparr>nd_controller_ip := s\<rparr>
      else if c = ''vip'' then nd\<lparr>nd_vip := s\<rparr> else nd)"
| "set_node_column (c, DStrs ss) nd = (if c = ''roles'' then nd\<lparr>nd_roles := ss\<rparr> else nd)"
| "set_node_column (c, DInt n) nd = (if c = ''start_time'' then nd\<lparr>nd_start_time := n\<rparr> else nd)"

definition update_nodes :: "columns \<Rightarrow> string \<Rightarrow> node list \<Rightarrow> node list" where
  "update_nodes cols i nds = map (\<lambda>nd. if nd_id nd = i then fold set_node_column cols nd else nd) nds"

text \<open>\<open>V\<close> gives the rows of the table.\<close>

definition node_laws :: "('d \<Rightarrow> node list) \<Rightarrow> ('d, node) table \<Rightarrow> bool" where
  "node_laws V t \<longleftrightarrow>
     (\<forall>d. tb_get t [] d = (Ok (V d), d)) \<and>
     (\<forall>i d. tb_exists t (by_id i) d = (Ok (i \<in> nd_id ` set (V d)), d)) \<and>
     (\<forall>nd d. nd_id nd \<notin> nd_id ` set (V d) \<longrightarrow>
        (\<exists>d'. tb_insert t nd d = (Ok nd, d') \<and> V d' = V d @ [nd])) \<and>
     (\<forall>cols i d. \<exists>n d'. tb_update t cols (by_id i) d = (Ok n, d') \<and> V d' = update_nodes cols i (V d))"

text \<open>A configuration that is written is read back, except for its path, which is not written.\<close>

definition config_laws :: "'d monitor_env \<Rightarrow> ddi_config \<Rightarrow> bool" where
  "config_laws E conf \<longleftrightarrow>
     (\<forall>m \<in> {[], sc_master (cf_server conf)}. \<exists>y. me_marshal E (set_master m conf) = Ok y \<and>
        me_parse E y = Ok ((set_master m conf)\<lparr>cf_path := []\<rparr>)) \<and>
     (\<forall>p y files. me_write E p y files = files(p \<mapsto> y))"

definition monitor_env_ok :: "('d \<Rightarrow> node list) \<Rightarrow> 'd monitor_env \<Rightarrow> ddi_config \<Rightarrow> bool" where
  "monitor_env_ok V E conf \<longleftrightarrow>
     tx_reliable (me_tx E) \<and> node_laws V (me_nodes E) \<and> config_laws E conf"

lemma tx_ok:
  assumes "tx_reliable P" and "m (w_db w) = (Ok a, d)"
  shows "withTx P (on_db m) w = (Ok a, w\<lparr>w_db := d\<rparr>)"
  by (rule withTx_reliable(1) [OF assms(1)]) (simp add: assms(2))

section \<open>The machine\<close>

datatype monitor_event =
    Registers register_req
  | Beats int keepalive_req
  | Ticks "string \<Rightarrow> int"
  | GoesUp string
  | GoesDown string

fun handle_event :: "'d monitor_env \<Rightarrow> monitor_event \<Rightarrow> ('d monitor, gerror, unit) comp" where
  "handle_event E (Registers req) = in_world (\<lambda>h. Register E h req)"
| "handle_event E (Beats now req) = in_world (\<lambda>h. KeepAlive E h now req)"
| "handle_event E (Ticks clock) = in_world (\<lambda>h. check_tick E h clock)"
| "handle_event E (GoesUp ip) = MasterUp E ip"
| "handle_event E (GoesDown ip) = MasterDown E ip"

text \<open>For each registered node whether it is alive; when a node was last heard of; the master, if
  the controller is a slave.\<close>

record presence =
  ab_alive :: "string \<Rightarrow> bool option"
  ab_last :: "string \<Rightarrow> int option"
  ab_master :: string

definition alive_in :: "node list \<Rightarrow> string \<Rightarrow> bool option" where
  "alive_in nds i = map_option nd_node_is_alive (find (\<lambda>nd. nd_id nd = i) nds)"

definition presence_of :: "('d \<Rightarrow> node list) \<Rightarrow> 'd monitor \<Rightarrow> presence" where
  "presence_of V s =
     \<lparr>ab_alive = alive_in (V (w_db (mo_world s))), ab_last = last_time (mo_world s),
      ab_master = sc_master (cf_server (mh_conf (mo_handler s)))\<rparr>"

definition silent :: "int \<Rightarrow> presence \<Rightarrow> (string \<Rightarrow> int) \<Rightarrow> string \<Rightarrow> bool" where
  "silent timeout a clock i \<longleftrightarrow> clock i - (case ab_last a i of Some t \<Rightarrow> t | None \<Rightarrow> 0) > timeout"

fun presence_step :: "int \<Rightarrow> string \<Rightarrow> monitor_event \<Rightarrow> presence \<Rightarrow> presence" where
  "presence_step timeout m0 (Registers req) a =
     (if ab_master a = [] \<and> ab_alive a (rq_ip req) = None
      then a\<lparr>ab_alive := (ab_alive a)(rq_ip req \<mapsto> False)\<rparr> else a)"
| "presence_step timeout m0 (Beats now req) a =
     (if ab_master a = []
      then a\<lparr>ab_alive := (ab_alive a)(ka_ip req := map_option (\<lambda>_. True) (ab_alive a (ka_ip req))),
             ab_last := (ab_last a)(ka_ip req \<mapsto> now)\<rparr> else a)"
| "presence_step timeout m0 (Ticks clock) a =
     (if ab_master a = []
      then a\<lparr>ab_alive := (\<lambda>i. if silent timeout a clock i then map_option (\<lambda>_. False) (ab_alive a i)
             else ab_alive a i)\<rparr> else a)"
| "presence_step timeout m0 (GoesUp ip) a = (if ip = m0 then a\<lparr>ab_master := m0\<rparr> else a)"
| "presence_step timeout m0 (GoesDown ip) a = (if ip = m0 then a\<lparr>ab_master := []\<rparr> else a)"

section \<open>Rows\<close>

lemma set_node_column_id [simp]: "nd_id (set_node_column c nd) = nd_id nd"
  by (cases "(c, nd)" rule: set_node_column.cases) simp_all

lemma fold_set_node_column_id [simp]: "nd_id (fold set_node_column cols nd) = nd_id nd"
  by (induction cols arbitrary: nd) simp_all

lemma alive_in_None [simp]: "alive_in nds i = None \<longleftrightarrow> i \<notin> nd_id ` set nds"
  by (auto simp: alive_in_def find_None_iff)

lemma known_iff: "i \<in> nd_id ` set nds \<longleftrightarrow> alive_in nds i \<noteq> None"
  by simp

lemma alive_in_Nil [simp]: "alive_in [] i = None"
  by (simp add: alive_in_def)

lemma alive_in_Cons: "alive_in (nd # nds) i = (if nd_id nd = i then Some (nd_node_is_alive nd) else alive_in nds i)"
  by (simp add: alive_in_def)

lemma alive_in_append: "alive_in (nds @ nds') i = (case alive_in nds i of None \<Rightarrow> alive_in nds' i | b \<Rightarrow> b)"
  by (induction nds) (auto simp: alive_in_Cons)

text \<open>An update changes whether a node is alive the way its columns say.\<close>

lemma alive_in_update:
  assumes "\<And>nd. nd_node_is_alive (fold set_node_column cols nd) = f (nd_node_is_alive nd)"
  shows "alive_in (update_nodes cols i nds) = (alive_in nds)(i := map_option f (alive_in nds i))"
  by (rule ext, induction nds) (auto simp: update_nodes_def alive_in_Cons assms)

lemma alive_in_snoc:
  assumes "nd_id nd \<notin> nd_id ` set nds"
  shows "alive_in (nds @ [nd]) = (alive_in nds)(nd_id nd \<mapsto> nd_node_is_alive nd)"
proof
  show "alive_in (nds @ [nd]) i = ((alive_in nds)(nd_id nd \<mapsto> nd_node_is_alive nd)) i" for i
    using alive_in_None [THEN iffD2, OF assms]
    by (cases "alive_in nds i") (auto simp add: alive_in_append alive_in_Cons simp del: alive_in_None)
qed

lemma keepalive_alive: "nd_node_is_alive (fold set_node_column (keepalive_columns E h req) nd) = True"
  by (simp add: keepalive_columns_def)

lemma dead_alive: "nd_node_is_alive (fold set_node_column (dead_columns h) nd) = False"
  by (simp add: dead_columns_def)

section \<open>One event\<close>

lemma registered_alive: "nd_node_is_alive (fold set_node_column (registered_columns h req node) nd) = nd_node_is_alive nd"
  by (simp add: registered_columns_def)

lemma register_closure_step:
  assumes "node_laws V t" and "nd_id node = rq_ip req" and "\<not> nd_node_is_alive node"
  shows "\<exists>d. register_closure t h req node w = (Ok (), w\<lparr>w_db := d\<rparr>) \<and>
    alive_in (V d) = (if rq_ip req \<in> nd_id ` set (V (w_db w)) then alive_in (V (w_db w))
      else (alive_in (V (w_db w)))(rq_ip req \<mapsto> False))"
proof -
  let ?known = "rq_ip req \<in> nd_id ` set (V (w_db w))"
  from assms(1) have ex: "on_db (tb_exists t (by_id (rq_ip req))) w = (Ok ?known, w)"
    by (simp add: node_laws_def on_db_def)
  show ?thesis
  proof (cases ?known)
    case True
    from assms(1) obtain n d where upd: "tb_update t (registered_columns h req node) (by_id (rq_ip req)) (w_db w) = (Ok n, d)"
      and d: "V d = update_nodes (registered_columns h req node) (rq_ip req) (V (w_db w))"
      unfolding node_laws_def by blast
    have "alive_in (V d) = alive_in (V (w_db w))"
      unfolding d by (subst alive_in_update [where f = id]) (simp_all add: option.map_id registered_alive)
    with True ex upd show ?thesis by (auto simp: register_closure_def)
  next
    case False
    with assms obtain d where ins: "tb_insert t node (w_db w) = (Ok node, d)"
      and d: "V d = V (w_db w) @ [node]"
      unfolding node_laws_def by metis
    have "alive_in (V d) = (alive_in (V (w_db w)))(rq_ip req \<mapsto> False)"
      unfolding d using alive_in_snoc [of node "V (w_db w)"] assms(2,3) False by simp
    with False ex ins show ?thesis by (auto simp: register_closure_def)
  qed
qed

lemma Register_step:
  assumes "tx_reliable (me_tx E)" and "node_laws V (me_nodes E)" and "is_master h"
  shows "\<exists>d. Register E h req w = (Ok (), w\<lparr>w_db := d\<rparr>) \<and>
    alive_in (V d) = (if rq_ip req \<in> nd_id ` set (V (w_db w)) then alive_in (V (w_db w))
      else (alive_in (V (w_db w)))(rq_ip req \<mapsto> False))"
proof -
  have "nd_id (registered_node (me_roles E) h req) = rq_ip req"
    "\<not> nd_node_is_alive (registered_node (me_roles E) h req)"
    by (simp_all add: registered_node_def)
  from register_closure_step [OF assms(2) this, of h w] withTx_reliable(1) [OF assms(1)] assms(3)
  show ?thesis by (fastforce simp: Register_def Let_def)
qed

lemma KeepAlive_step:
  assumes "tx_reliable (me_tx E)" and "node_laws V (me_nodes E)" and "is_master h"
  shows "\<exists>d. KeepAlive E h now req w =
      (Ok (), w\<lparr>w_db := d, w_active := (last_time w)(ka_ip req \<mapsto> now)\<rparr>) \<and>
    alive_in (V d) = (alive_in (V (w_db w)))
      (ka_ip req := map_option (\<lambda>_. True) (alive_in (V (w_db w)) (ka_ip req)))"
proof -
  let ?cols = "keepalive_columns E h req"
  from assms(2) obtain n d where upd: "tb_update (me_nodes E) ?cols (by_id (ka_ip req)) (w_db w) = (Ok n, d)"
    and d: "V d = update_nodes ?cols (ka_ip req) (V (w_db w))"
    unfolding node_laws_def by blast
  have "alive_in (V d) = (alive_in (V (w_db w)))
      (ka_ip req := map_option (\<lambda>_. True) (alive_in (V (w_db w)) (ka_ip req)))"
    unfolding d by (rule alive_in_update) (rule keepalive_alive)
  moreover have "KeepAlive E h now req w =
      (Ok (), w\<lparr>w_db := d, w_active := (last_time w)(ka_ip req \<mapsto> now)\<rparr>)"
    using assms(3) upd
    by (simp add: KeepAlive_def then_mark_def withTx_reliable(1) [OF assms(1), where a = "()" and
          w' = "w\<lparr>w_db := d, w_active := (last_time w)(ka_ip req \<mapsto> now)\<rparr>"])
  ultimately show ?thesis by blast
qed

lemma check_nodes_step:
  assumes "tx_reliable (me_tx E)" and "node_laws V (me_nodes E)"
  shows "\<exists>d. check_nodes E h clock nds w = (Ok (), w\<lparr>w_db := d\<rparr>) \<and>
    alive_in (V d) = (\<lambda>i. if i \<in> nd_id ` set nds \<and> expired h (last_time w) clock i
      then map_option (\<lambda>_. False) (alive_in (V (w_db w)) i) else alive_in (V (w_db w)) i)"
proof (induction nds arbitrary: w)
  case (Cons nd nds)
  show ?case
  proof (cases "expired h (last_time w) clock (nd_id nd)")
    case True
    from assms(2) obtain n d where upd: "tb_update (me_nodes E) (dead_columns h) (by_id (nd_id nd)) (w_db w) = (Ok n, d)"
      and d: "V d = update_nodes (dead_columns h) (nd_id nd) (V (w_db w))"
      unfolding node_laws_def by blast
    have d': "alive_in (V d) = (alive_in (V (w_db w)))
        (nd_id nd := map_option (\<lambda>_. False) (alive_in (V (w_db w)) (nd_id nd)))"
      unfolding d by (rule alive_in_update) (rule dead_alive)
    have "check_nodes E h clock (nd # nds) w = check_nodes E h clock nds (w\<lparr>w_db := d\<rparr>)"
      using True by (simp add: tx_ok [OF assms(1), where a = n and d = d] upd)
    with Cons.IH [of "w\<lparr>w_db := d\<rparr>"] True show ?thesis
      by (auto simp: d' fun_eq_iff option.map_comp comp_def)
  next
    case False
    with Cons.IH [of w] show ?thesis by (auto simp: fun_eq_iff)
  qed
next
  case Nil
  then show ?case by (auto intro: exI [of _ "w_db w"])
qed

lemma check_tick_step:
  assumes "tx_reliable (me_tx E)" and "node_laws V (me_nodes E)" and "is_master h"
  shows "\<exists>d. check_tick E h clock w = (Ok (), w\<lparr>w_db := d\<rparr>) \<and>
    alive_in (V d) = (\<lambda>i. if expired h (last_time w) clock i
      then map_option (\<lambda>_. False) (alive_in (V (w_db w)) i) else alive_in (V (w_db w)) i)"
proof -
  have get: "tb_get (me_nodes E) [] (w_db w) = (Ok (V (w_db w)), w_db w)"
    using assms(2) by (simp add: node_laws_def)
  have "GetResources (me_tx E) (me_nodes E) [] w = (Ok (V (w_db w)), w)"
    using tx_ok [where m = "tb_get (me_nodes E) []" and w = w, OF assms(1) get] by (simp add: GetResources_def)
  moreover have "filled E w = V (w_db w)"
    using assms(1) get by (simp add: filled_def tx_reliable_def)
  moreover have none: "map_option f (alive_in (V (w_db w)) i) = alive_in (V (w_db w)) i"
    if "i \<notin> nd_id ` set (V (w_db w))" for i f
    using that by (metis alive_in_None option.map_disc_iff)
  ultimately show ?thesis
    using check_nodes_step [OF assms(1,2), of h clock "V (w_db w)" w] assms(3)
    by (auto simp: check_tick_def fun_eq_iff none)
qed

text \<open>Between two events the handler differs from the one that was constructed by the master in its
  configuration only.\<close>

definition monitor_inv :: "ddi_config \<Rightarrow> int \<Rightarrow> 'd monitor \<Rightarrow> bool" where
  "monitor_inv conf now s \<longleftrightarrow>
     (\<exists>m \<in> {[], sc_master (cf_server conf)}.
        mo_handler s = (NewNodeMonitorHandler conf now)\<lparr>mh_conf := set_master m conf\<rparr>) \<and>
     mo_files s (cf_path conf) \<noteq> None"

lemma set_master_simps [simp]:
  "set_master m (set_master m' c) = set_master m c"
  "sc_master (cf_server (set_master m c)) = m"
  "set_master (sc_master (cf_server c)) c = c"
  "cf_path (set_master m c) = cf_path c"
  by (simp_all add: set_master_def)

lemma monitor_inv_master:
  "monitor_inv conf now s \<Longrightarrow> mh_master_ip (mo_handler s) = sc_master (cf_server conf)"
  "monitor_inv conf now s \<Longrightarrow> mh_timeout (mo_handler s) = sint (mc_time_out (cf_monitor_node conf))"
  by (auto simp: monitor_inv_def NewNodeMonitorHandler_def)

lemma monitor_inv_world [simp]: "monitor_inv conf now (s\<lparr>mo_world := w\<rparr>) = monitor_inv conf now s"
  by (simp add: monitor_inv_def)

lemma MasterOper_step:
  assumes "config_laws E conf" and "monitor_inv conf now s" and "m \<in> {[], sc_master (cf_server conf)}"
  shows "\<exists>s'. MasterOper E m s = (Ok (), s') \<and> monitor_inv conf now s' \<and>
    presence_of V s' = (presence_of V s)\<lparr>ab_master := m\<rparr> \<and>
    mo_gconf s' = Some (mh_conf (mo_handler s')) \<and>
    load_file E (mo_files s') (cf_path conf) = Ok ((mh_conf (mo_handler s'))\<lparr>cf_path := []\<rparr>)"
proof -
  from assms(2) obtain m1 where h: "mo_handler s = (NewNodeMonitorHandler conf now)\<lparr>mh_conf := set_master m1 conf\<rparr>"
    and present: "mo_files s (cf_path conf) \<noteq> None"
    unfolding monitor_inv_def by blast
  from assms(1,3) obtain y where y: "me_marshal E (set_master m conf) = Ok y"
    "me_parse E y = Ok ((set_master m conf)\<lparr>cf_path := []\<rparr>)"
    unfolding config_laws_def by blast
  from assms(1) have wr: "me_write E p y files = files(p \<mapsto> y)" for p files
    by (simp add: config_laws_def)
  have path: "mh_config_file (NewNodeMonitorHandler conf now) = cf_path conf"
    by (simp add: NewNodeMonitorHandler_def)
  let ?files = "(mo_files s)(cf_path conf \<mapsto> y)"
  let ?c = "set_master m conf"
  have c: "?c\<lparr>cf_path := cf_path conf\<rparr> = ?c" by (simp add: set_master_def)
  have "MasterOper E m s = (Ok (), s\<lparr>mo_handler := (mo_handler s)\<lparr>mh_conf := ?c\<rparr>,
      mo_gconf := Some ?c, mo_files := ?files\<rparr>)"
    using present y c by (auto simp: MasterOper_def Let_def path wr Reload_def load_file_def h split: option.split)
  then show ?thesis
    using assms(3) y h by (auto simp: monitor_inv_def presence_of_def load_file_def)
qed

lemma in_world_step:
  "f (mo_handler s) (mo_world s) = (r, w) \<Longrightarrow> in_world f s = (r, s\<lparr>mo_world := w\<rparr>)"
  by (simp add: in_world_def)

lemma is_master_iff: "is_master (mo_handler s) \<longleftrightarrow> ab_master (presence_of V s) = []"
  by (simp add: is_master_def presence_of_def)

lemma event_step:
  assumes ok: "monitor_env_ok V E conf" and inv: "monitor_inv conf now s"
  shows "\<exists>s'. handle_event E ev s = (Ok (), s') \<and> monitor_inv conf now s' \<and>
    presence_of V s' = presence_step (sint (mc_time_out (cf_monitor_node conf)))
      (sc_master (cf_server conf)) ev (presence_of V s)"
proof -
  from ok have P: "tx_reliable (me_tx E)" and N: "node_laws V (me_nodes E)" and C: "config_laws E conf"
    by (simp_all add: monitor_env_ok_def)
  note master = is_master_iff [of s V]
  show ?thesis
  proof (cases ev)
    case (Registers req)
    show ?thesis
    proof (cases "is_master (mo_handler s)")
      case True
      from Register_step [OF P N True, of req "mo_world s"] True Registers inv master
      show ?thesis unfolding known_iff
        by (auto simp: in_world_def presence_of_def simp del: alive_in_None)
    next
      case False
      with Registers inv master show ?thesis by (simp add: in_world_def Register_def)
    qed
  next
    case (Beats t req)
    show ?thesis
    proof (cases "is_master (mo_handler s)")
      case True
      from KeepAlive_step [OF P N True, of t req "mo_world s"] True Beats inv master
      show ?thesis by (auto simp: in_world_def presence_of_def)
    next
      case False
      with Beats inv master show ?thesis by (simp add: in_world_def KeepAlive_def)
    qed
  next
    case (Ticks clock)
    show ?thesis
    proof (cases "is_master (mo_handler s)")
      case True
      from check_tick_step [OF P N True, of clock "mo_world s"] True Ticks inv master
      show ?thesis
        by (auto simp: in_world_def presence_of_def expired_def silent_def monitor_inv_master(2)
            fun_eq_iff cong: if_cong)
    next
      case False
      with Ticks inv master show ?thesis by (simp add: in_world_def check_tick_def)
    qed
  next
    case (GoesUp ip)
    from MasterOper_step [OF C inv, of "sc_master (cf_server conf)" V] GoesUp inv
    show ?thesis by (auto simp: MasterUp_def monitor_inv_master(1))
  next
    case (GoesDown ip)
    from MasterOper_step [OF C inv, of "[]" V] GoesDown inv
    show ?thesis by (auto simp: MasterDown_def monitor_inv_master(1))
  qed
qed

text \<open>So the service is simulated by the machine.\<close>

interpretation mon: simulated "handle_event E"
  "\<lambda>s. monitor_env_ok V E conf \<and> monitor_inv conf now s" "presence_of V"
  "presence_step (sint (mc_time_out (cf_monitor_node conf))) (sc_master (cf_server conf))"
  for V E conf now
  using event_step by unfold_locales blast

lemma events_step:
  assumes "monitor_env_ok V E conf" and "monitor_inv conf now s"
  shows "\<exists>s'. c_forM evs (handle_event E) s = (Ok (), s') \<and> monitor_inv conf now s' \<and>
    presence_of V s' = fold (presence_step (sint (mc_time_out (cf_monitor_node conf)))
      (sc_master (cf_server conf))) evs (presence_of V s)"
  using mon.run [of V E conf now s evs] assms by blast

section \<open>Properties\<close>

abbreviation monitor_start :: "ddi_config \<Rightarrow> int \<Rightarrow> 'd monitor \<Rightarrow> bool" where
  "monitor_start conf now s \<equiv>
     mo_handler s = NewNodeMonitorHandler conf now \<and> mo_files s (cf_path conf) \<noteq> None"

lemma monitor_start_inv: "monitor_start conf now s \<Longrightarrow> monitor_inv conf now s"
  unfolding monitor_inv_def
  by (auto simp: NewNodeMonitorHandler_def intro!: bexI [of _ "sc_master (cf_server conf)"])

text \<open>A concrete outside: the table is a list of rows, and a configuration is written as its
  master.\<close>

definition list_nodes :: "(node list, node) table" where
  "list_nodes =
     \<lparr>tb_insert = (\<lambda>nd d. (Ok nd, d @ [nd])), tb_get = (\<lambda>c d. (Ok d, d)),
      tb_update = (\<lambda>cols c d. case c of [(_, DStr i)] \<Rightarrow> (Ok 1, update_nodes cols i d) | _ \<Rightarrow> (Ok 0, d)),
      tb_delete = (\<lambda>c d. (Ok 0, d)),
      tb_exists = (\<lambda>c d. case c of [(_, DStr i)] \<Rightarrow> (Ok (i \<in> nd_id ` set d), d) | _ \<Rightarrow> (Ok False, d)),
      tb_fill_ex = (\<lambda>sql args d. (Ok d, d)), tb_count_ex = (\<lambda>sql args d. (Ok 0, d)),
      tb_get_with_id = (\<lambda>i d. (Err ''not found'', d))\<rparr>"

definition list_monitor :: "ddi_config \<Rightarrow> node list monitor_env" where
  "list_monitor conf =
     \<lparr>me_tx = \<lparr>tx_open = (\<lambda>d. (None, d)), tx_commit = (\<lambda>d0 d. (None, d)),
        tx_rollback = (\<lambda>e d0 d. (e, d0)), tx_exec = (\<lambda>q args d. (Ok 0, d))\<rparr>,
      me_nodes = list_nodes,
      me_roles = \<lparr>rc_controller = 0, rc_dns = 1, rc_dhcp = 2, rn_controller = ''controller'',
        rn_dns = ''dns'', rn_dhcp = ''dhcp''\<rparr>,
      me_parse = (\<lambda>y. Ok ((set_master y conf)\<lparr>cf_path := []\<rparr>)),
      me_marshal = (\<lambda>c. Ok (sc_master (cf_server c))),
      me_write = (\<lambda>p y files. files(p \<mapsto> y))\<rparr>"

lemma list_monitor_ok: "monitor_env_ok id (list_monitor conf) conf"
  by (auto simp: monitor_env_ok_def list_monitor_def list_nodes_def tx_reliable_def node_laws_def
      config_laws_def by_id_def)

text \<open>A controller of the network 10.0.0.0, started as a slave of one of its machines, and the
  requests of another machine.\<close>

definition slave_conf :: ddi_config where
  "slave_conf = zero_config\<lparr>cf_path := ''/etc/ddi.conf'',
     cf_server := (cf_server zero_config)\<lparr>sc_ip := ''10.0.0.2'', sc_master := ''10.0.0.1''\<rparr>,
     cf_monitor_node := \<lparr>mc_time_out = 30\<rparr>\<rparr>"

definition slave_start :: "node list monitor" where
  "slave_start = \<lparr>mo_handler = NewNodeMonitorHandler slave_conf 1000,
     mo_world = \<lparr>w_db = [], w_active = Map.empty\<rparr>, mo_gconf = None,
     mo_files = [''/etc/ddi.conf'' \<mapsto> ''10.0.0.1'']\<rparr>"

definition some_register :: register_req where
  "some_register = \<lparr>rq_ip = ''10.0.0.3'', rq_host_name = ''dns'', rq_roles = [1], rq_master = []\<rparr>"

definition some_beat :: keepalive_req where
  "some_beat = \<lparr>ka_ip = ''10.0.0.3'', ka_roles = [1], ka_cpu_usage = ''0.5'', ka_mem_usage = ''0.2'',
     ka_dns_alive = True, ka_dhcp_alive = False, ka_master = [], ka_vip = []\<rparr>"

lemma slave_start: "monitor_start slave_conf 1000 slave_start"
  by (simp add: slave_start_def slave_conf_def)

text \<open>The slave has become a master and has registered the node.\<close>

definition some_events :: "monitor_event list" where
  "some_events = [GoesDown ''10.0.0.1'', Registers some_register]"

definition slave_later :: "node list monitor" where
  "slave_later = snd (c_forM some_events (handle_event (list_monitor slave_conf)) slave_start)"

lemma slave_later:
  "c_forM some_events (handle_event (list_monitor slave_conf)) slave_start = (Ok (), slave_later)"
  "presence_of id slave_later =
     \<lparr>ab_alive = [''10.0.0.3'' \<mapsto> False], ab_last = Map.empty, ab_master = []\<rparr>"
proof -
  from events_step [OF list_monitor_ok monitor_start_inv [OF slave_start], of some_events]
  obtain s' where s': "c_forM some_events (handle_event (list_monitor slave_conf)) slave_start = (Ok (), s')"
    "presence_of id s' = fold (presence_step (sint (mc_time_out (cf_monitor_node slave_conf)))
      (sc_master (cf_server slave_conf))) some_events (presence_of id slave_start)"
    by blast
  have "presence_of id slave_start = \<lparr>ab_alive = Map.empty, ab_last = Map.empty, ab_master = ''10.0.0.1''\<rparr>"
    by (simp add: presence_of_def slave_start_def NewNodeMonitorHandler_def slave_conf_def fun_eq_iff)
  with s'(2) have "presence_of id s' =
      \<lparr>ab_alive = [''10.0.0.3'' \<mapsto> False], ab_last = Map.empty, ab_master = []\<rparr>"
    by (simp add: some_events_def some_register_def slave_conf_def)
  with s'(1) show "c_forM some_events (handle_event (list_monitor slave_conf)) slave_start = (Ok (), slave_later)"
    "presence_of id slave_later = \<lparr>ab_alive = [''10.0.0.3'' \<mapsto> False], ab_last = Map.empty, ab_master = []\<rparr>"
    by (simp_all add: slave_later_def)
qed

lemma slave_later_ready: "is_master (mo_handler slave_later)" "ka_ip some_beat \<in> nd_id ` set (id (w_db (mo_world slave_later)))"
proof -
  show "is_master (mo_handler slave_later)"
    unfolding is_master_iff [of _ id] by (simp add: slave_later(2))
  have "ab_alive (presence_of id slave_later) ''10.0.0.3'' = Some False"
    by (simp add: slave_later(2))
  then show "ka_ip some_beat \<in> nd_id ` set (id (w_db (mo_world slave_later)))"
    unfolding known_iff by (simp add: presence_of_def some_beat_def)
qed

text \<open>
  C30. Over any sequence of registrations, signs of life, ticks and switches, no operation fails,
  and the table of nodes, the map of times and the configuration hold what a small machine says:
  a master enters an unknown node as not alive, takes a node that it knows as alive with its sign
  of life, and with a tick takes those for dead whose last sign of life, or the start of the epoch
  if there was none, is longer ago than the time-out; a slave changes nothing.
\<close>

theorem monitor_refines_presence:
  assumes "monitor_env_ok V E conf" and "monitor_start conf now s"
  shows "\<exists>s'. c_forM evs (handle_event E) s = (Ok (), s') \<and>
    presence_of V s' = fold (presence_step (sint (mc_time_out (cf_monitor_node conf)))
      (sc_master (cf_server conf))) evs (presence_of V s)"
  using events_step [OF assms(1) monitor_start_inv [OF assms(2)], of evs] by blast

lemma monitor_refines_presence_witness:
  "\<exists>s'. c_forM [GoesDown ''10.0.0.1'', Registers some_register, Beats 1010 some_beat]
      (handle_event (list_monitor slave_conf)) slave_start = (Ok (), s') \<and>
    presence_of id s' = fold (presence_step (sint (mc_time_out (cf_monitor_node slave_conf)))
      (sc_master (cf_server slave_conf)))
      [GoesDown ''10.0.0.1'', Registers some_register, Beats 1010 some_beat] (presence_of id slave_start)"
  by (rule monitor_refines_presence [OF list_monitor_ok slave_start])

text \<open>Events that leave a sign of life alone: not another one of the same node, and no switch.\<close>

fun leaves_alone :: "string \<Rightarrow> string \<Rightarrow> monitor_event \<Rightarrow> bool" where
  "leaves_alone m0 i (Beats t req) \<longleftrightarrow> ka_ip req \<noteq> i"
| "leaves_alone m0 i (GoesUp ip) \<longleftrightarrow> ip \<noteq> m0"
| "leaves_alone m0 i (GoesDown ip) \<longleftrightarrow> ip \<noteq> m0"
| "leaves_alone m0 i _ \<longleftrightarrow> True"

lemma presence_after_beat:
  assumes "ab_master a = []" and "ab_last a i = Some t" and "ab_alive a i = Some b"
    and "list_all (leaves_alone m0 i) evs"
  shows "ab_alive (fold (presence_step timeout m0) evs a) i =
    Some (b \<and> (\<forall>clock. Ticks clock \<in> set evs \<longrightarrow> clock i - t \<le> timeout))"
  using assms
proof (induction evs arbitrary: a b)
  case (Cons ev evs)
  let ?a = "presence_step timeout m0 ev a"
  have la: "leaves_alone m0 i ev" using Cons.prems(4) by simp
  have keep: "ab_master ?a = []" "ab_last ?a i = Some t"
    using Cons.prems(1,2) la by (cases ev; auto)+
  have "ab_alive ?a i = Some (b \<and> (\<forall>clock. ev = Ticks clock \<longrightarrow> clock i - t \<le> timeout))"
  proof (cases ev)
    case (Ticks clock)
    then show ?thesis using Cons.prems(1-3) by (cases "clock i - t \<le> timeout") (simp_all add: silent_def)
  qed (use Cons.prems(1-3) la in \<open>auto split: if_splits\<close>)
  from Cons.IH [OF keep this] Cons.prems(4)
  have "ab_alive (fold (presence_step timeout m0) evs ?a) i =
      Some ((b \<and> (\<forall>clock. ev = Ticks clock \<longrightarrow> clock i - t \<le> timeout)) \<and>
        (\<forall>clock. Ticks clock \<in> set evs \<longrightarrow> clock i - t \<le> timeout))"
    by simp
  moreover have "((b \<and> (\<forall>clock. ev = Ticks clock \<longrightarrow> clock i - t \<le> timeout)) \<and>
        (\<forall>clock. Ticks clock \<in> set evs \<longrightarrow> clock i - t \<le> timeout)) =
      (b \<and> (\<forall>clock. Ticks clock \<in> set (ev # evs) \<longrightarrow> clock i - t \<le> timeout))"
    by (metis list.set_intros(1) list.set_intros(2) set_ConsD)
  ultimately show ?case unfolding fold_Cons comp_apply by (rule trans [OF _ arg_cong])
qed simp

text \<open>
  C31. After a sign of life of a node that is registered, and until the next one or a switch, the
  node counts as alive exactly as long as no tick has found that more than the time-out has
  passed since then.
\<close>

theorem alive_until_timeout:
  assumes "monitor_env_ok V E conf" and "monitor_start conf now s"
    and "c_forM evs0 (handle_event E) s = (Ok (), s0)" and "is_master (mo_handler s0)"
    and "ka_ip req \<in> nd_id ` set (V (w_db (mo_world s0)))"
    and "list_all (leaves_alone (sc_master (cf_server conf)) (ka_ip req)) evs"
  shows "\<exists>s'. c_forM (Beats t req # evs) (handle_event E) s0 = (Ok (), s') \<and>
    alive_in (V (w_db (mo_world s'))) (ka_ip req) = Some
      (\<forall>clock. Ticks clock \<in> set evs \<longrightarrow> clock (ka_ip req) - t \<le> sint (mc_time_out (cf_monitor_node conf)))"
proof -
  let ?m0 = "sc_master (cf_server conf)" and ?timeout = "sint (mc_time_out (cf_monitor_node conf))"
  from events_step [OF assms(1) monitor_start_inv [OF assms(2)], of evs0] assms(3)
  have inv: "monitor_inv conf now s0" by auto
  from events_step [OF assms(1) inv, of "Beats t req # evs"] obtain s' where
    s': "c_forM (Beats t req # evs) (handle_event E) s0 = (Ok (), s')"
    "presence_of V s' = fold (presence_step ?timeout ?m0) evs (presence_step ?timeout ?m0 (Beats t req) (presence_of V s0))"
    by auto
  from assms(5) obtain b where "alive_in (V (w_db (mo_world s0))) (ka_ip req) = Some b"
    unfolding known_iff by blast
  with assms(4) have "ab_alive (presence_of V s') (ka_ip req) =
      Some (True \<and> (\<forall>clock. Ticks clock \<in> set evs \<longrightarrow> clock (ka_ip req) - t \<le> ?timeout))"
    unfolding s'(2) by (intro presence_after_beat) (auto simp: presence_of_def is_master_def assms(6))
  with s'(1) show ?thesis by (simp add: presence_of_def)
qed

lemma alive_until_timeout_witness:
  "\<exists>s'. c_forM [Beats 1010 some_beat, Ticks (\<lambda>_. 1040), Ticks (\<lambda>_. 1041)]
      (handle_event (list_monitor slave_conf)) slave_later = (Ok (), s') \<and>
    alive_in (w_db (mo_world s')) ''10.0.0.3'' = Some False"
  using alive_until_timeout [OF list_monitor_ok slave_start slave_later(1) slave_later_ready,
      of "[Ticks (\<lambda>_. 1040), Ticks (\<lambda>_. 1041)]" 1010]
  by (simp add: some_beat_def slave_conf_def)

text \<open>The events that switch the controller, and what the configuration has after them.\<close>

fun switches :: "string \<Rightarrow> monitor_event \<Rightarrow> bool" where
  "switches m0 (GoesUp ip) \<longleftrightarrow> ip = m0"
| "switches m0 (GoesDown ip) \<longleftrightarrow> ip = m0"
| "switches m0 _ \<longleftrightarrow> False"

definition saved :: "'d monitor_env \<Rightarrow> string \<Rightarrow> 'd monitor \<Rightarrow> bool" where
  "saved E path s \<longleftrightarrow> mo_gconf s = Some (mh_conf (mo_handler s)) \<and>
     load_file E (mo_files s) path = Ok ((mh_conf (mo_handler s))\<lparr>cf_path := []\<rparr>)"

lemma in_world_keeps:
  "in_world f s = (r, s') \<Longrightarrow> mo_handler s' = mo_handler s \<and> mo_gconf s' = mo_gconf s \<and> mo_files s' = mo_files s"
  by (auto simp: in_world_def split: prod.splits)

lemma event_saves:
  assumes "config_laws E conf" and "monitor_inv conf now s"
    and "handle_event E ev s = (Ok (), s')"
    and "saved E (cf_path conf) s \<or> switches (sc_master (cf_server conf)) ev"
  shows "saved E (cf_path conf) s'"
proof (cases "switches (sc_master (cf_server conf)) ev")
  case True
  then obtain m where "m \<in> {[], sc_master (cf_server conf)}" "handle_event E ev s = MasterOper E m s"
    by (cases ev) (auto simp: MasterUp_def MasterDown_def monitor_inv_master(1) [OF assms(2)])
  with MasterOper_step [OF assms(1,2)] assms(3) show ?thesis by (fastforce simp: saved_def)
next
  case False
  then have "mo_handler s' = mo_handler s \<and> mo_gconf s' = mo_gconf s \<and> mo_files s' = mo_files s"
    using assms(3)
    by (cases ev) (auto simp: MasterUp_def MasterDown_def monitor_inv_master(1) [OF assms(2)] dest: in_world_keeps)
  with assms(4) False show ?thesis by (simp add: saved_def)
qed

lemma events_save:
  assumes "monitor_env_ok V E conf" and "monitor_inv conf now s"
    and "c_forM evs (handle_event E) s = (Ok (), s')"
    and "saved E (cf_path conf) s \<or> list_ex (switches (sc_master (cf_server conf))) evs"
  shows "saved E (cf_path conf) s'"
proof (rule mon.run_carries [of V E conf now "saved E (cf_path conf)"])
  show "saved E (cf_path conf) t'"
    if "monitor_env_ok V E conf \<and> monitor_inv conf now t" and "handle_event E ev t = (Ok (), t')"
      and "saved E (cf_path conf) t \<or> switches (sc_master (cf_server conf)) ev" for ev t t'
    using event_saves [of E conf now t ev t'] that unfolding monitor_env_ok_def by blast
qed (use assms in auto)

definition down_last :: "string \<Rightarrow> monitor_event list \<Rightarrow> bool" where
  "down_last m0 evs \<longleftrightarrow> (\<exists>evs0 evs1. evs = evs0 @ [GoesDown m0] @ evs1 \<and> GoesUp m0 \<notin> set evs1)"

lemma down_last_Nil: "\<not> down_last m0 []"
  by (simp add: down_last_def)

lemma down_last_snoc:
  "down_last m0 (evs @ [ev]) \<longleftrightarrow> ev = GoesDown m0 \<or> (ev \<noteq> GoesUp m0 \<and> down_last m0 evs)"
proof
  assume "down_last m0 (evs @ [ev])"
  then obtain evs0 evs1 where e: "evs @ [ev] = evs0 @ [GoesDown m0] @ evs1" "GoesUp m0 \<notin> set evs1"
    unfolding down_last_def by blast
  then show "ev = GoesDown m0 \<or> (ev \<noteq> GoesUp m0 \<and> down_last m0 evs)"
    by (cases evs1 rule: rev_cases) (auto simp: down_last_def)
next
  assume r: "ev = GoesDown m0 \<or> (ev \<noteq> GoesUp m0 \<and> down_last m0 evs)"
  show "down_last m0 (evs @ [ev])"
  proof (cases "ev = GoesDown m0")
    case True
    then have "evs @ [ev] = evs @ [GoesDown m0] @ [] \<and> GoesUp m0 \<notin> set []" by simp
    then show ?thesis unfolding down_last_def by blast
  next
    case False
    with r obtain evs0 evs1 where "evs = evs0 @ [GoesDown m0] @ evs1" "GoesUp m0 \<notin> set evs1" "ev \<noteq> GoesUp m0"
      unfolding down_last_def by blast
    then have "evs @ [ev] = evs0 @ [GoesDown m0] @ (evs1 @ [ev]) \<and> GoesUp m0 \<notin> set (evs1 @ [ev])" by simp
    then show ?thesis unfolding down_last_def by blast
  qed
qed

lemma presence_step_master:
  "ab_master (presence_step timeout m0 ev a) =
     (if ev = GoesUp m0 then m0 else if ev = GoesDown m0 then [] else ab_master a)"
  by (cases ev) simp_all

lemma presence_master:
  assumes "ab_master a = m0"
  shows "ab_master (fold (presence_step timeout m0) evs a) = (if down_last m0 evs then [] else m0)"
proof (induction evs rule: rev_induct)
  case (snoc ev evs)
  then show ?case by (simp add: down_last_snoc presence_step_master)
qed (simp add: assms down_last_Nil)

text \<open>
  C32. Over any sequence of events: a controller that was started as a master stays one, whatever
  the high-availability service reports; one that was started as a slave is a master exactly if
  the last report about its own master was that it is down. After any such report the
  configuration in the file and the one of the process are that of the handler.
\<close>

theorem switches_follow_own_master:
  assumes "monitor_env_ok V E conf" and "monitor_start conf now s"
    and "c_forM evs (handle_event E) s = (Ok (), s')"
  shows "(is_master (mo_handler s') \<longleftrightarrow> sc_master (cf_server conf) = [] \<or>
      (\<exists>evs0 evs1. evs = evs0 @ [GoesDown (sc_master (cf_server conf))] @ evs1 \<and>
        GoesUp (sc_master (cf_server conf)) \<notin> set evs1)) \<and>
    (list_ex (switches (sc_master (cf_server conf))) evs \<longrightarrow>
      mo_gconf s' = Some (mh_conf (mo_handler s')) \<and>
      load_file E (mo_files s') (cf_path conf) = Ok ((mh_conf (mo_handler s'))\<lparr>cf_path := []\<rparr>))"
proof -
  from events_step [OF assms(1) monitor_start_inv [OF assms(2)], of evs] assms(3)
  have "presence_of V s' = fold (presence_step (sint (mc_time_out (cf_monitor_node conf)))
      (sc_master (cf_server conf))) evs (presence_of V s)"
    by auto
  moreover have "ab_master (presence_of V s) = sc_master (cf_server conf)"
    using assms(2) by (simp add: presence_of_def NewNodeMonitorHandler_def)
  ultimately have "is_master (mo_handler s') \<longleftrightarrow>
      sc_master (cf_server conf) = [] \<or> down_last (sc_master (cf_server conf)) evs"
    unfolding is_master_iff [of s' V] using presence_master by (metis (no_types))
  with events_save [OF assms(1) monitor_start_inv [OF assms(2)] assms(3)]
  show ?thesis unfolding down_last_def saved_def by blast
qed

lemma switches_follow_own_master_witness:
  "is_master (mo_handler slave_later) \<and> mo_gconf slave_later = Some (mh_conf (mo_handler slave_later))"
proof -
  have master: "sc_master (cf_server slave_conf) = ''10.0.0.1''" by (simp add: slave_conf_def)
  have "some_events = [] @ [GoesDown ''10.0.0.1''] @ [Registers some_register]"
    "GoesUp ''10.0.0.1'' \<notin> set [Registers some_register]"
    by (simp_all add: some_events_def)
  with switches_follow_own_master [OF list_monitor_ok slave_start slave_later(1)]
  show ?thesis unfolding master by (fastforce simp: some_events_def)
qed

section \<open>The period of the ticker\<close>

text \<open>
  The service starts with every time-out from one second to 292 years. With the time-out 0, which is
  that of a configuration without the field, and with every negative one down to minus 292 years
  the ticker cannot be made, and the run-time panics. Beyond, the period in nanoseconds wraps around: the time-out
  18446744074 makes a ticker with a period of less than half a second.
\<close>

lemma ticker_period:
  assumes "\<bar>sint (mc_time_out (cf_monitor_node conf))\<bar> \<le> 9223372036"
  shows "sint (word_of_int (mh_timeout (NewNodeMonitorHandler conf now) * 1000000000) :: 64 word) =
    sint (mc_time_out (cf_monitor_node conf)) * 1000000000"
proof -
  define k where "k = sint (mc_time_out (cf_monitor_node conf)) * 1000000000"
  have "- (2 ^ 63) \<le> k" "k < 2 ^ 63" using assms unfolding k_def by simp_all
  then have "sint (word_of_int k :: 64 word) = k" by (simp add: int_word_sint)
  then show ?thesis unfolding k_def NewNodeMonitorHandler_def by (simp only: monitor_handler.select_convs)
qed

theorem service_starts_iff:
  assumes "\<bar>sint (mc_time_out (cf_monitor_node conf))\<bar> \<le> 9223372036"
  shows "service_New conf now =
    (if 0 < sint (mc_time_out (cf_monitor_node conf)) then Ok (NewNodeMonitorHandler conf now) else Panic)"
  unfolding service_New_def Let_def ticker_starts_def ticker_period [OF assms] by simp

theorem ticker_wraps:
  assumes "mc_time_out (cf_monitor_node conf) = 18446744074"
  shows "service_New conf now = Ok (NewNodeMonitorHandler conf now) \<and>
    sint (word_of_int (mh_timeout (NewNodeMonitorHandler conf now) * 1000000000) :: 64 word) = 290448384"
proof -
  have "mh_timeout (NewNodeMonitorHandler conf now) = 18446744074"
    using assms by (simp add: NewNodeMonitorHandler_def)
  then show ?thesis by (simp add: service_New_def ticker_starts_def)
qed

end
