(* ===== verification/AteMessages.thy ===== *)
theory AteMessages
  imports Rest
begin

text \<open>
  The messages of the acceleration service (\<open>pkg/proto/ate_cluster\<close>, \<open>pkg/proto/rcs\<close>,
  \<open>pkg/proto/ateStatsHomePage\<close>) and its clients (\<open>pkg/grpcclient\<close>). A pointer to another message
  can be missing; repeated messages never are, because the decoder makes every element. The
  service itself is not part of the repository: its calls are parameters over a state of its own.
\<close>

type_synonym i32 = "32 word"
type_synonym u32 = "32 word"

section \<open>Clusters\<close>

record pb_vip_interval =
  vi_begin :: string
  vi_end :: string
  vi_length :: i32

record pb_node_host =
  nh_host_id :: string
  nh_node_id :: string

record cluster_balance_info =
  bi_cluster_name :: string
  bi_keep_alive_time :: i32
  bi_dead_time :: i32
  bi_stable_time :: i32
  bi_cluster_type :: string
  bi_multi_addr :: string
  bi_multi_port :: string
  bi_node_host :: "pb_node_host list"
  bi_balance_type :: i32
  bi_ipv4_vip :: "pb_vip_interval list"
  bi_ipv6_vip :: "pb_vip_interval list"
  bi_max_connection :: string

record resource_type =
  rt_ralt_filter_types :: "string list"
  rt_ignore_subfix :: "string list"

record forbidden_browser =
  fb_browser_name :: string
  fb_domain :: "string list"

record cluster_app_info =
  ai_resource_type :: "resource_type option"
  ai_ralt_referer_default :: i32
  ai_insert_request_via_str :: string
  ai_insert_response_via_str :: string
  ai_forbidden_browser :: "forbidden_browser list"
  ai_insert_x_forwarded_for :: i32
  ai_redirect :: string

record cluster_log_info =
  li_is_on :: i32
  li_node_log_size :: i32
  li_is_debug :: i32
  li_debug_type :: string
  li_remote_log_ip :: string
  li_remote_log_port :: i32

record cluster_cache_info =
  ci_is_cache_open :: i32
  ci_is_cookie_cache_open :: i32
  ci_ram_cache_size :: i32
  ci_cache_db_size :: i32
  ci_cache_db_path :: string
  ci_cache_strategy :: i32
  ci_required_headers :: string

record cluster_public_info_req =
  cp_cluster_id :: string
  cp_oper_type :: i32
  cp_balance_info :: "cluster_balance_info option"
  cp_app_info :: "cluster_app_info option"
  cp_log_info :: "cluster_log_info option"
  cp_cache_info :: "cluster_cache_info option"

record cluster_detail_info_rsp =
  cd_socs_info :: "cluster_balance_info option"
  cd_app_info :: "cluster_app_info option"
  cd_log_info :: "cluster_log_info option"
  cd_cache_info :: "cluster_cache_info option"

record cluster_oper_result =
  co_ret_code :: i32
  co_ret_msg :: string

section \<open>Groups and web sites\<close>

record pb_func_switcher =
  fs_replace_href :: bool
  fs_https_to_http :: bool
  fs_check_inet6_support :: bool
  fs_inet6_cache :: bool
  fs_icon_url :: string

record pb_rule_info =
  ri_rule_id :: string
  ri_rule_type :: i32
  ri_rule_subtype :: i32
  ri_search :: string
  ri_replace :: string

record opt_ralt_group_req =
  og_opt :: i32
  og_group_id :: string
  og_group_name :: string
  og_group_href_domain :: string
  og_group_href_domain_ip_addr :: string
  og_transform_mod :: i32
  og_max_session :: i32
  og_cluster_id :: string
  og_func_switcher :: "pb_func_switcher option"
  og_rule :: "pb_rule_info list"

record group_info =
  gi_group_id :: string
  gi_group_name :: string
  gi_website_num :: i32
  gi_cluster_id :: string
  gi_transform_mod :: i32
  gi_group_href_domain :: string
  gi_group_href_domain_ip_addr :: string
  gi_max_session :: i32
  gi_func_switcher :: "pb_func_switcher option"
  gi_rule :: "pb_rule_info list"

record pb_protocol_map =
  pm_protocol_map_id :: string
  pm_src_protocol :: string
  pm_src_port :: i32
  pm_dst_protocol :: string
  pm_dst_port :: i32

record website_req_info =
  wr_domain_id :: string
  wr_group_id :: string
  wr_src_domain :: string
  wr_dst_domain :: string
  wr_src_ip_addr :: string
  wr_ip_addr :: string
  wr_protocol_map :: "pb_protocol_map list"
  wr_website_href_domain :: string
  wr_mod :: i32
  wr_status :: i32

record opt_ralt_website_req =
  ow_opt :: i32
  ow_website :: "website_req_info list"

record oper_result =
  or_ret_code :: i32
  or_ret_msg :: string

record get_avail_ip_req =
  av_cluster_id :: string
  av_network :: i32
  av_count :: i32

section \<open>Statistics\<close>

record show_home_page_data_rsp =
  hp_domain_is_normal :: u32
  hp_domain_is_abnormal :: u32
  hp_current_session_total_number :: "64 word"
  hp_normal_ipv6_ipaddr_number :: u32
  hp_abnormal_ipv6_ipaddr_number :: u32
  hp_normal_ipv4_ipaddr_number :: u32
  hp_abnormal_ipv4_ipaddr_number :: u32
  hp_normal_node_number :: u32
  hp_abnormal_node_number :: u32

record device_flow_data =
  df_v4_up_bytes :: "64 word"
  df_v4_down_bytes :: "64 word"
  df_v6_up_bytes :: "64 word"
  df_v6_down_bytes :: "64 word"
  df_connections :: u32
  df_timestamp :: "64 word"

record visit_domain_num =
  vd_visit_domain_num :: "64 word"
  vd_timestamp :: "64 word"

record domain_visitor =
  dv_visit_host_number :: "visit_domain_num list"
  dv_member_domain :: string

section \<open>The clients\<close>

text \<open>A request with a single field is that field, and so is an answer.\<close>

record 'g grpc_client =
  cl_QryOneCluster :: "string \<Rightarrow> ('g, gerror, cluster_detail_info_rsp) comp"
  cl_QryFreeDevice :: "('g, gerror, string list) comp"
  cl_SetCluster :: "cluster_public_info_req \<Rightarrow> ('g, gerror, cluster_oper_result) comp"
  cl_OptRaltGroup :: "opt_ralt_group_req \<Rightarrow> ('g, gerror, oper_result) comp"
  cl_GetRaltGroup :: "string \<Rightarrow> ('g, gerror, group_info list) comp"
  cl_OptRaltWebsite :: "opt_ralt_website_req \<Rightarrow> ('g, gerror, oper_result) comp"
  cl_GetRaltSpecWebsite :: "string \<Rightarrow> ('g, gerror, website_req_info list) comp"
  cl_GetRaltGroupWebsite :: "string \<Rightarrow> ('g, gerror, website_req_info list) comp"
  cl_GetRaltAvailIP :: "get_avail_ip_req \<Rightarrow> ('g, gerror, string list) comp"
  cl_ShowHomePageData :: "string \<Rightarrow> ('g, gerror, show_home_page_data_rsp) comp"
  cl_ShowHomePageFlowData :: "string \<Rightarrow> ('g, gerror, device_flow_data list) comp"
  cl_ShowDomainVisitorData :: "string \<Rightarrow> ('g, gerror, domain_visitor list) comp"

text \<open>What a failing call is answered with.\<close>

definition grpc_error :: "string \<Rightarrow> ('g, gerror, 'a) comp \<Rightarrow> ('g, api_error, 'a) comp" where
  "grpc_error call = server_error (\<lambda>e. ''grpc service exec '' @ call @ '' failed: '' @ e)"

text \<open>Following a pointer.\<close>

definition deref :: "'a option \<Rightarrow> ('s, 'e, 'a) comp" where
  "deref p = (case p of Some a \<Rightarrow> c_return a | None \<Rightarrow> c_panic)"

text \<open>A loop over a slice of pointers that builds another slice: it panics at a missing one.\<close>

definition deref_all :: "('a \<Rightarrow> 'b) \<Rightarrow> 'a option list \<Rightarrow> ('s, 'e, 'b list) comp" where
  "deref_all f ps =
     (if None \<in> set ps then c_panic else c_return (map (\<lambda>p. f (the p)) ps))"

lemma deref_simps [simp]:
  "deref (Some a) = c_return a"
  "deref None = c_panic"
  by (simp_all add: deref_def)

lemma deref_all_Some [simp]: "deref_all f (map Some xs) = c_return (map f xs)"
  by (auto simp: deref_all_def comp_def)

lemma grpc_error_step [simp]:
  "m s = (Ok a, s') \<Longrightarrow> grpc_error call m s = (Ok a, s')"
  "m s = (Err e, s') \<Longrightarrow>
     grpc_error call m s = (Err (APIError ServerError (''grpc service exec '' @ call @ '' failed: '' @ e)), s')"
  "m s = (Panic, s') \<Longrightarrow> grpc_error call m s = (Panic, s')"
  by (simp_all add: grpc_error_def)

lemma grpc_error_Ok [simp]: "grpc_error call m s = (Ok a, s') \<longleftrightarrow> m s = (Ok a, s')"
  by (simp add: grpc_error_def)

end
