(* ===== verification/ClusterHandler.thy ===== *)
theory ClusterHandler
  imports AteMessages Config
begin

text \<open>
  \<open>pkg/business/handler/cluster_handler.go\<close> and its resources: the one cluster of the
  acceleration service, made at start-up if there is none. The resources come from the body of a
  request, where the elements of a list of pointers may be null.
\<close>

section \<open>Resources\<close>

record vip_interval =
  vp_begin_vip :: string
  vp_end_vip :: string
  vp_length :: i32

record node_host =
  no_host_id :: string
  no_node_id :: string

record balance =
  bl_id :: string
  bl_name :: string
  bl_cluster_type :: string
  bl_node_hosts :: "node_host option list"
  bl_ipv6_vips :: "vip_interval option list"

record application =
  ap_ralt_referer_default :: int
  ap_redirect :: string

record log_info =
  lo_is_on :: string
  lo_node_log_size :: i32
  lo_remote_log_ip :: string
  lo_remote_log_port :: i32

record cache =
  ca_is_on :: i32
  ca_cache_db_size :: i32

record cluster =
  cs_id :: string
  cs_name :: string
  cs_oper_type :: i32
  cs_balance :: balance
  cs_application :: application
  cs_log_info :: log_info
  cs_cache :: cache

section \<open>Constants\<close>

definition DefaultClusterID :: string where "DefaultClusterID = ''001''"
definition DefaultClusterName :: string where "DefaultClusterName = ''c001''"
definition OperTypeCreate :: i32 where "OperTypeCreate = 1"
definition OperTypeModify :: i32 where "OperTypeModify = 2"
definition OperTypeDelete :: i32 where "OperTypeDelete = 3"
definition ClusterType :: string where "ClusterType = ''6ATE''"
definition BalanceTypeHash :: i32 where "BalanceTypeHash = 1"
definition OnText :: string where "OnText = ''on''"
definition SwitchUp :: i32 where "SwitchUp = 1"
definition Localhost :: string where "Localhost = ''127.0.0.1''"
definition LogPort :: i32 where "LogPort = 50000"

text \<open>Messages with nothing set.\<close>

definition empty_balance_info :: cluster_balance_info where
  "empty_balance_info =
     \<lparr>bi_cluster_name = [], bi_keep_alive_time = 0, bi_dead_time = 0, bi_stable_time = 0,
      bi_cluster_type = [], bi_multi_addr = [], bi_multi_port = [], bi_node_host = [],
      bi_balance_type = 0, bi_ipv4_vip = [], bi_ipv6_vip = [], bi_max_connection = []\<rparr>"

definition app_info :: "i32 \<Rightarrow> string \<Rightarrow> cluster_app_info" where
  "app_info refererDefault redirect =
     \<lparr>ai_resource_type = None, ai_ralt_referer_default = refererDefault,
      ai_insert_request_via_str = [], ai_insert_response_via_str = [], ai_forbidden_browser = [],
      ai_insert_x_forwarded_for = 0, ai_redirect = redirect\<rparr>"

definition log_info_msg :: "i32 \<Rightarrow> string \<Rightarrow> i32 \<Rightarrow> cluster_log_info" where
  "log_info_msg sz ip port =
     \<lparr>li_is_on = SwitchUp, li_node_log_size = sz, li_is_debug = 0, li_debug_type = [],
      li_remote_log_ip = ip, li_remote_log_port = port\<rparr>"

definition cache_info_msg :: "i32 \<Rightarrow> i32 \<Rightarrow> cluster_cache_info" where
  "cache_info_msg up sz =
     \<lparr>ci_is_cache_open = up, ci_is_cookie_cache_open = 0, ci_ram_cache_size = 0,
      ci_cache_db_size = sz, ci_cache_db_path = [], ci_cache_strategy = 0, ci_required_headers = []\<rparr>"

section \<open>Start-up\<close>

text \<open>The request that makes the default cluster of the free devices.\<close>

definition default_cluster :: "vip_conf \<Rightarrow> string list \<Rightarrow> cluster_public_info_req" where
  "default_cluster vip hosts =
     \<lparr>cp_cluster_id = DefaultClusterID, cp_oper_type = OperTypeCreate,
      cp_balance_info = Some (empty_balance_info
        \<lparr>bi_cluster_name := DefaultClusterName, bi_cluster_type := ClusterType,
         bi_node_host := map (\<lambda>v. \<lparr>nh_host_id = v, nh_node_id = v\<rparr>) hosts,
         bi_balance_type := BalanceTypeHash,
         bi_ipv6_vip := [\<lparr>vi_begin = vc_begin_vip vip, vi_end = vc_end_vip vip, vi_length = vc_length vip\<rparr>]\<rparr>),
      cp_app_info = Some (app_info SwitchUp OnText),
      cp_log_info = Some (log_info_msg 10240 Localhost LogPort),
      cp_cache_info = Some (cache_info_msg SwitchUp 4096)\<rparr>"

text \<open>All failures have the same message. The global configuration may be missing.\<close>

definition start_error :: "('g, gerror, 'a) comp \<Rightarrow> ('g, gerror, 'a) comp" where
  "start_error = c_map_err (\<lambda>e. ''grpc service exec SetCluster failed: '' @ e)"

definition NewClusterHandler ::
  "'g grpc_client \<Rightarrow> ddi_config option \<Rightarrow> ('g, gerror, unit) comp" where
  "NewClusterHandler cli gConf =
     c_bind (start_error (cl_QryOneCluster cli DefaultClusterID)) (\<lambda>rsp.
     c_bind (deref (cd_socs_info rsp)) (\<lambda>socs.
       if bi_cluster_name socs = [] then
         c_bind (start_error (cl_QryFreeDevice cli)) (\<lambda>hosts.
         c_bind (deref gConf) (\<lambda>conf.
         c_bind (start_error (cl_SetCluster cli (default_cluster (cf_vip conf) hosts))) (\<lambda>_. c_return ())))
       else c_return ()))"

section \<open>Operations\<close>

definition pb_vip :: "vip_interval \<Rightarrow> pb_vip_interval" where
  "pb_vip v = \<lparr>vi_begin = vp_begin_vip v, vi_end = vp_end_vip v, vi_length = vp_length v\<rparr>"

definition vip_of_pb :: "pb_vip_interval \<Rightarrow> vip_interval" where
  "vip_of_pb v = \<lparr>vp_begin_vip = vi_begin v, vp_end_vip = vi_end v, vp_length = vi_length v\<rparr>"

definition cluster_request :: "cluster \<Rightarrow> pb_node_host list \<Rightarrow> pb_vip_interval list \<Rightarrow> cluster_public_info_req" where
  "cluster_request c hosts vips =
     \<lparr>cp_cluster_id = cs_id c, cp_oper_type = cs_oper_type c,
      cp_balance_info = Some (empty_balance_info
        \<lparr>bi_cluster_name := cs_name c, bi_cluster_type := bl_cluster_type (cs_balance c),
         bi_node_host := hosts, bi_balance_type := BalanceTypeHash, bi_ipv6_vip := vips\<rparr>),
      cp_app_info = Some (app_info SwitchUp OnText),
      cp_log_info = Some (log_info_msg (lo_node_log_size (cs_log_info c))
        (lo_remote_log_ip (cs_log_info c)) (lo_remote_log_port (cs_log_info c))),
      cp_cache_info = Some (cache_info_msg (ca_is_on (cs_cache c)) (ca_cache_db_size (cs_cache c)))\<rparr>"

text \<open>The answer is the cluster of the request, with the intervals of the request appended to
  those that it has.\<close>

definition cluster_Create :: "'g grpc_client \<Rightarrow> cluster \<Rightarrow> ('g, api_error, cluster) comp" where
  "cluster_Create cli c =
     c_bind (deref_all (\<lambda>h. \<lparr>nh_host_id = no_host_id h, nh_node_id = no_node_id h\<rparr>)
         (bl_node_hosts (cs_balance c))) (\<lambda>hosts.
     c_bind (deref_all pb_vip (bl_ipv6_vips (cs_balance c))) (\<lambda>vips.
     c_bind (grpc_error ''SetCluster'' (cl_SetCluster cli (cluster_request c hosts vips))) (\<lambda>_.
       c_return (c\<lparr>cs_balance := (cs_balance c)
         \<lparr>bl_name := cs_name c, bl_cluster_type := bl_cluster_type (cs_balance c),
          bl_ipv6_vips := bl_ipv6_vips (cs_balance c) @ map (\<lambda>v. Some (vip_of_pb v)) vips\<rparr>\<rparr>))))"

definition cluster_delete_request :: cluster_public_info_req where
  "cluster_delete_request =
     \<lparr>cp_cluster_id = DefaultClusterID, cp_oper_type = OperTypeCreate, cp_balance_info = None,
      cp_app_info = None, cp_log_info = None, cp_cache_info = None\<rparr>"

definition cluster_Delete :: "'g grpc_client \<Rightarrow> ('g, api_error, unit) comp" where
  "cluster_Delete cli =
     c_bind (grpc_error ''SetCluster'' (cl_SetCluster cli cluster_delete_request)) (\<lambda>_. c_return ())"

definition cluster_Update :: "cluster \<Rightarrow> ('g, api_error, cluster) comp" where
  "cluster_Update c = c_return c"

definition empty_cluster :: cluster where
  "empty_cluster =
     \<lparr>cs_id = [], cs_name = [], cs_oper_type = 0,
      cs_balance = \<lparr>bl_id = [], bl_name = [], bl_cluster_type = [], bl_node_hosts = [], bl_ipv6_vips = []\<rparr>,
      cs_application = \<lparr>ap_ralt_referer_default = 0, ap_redirect = []\<rparr>,
      cs_log_info = \<lparr>lo_is_on = [], lo_node_log_size = 0, lo_remote_log_ip = [], lo_remote_log_port = 0\<rparr>,
      cs_cache = \<lparr>ca_is_on = 0, ca_cache_db_size = 0\<rparr>\<rparr>"

definition cluster_Get :: "'g grpc_client \<Rightarrow> ('g, api_error, cluster) comp" where
  "cluster_Get cli =
     c_bind (grpc_error ''QryOneCluster'' (cl_QryOneCluster cli DefaultClusterID)) (\<lambda>rsp.
     c_bind (deref (cd_socs_info rsp)) (\<lambda>socs.
       c_return (empty_cluster
         \<lparr>cs_id := DefaultClusterID, cs_name := bi_cluster_name socs,
          cs_balance := (cs_balance empty_cluster)
            \<lparr>bl_name := bi_cluster_name socs, bl_cluster_type := bi_cluster_type socs,
             bl_node_hosts := map (\<lambda>v. Some \<lparr>no_host_id = nh_host_id v, no_node_id = nh_node_id v\<rparr>) (bi_node_host socs),
             bl_ipv6_vips := map (\<lambda>v. Some (vip_of_pb v)) (bi_ipv6_vip socs)\<rparr>\<rparr>)))"

definition cluster_List :: "('g, api_error, cluster list) comp" where
  "cluster_List = c_return []"

section \<open>The operations on balances\<close>

text \<open>They do nothing with what they are given.\<close>

definition balance_Create :: "balance \<Rightarrow> ('g, api_error, balance) comp" where
  "balance_Create b = c_return b"

definition balance_Delete :: "('g, api_error, unit) comp" where
  "balance_Delete = c_return ()"

definition balance_Update :: "balance \<Rightarrow> ('g, api_error, balance) comp" where
  "balance_Update b = c_return b"

definition balance_Get :: "balance \<Rightarrow> ('g, api_error, balance) comp" where
  "balance_Get b = c_return b"

definition balance_List :: "('g, api_error, balance list) comp" where
  "balance_List = c_return []"

end
