(* ===== verification/WebGroupHandler.thy ===== *)
theory WebGroupHandler
  imports ClusterHandler
begin

text \<open>
  \<open>pkg/business/handler/webgroup_handler.go\<close> and \<open>pkg/business/resource/webgroup.go\<close>: the groups
  of web sites, which the acceleration service keeps.
\<close>

record func_switcher =
  sw_is_replace_href_on :: bool
  sw_is_https_to_http_on :: bool
  sw_is_cache_on :: bool

record rule_info =
  ru_id :: string
  ru_rule_type :: i32
  ru_search_string :: string
  ru_replace_string :: string

record web_group =
  wg_id :: string
  wg_name :: string
  wg_href_domain :: string
  wg_transform_mod :: i32
  wg_cluster_id :: string
  wg_update_switcher :: "func_switcher option"
  wg_rules :: "rule_info option list"

definition TransformModType64 :: i32 where "TransformModType64 = 1"

definition pb_switcher :: "func_switcher \<Rightarrow> pb_func_switcher" where
  "pb_switcher s =
     \<lparr>fs_replace_href = sw_is_replace_href_on s, fs_https_to_http = sw_is_https_to_http_on s,
      fs_check_inet6_support = False, fs_inet6_cache = sw_is_cache_on s, fs_icon_url = []\<rparr>"

definition pb_rule :: "rule_info \<Rightarrow> pb_rule_info" where
  "pb_rule v =
     \<lparr>ri_rule_id = ru_id v, ri_rule_type = ru_rule_type v, ri_rule_subtype = 0,
      ri_search = ru_search_string v, ri_replace = ru_replace_string v\<rparr>"

definition group_request :: "i32 \<Rightarrow> web_group \<Rightarrow> pb_func_switcher option \<Rightarrow> pb_rule_info list \<Rightarrow> opt_ralt_group_req" where
  "group_request oper g switcher rules =
     \<lparr>og_opt = oper, og_group_id = wg_id g, og_group_name = wg_name g,
      og_group_href_domain = wg_href_domain g, og_group_href_domain_ip_addr = [],
      og_transform_mod = TransformModType64, og_max_session = 0,
      og_cluster_id = DefaultClusterID, og_func_switcher = switcher, og_rule = rules\<rparr>"

text \<open>Both writing operations have the same body but for the kind of operation. The result code in
  the answer is not looked at.\<close>

definition write_group :: "'g grpc_client \<Rightarrow> i32 \<Rightarrow> web_group \<Rightarrow> ('g, api_error, web_group) comp" where
  "write_group cli oper g =
     c_bind (deref (wg_update_switcher g)) (\<lambda>s.
     c_bind (deref_all pb_rule (wg_rules g)) (\<lambda>rules.
     c_bind (grpc_error ''OptRaltGroup''
         (cl_OptRaltGroup cli (group_request oper g (Some (pb_switcher s)) rules))) (\<lambda>_.
       c_return g)))"

definition webgroup_Create :: "'g grpc_client \<Rightarrow> web_group \<Rightarrow> ('g, api_error, web_group) comp" where
  "webgroup_Create cli g = write_group cli OperTypeCreate g"

definition webgroup_Update :: "'g grpc_client \<Rightarrow> web_group \<Rightarrow> ('g, api_error, web_group) comp" where
  "webgroup_Update cli g = write_group cli OperTypeModify g"

definition group_delete_request :: "web_group \<Rightarrow> opt_ralt_group_req" where
  "group_delete_request g =
     \<lparr>og_opt = OperTypeDelete, og_group_id = wg_id g, og_group_name = [], og_group_href_domain = [],
      og_group_href_domain_ip_addr = [], og_transform_mod = 0, og_max_session = 0,
      og_cluster_id = DefaultClusterID, og_func_switcher = None, og_rule = []\<rparr>"

definition webgroup_Delete :: "'g grpc_client \<Rightarrow> web_group \<Rightarrow> ('g, api_error, unit) comp" where
  "webgroup_Delete cli g =
     c_bind (grpc_error ''OptRaltGroup'' (cl_OptRaltGroup cli (group_delete_request g))) (\<lambda>_. c_return ())"

text \<open>A group of the service as a resource, with the switches it was found to have.\<close>

definition web_group_of :: "group_info \<Rightarrow> pb_func_switcher \<Rightarrow> web_group" where
  "web_group_of v s =
     \<lparr>wg_id = gi_group_id v, wg_name = gi_group_name v, wg_href_domain = gi_group_href_domain v,
      wg_transform_mod = gi_transform_mod v, wg_cluster_id = gi_cluster_id v,
      wg_update_switcher = Some \<lparr>sw_is_replace_href_on = fs_replace_href s,
        sw_is_https_to_http_on = fs_https_to_http s, sw_is_cache_on = fs_inet6_cache s\<rparr>,
      wg_rules = map (\<lambda>r. Some \<lparr>ru_id = ri_rule_id r, ru_rule_type = ri_rule_type r,
        ru_search_string = ri_search r, ru_replace_string = ri_replace r\<rparr>) (gi_rule v)\<rparr>"

definition webgroup_Get :: "'g grpc_client \<Rightarrow> web_group \<Rightarrow> ('g, api_error, web_group) comp" where
  "webgroup_Get cli g =
     c_bind (grpc_error ''GetRaltGroup'' (cl_GetRaltGroup cli (wg_id g))) (\<lambda>groups.
       if groups = [] then c_fail (APIError ServerError
         (''grpc service exec GetRaltGroup failed: group for id '' @ wg_id g @ '' is not exists''))
       else c_bind (deref (gi_func_switcher (groups ! 0))) (\<lambda>s.
         c_return (web_group_of (groups ! 0) s)))"

fun web_groups_of :: "group_info list \<Rightarrow> ('g, api_error, web_group list) comp" where
  "web_groups_of [] = c_return []"
| "web_groups_of (v # vs) =
     c_bind (deref (gi_func_switcher v)) (\<lambda>s.
     c_bind (web_groups_of vs) (\<lambda>gs. c_return (web_group_of v s # gs)))"

definition webgroup_List :: "'g grpc_client \<Rightarrow> ('g, api_error, web_group list) comp" where
  "webgroup_List cli =
     c_bind (grpc_error ''GetRaltGroup'' (cl_GetRaltGroup cli [])) (\<lambda>groups. web_groups_of groups)"

end
