(* ===== verification/WebsiteHandler.thy ===== *)
theory WebsiteHandler
  imports WebGroupHandler
begin

text \<open>
  \<open>pkg/business/handler/website_handler.go\<close> with \<open>pkg/util/random.go\<close>, and
  \<open>pkg/business/resource/website.go\<close>: the web sites of a group. The resolution of names is the
  standard library's and a parameter, and so are the random numbers and the text of an API error
  that is passed on as an ordinary error.
\<close>

record protocol_port =
  pp_source_protocol :: string
  pp_source_port :: i32
  pp_dest_protocol :: string
  pp_dest_port :: i32

record website =
  ws_id :: string
  ws_group_id :: string
  ws_source_domain :: string
  ws_dest_domain :: string
  ws_virtual_ip :: string
  ws_protocol_ports :: "protocol_port option list"
  ws_href_domain :: string
  ws_transfer_mod :: i32

section \<open>Random strings\<close>

definition random_alphabet :: string where
  "random_alphabet = ''abcdefghijklmnopqrstuvwxyzABCDEFGHIJKLMNOPQRSTUVWXYZ1234567890''"

text \<open>\<open>draw i\<close> is the \<open>i\<close>-th number drawn, below the length of the alphabet.\<close>

definition CreateRandomString :: "(nat \<Rightarrow> nat) \<Rightarrow> nat \<Rightarrow> string" where
  "CreateRandomString draw len = map (\<lambda>i. random_alphabet ! draw i) [0..<len]"

section \<open>Writing\<close>

record outside =
  os_resolve :: "string \<Rightarrow> (gerror, string) res"
  os_draw :: "nat \<Rightarrow> nat \<Rightarrow> nat"
  os_api_error_text :: "api_error \<Rightarrow> string"

definition pb_protocol :: "string \<Rightarrow> protocol_port \<Rightarrow> pb_protocol_map" where
  "pb_protocol i v =
     \<lparr>pm_protocol_map_id = i, pm_src_protocol = pp_source_protocol v, pm_src_port = pp_source_port v,
      pm_dst_protocol = pp_dest_protocol v, pm_dst_port = pp_dest_port v\<rparr>"

definition website_info :: "website \<Rightarrow> string \<Rightarrow> pb_protocol_map list \<Rightarrow> website_req_info" where
  "website_info w addr ports =
     \<lparr>wr_domain_id = ws_id w, wr_group_id = ws_group_id w, wr_src_domain = ws_source_domain w,
      wr_dst_domain = ws_dest_domain w, wr_src_ip_addr = addr, wr_ip_addr = ws_virtual_ip w,
      wr_protocol_map = ports, wr_website_href_domain = ws_href_domain w,
      wr_mod = TransformModType64, wr_status = 0\<rparr>"

definition OptRaltWebsite :: "outside \<Rightarrow> 'g grpc_client \<Rightarrow> website \<Rightarrow> i32 \<Rightarrow> ('g, gerror, unit) comp" where
  "OptRaltWebsite X cli w operType =
     c_bind (c_map_err (\<lambda>e. os_api_error_text X (APIError ServerError
           (''Resolution '' @ ws_source_domain w @ '' for IP error: '' @ e)))
         (c_lift (os_resolve X (ws_source_domain w)))) (\<lambda>addr.
     c_bind (deref_all (\<lambda>(i, v). pb_protocol (CreateRandomString (os_draw X i) 4) v)
         (map (\<lambda>(i, p). map_option (Pair i) p) (enumerate 0 (ws_protocol_ports w)))) (\<lambda>ports.
     c_bind (c_map_err (\<lambda>e. ''grpc service exec OptRaltWebsite failed: '' @ e)
         (cl_OptRaltWebsite cli \<lparr>ow_opt = operType, ow_website = [website_info w addr ports]\<rparr>)) (\<lambda>_.
       c_return ())))"

definition write_website ::
  "outside \<Rightarrow> 'g grpc_client \<Rightarrow> website \<Rightarrow> i32 \<Rightarrow> ('g, api_error, website) comp" where
  "write_website X cli w operType =
     c_bind (server_error (\<lambda>e. ''OptRaltWebsite error: '' @ e) (OptRaltWebsite X cli w operType))
       (\<lambda>_. c_return w)"

definition website_Create :: "outside \<Rightarrow> 'g grpc_client \<Rightarrow> website \<Rightarrow> ('g, api_error, website) comp" where
  "website_Create X cli w = write_website X cli w OperTypeCreate"

definition website_Update :: "outside \<Rightarrow> 'g grpc_client \<Rightarrow> website \<Rightarrow> ('g, api_error, website) comp" where
  "website_Update X cli w = write_website X cli w OperTypeModify"

definition deleted_info :: "website \<Rightarrow> website_req_info" where
  "deleted_info w =
     \<lparr>wr_domain_id = ws_id w, wr_group_id = ws_group_id w, wr_src_domain = [], wr_dst_domain = [],
      wr_src_ip_addr = [], wr_ip_addr = [], wr_protocol_map = [], wr_website_href_domain = [],
      wr_mod = 0, wr_status = 0\<rparr>"

definition website_delete_request :: "website \<Rightarrow> opt_ralt_website_req" where
  "website_delete_request w = \<lparr>ow_opt = OperTypeDelete, ow_website = [deleted_info w]\<rparr>"

definition website_Delete :: "'g grpc_client \<Rightarrow> website \<Rightarrow> ('g, api_error, unit) comp" where
  "website_Delete cli w =
     c_bind (grpc_error ''OptRaltWebsite'' (cl_OptRaltWebsite cli (website_delete_request w))) (\<lambda>_. c_return ())"

section \<open>Reading\<close>

definition port_of :: "pb_protocol_map \<Rightarrow> protocol_port" where
  "port_of v =
     \<lparr>pp_source_protocol = pm_src_protocol v, pp_source_port = pm_src_port v,
      pp_dest_protocol = pm_dst_protocol v, pp_dest_port = pm_dst_port v\<rparr>"

text \<open>Reading fills the resource of the request; ports that it has already stay in front.\<close>

definition website_Get :: "'g grpc_client \<Rightarrow> website \<Rightarrow> ('g, api_error, website) comp" where
  "website_Get cli w =
     c_bind (grpc_error ''GetRaltSpecWebsite'' (cl_GetRaltSpecWebsite cli (ws_id w))) (\<lambda>sites.
       if sites = [] then c_return w
       else (let v = sites ! 0 in c_return (w
         \<lparr>ws_group_id := wr_group_id v, ws_source_domain := wr_src_domain v,
          ws_dest_domain := wr_dst_domain v, ws_virtual_ip := wr_ip_addr v,
          ws_href_domain := wr_website_href_domain v, ws_transfer_mod := wr_mod v,
          ws_protocol_ports := ws_protocol_ports w @ map (\<lambda>p. Some (port_of p)) (wr_protocol_map v)\<rparr>)))"

definition listed_website :: "string \<Rightarrow> website_req_info \<Rightarrow> website" where
  "listed_website groupId v =
     \<lparr>ws_id = wr_domain_id v, ws_group_id = groupId, ws_source_domain = wr_src_domain v,
      ws_dest_domain = wr_dst_domain v, ws_virtual_ip = wr_src_ip_addr v,
      ws_protocol_ports = map (\<lambda>p. Some (port_of p)) (wr_protocol_map v),
      ws_href_domain = [], ws_transfer_mod = 0\<rparr>"

text \<open>The web sites of the parent of the request's resource, which must be there.\<close>

definition website_List :: "'g grpc_client \<Rightarrow> string option \<Rightarrow> ('g, api_error, website list) comp" where
  "website_List cli parent =
     c_bind (deref parent) (\<lambda>groupId.
     c_bind (grpc_error ''GetRaltGroupWebsite'' (cl_GetRaltGroupWebsite cli groupId)) (\<lambda>sites.
       c_return (map (listed_website groupId) sites)))"

end
