(* ===== verification/GroupService.thy ===== *)
theory GroupService
  imports WebsiteHandler
begin

text \<open>
  The handlers of groups and web sites against the contract that the protocol file
  \<open>pkg/proto/rcs/ralt_plugin.proto\<close> documents for the service behind them: the operation types
  are 1 for adding, 2 for deleting and 3 for modifying, a result code of 0 says that the operation
  was done, and asking for the group without an identifier gives all groups. What a modification makes
  of the fields is not documented: it may be anything, but the entries stay, and the others stay as they
  are. The contract is a hypothesis on the client, over an abstraction of the service's state.
\<close>

section \<open>The contract\<close>

text \<open>A group as a request describes it; the number of its sites is the service's own.\<close>

definition group_of_request :: "opt_ralt_group_req \<Rightarrow> i32 \<Rightarrow> group_info" where
  "group_of_request req n =
     \<lparr>gi_group_id = og_group_id req, gi_group_name = og_group_name req, gi_website_num = n,
      gi_cluster_id = og_cluster_id req, gi_transform_mod = og_transform_mod req,
      gi_group_href_domain = og_group_href_domain req,
      gi_group_href_domain_ip_addr = og_group_href_domain_ip_addr req,
      gi_max_session = og_max_session req, gi_func_switcher = og_func_switcher req,
      gi_rule = og_rule req\<rparr>"

text \<open>A modification of the entry with the identifier \<open>k\<close>, and an operation, of entries told apart by \<open>ident\<close>.\<close>

definition modified :: "('a \<Rightarrow> string) \<Rightarrow> string \<Rightarrow> 'a list \<Rightarrow> 'a list \<Rightarrow> bool" where
  "modified ident k vs vs' \<longleftrightarrow>
     list_all2 (\<lambda>v v'. ident v' = ident v \<and> (ident v \<noteq> k \<longrightarrow> v' = v)) vs vs'"

definition operated :: "('a \<Rightarrow> string) \<Rightarrow> i32 \<Rightarrow> 'a \<Rightarrow> string \<Rightarrow> 'a list \<Rightarrow> 'a list \<Rightarrow> bool" where
  "operated ident oper new k vs vs' \<longleftrightarrow>
     (oper = 1 \<longrightarrow> vs' = vs @ [new]) \<and>
     (oper = 2 \<longrightarrow> vs' = filter (\<lambda>v. ident v \<noteq> k) vs) \<and>
     (oper = 3 \<longrightarrow> modified ident k vs vs')"

lemma modified_idents: "modified ident k vs vs' \<Longrightarrow> map ident vs' = map ident vs"
  unfolding modified_def by (induction rule: list_all2_induct) simp_all

lemma modified_map:
  assumes "\<And>v. ident v = k \<Longrightarrow> ident (f v) = k"
  shows "modified ident k vs (map (\<lambda>v. if ident v = k then f v else v) vs)"
  using assms by (simp add: modified_def list_all2_conv_all_nth)

definition group_contract :: "('g \<Rightarrow> group_info list) \<Rightarrow> 'g grpc_client \<Rightarrow> bool" where
  "group_contract G cli \<longleftrightarrow>
     (\<forall>req g res g'. cl_OptRaltGroup cli req g = (Ok res, g') \<longrightarrow>
        (if or_ret_code res = 0
         then operated gi_group_id (og_opt req) (group_of_request req 0) (og_group_id req) (G g) (G g')
         else G g' = G g)) \<and>
     (\<forall>i g vs g'. cl_GetRaltGroup cli i g = (Ok vs, g') \<longrightarrow> G g' = G g \<and>
        vs = (if i = [] then G g else filter (\<lambda>v. gi_group_id v = i) (G g)))"

definition site_contract :: "('g \<Rightarrow> website_req_info list) \<Rightarrow> 'g grpc_client \<Rightarrow> bool" where
  "site_contract W cli \<longleftrightarrow>
     (\<forall>oper v g res g'. cl_OptRaltWebsite cli \<lparr>ow_opt = oper, ow_website = [v]\<rparr> g = (Ok res, g') \<longrightarrow>
        (if or_ret_code res = 0 then operated wr_domain_id oper v (wr_domain_id v) (W g) (W g')
         else W g' = W g)) \<and>
     (\<forall>i g vs g'. cl_GetRaltSpecWebsite cli i g = (Ok vs, g') \<longrightarrow> W g' = W g \<and>
        vs = filter (\<lambda>v. wr_domain_id v = i) (W g)) \<and>
     (\<forall>i g vs g'. cl_GetRaltGroupWebsite cli i g = (Ok vs, g') \<longrightarrow> W g' = W g \<and>
        vs = filter (\<lambda>v. wr_group_id v = i) (W g))"

section \<open>What the handlers hand to the service\<close>

lemma deref_all_eq:
  "deref_all f ps s = (if None \<in> set ps then (Panic, s) else (Ok (map (\<lambda>p. f (the p)) ps), s))"
  by (simp add: deref_all_def)

lemma write_group_eq:
  assumes "wg_update_switcher g = Some sw" and "None \<notin> set (wg_rules g)"
  shows "write_group cli oper g = c_bind (grpc_error ''OptRaltGroup'' (cl_OptRaltGroup cli
      (group_request oper g (Some (pb_switcher sw)) (map (\<lambda>p. pb_rule (the p)) (wg_rules g))))) (\<lambda>_. c_return g)"
  using assms by (simp add: write_group_def deref_all_def c_bind_def)

lemma write_group_missing:
  "wg_update_switcher g = None \<or> None \<in> set (wg_rules g) \<Longrightarrow> write_group cli oper g s = (Panic, s)"
  by (cases "wg_update_switcher g") (auto simp: write_group_def deref_all_def c_bind_def)

lemma grpc_then_return_Ok:
  "c_bind (grpc_error call m) (\<lambda>_. c_return a) s = (Ok out, s') \<longleftrightarrow>
     out = a \<and> (\<exists>res. m s = (Ok res, s'))"
  unfolding grpc_error_def by (cases "m s"; cases "fst (m s)") auto

lemma write_group_Ok:
  assumes "write_group cli oper g s = (Ok out, s')"
  obtains sw rules res where "wg_update_switcher g = Some sw" and "None \<notin> set (wg_rules g)"
    and "rules = map (\<lambda>p. pb_rule (the p)) (wg_rules g)" and "out = g"
    and "cl_OptRaltGroup cli (group_request oper g (Some (pb_switcher sw)) rules) s = (Ok res, s')"
proof -
  from assms write_group_missing [of g cli oper s]
  obtain sw where sw: "wg_update_switcher g = Some sw" and rules: "None \<notin> set (wg_rules g)"
    by (cases "wg_update_switcher g") auto
  from assms show thesis
    unfolding write_group_eq [OF sw rules] grpc_then_return_Ok using that [OF sw rules refl] by blast
qed

text \<open>What comes back of a group that was written.\<close>

definition as_stored :: "web_group \<Rightarrow> web_group" where
  "as_stored g = g\<lparr>wg_transform_mod := 1, wg_cluster_id := ''001''\<rparr>"

lemma pb_rule_back: "\<lparr>ru_id = ri_rule_id (pb_rule v), ru_rule_type = ri_rule_type (pb_rule v),
    ru_search_string = ri_search (pb_rule v), ru_replace_string = ri_replace (pb_rule v)\<rparr> = v"
  by (simp add: pb_rule_def)

lemma web_group_of_request:
  assumes "wg_update_switcher g = Some sw" and "None \<notin> set (wg_rules g)"
  shows "web_group_of (group_of_request (group_request oper g (Some (pb_switcher sw))
      (map (\<lambda>p. pb_rule (the p)) (wg_rules g))) n) (pb_switcher sw) = as_stored g"
proof -
  have "map (\<lambda>p. Some (the p)) (wg_rules g) = wg_rules g"
    using assms(2) by (intro map_idI) (metis option.collapse)
  then show ?thesis
    using assms(1) by (simp add: web_group_of_def group_of_request_def group_request_def as_stored_def
        pb_rule_back comp_def pb_switcher_def TransformModType64_def DefaultClusterID_def)
qed

lemma contract_operates:
  assumes "group_contract G cli" and "cl_OptRaltGroup cli req s = (Ok res, s')"
  shows "if or_ret_code res = 0
    then operated gi_group_id (og_opt req) (group_of_request req 0) (og_group_id req) (G s) (G s') else G s' = G s"
  using assms unfolding group_contract_def by blast

lemma contract_reads:
  assumes "group_contract G cli" and "cl_GetRaltGroup cli i s = (Ok vs, s')"
  shows "vs = (if i = [] then G s else filter (\<lambda>v. gi_group_id v = i) (G s))"
  using assms unfolding group_contract_def by blast

lemma web_groups_of_ids: "web_groups_of vs s = (Ok gs, s') \<Longrightarrow> map wg_id gs = map gi_group_id vs"
proof (induction vs arbitrary: s gs)
  case (Cons v vs)
  from Cons.prems show ?case
    unfolding web_groups_of.simps by (elim c_bind_OkE) (auto simp: web_group_of_def dest: Cons.IH)
qed simp

lemma webgroup_List_ids:
  assumes "group_contract G cli" and "webgroup_List cli s = (Ok gs, s')"
  shows "map wg_id gs = map gi_group_id (G s)"
proof -
  from assms(2) obtain vs s1 where "cl_GetRaltGroup cli [] s = (Ok vs, s1)" and "web_groups_of vs s1 = (Ok gs, s')"
    unfolding webgroup_List_def by (elim c_bind_OkE) simp
  with contract_reads [OF assms(1)] web_groups_of_ids show ?thesis by fastforce
qed

lemma webgroup_Get_Ok:
  assumes "webgroup_Get cli g s = (Ok out, s')"
  obtains vs v sw where "cl_GetRaltGroup cli (wg_id g) s = (Ok vs, s')" and "vs \<noteq> []" and "v = vs ! 0"
    and "gi_func_switcher v = Some sw" and "out = web_group_of v sw"
proof -
  from assms obtain vs s1 where vs: "cl_GetRaltGroup cli (wg_id g) s = (Ok vs, s1)"
    and rest: "(if vs = [] then c_fail (APIError ServerError
         (''grpc service exec GetRaltGroup failed: group for id '' @ wg_id g @ '' is not exists''))
       else c_bind (deref (gi_func_switcher (vs ! 0))) (\<lambda>s. c_return (web_group_of (vs ! 0) s))) s1 = (Ok out, s')"
    unfolding webgroup_Get_def by (elim c_bind_OkE) simp
  from rest have "vs \<noteq> []" by (auto split: if_splits)
  moreover from this rest obtain sw where "gi_func_switcher (vs ! 0) = Some sw" "out = web_group_of (vs ! 0) sw" "s1 = s'"
    by (cases "gi_func_switcher (vs ! 0)") (auto simp: c_bind_def)
  ultimately show thesis using vs that by blast
qed

section \<open>A service that keeps lists\<close>

text \<open>A service that satisfies the contract, for the examples: it does every operation.\<close>

definition all_done :: oper_result where "all_done = \<lparr>or_ret_code = 0, or_ret_msg = []\<rparr>"

type_synonym list_service = "group_info list \<times> website_req_info list"

text \<open>Its modifications overwrite the name and the switches that a request has.\<close>

definition operate_group :: "opt_ralt_group_req \<Rightarrow> group_info list \<Rightarrow> group_info list" where
  "operate_group req gs =
     (if og_opt req = 1 then gs @ [group_of_request req 0]
      else if og_opt req = 2 then filter (\<lambda>v. gi_group_id v \<noteq> og_group_id req) gs
      else if og_opt req = 3 then map (\<lambda>v. if gi_group_id v = og_group_id req
        then v\<lparr>gi_group_name := (if og_group_name req = [] then gi_group_name v else og_group_name req),
          gi_func_switcher := (case og_func_switcher req of None \<Rightarrow> gi_func_switcher v | sw \<Rightarrow> sw)\<rparr>
        else v) gs
      else gs)"

definition operate_site :: "i32 \<Rightarrow> website_req_info \<Rightarrow> website_req_info list \<Rightarrow> website_req_info list" where
  "operate_site oper v vs =
     (if oper = 1 then vs @ [v]
      else if oper = 2 then filter (\<lambda>u. wr_domain_id u \<noteq> wr_domain_id v) vs
      else if oper = 3 then map (\<lambda>u. if wr_domain_id u = wr_domain_id v then v else u) vs
      else vs)"

definition list_client :: "list_service grpc_client" where
  "list_client =
     \<lparr>cl_QryOneCluster = (\<lambda>i. c_fail ''unavailable''), cl_QryFreeDevice = c_return [],
      cl_SetCluster = (\<lambda>r. c_fail ''unavailable''),
      cl_OptRaltGroup = (\<lambda>req (gs, ws). (Ok all_done, (operate_group req gs, ws))),
      cl_GetRaltGroup = (\<lambda>i (gs, ws). (Ok (if i = [] then gs else filter (\<lambda>v. gi_group_id v = i) gs), (gs, ws))),
      cl_OptRaltWebsite = (\<lambda>req (gs, ws). (Ok all_done, (gs, fold (operate_site (ow_opt req)) (ow_website req) ws))),
      cl_GetRaltSpecWebsite = (\<lambda>i (gs, ws). (Ok (filter (\<lambda>v. wr_domain_id v = i) ws), (gs, ws))),
      cl_GetRaltGroupWebsite = (\<lambda>i (gs, ws). (Ok (filter (\<lambda>v. wr_group_id v = i) ws), (gs, ws))),
      cl_GetRaltAvailIP = (\<lambda>r. c_return []), cl_ShowHomePageData = (\<lambda>i. c_fail ''unavailable''),
      cl_ShowHomePageFlowData = (\<lambda>i. c_return []), cl_ShowDomainVisitorData = (\<lambda>i. c_return [])\<rparr>"

lemma list_client_groups: "group_contract fst list_client"
  by (auto simp: group_contract_def list_client_def all_done_def operated_def operate_group_def
      intro!: modified_map)

lemma list_client_sites: "site_contract snd list_client"
  by (auto simp: site_contract_def list_client_def all_done_def operated_def operate_site_def
      intro!: modified_map)

definition some_group :: web_group where
  "some_group = \<lparr>wg_id = ''g1'', wg_name = ''campus'', wg_href_domain = ''example.net'',
     wg_transform_mod = 2, wg_cluster_id = ''002'',
     wg_update_switcher = Some \<lparr>sw_is_replace_href_on = True, sw_is_https_to_http_on = False, sw_is_cache_on = True\<rparr>,
     wg_rules = [Some \<lparr>ru_id = ''r1'', ru_rule_type = 1, ru_search_string = ''a'', ru_replace_string = ''b''\<rparr>]\<rparr>"

section \<open>Properties\<close>

text \<open>
  C33. When the creation of a group under a new identifier succeeds, the answer is the group of
  the request, and the service has either accepted it or not: its result code is not looked at.
  Reading the group then succeeds only if it was accepted, and gives the group of the request but
  for the transformation mode and the cluster, which are always the built-in ones.
\<close>

theorem group_create_then_get:
  assumes "group_contract G cli" and "wg_id g \<noteq> []" and "wg_id g \<notin> gi_group_id ` set (G s)"
    and "webgroup_Create cli g s = (Ok out, s1)"
  shows "out = g \<and> (\<forall>out2 s2. webgroup_Get cli g s1 = (Ok out2, s2) \<longrightarrow>
    G s1 \<noteq> G s \<and> out2 = g\<lparr>wg_transform_mod := 1, wg_cluster_id := ''001''\<rparr>)"
proof -
  from assms(4) obtain sw rules res where sw: "wg_update_switcher g = Some sw" "None \<notin> set (wg_rules g)"
    and rules: "rules = map (\<lambda>p. pb_rule (the p)) (wg_rules g)" and out: "out = g"
    and call: "cl_OptRaltGroup cli (group_request OperTypeCreate g (Some (pb_switcher sw)) rules) s = (Ok res, s1)"
    unfolding webgroup_Create_def by (rule write_group_Ok)
  let ?v = "group_of_request (group_request OperTypeCreate g (Some (pb_switcher sw)) rules) 0"
  have fresh: "filter (\<lambda>v. gi_group_id v = wg_id g) (G s) = []"
    using assms(3) by (force simp: filter_empty_conv)
  from contract_operates [OF assms(1) call] have stored: "G s1 = G s \<or> G s1 = G s @ [?v]"
    by (simp add: operated_def group_request_def OperTypeCreate_def split: if_splits)
  have v: "gi_group_id ?v = wg_id g" "gi_func_switcher ?v = Some (pb_switcher sw)"
    by (simp_all add: group_of_request_def group_request_def)
  have again: "web_group_of ?v (pb_switcher sw) = as_stored g"
    unfolding rules by (rule web_group_of_request [OF sw])
  have "G s1 \<noteq> G s \<and> out2 = as_stored g" if get: "webgroup_Get cli g s1 = (Ok out2, s2)" for out2 s2
    using get
  proof (rule webgroup_Get_Ok)
    fix vs v' sw'
    assume r: "cl_GetRaltGroup cli (wg_id g) s1 = (Ok vs, s2)" "vs \<noteq> []" "v' = vs ! 0"
      "gi_func_switcher v' = Some sw'" "out2 = web_group_of v' sw'"
    from contract_reads [OF assms(1) r(1)] assms(2) stored r(2)
    have "G s1 = G s @ [?v]" "vs = [?v]" by (auto simp: fresh v)
    with r again v show ?thesis by simp
  qed
  with out show ?thesis by (simp add: as_stored_def)
qed

lemma group_create_then_get_witness:
  "\<exists>s1 s2. webgroup_Create list_client some_group ([], []) = (Ok some_group, s1) \<and>
    webgroup_Get list_client some_group s1 =
      (Ok (some_group\<lparr>wg_transform_mod := 1, wg_cluster_id := ''001''\<rparr>), s2)"
proof -
  obtain s1 where ok: "webgroup_Create list_client some_group ([], []) = (Ok some_group, s1)"
    and s1: "s1 = ([group_of_request (group_request OperTypeCreate some_group
        (Some (pb_switcher \<lparr>sw_is_replace_href_on = True, sw_is_https_to_http_on = False, sw_is_cache_on = True\<rparr>))
        (map (\<lambda>p. pb_rule (the p)) (wg_rules some_group))) 0], [])"
    by (simp add: webgroup_Create_def write_group_eq some_group_def list_client_def c_bind_def
        grpc_error_def server_error_def c_map_err_def operate_group_def group_request_def OperTypeCreate_def)
  obtain out2 s2 where get: "webgroup_Get list_client some_group s1 = (Ok out2, s2)"
    unfolding s1 by (simp add: webgroup_Get_def list_client_def some_group_def group_of_request_def
        group_request_def c_bind_def grpc_error_def server_error_def c_map_err_def)
  from group_create_then_get [OF list_client_groups _ _ ok] get ok
  show ?thesis by (auto simp: some_group_def)
qed

text \<open>
  C34. The operation types of an update and of a deletion are those of the other. A successful update sends
  the documented deletion of the group: the list of groups then lacks it, or, if the result code refuses the
  operation, which the answer does not tell, has all the groups of before. A successful deletion sends a
  modification, and the list of groups then always has all of them.
\<close>

theorem group_update_deletes:
  assumes "group_contract G cli"
  shows "(webgroup_Update cli g s = (Ok out, s1) \<longrightarrow> out = g \<and>
      (\<exists>req res. cl_OptRaltGroup cli req s = (Ok res, s1) \<and> og_opt req = 2 \<and> og_group_id req = wg_id g \<and>
         (webgroup_List cli s1 = (Ok gs, s3) \<longrightarrow> map wg_id gs =
            (if or_ret_code res = 0 then filter (\<lambda>i. i \<noteq> wg_id g) (map gi_group_id (G s))
             else map gi_group_id (G s))))) \<and>
    (webgroup_Delete cli g s = (Ok u, s2) \<longrightarrow>
      (\<exists>req res. cl_OptRaltGroup cli req s = (Ok res, s2) \<and> og_opt req = 3 \<and> og_group_id req = wg_id g \<and>
         (webgroup_List cli s2 = (Ok gs', s4) \<longrightarrow> map wg_id gs' = map gi_group_id (G s))))"
proof (intro conjI impI)
  assume "webgroup_Update cli g s = (Ok out, s1)"
  then obtain sw rules res where out: "out = g"
    and call: "cl_OptRaltGroup cli (group_request OperTypeModify g (Some (pb_switcher sw)) rules) s = (Ok res, s1)"
    unfolding webgroup_Update_def by (rule write_group_Ok)
  show "out = g" by (rule out)
  let ?req = "group_request OperTypeModify g (Some (pb_switcher sw)) rules"
  have op: "og_opt ?req = 2" "og_group_id ?req = wg_id g"
    by (simp_all add: group_request_def OperTypeModify_def)
  from contract_operates [OF assms call]
  have "map gi_group_id (G s1) = (if or_ret_code res = 0
      then filter (\<lambda>i. i \<noteq> wg_id g) (map gi_group_id (G s)) else map gi_group_id (G s))"
    by (auto simp: operated_def op filter_map comp_def split: if_splits)
  with call op webgroup_List_ids [OF assms, of s1 gs s3]
  show "\<exists>req res. cl_OptRaltGroup cli req s = (Ok res, s1) \<and> og_opt req = 2 \<and> og_group_id req = wg_id g \<and>
         (webgroup_List cli s1 = (Ok gs, s3) \<longrightarrow> map wg_id gs =
            (if or_ret_code res = 0 then filter (\<lambda>i. i \<noteq> wg_id g) (map gi_group_id (G s))
             else map gi_group_id (G s)))"
    by (intro exI [of _ ?req] exI [of _ res]) simp
next
  assume "webgroup_Delete cli g s = (Ok u, s2)"
  then obtain res where call: "cl_OptRaltGroup cli (group_delete_request g) s = (Ok res, s2)"
    unfolding webgroup_Delete_def grpc_then_return_Ok by blast
  have op: "og_opt (group_delete_request g) = 3" "og_group_id (group_delete_request g) = wg_id g"
    by (simp_all add: group_delete_request_def OperTypeDelete_def)
  from contract_operates [OF assms call] have "map gi_group_id (G s2) = map gi_group_id (G s)"
    by (auto simp: operated_def op dest: modified_idents split: if_splits)
  with call op webgroup_List_ids [OF assms, of s2 gs' s4]
  show "\<exists>req res. cl_OptRaltGroup cli req s = (Ok res, s2) \<and> og_opt req = 3 \<and> og_group_id req = wg_id g \<and>
         (webgroup_List cli s2 = (Ok gs', s4) \<longrightarrow> map wg_id gs' = map gi_group_id (G s))"
    by (intro exI [of _ "group_delete_request g"] exI [of _ res]) simp
qed

text \<open>The service that does every operation: after the update of its only group the list is empty, after the
  deletion it still has the group.\<close>

definition stored_group :: group_info where
  "stored_group = group_of_request (group_request OperTypeCreate some_group
     (map_option pb_switcher (wg_update_switcher some_group)) []) 0"

lemma group_update_deletes_witness:
  "\<exists>s1 s2 gs s3 s4. webgroup_Update list_client some_group ([stored_group], []) = (Ok some_group, s1) \<and>
     webgroup_List list_client s1 = (Ok [], s3) \<and>
     webgroup_Delete list_client some_group ([stored_group], []) = (Ok (), s2) \<and>
     webgroup_List list_client s2 = (Ok gs, s4) \<and> map wg_id gs = [''g1'']"
proof -
  let ?s = "([stored_group], [])"
  note runs = write_group_eq some_group_def list_client_def c_bind_def grpc_error_def server_error_def c_map_err_def
    operate_group_def group_request_def group_delete_request_def stored_group_def group_of_request_def
  have update: "webgroup_Update list_client some_group ?s = (Ok some_group, ([], []))"
    by (simp add: webgroup_Update_def OperTypeModify_def runs)
  have delete: "webgroup_Delete list_client some_group ?s = (Ok (), ?s)"
    by (simp add: webgroup_Delete_def OperTypeDelete_def runs)
  obtain gs3 s3 where list3: "webgroup_List list_client ([], []) = (Ok gs3, s3)"
    by (simp add: webgroup_List_def runs)
  obtain gs4 s4 where list4: "webgroup_List list_client ?s = (Ok gs4, s4)"
    by (simp add: webgroup_List_def runs)
  note both = group_update_deletes [OF list_client_groups, where g = some_group and s = ?s and out = some_group
      and u = "()" and ?s1.0 = "([], [])" and ?s2.0 = ?s and gs = gs3 and ?s3.0 = s3 and gs' = gs4 and ?s4.0 = s4]
  have "gs3 = []" "map wg_id gs4 = [''g1'']"
    using both update delete list3 list4 by (auto simp: runs all_done_def)
  with update delete list3 list4 show ?thesis by (intro exI conjI) simp_all
qed

end
