(* ===== verification/SiteService.thy ===== *)
theory SiteService
  imports GroupService
begin

text \<open>
  The handlers of web sites against the documented contract of the service (\<open>site_contract\<close>).
\<close>

section \<open>What the handlers hand to the service\<close>

definition numbered_ports :: "protocol_port option list \<Rightarrow> (nat \<times> protocol_port) option list" where
  "numbered_ports ps = map (\<lambda>(i, p). map_option (Pair i) p) (enumerate 0 ps)"

definition sent_ports :: "outside \<Rightarrow> protocol_port option list \<Rightarrow> pb_protocol_map list" where
  "sent_ports X ps = map (\<lambda>p. case the p of (i, v) \<Rightarrow> pb_protocol (CreateRandomString (os_draw X i) 4) v)
     (numbered_ports ps)"

lemma numbered_ports_None: "None \<in> set (numbered_ports ps) \<longleftrightarrow> None \<in> set ps"
proof -
  have "None \<in> set (map (\<lambda>(i, p). map_option (Pair i) p) (enumerate n ps)) \<longleftrightarrow> None \<in> set ps" for n
    by (induction ps arbitrary: n) auto
  then show ?thesis by (simp add: numbered_ports_def)
qed

text \<open>The ports come back as they were.\<close>

lemma port_of_pb_protocol [simp]: "port_of (pb_protocol i v) = v"
  by (simp add: port_of_def pb_protocol_def)

lemma sent_ports_back:
  assumes "None \<notin> set ps"
  shows "map (\<lambda>p. Some (port_of p)) (sent_ports X ps) = ps"
proof -
  have "map (\<lambda>p. Some (port_of (case the p of (i, v) \<Rightarrow> pb_protocol (CreateRandomString (os_draw X i) 4) v)))
      (map (\<lambda>(i, p). map_option (Pair i) p) (enumerate n ps)) = ps" for n
    using assms
  proof (induction ps arbitrary: n)
    case (Cons p ps)
    then obtain v where "p = Some v" by (cases p) auto
    with Cons show ?case by simp
  qed simp
  then show ?thesis by (simp add: sent_ports_def numbered_ports_def comp_def)
qed

lemma send_ports:
  "deref_all (\<lambda>(i, v). pb_protocol (CreateRandomString (os_draw X i) 4) v) (numbered_ports ps) =
     (if None \<in> set ps then c_panic else c_return (sent_ports X ps))"
  by (simp add: deref_all_def numbered_ports_None sent_ports_def case_prod_beta)

definition site_request :: "outside \<Rightarrow> website \<Rightarrow> string \<Rightarrow> i32 \<Rightarrow> opt_ralt_website_req" where
  "site_request X w addr oper =
     \<lparr>ow_opt = oper, ow_website = [website_info w addr (sent_ports X (ws_protocol_ports w))]\<rparr>"

lemma OptRaltWebsite_Ok:
  assumes "OptRaltWebsite X cli w oper s = (Ok u, s')"
  obtains addr res where "os_resolve X (ws_source_domain w) = Ok addr"
    and "None \<notin> set (ws_protocol_ports w)"
    and "cl_OptRaltWebsite cli (site_request X w addr oper) s = (Ok res, s')"
proof -
  from assms obtain addr where addr: "os_resolve X (ws_source_domain w) = Ok addr"
    unfolding OptRaltWebsite_def by (elim c_bind_OkE) (auto simp: c_map_err_apply)
  have eq: "OptRaltWebsite X cli w oper s = c_bind (deref_all (\<lambda>(i, v). pb_protocol (CreateRandomString (os_draw X i) 4) v)
         (numbered_ports (ws_protocol_ports w))) (\<lambda>ports.
     c_bind (c_map_err (\<lambda>e. ''grpc service exec OptRaltWebsite failed: '' @ e)
         (cl_OptRaltWebsite cli \<lparr>ow_opt = oper, ow_website = [website_info w addr ports]\<rparr>)) (\<lambda>_.
       c_return ())) s"
    unfolding OptRaltWebsite_def numbered_ports_def by (rule c_bind_step(1)) (simp add: addr c_map_err_apply)
  have ports: "None \<notin> set (ws_protocol_ports w)"
    using assms unfolding eq send_ports by (cases "None \<in> set (ws_protocol_ports w)") (simp_all add: c_bind_def)
  from assms [unfolded eq] obtain ps s1 where
    ps: "deref_all (\<lambda>(i, v). pb_protocol (CreateRandomString (os_draw X i) 4) v)
      (numbered_ports (ws_protocol_ports w)) s = (Ok ps :: (gerror, _) res, s1)"
    and send: "c_bind (c_map_err (\<lambda>e. ''grpc service exec OptRaltWebsite failed: '' @ e)
      (cl_OptRaltWebsite cli \<lparr>ow_opt = oper, ow_website = [website_info w addr ps]\<rparr>)) (\<lambda>_. c_return ()) s1 = (Ok u, s')"
    by (rule c_bind_OkE)
  from ps ports have ps': "ps = sent_ports X (ws_protocol_ports w)" "s1 = s"
    unfolding send_ports by simp_all
  from send obtain res where "cl_OptRaltWebsite cli (site_request X w addr oper) s = (Ok res, s')"
    unfolding ps' site_request_def by (elim c_bind_OkE) (auto simp: c_map_err_apply split: prod.splits)
  with addr ports show thesis by (rule that)
qed

lemma write_website_Ok:
  assumes "write_website X cli w oper s = (Ok out, s')"
  shows "out = w \<and> OptRaltWebsite X cli w oper s = (Ok (), s')"
  using assms unfolding write_website_def by (elim c_bind_OkE) simp

lemma site_operates:
  assumes "site_contract W cli" and "cl_OptRaltWebsite cli \<lparr>ow_opt = oper, ow_website = [v]\<rparr> s = (Ok res, s')"
  shows "if or_ret_code res = 0 then operated wr_domain_id oper v (wr_domain_id v) (W s) (W s') else W s' = W s"
  using assms unfolding site_contract_def by blast

lemma site_reads:
  assumes "site_contract W cli"
  shows "cl_GetRaltSpecWebsite cli i s = (Ok vs, s') \<Longrightarrow> vs = filter (\<lambda>v. wr_domain_id v = i) (W s)"
    and "cl_GetRaltGroupWebsite cli i s = (Ok vs, s') \<Longrightarrow> vs = filter (\<lambda>v. wr_group_id v = i) (W s)"
  using assms unfolding site_contract_def by blast+

section \<open>Properties\<close>

definition some_website :: website where
  "some_website = \<lparr>ws_id = ''d1'', ws_group_id = ''g1'', ws_source_domain = ''www.example.org'',
     ws_dest_domain = ''www6.example.org'', ws_virtual_ip = ''2001:db8::80'',
     ws_protocol_ports = [Some \<lparr>pp_source_protocol = ''http'', pp_source_port = 80,
       pp_dest_protocol = ''https'', pp_dest_port = 443\<rparr>],
     ws_href_domain = ''example.net'', ws_transfer_mod = 3\<rparr>"

definition some_outside :: outside where
  "some_outside = \<lparr>os_resolve = (\<lambda>d. Ok ''192.0.2.7''), os_draw = (\<lambda>i j. 0), os_api_error_text = api_message\<rparr>"

lemma write_ok:
  "\<exists>s1. write_website some_outside list_client some_website oper (gs, ws) = (Ok some_website, s1) \<and>
     snd s1 = operate_site oper (website_info some_website ''192.0.2.7''
       (sent_ports some_outside (ws_protocol_ports some_website))) ws"
proof -
  have "OptRaltWebsite some_outside list_client some_website oper (gs, ws) =
     (Ok (), (gs, operate_site oper (website_info some_website ''192.0.2.7''
       (sent_ports some_outside (ws_protocol_ports some_website))) ws))"
    unfolding OptRaltWebsite_def numbered_ports_def [symmetric] send_ports
    by (simp add: some_outside_def list_client_def some_website_def c_bind_def c_map_err_def)
  then show ?thesis by (simp add: write_website_def)
qed

lemma website_Get_Ok:
  assumes "website_Get cli q s = (Ok out, s')"
  obtains vs where "cl_GetRaltSpecWebsite cli (ws_id q) s = (Ok vs, s')"
    and "out = (if vs = [] then q else (let v = vs ! 0 in q
         \<lparr>ws_group_id := wr_group_id v, ws_source_domain := wr_src_domain v,
          ws_dest_domain := wr_dst_domain v, ws_virtual_ip := wr_ip_addr v,
          ws_href_domain := wr_website_href_domain v, ws_transfer_mod := wr_mod v,
          ws_protocol_ports := ws_protocol_ports q @ map (\<lambda>p. Some (port_of p)) (wr_protocol_map v)\<rparr>))"
  using assms unfolding website_Get_def
  by (elim c_bind_OkE) (auto simp: Let_def split: if_splits)

lemma website_List_Ok:
  assumes "website_List cli (Some g) s = (Ok out, s')"
  obtains vs where "cl_GetRaltGroupWebsite cli g s = (Ok vs, s')" and "out = map (listed_website g) vs"
  using assms unfolding website_List_def by (auto elim!: c_bind_OkE)

text \<open>
  C35. When the creation of a web site under a new identifier succeeds, reading it gives the site
  that was created but for the transfer mode, which is always the built-in one, or the resource of
  the request unchanged if the service has not accepted it. The list of its group, however, shows
  it with the address that its source domain had at the creation instead of its virtual address,
  and without link domain and transfer mode.
\<close>

theorem site_create_then_read:
  assumes "site_contract W cli" and "ws_id w \<notin> wr_domain_id ` set (W s)"
    and "website_Create X cli w s = (Ok out, s1)"
    and "ws_id q = ws_id w" and "ws_protocol_ports q = []"
  shows "out = w \<and>
    (\<forall>out2 s2. website_Get cli q s1 = (Ok out2, s2) \<longrightarrow>
       out2 = (if W s1 = W s then q else w\<lparr>ws_transfer_mod := 1\<rparr>)) \<and>
    (\<forall>out3 s3. W s1 \<noteq> W s \<and> website_List cli (Some (ws_group_id w)) s1 = (Ok out3, s3) \<longrightarrow>
       (\<exists>addr. os_resolve X (ws_source_domain w) = Ok addr \<and>
          w\<lparr>ws_virtual_ip := addr, ws_href_domain := [], ws_transfer_mod := 0\<rparr> \<in> set out3))"
proof (intro conjI allI impI)
  from write_website_Ok [OF assms(3) [unfolded website_Create_def]]
  have out: "out = w" and opt: "OptRaltWebsite X cli w OperTypeCreate s = (Ok (), s1)" by simp_all
  show "out = w" by (rule out)
  from opt obtain addr res where addr: "os_resolve X (ws_source_domain w) = Ok addr"
    and some: "None \<notin> set (ws_protocol_ports w)"
    and call: "cl_OptRaltWebsite cli (site_request X w addr OperTypeCreate) s = (Ok res, s1)"
    by (rule OptRaltWebsite_Ok)
  let ?v = "website_info w addr (sent_ports X (ws_protocol_ports w))"
  from site_operates [OF assms(1) call [unfolded site_request_def]]
  have stored: "W s1 = W s \<or> W s1 = W s @ [?v]"
    by (simp add: operated_def OperTypeCreate_def split: if_splits)
  have new: "filter (\<lambda>v. wr_domain_id v = ws_id w) (W s) = []"
    using assms(2) by (force simp: filter_empty_conv)
  note ports = sent_ports_back [OF some, of X]
  show "out2 = (if W s1 = W s then q else w\<lparr>ws_transfer_mod := 1\<rparr>)"
    if get: "website_Get cli q s1 = (Ok out2, s2)" for out2 s2
  proof -
    from website_Get_Ok [OF get] obtain vs where vs: "cl_GetRaltSpecWebsite cli (ws_id w) s1 = (Ok vs, s2)"
      and out2: "out2 = (if vs = [] then q else (let v = vs ! 0 in q
         \<lparr>ws_group_id := wr_group_id v, ws_source_domain := wr_src_domain v,
          ws_dest_domain := wr_dst_domain v, ws_virtual_ip := wr_ip_addr v,
          ws_href_domain := wr_website_href_domain v, ws_transfer_mod := wr_mod v,
          ws_protocol_ports := ws_protocol_ports q @ map (\<lambda>p. Some (port_of p)) (wr_protocol_map v)\<rparr>))"
      unfolding assms(4) .
    from site_reads(1) [OF assms(1) vs] stored new
    have "vs = (if W s1 = W s then [] else [?v])" by (auto simp: website_info_def)
    with out2 assms(4,5) ports show ?thesis
      by (simp add: website_info_def TransformModType64_def)
  qed
  show "\<exists>addr. os_resolve X (ws_source_domain w) = Ok addr \<and>
      w\<lparr>ws_virtual_ip := addr, ws_href_domain := [], ws_transfer_mod := 0\<rparr> \<in> set out3"
    if list: "W s1 \<noteq> W s \<and> website_List cli (Some (ws_group_id w)) s1 = (Ok out3, s3)" for out3 s3
  proof -
    from website_List_Ok [OF conjunct2 [OF list]]
    obtain vs where vs: "cl_GetRaltGroupWebsite cli (ws_group_id w) s1 = (Ok vs, s3)"
      and out3: "out3 = map (listed_website (ws_group_id w)) vs" .
    from site_reads(2) [OF assms(1) vs] stored list have "?v \<in> set vs"
      by (auto simp: website_info_def)
    moreover have "listed_website (ws_group_id w) ?v =
        w\<lparr>ws_virtual_ip := addr, ws_href_domain := [], ws_transfer_mod := 0\<rparr>"
      using ports by (simp add: listed_website_def website_info_def)
    ultimately show ?thesis using addr out3 by (metis image_eqI list.set_map)
  qed
qed

lemma site_create_then_read_witness:
  "\<exists>s1 s2. website_Create some_outside list_client some_website ([], []) = (Ok some_website, s1) \<and>
    website_Get list_client (some_website\<lparr>ws_protocol_ports := []\<rparr>) s1 =
      (Ok (some_website\<lparr>ws_transfer_mod := 1\<rparr>), s2)"
proof -
  from write_ok [of OperTypeCreate "[]" "[]"] obtain s1 where
    ok: "website_Create some_outside list_client some_website ([], []) = (Ok some_website, s1)"
    and s1: "snd s1 = operate_site OperTypeCreate (website_info some_website ''192.0.2.7''
       (sent_ports some_outside (ws_protocol_ports some_website))) []"
    unfolding website_Create_def by blast
  then have stored: "snd s1 \<noteq> []" by (simp add: operate_site_def OperTypeCreate_def)
  obtain out2 s2 where get: "website_Get list_client (some_website\<lparr>ws_protocol_ports := []\<rparr>) s1 = (Ok out2, s2)"
    by (cases s1; cases "filter (\<lambda>v. wr_domain_id v = ws_id some_website) (snd s1) = []")
      (auto simp: website_Get_def list_client_def c_bind_def grpc_error_def server_error_def
        c_map_err_def Let_def)
  with ok stored site_create_then_read [OF list_client_sites _ ok, of "some_website\<lparr>ws_protocol_ports := []\<rparr>"]
  show ?thesis by auto
qed

text \<open>
  Under the contract an update of a web site that succeeds deletes it, and a deletion that
  succeeds only modifies it, unless the service has refused the operation, which the answer does
  not tell.
\<close>

theorem site_update_deletes:
  assumes "site_contract W cli"
  shows "(website_Update X cli w s = (Ok out, s1) \<longrightarrow> out = w \<and>
      (W s1 = W s \<or> W s1 = filter (\<lambda>v. wr_domain_id v \<noteq> ws_id w) (W s))) \<and>
    (website_Delete cli w s = (Ok u, s2) \<longrightarrow> map wr_domain_id (W s2) = map wr_domain_id (W s))"
proof (intro conjI impI)
  assume "website_Update X cli w s = (Ok out, s1)"
  from write_website_Ok [OF this [unfolded website_Update_def]]
  have w: "out = w" "OptRaltWebsite X cli w OperTypeModify s = (Ok (), s1)" by simp_all
  show "out = w" by (rule w)
  from w(2) obtain addr res where
    call: "cl_OptRaltWebsite cli (site_request X w addr OperTypeModify) s = (Ok res, s1)"
    by (rule OptRaltWebsite_Ok)
  from site_operates [OF assms call [unfolded site_request_def]]
  show "W s1 = W s \<or> W s1 = filter (\<lambda>v. wr_domain_id v \<noteq> ws_id w) (W s)"
    by (simp add: operated_def OperTypeModify_def website_info_def split: if_splits)
next
  assume "website_Delete cli w s = (Ok u, s2)"
  then obtain res where call: "cl_OptRaltWebsite cli (website_delete_request w) s = (Ok res, s2)"
    unfolding website_Delete_def grpc_then_return_Ok by blast
  from site_operates [OF assms call [unfolded website_delete_request_def]]
  show "map wr_domain_id (W s2) = map wr_domain_id (W s)"
    by (auto simp: operated_def OperTypeDelete_def dest: modified_idents split: if_splits)
qed

lemma site_update_deletes_witness:
  "\<exists>s1. website_Update some_outside list_client some_website ([], [deleted_info some_website]) = (Ok some_website, s1) \<and>
     (snd s1 = [deleted_info some_website] \<or> snd s1 = [])"
proof -
  obtain s1 where ok: "website_Update some_outside list_client some_website ([], [deleted_info some_website]) = (Ok some_website, s1)"
    using write_ok [of OperTypeModify] unfolding website_Update_def by blast
  with site_update_deletes [OF list_client_sites, of some_outside some_website "([], [deleted_info some_website])" some_website s1]
  show ?thesis by (auto simp: deleted_info_def)
qed

end
