(* ===== verification/HomePage.thy ===== *)
theory HomePage
  imports WebsiteHandler
begin

text \<open>
  The reading handlers of \<open>pkg/business/handler\<close>: the traffic of the hosts
  (\<open>host_handler.go\<close>), the figures of the home page (\<open>monitor_handler.go\<close>) and the addresses that
  are free (\<open>vip_handler.go\<close>). Counters are added at their width.
\<close>

section \<open>Hosts\<close>

record host =
  ho_id :: string
  ho_v4_up_flow :: "64 word"
  ho_v4_down_flow :: "64 word"
  ho_v6_up_flow :: "64 word"
  ho_v6_down_flow :: "64 word"
  ho_timestamp :: "64 word"

text \<open>The last of the figures is shown; without any the run-time panics.\<close>

definition show_flow :: "host \<Rightarrow> device_flow_data list \<Rightarrow> ('g, 'e, host) comp" where
  "show_flow device flows =
     (if flows = [] then c_panic
      else (let f = flows ! (length flows - 1) in c_return (device
        \<lparr>ho_v4_up_flow := df_v4_up_bytes f, ho_v4_down_flow := df_v4_down_bytes f,
         ho_v6_up_flow := df_v6_up_bytes f, ho_v6_down_flow := df_v6_down_bytes f,
         ho_timestamp := df_timestamp f\<rparr>)))"

definition host_Get :: "'g grpc_client \<Rightarrow> host \<Rightarrow> ('g, api_error, host) comp" where
  "host_Get cli device =
     c_bind (grpc_error ''ShowHomePageFlowData'' (cl_ShowHomePageFlowData cli (ho_id device)))
       (show_flow device)"

definition empty_host :: "string \<Rightarrow> host" where
  "empty_host i = \<lparr>ho_id = i, ho_v4_up_flow = 0, ho_v4_down_flow = 0, ho_v6_up_flow = 0,
     ho_v6_down_flow = 0, ho_timestamp = 0\<rparr>"

fun list_hosts :: "'g grpc_client \<Rightarrow> pb_node_host list \<Rightarrow> ('g, api_error, host list) comp" where
  "list_hosts cli [] = c_return []"
| "list_hosts cli (v # vs) =
     c_bind (grpc_error ''ShowHomePageFlowData'' (cl_ShowHomePageFlowData cli (nh_host_id v))) (\<lambda>flows.
     c_bind (show_flow (empty_host (nh_host_id v)) flows) (\<lambda>device.
     c_bind (list_hosts cli vs) (\<lambda>devices. c_return (device # devices))))"

text \<open>A missing description of the cluster has no hosts here.\<close>

definition host_List :: "'g grpc_client \<Rightarrow> ('g, api_error, host list) comp" where
  "host_List cli =
     c_bind (grpc_error ''SetCluster'' (cl_QryOneCluster cli DefaultClusterID)) (\<lambda>rsp.
       list_hosts cli (case cd_socs_info rsp of Some socs \<Rightarrow> bi_node_host socs | None \<Rightarrow> []))"

section \<open>The home page\<close>

record website_visit =
  wv_domain :: string
  wv_count :: "64 word"

record group_visit =
  gv_website_visits :: "website_visit list"
  gv_count :: "64 word"

record home_page =
  hm_id :: string
  hm_normal_domains :: u32
  hm_abnormal_domains :: u32
  hm_domains_count :: u32
  hm_normal_ipv6_address :: u32
  hm_abnormal_ipv6_address :: u32
  hm_ipv6_address_count :: u32
  hm_normal_node :: u32
  hm_abnormal_node :: u32
  hm_nodes_count :: u32
  hm_group_visit :: "group_visit list"

definition MonitorID :: string where "MonitorID = ''m001''"

definition home_page_of :: "show_home_page_data_rsp \<Rightarrow> home_page" where
  "home_page_of resp =
     \<lparr>hm_id = MonitorID,
      hm_normal_domains = hp_domain_is_normal resp, hm_abnormal_domains = hp_domain_is_abnormal resp,
      hm_domains_count = hp_domain_is_normal resp + hp_domain_is_abnormal resp,
      hm_normal_ipv6_address = hp_normal_ipv6_ipaddr_number resp,
      hm_abnormal_ipv6_address = hp_abnormal_ipv6_ipaddr_number resp,
      hm_ipv6_address_count = hp_normal_ipv6_ipaddr_number resp + hp_abnormal_ipv6_ipaddr_number resp,
      hm_normal_node = hp_normal_node_number resp, hm_abnormal_node = hp_abnormal_node_number resp,
      hm_nodes_count = hp_normal_node_number resp + hp_abnormal_node_number resp,
      hm_group_visit = []\<rparr>"

text \<open>The visits of a domain are its last figure.\<close>

fun visit_data :: "domain_visitor list \<Rightarrow> ('g, 'e, website_visit list) comp" where
  "visit_data [] = c_return []"
| "visit_data (v # vs) =
     (if dv_visit_host_number v = [] then c_panic
      else c_bind (visit_data vs) (\<lambda>rest. c_return
        (\<lparr>wv_domain = dv_member_domain v,
          wv_count = vd_visit_domain_num (dv_visit_host_number v ! (length (dv_visit_host_number v) - 1))\<rparr> # rest)))"

definition count_visit :: "website_req_info \<Rightarrow> website_visit \<Rightarrow> group_visit \<Rightarrow> group_visit" where
  "count_visit site v gv =
     (if wv_domain v = wr_src_domain site
      then \<lparr>gv_website_visits = gv_website_visits gv @ [v], gv_count = gv_count gv + wv_count v\<rparr>
      else gv)"

definition group_visit_of :: "website_visit list \<Rightarrow> website_req_info list \<Rightarrow> group_visit" where
  "group_visit_of visits sites =
     fold (\<lambda>site. fold (count_visit site) visits) sites \<lparr>gv_website_visits = [], gv_count = 0\<rparr>"

fun group_visits :: "'g grpc_client \<Rightarrow> website_visit list \<Rightarrow> group_info list \<Rightarrow> ('g, api_error, group_visit list) comp" where
  "group_visits cli visits [] = c_return []"
| "group_visits cli visits (g # gs) =
     c_bind (grpc_error ''GetRaltGroupWebsite'' (cl_GetRaltGroupWebsite cli (gi_group_id g))) (\<lambda>sites.
     c_bind (group_visits cli visits gs) (\<lambda>rest. c_return (group_visit_of visits sites # rest)))"

definition homepage_Get :: "'g grpc_client \<Rightarrow> ('g, api_error, home_page) comp" where
  "homepage_Get cli =
     c_bind (grpc_error ''ShowHomePageData'' (cl_ShowHomePageData cli DefaultClusterID)) (\<lambda>resp.
     c_bind (grpc_error ''ShowDomainVisitorData'' (cl_ShowDomainVisitorData cli DefaultClusterID)) (\<lambda>allVisit.
     c_bind (visit_data allVisit) (\<lambda>visits.
     c_bind (grpc_error ''GetRaltGroup'' (cl_GetRaltGroup cli [])) (\<lambda>groups.
     c_bind (group_visits cli visits groups) (\<lambda>gvs.
       c_return ((home_page_of resp)\<lparr>hm_group_visit := gvs\<rparr>))))))"

section \<open>Free addresses\<close>

definition FilterAvailableIPCount :: string where "FilterAvailableIPCount = ''availableipcount''"

text \<open>The number is cut to 32 bits. The text of a conversion error is a parameter.\<close>

definition avail_request :: "int \<Rightarrow> get_avail_ip_req" where
  "avail_request icount =
     \<lparr>av_cluster_id = DefaultClusterID, av_network = 1, av_count = word_of_int icount\<rparr>"

definition single_vip :: "string \<Rightarrow> vip_interval" where
  "single_vip v = \<lparr>vp_begin_vip = v, vp_end_vip = v, vp_length = 96\<rparr>"

fun vip_filters :: "(string \<Rightarrow> string) \<Rightarrow> 'g grpc_client \<Rightarrow> filter_rec list \<Rightarrow> ('g, api_error, vip_interval list) comp" where
  "vip_filters atoiError cli [] = c_return []"
| "vip_filters atoiError cli (f # fs) =
     (if f_name f = FilterAvailableIPCount then
        (case GetFilterValueWithEqModifierFromFilter f of
           None \<Rightarrow> vip_filters atoiError cli fs
         | Some cnt \<Rightarrow>
             (case atoi cnt of
                None \<Rightarrow> c_fail (APIError ServerError
                  (''count is not correct, err:'' @ atoiError cnt))
              | Some icount \<Rightarrow>
                  c_bind (grpc_error ''GetRaltAvailIP'' (cl_GetRaltAvailIP cli (avail_request icount))) (\<lambda>ips.
                  c_bind (vip_filters atoiError cli fs) (\<lambda>rest. c_return (map single_vip ips @ rest)))))
      else vip_filters atoiError cli fs)"

definition vip_List :: "(string \<Rightarrow> string) \<Rightarrow> 'g grpc_client \<Rightarrow> filter_rec list \<Rightarrow> ('g, api_error, vip_interval list) comp" where
  "vip_List atoiError cli filters = vip_filters atoiError cli filters"

end
