(* ===== verification/BusinessProps.thy ===== *)
theory BusinessProps
  imports HomePage
begin

text \<open>
  The cluster of the acceleration service against the contract that
  \<open>pkg/proto/ate_cluster/cluster.proto\<close> documents, and the figures of hosts and home page.
\<close>

section \<open>The contract of clusters\<close>

text \<open>Operation type 1 adds, 2 deletes, 3 modifies; a message that is not set has the default
  values. The state of the service is seen through the description of each cluster.\<close>

definition operate_cluster ::
  "cluster_public_info_req \<Rightarrow> (string \<Rightarrow> cluster_balance_info option) \<Rightarrow> string \<Rightarrow> cluster_balance_info option" where
  "operate_cluster req V =
     (if cp_oper_type req = 1 \<or> cp_oper_type req = 3
      then V(cp_cluster_id req \<mapsto> (case cp_balance_info req of Some bi \<Rightarrow> bi | None \<Rightarrow> empty_balance_info))
      else if cp_oper_type req = 2 then V(cp_cluster_id req := None) else V)"

definition cluster_contract :: "('g \<Rightarrow> string \<Rightarrow> cluster_balance_info option) \<Rightarrow> 'g grpc_client \<Rightarrow> bool" where
  "cluster_contract V cli \<longleftrightarrow>
     (\<forall>req g r g'. cl_SetCluster cli req g = (r, g') \<longrightarrow>
        (case r of Ok res \<Rightarrow> V g' = (if co_ret_code res = 0 then operate_cluster req (V g) else V g)
         | _ \<Rightarrow> V g' = V g)) \<and>
     (\<forall>i g r g'. cl_QryOneCluster cli i g = (r, g') \<longrightarrow> V g' = V g \<and>
        (\<forall>rsp. r = Ok rsp \<longrightarrow> cd_socs_info rsp = Some (case V g i of Some bi \<Rightarrow> bi | None \<Rightarrow> empty_balance_info))) \<and>
     (\<forall>g r g'. cl_QryFreeDevice cli g = (r, g') \<longrightarrow> V g' = V g)"

lemma contract_set:
  assumes "cluster_contract V cli" and "cl_SetCluster cli req s = (Ok res, s')"
  shows "V s' = V s \<or> V s' = operate_cluster req (V s)"
  using assms(1) [unfolded cluster_contract_def, THEN conjunct1, rule_format, OF assms(2)]
  by (auto split: if_splits)

lemma contract_query:
  assumes "cluster_contract V cli" and "cl_QryOneCluster cli i s = (Ok rsp, s')"
  shows "V s' = V s" and "cd_socs_info rsp = Some (case V s i of Some bi \<Rightarrow> bi | None \<Rightarrow> empty_balance_info)"
  using assms unfolding cluster_contract_def by blast+

lemma contract_free:
  "cluster_contract V cli \<Longrightarrow> cl_QryFreeDevice cli s = (Ok hosts, s') \<Longrightarrow> V s' = V s"
  unfolding cluster_contract_def by blast

definition cluster_named :: "(string \<Rightarrow> cluster_balance_info option) \<Rightarrow> string \<Rightarrow> bool" where
  "cluster_named V i \<longleftrightarrow> (\<exists>bi. V i = Some bi \<and> bi_cluster_name bi \<noteq> [])"

definition default_info :: "vip_conf \<Rightarrow> string list \<Rightarrow> cluster_balance_info" where
  "default_info vip hosts = empty_balance_info
     \<lparr>bi_cluster_name := ''c001'', bi_cluster_type := ''6ATE'',
      bi_node_host := map (\<lambda>v. \<lparr>nh_host_id = v, nh_node_id = v\<rparr>) hosts, bi_balance_type := 1,
      bi_ipv6_vip := [\<lparr>vi_begin = vc_begin_vip vip, vi_end = vc_end_vip vip, vi_length = vc_length vip\<rparr>]\<rparr>"

lemma start_error_Ok: "start_error m s = (Ok a, s') \<longleftrightarrow> m s = (Ok a, s')"
  by (auto simp: start_error_def c_map_err_def split: prod.splits)

lemma NewClusterHandler_Ok:
  assumes "cluster_contract V cli" and "NewClusterHandler cli (Some conf) s = (Ok (), s')"
  shows "if cluster_named (V s) ''001'' then V s' = V s
    else V s' = V s \<or> (\<exists>hosts g1 g2. cl_QryFreeDevice cli g1 = (Ok hosts, g2) \<and>
      V s' = (V s)(''001'' \<mapsto> default_info (cf_vip conf) hosts))"
proof -
  from assms(2) obtain rsp s1 where q: "cl_QryOneCluster cli DefaultClusterID s = (Ok rsp, s1)"
    and rest: "c_bind (deref (cd_socs_info rsp)) (\<lambda>socs.
       if bi_cluster_name socs = [] then
         c_bind (start_error (cl_QryFreeDevice cli)) (\<lambda>hosts.
         c_bind (deref (Some conf)) (\<lambda>conf.
         c_bind (start_error (cl_SetCluster cli (default_cluster (cf_vip conf) hosts))) (\<lambda>_. c_return ())))
       else c_return ()) s1 = (Ok (), s')"
    unfolding NewClusterHandler_def by (elim c_bind_OkE) (simp add: start_error_Ok)
  note q' = contract_query [OF assms(1) q]
  let ?bi = "case V s ''001'' of Some bi \<Rightarrow> bi | None \<Rightarrow> empty_balance_info"
  have name: "bi_cluster_name ?bi \<noteq> [] \<longleftrightarrow> cluster_named (V s) ''001''"
    by (auto simp: cluster_named_def empty_balance_info_def split: option.split)
  show ?thesis
  proof (cases "cluster_named (V s) ''001''")
    case True
    with rest q' name have "s' = s1" by (simp add: DefaultClusterID_def c_bind_def)
    with q' True show ?thesis by simp
  next
    case False
    with rest q'(2) name have "c_bind (start_error (cl_QryFreeDevice cli)) (\<lambda>hosts.
         c_bind (deref (Some conf)) (\<lambda>conf.
         c_bind (start_error (cl_SetCluster cli (default_cluster (cf_vip conf) hosts))) (\<lambda>_. c_return ()))) s1 = (Ok (), s')"
      by (simp add: DefaultClusterID_def c_bind_def [of "c_return _"])
    then obtain hosts s2 res where free: "cl_QryFreeDevice cli s1 = (Ok hosts, s2)"
      and set: "cl_SetCluster cli (default_cluster (cf_vip conf) hosts) s2 = (Ok res, s')"
      by (elim c_bind_OkE) (auto simp: start_error_Ok)
    have "operate_cluster (default_cluster (cf_vip conf) hosts) (V s) =
        (V s)(''001'' \<mapsto> default_info (cf_vip conf) hosts)"
      by (simp add: operate_cluster_def default_cluster_def default_info_def OperTypeCreate_def
          DefaultClusterID_def DefaultClusterName_def ClusterType_def BalanceTypeHash_def)
    with contract_set [OF assms(1) set] contract_free [OF assms(1) free] q'(1) free False
    show ?thesis by auto
  qed
qed

section \<open>A service that keeps clusters\<close>

definition some_conf :: ddi_config where
  "some_conf = zero_config\<lparr>cf_vip :=
     \<lparr>vc_begin_vip = ''2001:db8::1'', vc_end_vip = ''2001:db8::ff'', vc_length = 96\<rparr>\<rparr>"

definition cluster_client :: "(string \<Rightarrow> cluster_balance_info option) grpc_client" where
  "cluster_client =
     \<lparr>cl_QryOneCluster = (\<lambda>i V. (Ok \<lparr>cd_socs_info = Some (case V i of Some bi \<Rightarrow> bi | None \<Rightarrow> empty_balance_info),
        cd_app_info = None, cd_log_info = None, cd_cache_info = None\<rparr>, V)),
      cl_QryFreeDevice = (\<lambda>V. (Ok [''d1'', ''d2''], V)),
      cl_SetCluster = (\<lambda>req V. (Ok \<lparr>co_ret_code = 0, co_ret_msg = []\<rparr>, operate_cluster req V)),
      cl_OptRaltGroup = (\<lambda>req. c_fail []), cl_GetRaltGroup = (\<lambda>i. c_return []),
      cl_OptRaltWebsite = (\<lambda>req. c_fail []), cl_GetRaltSpecWebsite = (\<lambda>i. c_return []),
      cl_GetRaltGroupWebsite = (\<lambda>i. c_return []), cl_GetRaltAvailIP = (\<lambda>r. c_return []),
      cl_ShowHomePageData = (\<lambda>i. c_fail []),
      cl_ShowHomePageFlowData = (\<lambda>i. c_return [\<lparr>df_v4_up_bytes = 1, df_v4_down_bytes = 2,
         df_v6_up_bytes = 3, df_v6_down_bytes = 4, df_connections = 5, df_timestamp = 6\<rparr>]),
      cl_ShowDomainVisitorData = (\<lambda>i. c_return [])\<rparr>"

lemma cluster_client_ok: "cluster_contract id cluster_client"
  by (auto simp: cluster_contract_def cluster_client_def)

section \<open>Properties of the cluster\<close>

text \<open>
  When the start-up succeeds and the service knew a cluster 001 with a name, the service's
  clusters are as before. Otherwise, unless the service has refused it, there is now the default
  cluster 001 of all devices that the service gave as free, with the configured addresses, and
  starting again changes nothing.
\<close>

theorem startup_makes_cluster:
  assumes "cluster_contract V cli" and "NewClusterHandler cli (Some conf) s = (Ok (), s1)"
  shows "(cluster_named (V s) ''001'' \<longrightarrow> V s1 = V s) \<and>
    (V s1 = V s \<or> (\<exists>hosts g1 g2. cl_QryFreeDevice cli g1 = (Ok hosts, g2) \<and>
      V s1 = (V s)(''001'' \<mapsto> empty_balance_info
        \<lparr>bi_cluster_name := ''c001'', bi_cluster_type := ''6ATE'',
         bi_node_host := map (\<lambda>v. \<lparr>nh_host_id = v, nh_node_id = v\<rparr>) hosts, bi_balance_type := 1,
         bi_ipv6_vip := [\<lparr>vi_begin = vc_begin_vip (cf_vip conf), vi_end = vc_end_vip (cf_vip conf),
           vi_length = vc_length (cf_vip conf)\<rparr>]\<rparr>) \<and>
      (\<forall>s2. NewClusterHandler cli (Some conf) s1 = (Ok (), s2) \<longrightarrow> V s2 = V s1)))"
proof -
  note first = NewClusterHandler_Ok [OF assms]
  have again: "V s2 = V s1" if "V s1 = (V s)(''001'' \<mapsto> default_info (cf_vip conf) hosts)"
    and "NewClusterHandler cli (Some conf) s1 = (Ok (), s2)" for hosts s2
  proof -
    have "cluster_named (V s1) ''001''"
      using that(1) by (simp add: cluster_named_def default_info_def)
    with NewClusterHandler_Ok [OF assms(1) that(2)] show ?thesis by simp
  qed
  from first show ?thesis
    unfolding default_info_def [symmetric] using again by (metis (no_types))
qed

lemma startup_makes_cluster_witness:
  "\<exists>s1. NewClusterHandler cluster_client (Some some_conf) Map.empty = (Ok (), s1) \<and>
    (s1 = Map.empty \<or> (\<exists>bi. s1 = [''001'' \<mapsto> bi]))"
proof -
  obtain s1 where ok: "NewClusterHandler cluster_client (Some some_conf) Map.empty = (Ok (), s1)"
    by (simp add: NewClusterHandler_def cluster_client_def start_error_def c_bind_def c_map_err_def
        empty_balance_info_def)
  with startup_makes_cluster [OF cluster_client_ok ok] show ?thesis by auto
qed

definition sent_hosts :: "cluster \<Rightarrow> pb_node_host list" where
  "sent_hosts c = map (\<lambda>p. \<lparr>nh_host_id = no_host_id (the p), nh_node_id = no_node_id (the p)\<rparr>) (bl_node_hosts (cs_balance c))"

definition sent_vips :: "cluster \<Rightarrow> pb_vip_interval list" where
  "sent_vips c = map (\<lambda>p. pb_vip (the p)) (bl_ipv6_vips (cs_balance c))"

lemma node_host_eta: "\<lparr>no_host_id = no_host_id h, no_node_id = no_node_id h\<rparr> = h" for h :: node_host
  by (cases h) simp

lemma vip_interval_eta:
  "\<lparr>vp_begin_vip = vp_begin_vip v, vp_end_vip = vp_end_vip v, vp_length = vp_length v\<rparr> = v" for v :: vip_interval
  by (cases v) simp

lemma deref_hosts:
  "deref_all (\<lambda>h. \<lparr>nh_host_id = no_host_id h, nh_node_id = no_node_id h\<rparr>) (bl_node_hosts (cs_balance c)) =
     (if None \<in> set (bl_node_hosts (cs_balance c)) then c_panic else c_return (sent_hosts c))"
  by (simp add: deref_all_def sent_hosts_def)

lemma deref_vips:
  "deref_all pb_vip (bl_ipv6_vips (cs_balance c)) =
     (if None \<in> set (bl_ipv6_vips (cs_balance c)) then c_panic else c_return (sent_vips c))"
  by (simp add: deref_all_def sent_vips_def)

lemma c_bind_return: "c_bind (c_return a) f = f a"
  by (simp add: c_bind_def)

lemma sent_back:
  assumes "None \<notin> set (bl_node_hosts (cs_balance c))" and "None \<notin> set (bl_ipv6_vips (cs_balance c))"
  shows "map (\<lambda>v. Some \<lparr>no_host_id = nh_host_id v, no_node_id = nh_node_id v\<rparr>) (sent_hosts c) = bl_node_hosts (cs_balance c)"
    and "map (\<lambda>v. Some (vip_of_pb v)) (sent_vips c) = bl_ipv6_vips (cs_balance c)"
proof -
  have some: "map (\<lambda>p. Some (the p)) ps = ps" if "None \<notin> set ps" for ps :: "'z option list"
    using that by (intro map_idI) (metis option.collapse)
  show "map (\<lambda>v. Some \<lparr>no_host_id = nh_host_id v, no_node_id = nh_node_id v\<rparr>) (sent_hosts c) = bl_node_hosts (cs_balance c)"
    using some [OF assms(1)] by (simp add: sent_hosts_def comp_def node_host_eta)
  show "map (\<lambda>v. Some (vip_of_pb v)) (sent_vips c) = bl_ipv6_vips (cs_balance c)"
    using some [OF assms(2)] by (simp add: sent_vips_def comp_def vip_of_pb_def pb_vip_def vip_interval_eta)
qed

lemma cluster_Create_null:
  "None \<in> set (bl_node_hosts (cs_balance c)) \<or> None \<in> set (bl_ipv6_vips (cs_balance c)) \<Longrightarrow>
    cluster_Create cli c s = (Panic, s)"
  by (auto simp: cluster_Create_def deref_all_def c_bind_def)

lemma cluster_Create_Ok:
  assumes "cluster_Create cli c s = (Ok out, s1)"
    and "None \<notin> set (bl_node_hosts (cs_balance c))" and "None \<notin> set (bl_ipv6_vips (cs_balance c))"
  shows "bl_ipv6_vips (cs_balance out) = bl_ipv6_vips (cs_balance c) @ bl_ipv6_vips (cs_balance c) \<and>
    (\<exists>res. cl_SetCluster cli (cluster_request c (sent_hosts c) (sent_vips c)) s = (Ok res, s1))"
proof -
  have "cluster_Create cli c s = c_bind (grpc_error ''SetCluster''
      (cl_SetCluster cli (cluster_request c (sent_hosts c) (sent_vips c)))) (\<lambda>_.
       c_return (c\<lparr>cs_balance := (cs_balance c)
         \<lparr>bl_name := cs_name c, bl_cluster_type := bl_cluster_type (cs_balance c),
          bl_ipv6_vips := bl_ipv6_vips (cs_balance c) @ map (\<lambda>v. Some (vip_of_pb v)) (sent_vips c)\<rparr>\<rparr>)) s"
    unfolding cluster_Create_def deref_hosts deref_vips using assms(2,3) by (simp only: if_False c_bind_return)
  with assms(1) show ?thesis unfolding sent_back [OF assms(2,3)] by (auto elim!: c_bind_OkE)
qed

text \<open>
  When the creation of the cluster 001 succeeds, the answer has every address interval of the
  request twice. A later read gives the cluster's name, type, hosts and intervals as they were
  sent, unless the service has refused the creation. A null among the hosts or the intervals of
  the request makes the handler panic.
\<close>

theorem cluster_create_then_get:
  assumes "cluster_contract V cli" and "cs_id c = ''001''" and "cs_oper_type c = 1"
  shows "(None \<in> set (bl_node_hosts (cs_balance c)) \<or> None \<in> set (bl_ipv6_vips (cs_balance c)) \<longrightarrow>
      cluster_Create cli c s = (Panic, s)) \<and>
    (cluster_Create cli c s = (Ok out, s1) \<longrightarrow>
      bl_ipv6_vips (cs_balance out) = bl_ipv6_vips (cs_balance c) @ bl_ipv6_vips (cs_balance c) \<and>
      (V s1 \<noteq> V s \<and> cluster_Get cli s1 = (Ok got, s2) \<longrightarrow>
        cs_name got = cs_name c \<and> bl_cluster_type (cs_balance got) = bl_cluster_type (cs_balance c) \<and>
        bl_node_hosts (cs_balance got) = bl_node_hosts (cs_balance c) \<and>
        bl_ipv6_vips (cs_balance got) = bl_ipv6_vips (cs_balance c)))"
proof (intro conjI impI)
  show "cluster_Create cli c s = (Panic, s)"
    if "None \<in> set (bl_node_hosts (cs_balance c)) \<or> None \<in> set (bl_ipv6_vips (cs_balance c))"
    using that by (auto simp: cluster_Create_def deref_all_def c_bind_def)
  assume create: "cluster_Create cli c s = (Ok out, s1)"
  have "\<not> (None \<in> set (bl_node_hosts (cs_balance c)) \<or> None \<in> set (bl_ipv6_vips (cs_balance c)))"
  proof
    assume "None \<in> set (bl_node_hosts (cs_balance c)) \<or> None \<in> set (bl_ipv6_vips (cs_balance c))"
    from cluster_Create_null [OF this, of cli s] create show False by simp
  qed
  then have ok: "None \<notin> set (bl_node_hosts (cs_balance c))" "None \<notin> set (bl_ipv6_vips (cs_balance c))" by simp_all
  from cluster_Create_Ok [OF create ok] obtain res where
    out: "bl_ipv6_vips (cs_balance out) = bl_ipv6_vips (cs_balance c) @ bl_ipv6_vips (cs_balance c)"
    and set: "cl_SetCluster cli (cluster_request c (sent_hosts c) (sent_vips c)) s = (Ok res, s1)"
    by blast
  show "bl_ipv6_vips (cs_balance out) = bl_ipv6_vips (cs_balance c) @ bl_ipv6_vips (cs_balance c)"
    by (rule out)
  assume get: "V s1 \<noteq> V s \<and> cluster_Get cli s1 = (Ok got, s2)"
  let ?bi = "empty_balance_info
      \<lparr>bi_cluster_name := cs_name c, bi_cluster_type := bl_cluster_type (cs_balance c),
       bi_node_host := sent_hosts c, bi_balance_type := BalanceTypeHash, bi_ipv6_vip := sent_vips c\<rparr>"
  from contract_set [OF assms(1) set] get have "V s1 = (V s)(''001'' \<mapsto> ?bi)"
    by (simp add: operate_cluster_def cluster_request_def assms)
  with get contract_query [OF assms(1)] have "got = empty_cluster
         \<lparr>cs_id := DefaultClusterID, cs_name := bi_cluster_name ?bi,
          cs_balance := (cs_balance empty_cluster)
            \<lparr>bl_name := bi_cluster_name ?bi, bl_cluster_type := bi_cluster_type ?bi,
             bl_node_hosts := map (\<lambda>v. Some \<lparr>no_host_id = nh_host_id v, no_node_id = nh_node_id v\<rparr>) (bi_node_host ?bi),
             bl_ipv6_vips := map (\<lambda>v. Some (vip_of_pb v)) (bi_ipv6_vip ?bi)\<rparr>\<rparr>"
    unfolding cluster_Get_def DefaultClusterID_def by (auto elim!: c_bind_OkE)
  then show "cs_name got = cs_name c" "bl_cluster_type (cs_balance got) = bl_cluster_type (cs_balance c)"
    "bl_node_hosts (cs_balance got) = bl_node_hosts (cs_balance c)"
    "bl_ipv6_vips (cs_balance got) = bl_ipv6_vips (cs_balance c)"
    by (simp_all add: sent_back [OF ok])
qed

definition some_cluster :: cluster where
  "some_cluster = empty_cluster\<lparr>cs_id := ''001'', cs_name := ''edge'', cs_oper_type := 1,
     cs_balance := (cs_balance empty_cluster)\<lparr>bl_node_hosts := [Some \<lparr>no_host_id = ''d1'', no_node_id = ''n1''\<rparr>],
       bl_ipv6_vips := [Some \<lparr>vp_begin_vip = ''2001:db8::1'', vp_end_vip = ''2001:db8::9'', vp_length = 96\<rparr>]\<rparr>\<rparr>"

lemma cluster_create_then_get_witness:
  "\<exists>out s1. cluster_Create cluster_client some_cluster Map.empty = (Ok out, s1) \<and>
    length (bl_ipv6_vips (cs_balance out)) = 2"
proof -
  obtain out s1 where ok: "cluster_Create cluster_client some_cluster Map.empty = (Ok out, s1)"
    by (simp add: cluster_Create_def cluster_client_def some_cluster_def empty_cluster_def deref_all_def
        c_bind_def grpc_error_def server_error_def c_map_err_def)
  from cluster_create_then_get [OF cluster_client_ok, of some_cluster Map.empty out s1] ok
  show ?thesis by (simp add: some_cluster_def empty_cluster_def)
qed

section \<open>Properties of the figures\<close>

lemma count_visits:
  "fold (count_visit site) visits gv =
     \<lparr>gv_website_visits = gv_website_visits gv @ filter (\<lambda>v. wv_domain v = wr_src_domain site) visits,
      gv_count = gv_count gv + sum_list (map wv_count (filter (\<lambda>v. wv_domain v = wr_src_domain site) visits))\<rparr>"
  by (induction visits arbitrary: gv) (simp_all add: count_visit_def add.assoc)

definition group_matches :: "website_visit list \<Rightarrow> website_req_info list \<Rightarrow> website_visit list" where
  "group_matches visits sites = concat (map (\<lambda>site. filter (\<lambda>v. wv_domain v = wr_src_domain site) visits) sites)"

lemma group_visit_eq:
  "group_visit_of visits sites =
     \<lparr>gv_website_visits = group_matches visits sites, gv_count = sum_list (map wv_count (group_matches visits sites))\<rparr>"
proof -
  have "fold (\<lambda>site. fold (count_visit site) visits) sites gv =
     \<lparr>gv_website_visits = gv_website_visits gv @ group_matches visits sites,
      gv_count = gv_count gv + sum_list (map wv_count (group_matches visits sites))\<rparr>" for gv
    by (induction sites arbitrary: gv) (simp_all add: group_matches_def count_visits add.assoc)
  then show ?thesis by (simp add: group_visit_of_def)
qed

lemma unat_sum_list: "unat (sum_list (xs :: 'a::len word list)) = sum_list (map unat xs) mod 2 ^ LENGTH('a)"
  by (induction xs) (simp_all add: unat_word_ariths mod_simps)

text \<open>
  The visits of a group are, for each of its sites in order, the figures of the domains that
  are the source of the site, so that a domain that is the source of two sites is counted twice;
  the count is the sum of the figures modulo 2 to the 64. The totals of domains, addresses and
  nodes are sums modulo 2 to the 32.
\<close>

theorem home_page_totals:
  "gv_website_visits (group_visit_of visits sites) =
     concat (map (\<lambda>site. filter (\<lambda>v. wv_domain v = wr_src_domain site) visits) sites) \<and>
   unat (gv_count (group_visit_of visits sites)) =
     (\<Sum>site \<leftarrow> sites. \<Sum>v \<leftarrow> filter (\<lambda>v. wv_domain v = wr_src_domain site) visits. unat (wv_count v)) mod 2 ^ 64 \<and>
   unat (hm_domains_count (home_page_of resp)) =
     (unat (hp_domain_is_normal resp) + unat (hp_domain_is_abnormal resp)) mod 2 ^ 32 \<and>
   unat (hm_ipv6_address_count (home_page_of resp)) =
     (unat (hp_normal_ipv6_ipaddr_number resp) + unat (hp_abnormal_ipv6_ipaddr_number resp)) mod 2 ^ 32 \<and>
   unat (hm_nodes_count (home_page_of resp)) =
     (unat (hp_normal_node_number resp) + unat (hp_abnormal_node_number resp)) mod 2 ^ 32"
proof -
  have "(\<Sum>x \<leftarrow> concat xss. f x) = (\<Sum>xs \<leftarrow> xss. \<Sum>x \<leftarrow> xs. f x)" for f :: "website_visit \<Rightarrow> nat" and xss
    by (induction xss) simp_all
  then show ?thesis
    by (simp add: group_visit_eq group_matches_def unat_sum_list comp_def home_page_of_def unat_word_ariths)
qed

text \<open>The services answer every question about traffic, with the figures that \<open>F\<close> gives.\<close>

definition flow_laws :: "(string \<Rightarrow> device_flow_data list) \<Rightarrow> 'g grpc_client \<Rightarrow> bool" where
  "flow_laws F cli \<longleftrightarrow> (\<forall>i g. cl_ShowHomePageFlowData cli i g = (Ok (F i), g))"

definition host_of :: "string \<Rightarrow> device_flow_data \<Rightarrow> host" where
  "host_of i f = \<lparr>ho_id = i, ho_v4_up_flow = df_v4_up_bytes f, ho_v4_down_flow = df_v4_down_bytes f,
     ho_v6_up_flow = df_v6_up_bytes f, ho_v6_down_flow = df_v6_down_bytes f, ho_timestamp = df_timestamp f\<rparr>"

lemma show_flow_eq:
  "show_flow (empty_host i) flows = (if flows = [] then c_panic else c_return (host_of i (last flows)))"
  by (simp add: show_flow_def Let_def empty_host_def host_of_def last_conv_nth)

lemma list_hosts_eq:
  assumes "flow_laws F cli"
  shows "list_hosts cli hosts s =
    (if \<exists>h \<in> set hosts. F (nh_host_id h) = [] then (Panic, s)
     else (Ok (map (\<lambda>h. host_of (nh_host_id h) (last (F (nh_host_id h)))) hosts), s))"
proof (induction hosts)
  case (Cons h hosts)
  have call: "grpc_error c (cl_ShowHomePageFlowData cli i) s = (Ok (F i), s)" for c i
    using assms by (simp add: flow_laws_def)
  show ?case using Cons by (simp add: call c_bind_def show_flow_eq)
qed simp

text \<open>
  When the services answer, the list of hosts shows for each host of the cluster, in the
  order of the cluster, the last of its figures; the handler panics exactly if a host has no
  figures yet.
\<close>

theorem host_list_shows_last:
  assumes "flow_laws F cli" and "cl_QryOneCluster cli ''001'' s = (Ok rsp, s1)"
    and "hosts = (case cd_socs_info rsp of Some socs \<Rightarrow> bi_node_host socs | None \<Rightarrow> [])"
  shows "host_List cli s =
    (if \<exists>h \<in> set hosts. F (nh_host_id h) = [] then (Panic, s1)
     else (Ok (map (\<lambda>h. host_of (nh_host_id h) (last (F (nh_host_id h)))) hosts), s1))"
proof -
  have "host_List cli s = list_hosts cli hosts s1"
    using assms(2) unfolding host_List_def DefaultClusterID_def assms(3)
    by (intro c_bind_step(1)) simp
  then show ?thesis by (simp add: list_hosts_eq [OF assms(1)])
qed

lemma host_list_shows_last_witness:
  "\<exists>s. map ho_id (case fst (host_List cluster_client s) of Ok hosts \<Rightarrow> hosts | _ \<Rightarrow> []) = [''d1'', ''d2'']"
proof -
  let ?s = "[''001'' \<mapsto> default_info (cf_vip some_conf) [''d1'', ''d2'']]"
  let ?f = "\<lparr>df_v4_up_bytes = 1, df_v4_down_bytes = 2, df_v6_up_bytes = 3, df_v6_down_bytes = 4,
    df_connections = 5, df_timestamp = 6\<rparr>"
  have laws: "flow_laws (\<lambda>i. [?f]) cluster_client" by (simp add: flow_laws_def cluster_client_def)
  obtain rsp where q: "cl_QryOneCluster cluster_client ''001'' ?s = (Ok rsp, ?s)"
    and socs: "cd_socs_info rsp = Some (default_info (cf_vip some_conf) [''d1'', ''d2''])"
    by (simp add: cluster_client_def)
  have hosts: "[\<lparr>nh_host_id = ''d1'', nh_node_id = ''d1''\<rparr>, \<lparr>nh_host_id = ''d2'', nh_node_id = ''d2''\<rparr>] =
      (case cd_socs_info rsp of Some socs \<Rightarrow> bi_node_host socs | None \<Rightarrow> [])"
    by (simp add: socs default_info_def)
  have "host_List cluster_client ?s = (Ok [host_of ''d1'' ?f, host_of ''d2'' ?f], ?s)"
    unfolding host_list_shows_last [OF laws q hosts] by simp
  then have "map ho_id (case fst (host_List cluster_client ?s) of Ok hosts \<Rightarrow> hosts | _ \<Rightarrow> []) = [''d1'', ''d2'']"
    by (simp only: fst_conv res.case list.map host_of_def host.select_convs)
  then show ?thesis by (rule exI [of _ ?s])
qed

end
