(* ===== verification/Startup.thy ===== *)
theory Startup
  imports SessionProps ClusterHandler
begin

text \<open>
  The start of the controller: \<open>cmd/controller/controller.go\<close>, \<open>server/server.go\<close>,
  \<open>pkg/db/db.go\<close>, and the registrations in \<open>pkg/metric/metric.go\<close>, \<open>pkg/auth/auth.go\<close>,
  \<open>pkg/log/log.go\<close> and \<open>pkg/business/business.go\<close>. It runs the start-up of the handlers in the
  order of the program, on the state of the whole process.
\<close>

section \<open>The process\<close>

text \<open>The types of the resources, and the version under which a type is imported. Those of the DNS
  service are named in the documentation tool alone; the service is not in the repository.\<close>

datatype dns_type =
  AclType | ViewType | ZoneType | ForwardZoneType | RrType | ForwardType | IpBlackHoleType |
  RecursiveConcurrentType | RedirectionType | DnsGlobalConfigType | UrlRedirectType

datatype resource_type =
  AuditLogType | DdiuserType | RoleType | UserGroupType | UserRoleType | WhiteListType | NodeType |
  ClusterType6 | HomePageType | HostType | WebGroupType | WebsiteType | BalanceType | VipIntervalType |
  DnsType dns_type

record api_version =
  av_version :: string
  av_group :: string

type_synonym schema = "api_version \<times> resource_type"

datatype middle_ware = JWTMiddleWare | AuditLogger

type_synonym file_store = "string \<Rightarrow> string option"

record ('d, 'g) process =
  ps_conf :: "ddi_config option"
  ps_resources :: "resource_type list"
  ps_template :: "role_template option"
  ps_world :: "'d aworld"
  ps_grpc :: 'g
  ps_routes :: "(string \<times> string) list"
  ps_use :: "middle_ware list"
  ps_end_use :: "middle_ware list"
  ps_schemas :: "schema list"
  ps_files :: file_store
  ps_serving :: "(string \<times> string \<times> string) option"

text \<open>
  What is outside the repository: the configuration and role files, opening the database for a
  connection string and the registered resources, dialling, importing a schema (which panics
  when the library refuses it), making a certificate, and the file operations.
\<close>

record ('d, 'g) outside =
  ou_load :: loader
  ou_open_db :: "string \<Rightarrow> resource_type list \<Rightarrow> 'd \<Rightarrow> gerror option \<times> 'd"
  ou_dial :: "string \<Rightarrow> gerror option"
  ou_read_roles :: "string \<Rightarrow> (gerror, role_template) res"
  ou_import_ok :: "schema list \<Rightarrow> schema \<Rightarrow> bool"
  ou_certificate :: "string \<Rightarrow> nat \<Rightarrow> (gerror, string \<times> string) res"
  ou_stat :: "string \<Rightarrow> file_store \<Rightarrow> gerror option"
  ou_is_exist :: "gerror \<Rightarrow> bool"
  ou_write_file :: "string \<Rightarrow> string \<Rightarrow> file_store \<Rightarrow> gerror option \<times> file_store"
  ou_db :: "'d auth_db"
  ou_client :: "'g grpc_client"
  ou_order :: "string list \<Rightarrow> string list"

type_synonym ('d, 'g, 'a) boot = "(('d, 'g) process, gerror, 'a) comp"

text \<open>A computation on a part of the process.\<close>

definition on_part ::
  "('s \<Rightarrow> 'p) \<Rightarrow> ('p \<Rightarrow> 's \<Rightarrow> 's) \<Rightarrow> ('p, 'e, 'a) comp \<Rightarrow> ('s, 'e, 'a) comp" where
  "on_part get put m = (\<lambda>s. case m (get s) of (r, p) \<Rightarrow> (r, put p s))"

definition on_world :: "('d aworld, gerror, 'a) comp \<Rightarrow> ('d, 'g, 'a) boot" where
  "on_world = on_part ps_world (\<lambda>w. ps_world_update (\<lambda>_. w))"

definition on_grpc :: "('g, gerror, 'a) comp \<Rightarrow> ('d, 'g, 'a) boot" where
  "on_grpc = on_part ps_grpc (\<lambda>g. ps_grpc_update (\<lambda>_. g))"

text \<open>A call whose error is dropped, and a step that fails with an optional error.\<close>

definition drop_error :: "('s, 'e, unit) comp \<Rightarrow> ('s, 'e, unit) comp" where
  "drop_error m = (\<lambda>s. case m s of (Err e, s') \<Rightarrow> (Ok (), s') | out \<Rightarrow> out)"

definition fail_if :: "'e option \<Rightarrow> ('s, 'e, unit) comp" where
  "fail_if err = (case err of None \<Rightarrow> c_return () | Some e \<Rightarrow> c_fail e)"

section \<open>Registrations\<close>

definition v1 :: "string \<Rightarrow> api_version" where
  "v1 grp = \<lparr>av_version = ''v1'', av_group = grp\<rparr>"

definition MustImport :: "('d, 'g) outside \<Rightarrow> api_version \<Rightarrow> resource_type \<Rightarrow> ('d, 'g, unit) boot" where
  "MustImport X version r = (\<lambda>s.
     if ou_import_ok X (ps_schemas s) (version, r)
     then (Ok (), s\<lparr>ps_schemas := ps_schemas s @ [(version, r)]\<rparr>) else (Panic, s))"

text \<open>\<open>authorization.InitAuthorization\<close>.\<close>

definition readRoleConfig :: "('d, 'g) outside \<Rightarrow> ('d, 'g, unit) boot" where
  "readRoleConfig X =
     c_bind (c_gets ps_conf) (\<lambda>conf. c_bind (deref conf) (\<lambda>conf.
       c_bind (c_lift (ou_read_roles X (sc_role_conf (cf_server conf)))) (\<lambda>tmpl.
         c_modify (ps_template_update (\<lambda>_. Some tmpl)))))"

text \<open>The handlers of the auth resources work on the role template read before.\<close>

definition auth_env_of :: "('d, 'g) outside \<Rightarrow> role_template \<Rightarrow> 'd auth_env" where
  "auth_env_of X tmpl = \<lparr>env_db = ou_db X, env_template = tmpl, env_order = ou_order X\<rparr>"

definition auth_types :: "resource_type list" where
  "auth_types = [DdiuserType, RoleType, UserGroupType, WhiteListType]"

definition auth_RegisterHandler :: "('d, 'g) outside \<Rightarrow> ('d, 'g, unit) boot" where
  "auth_RegisterHandler X =
     (let Version = v1 ''linkingthing.com/auth'' in
      c_bind (readRoleConfig X) (\<lambda>_.
      c_bind (c_gets ps_template) (\<lambda>t. c_bind (deref t) (\<lambda>tmpl.
      c_bind (on_world (NewUserHandler (auth_env_of X tmpl))) (\<lambda>_.
      c_bind (c_gets ps_conf) (\<lambda>conf. c_bind (deref conf) (\<lambda>conf.
      c_bind (on_world (NewWhiteListHandler (auth_env_of X tmpl) (sc_ip (cf_server conf)))) (\<lambda>_.
      c_forM auth_types (MustImport X Version)))))))))"

definition metric_RegisterHandler :: "('d, 'g) outside \<Rightarrow> ('d, 'g, unit) boot" where
  "metric_RegisterHandler X =
     c_bind (c_gets ps_conf) (\<lambda>conf. c_bind (deref conf) (\<lambda>_.
       MustImport X (v1 ''linkingthing.com/metric'') NodeType))"

definition log_RegisterHandler :: "('d, 'g) outside \<Rightarrow> ('d, 'g, unit) boot" where
  "log_RegisterHandler X =
     c_bind (MustImport X (v1 ''linkingthing.com/log'') AuditLogType) (\<lambda>_.
       c_modify (ps_end_use_update (\<lambda>hs. hs @ [AuditLogger])))"

definition business_types :: "resource_type list" where
  "business_types =
     [ClusterType6, HomePageType, HostType, WebGroupType, WebsiteType, BalanceType, VipIntervalType]"

definition business_RegisterHandler :: "('d, 'g) outside \<Rightarrow> ('d, 'g, unit) boot" where
  "business_RegisterHandler X =
     c_bind (c_gets ps_conf) (\<lambda>conf.
     c_bind (c_map_err (\<lambda>e. ''new cluster handler err:'' @ e)
         (on_grpc (NewClusterHandler (ou_client X) conf))) (\<lambda>_.
       c_forM business_types (MustImport X (v1 ''trymanytimes/business''))))"

text \<open>\<open>PersistentResources\<close> of the two packages that the controller registers with the
  database.\<close>

definition log_PersistentResources :: "resource_type list" where
  "log_PersistentResources = [AuditLogType]"

definition auth_PersistentResources :: "resource_type list" where
  "auth_PersistentResources = [DdiuserType, RoleType, UserGroupType, UserRoleType, WhiteListType]"

text \<open>That of the metric package, which the controller does not register.\<close>

definition metric_PersistentResources :: "resource_type list" where
  "metric_PersistentResources = [NodeType]"

definition RegisterResources :: "resource_type list \<Rightarrow> ('d, 'g, unit) boot" where
  "RegisterResources rs = c_modify (ps_resources_update (\<lambda>old. old @ rs))"

definition conn_str :: "db_conf \<Rightarrow> string" where
  "conn_str c = ''user='' @ db_user c @ '' password='' @ db_password c @ '' host='' @ db_host c @
     '' port='' @ itoa (db_port c) @ '' database='' @ db_name c @ '' sslmode=disable pool_max_conns=10''"

definition db_Init :: "('d, 'g) outside \<Rightarrow> ddi_config \<Rightarrow> ('d, 'g, unit) boot" where
  "db_Init X conf = (\<lambda>s.
     case ou_open_db X (conn_str (cf_db conf)) (ps_resources s) (w_db (ps_world s)) of (err, d) \<Rightarrow>
       fail_if err (s\<lparr>ps_world := (ps_world s)\<lparr>w_db := d\<rparr>\<rparr>))"

section \<open>The server\<close>

definition defaultTlsCertFile :: string where "defaultTlsCertFile = ''tls_cert.crt''"
definition defaultTlsKeyFile :: string where "defaultTlsKeyFile = ''tls_key.key''"

text \<open>The router serves the files below \<open>/public\<close> for GET and HEAD, as \<open>StaticFS\<close> has it.\<close>

definition NewServer :: "('d, 'g, unit) boot" where
  "NewServer = c_modify (\<lambda>s.
     s\<lparr>ps_routes := [(''GET'', ''/public/*filepath''), (''HEAD'', ''/public/*filepath''), (''POST'', ''/login''), (''GET'', ''/'')],
       ps_use := [JWTMiddleWare], ps_end_use := [], ps_schemas := []\<rparr>)"

definition write_file :: "('d, 'g) outside \<Rightarrow> string \<Rightarrow> string \<Rightarrow> ('d, 'g, unit) boot" where
  "write_file X name content = (\<lambda>s.
     case ou_write_file X name content (ps_files s) of (err, fs) \<Rightarrow> fail_if err (s\<lparr>ps_files := fs\<rparr>))"

definition createSelfSignedTlsCert :: "('d, 'g) outside \<Rightarrow> ('d, 'g, unit) boot" where
  "createSelfSignedTlsCert X = (\<lambda>s.
     let err = ou_stat X defaultTlsCertFile (ps_files s) in
       if err \<noteq> None \<and> ou_is_exist X (the err) then (Ok (), s)
       else c_bind (c_lift (ou_certificate X ''ddi.linkingthing.com'' 7300)) (\<lambda>cert.
         c_bind (write_file X defaultTlsCertFile (fst cert)) (\<lambda>_.
           write_file X defaultTlsKeyFile (snd cert))) s)"

text \<open>Running the server ends the start: from then on it serves, at an address with a certificate
  and a key.\<close>

definition server_Run :: "('d, 'g) outside \<Rightarrow> ddi_config \<Rightarrow> ('d, 'g, unit) boot" where
  "server_Run X conf =
     (let serve = (\<lambda>cert key. c_modify (ps_serving_update (\<lambda>_. Some ('':'' @ sc_port (cf_server conf), cert, key))))
      in if sc_tls_cert_file (cf_server conf) = []
         then c_bind (createSelfSignedTlsCert X) (\<lambda>_. serve defaultTlsCertFile defaultTlsKeyFile)
         else serve (sc_tls_cert_file (cf_server conf)) (sc_tls_key_file (cf_server conf)))"

section \<open>The main program\<close>

text \<open>An error is logged as fatal, which ends the process. The errors of three registrations are
  dropped.\<close>

definition fatal :: "string \<Rightarrow> ('s, gerror, 'a) comp \<Rightarrow> ('s, gerror, 'a) comp" where
  "fatal what = c_map_err (\<lambda>e. what @ '' failed: '' @ e)"

definition controller_main :: "('d, 'g) outside \<Rightarrow> string \<Rightarrow> ('d, 'g, unit) boot" where
  "controller_main X configFile =
     c_bind (fatal ''load config file'' (on_part ps_conf (\<lambda>c. ps_conf_update (\<lambda>_. c)) (LoadConfig (ou_load X) configFile))) (\<lambda>conf.
     c_bind (RegisterResources log_PersistentResources) (\<lambda>_.
     c_bind (RegisterResources auth_PersistentResources) (\<lambda>_.
     c_bind (fatal ''init db'' (db_Init X conf)) (\<lambda>_.
     c_bind (fatal ''dail grpc'' (fail_if (ou_dial X (ac_grpc_addr (cf_api_server conf))))) (\<lambda>_.
     c_bind (if length (str_split (CHR '':'') (sc_grpc_addr (cf_server conf))) < 2
       then c_fail ''grpc address is not correct'' else c_return ()) (\<lambda>_.
     c_bind NewServer (\<lambda>_.
     c_bind (drop_error (metric_RegisterHandler X)) (\<lambda>_.
     c_bind (fatal ''register auth'' (auth_RegisterHandler X)) (\<lambda>_.
     c_bind (drop_error (log_RegisterHandler X)) (\<lambda>_.
     c_bind (drop_error (business_RegisterHandler X)) (\<lambda>_.
     fatal ''server run'' (server_Run X conf))))))))))))"

section \<open>What each step leaves\<close>

lemma import_all:
  "c_forM rs (MustImport X v) s = (r, s') \<Longrightarrow> r = Panic \<or>
    r = Ok () \<and> s' = s\<lparr>ps_schemas := ps_schemas s @ map (Pair v) rs\<rparr>"
proof (induction rs arbitrary: s)
  case (Cons t rs)
  then show ?case
    by (cases "ou_import_ok X (ps_schemas s) (v, t)") (force simp: MustImport_def c_bind_def)+
qed simp

lemma deref_Ok: "deref x s = (Ok a, s') \<longleftrightarrow> x = Some a \<and> s' = s"
  by (cases x) (auto simp: deref_def)

lemma on_world_Ok: "on_world m s = (Ok a, s') \<longleftrightarrow> (\<exists>w. m (ps_world s) = (Ok a, w) \<and> s' = s\<lparr>ps_world := w\<rparr>)"
  by (auto simp: on_world_def on_part_def split: prod.splits)

lemma fatal_Ok: "fatal what m s = (Ok a, s') \<longleftrightarrow> m s = (Ok a, s')"
  by (auto simp: fatal_def c_map_err_def split: prod.splits)

lemma drop_error_Ok: "drop_error m s = (Ok (), s') \<longleftrightarrow> (\<exists>r. m s = (r, s') \<and> r \<noteq> Panic)"
  by (auto simp: drop_error_def split: prod.splits res.splits)

lemma auth_registered:
  assumes "auth_RegisterHandler X s = (Ok (), s')" and "ps_conf s = Some conf"
  obtains tmpl w1 w2 where "ou_read_roles X (sc_role_conf (cf_server conf)) = Ok tmpl"
    and "NewUserHandler (auth_env_of X tmpl) (ps_world s) = (Ok (), w1)"
    and "NewWhiteListHandler (auth_env_of X tmpl) (sc_ip (cf_server conf)) w1 = (Ok (), w2)"
    and "s' = s\<lparr>ps_template := Some tmpl, ps_world := w2, ps_schemas := ps_schemas s @
      map (Pair (v1 ''linkingthing.com/auth'')) auth_types\<rparr>"
proof -
  from assms(1) obtain s1 t tmpl s2 conf' s3 where
    "readRoleConfig X s = (Ok (), s1)" "ps_template s1 = Some tmpl"
    "on_world (NewUserHandler (auth_env_of X tmpl)) s1 = (Ok (), s2)" "ps_conf s2 = Some conf'"
    "on_world (NewWhiteListHandler (auth_env_of X tmpl) (sc_ip (cf_server conf'))) s2 = (Ok (), s3)"
    and all: "c_forM auth_types
      (MustImport X (v1 ''linkingthing.com/auth'')) s3 = (Ok (), s')"
    unfolding auth_RegisterHandler_def Let_def by (elim c_bind_OkE) (auto simp: deref_Ok)
  then obtain w1 w2 where *: "ou_read_roles X (sc_role_conf (cf_server conf)) = Ok tmpl"
    "NewUserHandler (auth_env_of X tmpl) (ps_world s) = (Ok (), w1)"
    "NewWhiteListHandler (auth_env_of X tmpl) (sc_ip (cf_server conf)) w1 = (Ok (), w2)"
    "s3 = s\<lparr>ps_template := Some tmpl, ps_world := w2\<rparr>"
    using assms(2) unfolding readRoleConfig_def
    by (elim c_bind_OkE) (auto simp: deref_Ok on_world_Ok)
  with that import_all [OF all] show thesis by simp
qed

lemma business_registered:
  assumes "drop_error (business_RegisterHandler X) s = (Ok (), s')"
  obtains r g where "NewClusterHandler (ou_client X) (ps_conf s) (ps_grpc s) = (r, g)" and "r \<noteq> Panic"
    and "s' = s\<lparr>ps_grpc := g, ps_schemas := ps_schemas s @ (if r = Ok () then
      map (Pair (v1 ''trymanytimes/business'')) business_types else [])\<rparr>"
proof -
  obtain r g where run: "NewClusterHandler (ou_client X) (ps_conf s) (ps_grpc s) = (r, g)" by fastforce
  have eq: "business_RegisterHandler X s = (case r of
      Ok _ \<Rightarrow> c_forM business_types (MustImport X (v1 ''trymanytimes/business'')) (s\<lparr>ps_grpc := g\<rparr>)
      | Err e \<Rightarrow> (Err (''new cluster handler err:'' @ e), s\<lparr>ps_grpc := g\<rparr>)
      | Panic \<Rightarrow> (Panic, s\<lparr>ps_grpc := g\<rparr>))"
    by (cases r) (simp_all add: business_RegisterHandler_def c_bind_def c_map_err_def on_grpc_def on_part_def run)
  from assms obtain r' where r': "business_RegisterHandler X s = (r', s')" "r' \<noteq> Panic"
    by (auto simp: drop_error_Ok)
  show thesis
  proof (cases r)
    case (Ok u)
    with eq r'(1) have "c_forM business_types (MustImport X (v1 ''trymanytimes/business'')) (s\<lparr>ps_grpc := g\<rparr>) = (r', s')"
      by simp
    from import_all [OF this] r'(2) Ok that [OF run] show thesis by simp
  qed (use eq r' that [OF run] in auto)
qed

text \<open>The documented behaviour of the file operations: looking at a path never fails because the
  path exists, and a write without an error replaces the file.\<close>

definition file_laws :: "('d, 'g) outside \<Rightarrow> bool" where
  "file_laws X \<longleftrightarrow>
     (\<forall>name fs e. ou_stat X name fs = Some e \<longrightarrow> \<not> ou_is_exist X e) \<and>
     (\<forall>name content fs fs'. ou_write_file X name content fs = (None, fs') \<longrightarrow> fs' = fs(name \<mapsto> content))"

lemma write_file_Ok:
  "file_laws X \<Longrightarrow> write_file X name content s = (Ok (), s') \<Longrightarrow> s' = s\<lparr>ps_files := (ps_files s)(name \<mapsto> content)\<rparr>"
  by (auto simp: write_file_def fail_if_def file_laws_def split: prod.splits option.splits)

lemma certificate_made:
  assumes "file_laws X" and "createSelfSignedTlsCert X s = (Ok (), s')"
  obtains c where "ou_certificate X ''ddi.linkingthing.com'' 7300 = Ok c"
    and "s' = s\<lparr>ps_files := (ps_files s)(defaultTlsCertFile \<mapsto> fst c, defaultTlsKeyFile \<mapsto> snd c)\<rparr>"
proof -
  have "\<not> (ou_stat X defaultTlsCertFile (ps_files s) \<noteq> None \<and>
      ou_is_exist X (the (ou_stat X defaultTlsCertFile (ps_files s))))"
    using assms(1) by (auto simp: file_laws_def)
  with assms(2) have "c_bind (c_lift (ou_certificate X ''ddi.linkingthing.com'' 7300)) (\<lambda>cert.
      c_bind (write_file X defaultTlsCertFile (fst cert)) (\<lambda>_.
        write_file X defaultTlsKeyFile (snd cert))) s = (Ok (), s')"
    unfolding createSelfSignedTlsCert_def Let_def by (simp only: if_False)
  then obtain c s1 where c: "ou_certificate X ''ddi.linkingthing.com'' 7300 = Ok c"
    and one: "write_file X defaultTlsCertFile (fst c) s = (Ok (), s1)"
    and two: "write_file X defaultTlsKeyFile (snd c) s1 = (Ok (), s')"
    by (elim c_bind_OkE) simp
  show thesis
    by (rule that [OF c]) (simp add: write_file_Ok [OF assms(1) two] write_file_Ok [OF assms(1) one])
qed

abbreviation serving :: "ddi_config \<Rightarrow> string \<Rightarrow> string \<Rightarrow> (string \<times> string \<times> string) option" where
  "serving conf cert key \<equiv> Some ('':'' @ sc_port (cf_server conf), cert, key)"

lemma server_runs:
  assumes "file_laws X" and "server_Run X conf s = (Ok (), s')"
  shows "if sc_tls_cert_file (cf_server conf) = []
    then \<exists>c. ou_certificate X ''ddi.linkingthing.com'' 7300 = Ok c \<and>
      s' = s\<lparr>ps_files := (ps_files s)(defaultTlsCertFile \<mapsto> fst c, defaultTlsKeyFile \<mapsto> snd c),
        ps_serving := serving conf defaultTlsCertFile defaultTlsKeyFile\<rparr>
    else s' = s\<lparr>ps_serving := serving conf (sc_tls_cert_file (cf_server conf)) (sc_tls_key_file (cf_server conf))\<rparr>"
proof (cases "sc_tls_cert_file (cf_server conf) = []")
  case True
  with assms(2) obtain s1 where made: "createSelfSignedTlsCert X s = (Ok (), s1)"
    and s': "s' = s1\<lparr>ps_serving := serving conf defaultTlsCertFile defaultTlsKeyFile\<rparr>"
    unfolding server_Run_def Let_def by (auto elim: c_bind_OkE)
  from certificate_made [OF assms(1) made] obtain c where "ou_certificate X ''ddi.linkingthing.com'' 7300 = Ok c"
    and "s1 = s\<lparr>ps_files := (ps_files s)(defaultTlsCertFile \<mapsto> fst c, defaultTlsKeyFile \<mapsto> snd c)\<rparr>" .
  with s' True show ?thesis by simp
qed (use assms(2) in \<open>simp add: server_Run_def Let_def\<close>)

lemma metric_registered:
  assumes "drop_error (metric_RegisterHandler X) s = (Ok (), s')" and "ps_conf s = Some conf"
  shows "s' = s\<lparr>ps_schemas := ps_schemas s @ [(v1 ''linkingthing.com/metric'', NodeType)]\<rparr>"
  using assms
  by (auto simp: drop_error_Ok metric_RegisterHandler_def c_bind_def deref_def MustImport_def split: if_splits)

lemma log_registered:
  assumes "drop_error (log_RegisterHandler X) s = (Ok (), s')"
  shows "s' = s\<lparr>ps_schemas := ps_schemas s @ [(v1 ''linkingthing.com/log'', AuditLogType)],
    ps_end_use := ps_end_use s @ [AuditLogger]\<rparr>"
  using assms
  by (auto simp: drop_error_Ok log_RegisterHandler_def c_bind_def MustImport_def split: if_splits)

section \<open>A start that succeeds\<close>

text \<open>The steps of a start that succeeds.\<close>

lemma RegisterResources_apply [simp]:
  "RegisterResources rs s = (Ok (), s\<lparr>ps_resources := ps_resources s @ rs\<rparr>)"
  by (simp add: RegisterResources_def)

definition new_server :: "('d, 'g) process \<Rightarrow> ('d, 'g) process" where
  "new_server s =
     s\<lparr>ps_routes := [(''GET'', ''/public/*filepath''), (''HEAD'', ''/public/*filepath''), (''POST'', ''/login''), (''GET'', ''/'')],
       ps_use := [JWTMiddleWare], ps_end_use := [], ps_schemas := []\<rparr>"

lemma NewServer_apply [simp]: "NewServer s = (Ok (), new_server s)"
  by (simp add: NewServer_def new_server_def)

definition registered :: "resource_type list" where
  "registered = log_PersistentResources @ auth_PersistentResources"

lemma nodes_not_registered: "set metric_PersistentResources \<inter> set registered = {}"
  by (simp add: metric_PersistentResources_def registered_def log_PersistentResources_def auth_PersistentResources_def)

lemma db_Init_Ok:
  "db_Init X conf s = (Ok (), s') \<longleftrightarrow>
    (\<exists>d. ou_open_db X (conn_str (cf_db conf)) (ps_resources s) (w_db (ps_world s)) = (None, d) \<and>
      s' = s\<lparr>ps_world := (ps_world s)\<lparr>w_db := d\<rparr>\<rparr>)"
  by (auto simp: db_Init_def fail_if_def split: prod.splits option.splits)

lemma config_loaded:
  assumes "on_part ps_conf (\<lambda>c. ps_conf_update (\<lambda>_. c)) (LoadConfig (ou_load X) path) s = (Ok conf, s')"
  shows "cf_path conf = path \<and> s' = s\<lparr>ps_conf := Some conf\<rparr>"
  using assms by (auto simp: on_part_def split: prod.splits dest: LoadConfig_path)

lemma main_steps:
  assumes "controller_main X path s = (Ok (), s')"
  obtains conf d s3 s4 s5 s6 where "cf_path conf = path"
    and "ou_open_db X (conn_str (cf_db conf)) (ps_resources s @ registered) (w_db (ps_world s)) = (None, d)"
    and "drop_error (metric_RegisterHandler X) (new_server (s\<lparr>ps_conf := Some conf,
      ps_resources := ps_resources s @ registered, ps_world := (ps_world s)\<lparr>w_db := d\<rparr>\<rparr>)) = (Ok (), s3)"
    and "auth_RegisterHandler X s3 = (Ok (), s4)"
    and "drop_error (log_RegisterHandler X) s4 = (Ok (), s5)"
    and "drop_error (business_RegisterHandler X) s5 = (Ok (), s6)"
    and "server_Run X conf s6 = (Ok (), s')"
proof -
  from assms obtain conf s0 s1 s3 s4 s5 s6 where
    load: "on_part ps_conf (\<lambda>c. ps_conf_update (\<lambda>_. c)) (LoadConfig (ou_load X) path) s = (Ok conf, s0)"
    and db: "db_Init X conf (s0\<lparr>ps_resources := ps_resources s0 @ registered\<rparr>) = (Ok (), s1)"
    and rest: "drop_error (metric_RegisterHandler X) (new_server s1) = (Ok (), s3)"
      "auth_RegisterHandler X s3 = (Ok (), s4)" "drop_error (log_RegisterHandler X) s4 = (Ok (), s5)"
      "drop_error (business_RegisterHandler X) s5 = (Ok (), s6)" "server_Run X conf s6 = (Ok (), s')"
    unfolding controller_main_def
    by (elim c_bind_OkE) (auto simp: fatal_Ok fail_if_def registered_def split: option.splits if_splits)
  from config_loaded [OF load] db obtain d where
    "ou_open_db X (conn_str (cf_db conf)) (ps_resources s @ registered) (w_db (ps_world s)) = (None, d)"
    "s1 = s\<lparr>ps_conf := Some conf, ps_resources := ps_resources s @ registered, ps_world := (ps_world s)\<lparr>w_db := d\<rparr>\<rparr>"
    by (auto simp: db_Init_Ok)
  with that config_loaded [OF load] rest show thesis by blast
qed

text \<open>The whole process after a start, in terms of the start-up of the handlers.\<close>

lemma main_outcome:
  assumes "controller_main X path s = (Ok (), s')" and "file_laws X"
  obtains conf d tmpl w1 w2 r g where "cf_path conf = path"
    and "ou_open_db X (conn_str (cf_db conf)) (ps_resources s @ registered) (w_db (ps_world s)) = (None, d)"
    and "ou_read_roles X (sc_role_conf (cf_server conf)) = Ok tmpl"
    and "NewUserHandler (auth_env_of X tmpl) ((ps_world s)\<lparr>w_db := d\<rparr>) = (Ok (), w1)"
    and "NewWhiteListHandler (auth_env_of X tmpl) (sc_ip (cf_server conf)) w1 = (Ok (), w2)"
    and "NewClusterHandler (ou_client X) (Some conf) (ps_grpc s) = (r, g)" and "r \<noteq> Panic"
    and "ps_conf s' = Some conf" and "ps_template s' = Some tmpl" and "ps_world s' = w2" and "ps_grpc s' = g"
    and "ps_resources s' = ps_resources s @ registered"
    and "ps_use s' = [JWTMiddleWare]" and "ps_end_use s' = [AuditLogger]"
    and "map snd (ps_schemas s') = NodeType # auth_types @ AuditLogType # (if r = Ok () then business_types else [])"
    and "if sc_tls_cert_file (cf_server conf) = []
      then ps_serving s' = serving conf defaultTlsCertFile defaultTlsKeyFile \<and>
        (\<exists>cert key. ou_certificate X ''ddi.linkingthing.com'' 7300 = Ok (cert, key) \<and>
          ps_files s' = (ps_files s)(defaultTlsCertFile \<mapsto> cert, defaultTlsKeyFile \<mapsto> key))
      else ps_serving s' = serving conf (sc_tls_cert_file (cf_server conf)) (sc_tls_key_file (cf_server conf)) \<and>
        ps_files s' = ps_files s"
proof -
  obtain conf d s3 s4 s5 s6 where path: "cf_path conf = path"
    and db: "ou_open_db X (conn_str (cf_db conf)) (ps_resources s @ registered) (w_db (ps_world s)) = (None, d)"
    and steps: "drop_error (metric_RegisterHandler X) (new_server (s\<lparr>ps_conf := Some conf,
      ps_resources := ps_resources s @ registered, ps_world := (ps_world s)\<lparr>w_db := d\<rparr>\<rparr>)) = (Ok (), s3)"
      "auth_RegisterHandler X s3 = (Ok (), s4)" "drop_error (log_RegisterHandler X) s4 = (Ok (), s5)"
      "drop_error (business_RegisterHandler X) s5 = (Ok (), s6)" "server_Run X conf s6 = (Ok (), s')"
    using main_steps [OF assms(1)] .
  from metric_registered [OF steps(1), of conf] have s3: "ps_conf s3 = Some conf" "ps_files s3 = ps_files s"
    "ps_world s3 = (ps_world s)\<lparr>w_db := d\<rparr>" "ps_grpc s3 = ps_grpc s" "ps_resources s3 = ps_resources s @ registered"
    "ps_use s3 = [JWTMiddleWare]" "ps_end_use s3 = []" "map snd (ps_schemas s3) = [NodeType]"
    by (simp_all add: new_server_def)
  obtain tmpl w1 w2 where auth: "ou_read_roles X (sc_role_conf (cf_server conf)) = Ok tmpl"
      "NewUserHandler (auth_env_of X tmpl) (ps_world s3) = (Ok (), w1)"
      "NewWhiteListHandler (auth_env_of X tmpl) (sc_ip (cf_server conf)) w1 = (Ok (), w2)"
    and s4: "s4 = s3\<lparr>ps_template := Some tmpl, ps_world := w2, ps_schemas := ps_schemas s3 @
      map (Pair (v1 ''linkingthing.com/auth'')) auth_types\<rparr>"
    using auth_registered [OF steps(2) s3(1)] .
  obtain r g where clu: "NewClusterHandler (ou_client X) (ps_conf s5) (ps_grpc s5) = (r, g)" "r \<noteq> Panic"
    and s6: "s6 = s5\<lparr>ps_grpc := g, ps_schemas := ps_schemas s5 @ (if r = Ok () then
      map (Pair (v1 ''trymanytimes/business'')) business_types else [])\<rparr>"
    using business_registered [OF steps(4)] .
  note s5 = log_registered [OF steps(3)]
  show thesis
    by (rule that [OF path db auth(1) _ auth(3) _ clu(2)])
      (use server_runs [OF assms(2) steps(5)] auth(2) clu(1) s3 s4 s5 s6 in
        \<open>auto simp: comp_def split: if_splits\<close>)
qed

end
