(* ===== verification/StartProps.thy ===== *)
theory StartProps
  imports Startup
begin

text \<open>
  A controller that starts for the first time: what the start puts into the empty database, and
  who can log in then.
\<close>

section \<open>The first start\<close>

definition empty_data :: auth_data where
  "empty_data = \<lparr>ad_users = [], ad_roles = [], ad_groups = [], ad_whitelists = []\<rparr>"

definition first_data :: "string \<Rightarrow> string \<Rightarrow> auth_data" where
  "first_data cipher ip = empty_data
     \<lparr>ad_users := [new_user Admin cipher RoleTypeSUPER],
      ad_whitelists := [\<lparr>wl_id = WhiteListID, wl_ips = [], wl_privilege = ip, wl_enabled = False\<rparr>]\<rparr>"

lemma empty_whitelists: "empty_data\<lparr>ad_users := us, ad_whitelists := ls\<rparr> = empty_data\<lparr>ad_users := us\<rparr>\<lparr>ad_whitelists := ls\<rparr>"
  by simp

lemma first_admin:
  assumes "auth_db_ok V (env_db env)" and "order_ok (env_order env)" and "V (w_db w) = empty_data"
  obtains c w' where "NewUserHandler env w = (Ok (), w')" and "Decrypt aesKey c = Ok Admin"
    and "V (w_db w') = empty_data\<lparr>ad_users := [new_user Admin c RoleTypeSUPER]\<rparr>"
proof -
  obtain c where c: "Encrypt aesKey Admin = Ok c" by (rule aesKey_encrypts)
  let ?a = "new_user Admin c RoleTypeSUPER"
  have pa: "persist ?a = ?a" "u_name ?a = Admin" by (simp_all add: persist_def new_user_def)
  obtain d where ins: "tb_insert (users (env_db env)) ?a (w_db w) = (Ok ?a, d)"
    and V: "V d = empty_data\<lparr>ad_users := [?a]\<rparr>"
  proof -
    have "user_laws V (env_db env)" using assms(1) by blast
    from this [unfolded user_laws_def, THEN conjunct2, THEN conjunct2, THEN conjunct1, rule_format, of ?a "w_db w"]
    show thesis using that assms(3) pa(1) by (auto simp: empty_data_def)
  qed
  have none: "ad_users (V (w_db w)) = []" by (simp add: assms(3) empty_data_def)
  have "NewUserHandler env w = (Ok (), store_active Admin ?a (w\<lparr>w_db := d\<rparr>))"
    by (rule startup_rest [OF assms(1,2)]) (use none c ins pa in simp_all)
  then show thesis using that [OF _ Decrypt_Encrypt_aux [OF c]] V by simp
qed

lemma first_whitelist:
  assumes "auth_db_ok V (env_db env)" and "whitelist_laws V (env_db env)"
    and "ad_whitelists (V (w_db w)) = []"
  obtains w' where "NewWhiteListHandler env ip w = (Ok (), w')" and "V (w_db w') = (V (w_db w))\<lparr>ad_whitelists :=
    [\<lparr>wl_id = WhiteListID, wl_ips = [], wl_privilege = ip, wl_enabled = False\<rparr>]\<rparr>"
proof -
  let ?P = "env_db env"
  let ?l = "\<lparr>wl_id = WhiteListID, wl_ips = [], wl_privilege = ip, wl_enabled = False\<rparr>"
  let ?next = "\<lambda>exists. if \<not> exists then c_bind (on_db (tb_insert (whitelists ?P) ?l)) (\<lambda>_. c_return ()) else c_return ()"
  let ?body = "c_bind (on_db (tb_exists (whitelists ?P) (by_id WhiteListID))) ?next"
  from assms(1) have rel: "tx_reliable ?P" by blast
  have ex: "on_db (tb_exists (whitelists ?P) (by_id WhiteListID)) w = (Ok False, w)"
    using assms(2,3) by (simp add: whitelist_laws_def on_db_def)
  obtain d where "tb_insert (whitelists ?P) ?l (w_db w) = (Ok ?l, d)"
    and V: "V d = (V (w_db w))\<lparr>ad_whitelists := [?l]\<rparr>"
    using assms(2) [unfolded whitelist_laws_def, THEN conjunct2, rule_format, of ?l "w_db w"] assms(3) by auto
  then have ins: "on_db (tb_insert (whitelists ?P) ?l) w = (Ok ?l, w\<lparr>w_db := d\<rparr>)" by (simp add: on_db_def)
  have "?body w = ?next False w" by (rule c_bind_step(1)) (rule ex)
  also have "\<dots> = c_bind (on_db (tb_insert (whitelists ?P) ?l)) (\<lambda>_. c_return ()) w" by simp
  also have "\<dots> = c_return () (w\<lparr>w_db := d\<rparr>)" by (rule c_bind_step(1)) (rule ins)
  finally have "?body w = (Ok (), w\<lparr>w_db := d\<rparr>)" by simp
  then have "NewWhiteListHandler env ip w = (Ok (), w\<lparr>w_db := d\<rparr>)"
    using withTx_reliable(1) [OF rel, of ?body w] by (simp add: NewWhiteListHandler_def)
  with V that show thesis by simp
qed

lemma first_login:
  assumes "auth_db_ok V (env_db env)" and "order_ok (env_order env)"
    and "V (w_db w) = first_data c ip" and "Decrypt aesKey c = Ok Admin"
  shows "(\<exists>w'. checkLogin env j client (Some lr) w = (Ok tok, w')) \<longleftrightarrow>
    lr = \<lparr>lr_username = Admin, lr_password = Admin\<rparr> \<and> jwt_sign j Admin = Ok tok"
proof -
  have "wl_admits (ad_whitelists (V (w_db w))) client" by (simp add: assms(3) first_data_def wl_admits_def)
  then have wl: "checkWhiteList env client w = (Ok (), w)"
    by (cases rule: checkWhiteList_db [OF assms(1), of w client]) simp_all
  have plain: "\<forall>u \<in> set (ad_users (V (w_db w))). plain_user (V (w_db w)) u"
    by (simp add: assms(3) first_data_def empty_data_def plain_user_def groups_of_def new_user_def)
  have users: "users_by_id (V (w_db w)) n =
      (if n = Admin then [new_user Admin c RoleTypeSUPER] else [])" for n
    by (simp add: users_by_id_def assms(3) first_data_def new_user_def)
  have pw: "u_password (new_user Admin c RoleTypeSUPER) = c" by (simp add: new_user_def)
  show ?thesis
    unfolding login_admitted [OF assms(1,2) plain wl] users
    using assms(4) pw by (cases lr) auto
qed

section \<open>An example\<close>

text \<open>A controller without a certificate, on an empty list-backed database, whose cluster service
  cannot be reached.\<close>

definition ex_conf :: ddi_config where
  "ex_conf = zero_config\<lparr>cf_server := (cf_server zero_config)
     \<lparr>sc_ip := ''10.0.0.1'', sc_port := ''443'', sc_grpc_addr := '':9090''\<rparr>\<rparr>"

definition dead_client :: "unit grpc_client" where
  "dead_client =
     \<lparr>cl_QryOneCluster = (\<lambda>i. c_fail ''unavailable''), cl_QryFreeDevice = c_fail ''unavailable'',
      cl_SetCluster = (\<lambda>req. c_fail ''unavailable''), cl_OptRaltGroup = (\<lambda>req. c_fail ''unavailable''),
      cl_GetRaltGroup = (\<lambda>i. c_fail ''unavailable''), cl_OptRaltWebsite = (\<lambda>req. c_fail ''unavailable''),
      cl_GetRaltSpecWebsite = (\<lambda>i. c_fail ''unavailable''), cl_GetRaltGroupWebsite = (\<lambda>i. c_fail ''unavailable''),
      cl_GetRaltAvailIP = (\<lambda>r. c_fail ''unavailable''), cl_ShowHomePageData = (\<lambda>i. c_fail ''unavailable''),
      cl_ShowHomePageFlowData = (\<lambda>i. c_fail ''unavailable''), cl_ShowDomainVisitorData = (\<lambda>i. c_fail ''unavailable'')\<rparr>"

definition ex_outside :: "(auth_data, unit) outside" where
  "ex_outside =
     \<lparr>ou_load = (\<lambda>path. Ok ex_conf), ou_open_db = (\<lambda>c rs d. (None, empty_data)), ou_dial = (\<lambda>addr. None),
      ou_read_roles = (\<lambda>path. Ok ex_template), ou_import_ok = (\<lambda>ss x. x \<notin> set ss),
      ou_certificate = (\<lambda>name days. Ok (''cert'', ''key'')),
      ou_stat = (\<lambda>name fs. if fs name = None then Some ''no such file'' else None),
      ou_is_exist = (\<lambda>e. False), ou_write_file = (\<lambda>name content fs. (None, fs(name \<mapsto> content))),
      ou_db = mem_db, ou_client = dead_client, ou_order = (\<lambda>ks. ks)\<rparr>"

definition ex_process :: "(auth_data, unit) process" where
  "ex_process =
     \<lparr>ps_conf = None, ps_resources = [], ps_template = None,
      ps_world = \<lparr>w_db = empty_data, w_active = Map.empty\<rparr>, ps_grpc = (), ps_routes = [], ps_use = [],
      ps_end_use = [], ps_schemas = [], ps_files = [''tls_cert.crt'' \<mapsto> ''old''], ps_serving = None\<rparr>"

lemma ex_outside_simps [simp]:
  "ou_load ex_outside path = Ok ex_conf" "ou_open_db ex_outside c rs d = (None, empty_data)"
  "ou_dial ex_outside addr = None" "ou_read_roles ex_outside path = Ok ex_template"
  "ou_import_ok ex_outside ss x \<longleftrightarrow> x \<notin> set ss" "ou_certificate ex_outside name days = Ok (''cert'', ''key'')"
  "ou_stat ex_outside name fs = (if fs name = None then Some ''no such file'' else None)"
  "ou_is_exist ex_outside e \<longleftrightarrow> False" "ou_write_file ex_outside name content fs = (None, fs(name \<mapsto> content))"
  "ou_db ex_outside = mem_db" "ou_client ex_outside = dead_client" "ou_order ex_outside = (\<lambda>ks. ks)"
  by (simp_all add: ex_outside_def)

lemma ex_conf_simps [simp]:
  "sc_grpc_addr (cf_server ex_conf) = '':9090''" "sc_ip (cf_server ex_conf) = ''10.0.0.1''"
  "sc_port (cf_server ex_conf) = ''443''" "sc_tls_cert_file (cf_server ex_conf) = []"
  by (simp_all add: ex_conf_def zero_config_def)

lemma ex_file_laws: "file_laws ex_outside"
  by (simp add: file_laws_def)

lemma ex_start: "\<exists>s'. controller_main ex_outside ''web-controller.conf'' ex_process = (Ok (), s') \<and>
    ps_conf s' = Some (ex_conf\<lparr>cf_path := ''web-controller.conf''\<rparr>)"
proof -
  let ?env = "auth_env_of ex_outside ex_template" and ?w = "\<lparr>w_db = empty_data, w_active = Map.empty\<rparr>"
  have env: "auth_db_ok (\<lambda>d. d) (env_db ?env)" "order_ok (env_order ?env)" "whitelist_laws (\<lambda>d. d) (env_db ?env)"
    by (simp_all add: auth_env_of_def ex_outside_def mem_db_ok mem_db_whitelists)
  obtain c w1 where w1: "NewUserHandler ?env ?w = (Ok (), w1)"
    and d1: "w_db w1 = empty_data\<lparr>ad_users := [new_user Admin c RoleTypeSUPER]\<rparr>"
    by (rule first_admin [OF env(1,2), of ?w]) simp_all
  obtain w2 where w2: "NewWhiteListHandler ?env ''10.0.0.1'' w1 = (Ok (), w2)"
    by (rule first_whitelist [OF env(1,3), of w1]) (simp_all add: d1 empty_data_def)
  show ?thesis
    using w1 w2
    by (simp add: controller_main_def ex_process_def c_bind_def fatal_def c_map_err_def on_part_def
        LoadConfig_def Reload_def Let_def db_Init_def fail_if_def drop_error_def metric_RegisterHandler_def
        MustImport_def auth_RegisterHandler_def readRoleConfig_def deref_def on_world_def on_grpc_def
        log_RegisterHandler_def business_RegisterHandler_def NewClusterHandler_def dead_client_def start_error_def
        server_Run_def createSelfSignedTlsCert_def write_file_def new_server_def v1_def auth_types_def)
qed

section \<open>Properties\<close>

text \<open>C21. When the start succeeds, the controller serves the nodes, the four auth resources and
  the audit log, behind the middle ware that checks tokens and before the one that writes audit
  records; and the seven business resources exactly when the start-up of the clusters succeeded,
  whose error is dropped. The database was opened for six resources, which include neither the
  nodes nor the agent events. Without a configured certificate the files of the default one
  hold a new certificate and key, whatever they held before.\<close>

theorem start_outcome:
  assumes "controller_main X path s = (Ok (), s')" and "file_laws X"
  shows "\<exists>conf r. ps_conf s' = Some conf \<and> cf_path conf = path \<and>
    NewClusterHandler (ou_client X) (Some conf) (ps_grpc s) = (r, ps_grpc s') \<and>
    map snd (ps_schemas s') =
      [NodeType, DdiuserType, RoleType, UserGroupType, WhiteListType, AuditLogType] @
      (case r of Ok _ \<Rightarrow> [ClusterType6, HomePageType, HostType, WebGroupType, WebsiteType, BalanceType, VipIntervalType]
        | _ \<Rightarrow> []) \<and>
    ps_use s' = [JWTMiddleWare] \<and> ps_end_use s' = [AuditLogger] \<and>
    ps_resources s' = ps_resources s @
      [AuditLogType, DdiuserType, RoleType, UserGroupType, UserRoleType, WhiteListType] \<and>
    (if sc_tls_cert_file (cf_server conf) = []
     then ps_serving s' = Some ('':'' @ sc_port (cf_server conf), ''tls_cert.crt'', ''tls_key.key'') \<and>
       (\<exists>cert key. ou_certificate X ''ddi.linkingthing.com'' 7300 = Ok (cert, key) \<and>
         ps_files s' = (ps_files s)(''tls_cert.crt'' \<mapsto> cert, ''tls_key.key'' \<mapsto> key))
     else ps_serving s' = Some ('':'' @ sc_port (cf_server conf), sc_tls_cert_file (cf_server conf),
         sc_tls_key_file (cf_server conf)) \<and> ps_files s' = ps_files s)"
proof (rule main_outcome [OF assms], goal_cases)
  case (1 conf d tmpl w1 w2 r g)
  then show ?case
    by (intro exI [of _ conf] exI [of _ r])
      (cases r; simp add: registered_def log_PersistentResources_def auth_PersistentResources_def
        auth_types_def business_types_def defaultTlsCertFile_def defaultTlsKeyFile_def cong: if_cong)
qed

theorem start_outcome_witness:
  "\<exists>s'. controller_main ex_outside ''web-controller.conf'' ex_process = (Ok (), s') \<and>
     length (ps_schemas s') = 6 \<and> ps_files ex_process ''tls_cert.crt'' = Some ''old'' \<and>
     ps_files s' ''tls_cert.crt'' = Some ''cert''"
proof -
  obtain s' where run: "controller_main ex_outside ''web-controller.conf'' ex_process = (Ok (), s')"
    and conf: "ps_conf s' = Some (ex_conf\<lparr>cf_path := ''web-controller.conf''\<rparr>)"
    using ex_start by blast
  from start_outcome [OF run ex_file_laws] obtain conf r where
    "ps_conf s' = Some conf" and "NewClusterHandler dead_client (Some conf) () = (r, ps_grpc s')"
    and kinds: "map snd (ps_schemas s') =
      [NodeType, DdiuserType, RoleType, UserGroupType, WhiteListType, AuditLogType] @
      (case r of Ok _ \<Rightarrow> [ClusterType6, HomePageType, HostType, WebGroupType, WebsiteType, BalanceType, VipIntervalType]
        | _ \<Rightarrow> [])"
    and certs: "if sc_tls_cert_file (cf_server conf) = []
     then ps_serving s' = Some ('':'' @ sc_port (cf_server conf), ''tls_cert.crt'', ''tls_key.key'') \<and>
       (\<exists>cert key. ou_certificate ex_outside ''ddi.linkingthing.com'' 7300 = Ok (cert, key) \<and>
         ps_files s' = (ps_files ex_process)(''tls_cert.crt'' \<mapsto> cert, ''tls_key.key'' \<mapsto> key))
     else ps_serving s' = Some ('':'' @ sc_port (cf_server conf), sc_tls_cert_file (cf_server conf),
         sc_tls_key_file (cf_server conf)) \<and> ps_files s' = ps_files ex_process"
    by auto
  then obtain e where "r = Err e" by (auto simp: NewClusterHandler_def dead_client_def start_error_def c_bind_def c_map_err_def)
  with kinds have "length (map snd (ps_schemas s')) = 6" by simp
  moreover have "sc_tls_cert_file (cf_server conf) = []" using conf \<open>ps_conf s' = Some conf\<close> by simp
  ultimately show ?thesis using run certs by (auto simp: ex_process_def)
qed

text \<open>C36. After the first start, on an empty database, exactly one pair of credentials opens a
  session, from any address: the name of the administrator with the same name as the password.
  The password is stored encrypted, and the white list is there and not enabled.\<close>

theorem first_start_login:
  assumes "controller_main X path s = (Ok (), s')" and "file_laws X"
    and "auth_db_ok V (ou_db X)" and "whitelist_laws V (ou_db X)" and "order_ok (ou_order X)"
    and "\<forall>c rs d d'. ou_open_db X c rs d = (None, d') \<longrightarrow> V d' = empty_data"
  shows "\<exists>tmpl cipher ip. ps_template s' = Some tmpl \<and>
    V (w_db (ps_world s')) = first_data cipher ip \<and> Decrypt aesKey cipher = Ok ''admin'' \<and>
    (\<forall>j client lr tok. (\<exists>w. checkLogin (auth_env_of X tmpl) j client (Some lr) (ps_world s') = (Ok tok, w)) \<longleftrightarrow>
      lr = \<lparr>lr_username = ''admin'', lr_password = ''admin''\<rparr> \<and> jwt_sign j ''admin'' = Ok tok)"
proof (rule main_outcome [OF assms(1,2)], goal_cases)
  case (1 conf d tmpl w1 w2 r g)
  let ?env = "auth_env_of X tmpl"
  have env: "auth_db_ok V (env_db ?env)" "order_ok (env_order ?env)" "whitelist_laws V (env_db ?env)"
    using assms(3-5) by (simp_all add: auth_env_of_def)
  have "V (w_db ((ps_world s)\<lparr>w_db := d\<rparr>)) = empty_data" using assms(6) 1(2) by simp
  with first_admin [OF env(1,2)] 1(4) obtain c where c: "Decrypt aesKey c = Ok Admin"
    and w1: "V (w_db w1) = empty_data\<lparr>ad_users := [new_user Admin c RoleTypeSUPER]\<rparr>"
    by (metis prod.inject)
  then have "ad_whitelists (V (w_db w1)) = []" by (simp add: empty_data_def)
  from first_whitelist [OF env(1,3) this] 1(5) w1 have "V (w_db w2) = first_data c (sc_ip (cf_server conf))"
    by (metis (no_types, lifting) first_data_def prod.inject empty_whitelists)
  with 1(9,10) c first_login [OF env(1,2) _ c] show ?case
    by (intro exI [of _ tmpl] exI [of _ c] exI [of _ "sc_ip (cf_server conf)"]) (simp add: Admin_def)
qed

theorem first_start_login_witness:
  "\<exists>s' tmpl w. controller_main ex_outside ''web-controller.conf'' ex_process = (Ok (), s') \<and>
     checkLogin (auth_env_of ex_outside tmpl) ex_jwt ''1.2.3.4''
       (Some \<lparr>lr_username = ''admin'', lr_password = ''admin''\<rparr>) (ps_world s') = (Ok ''admin'', w)"
proof -
  obtain s' where run: "controller_main ex_outside ''web-controller.conf'' ex_process = (Ok (), s')"
    using ex_start by blast
  from first_start_login [OF run ex_file_laws, of "\<lambda>d. d"]
  obtain tmpl where logins: "\<forall>j client lr tok.
      (\<exists>w. checkLogin (auth_env_of ex_outside tmpl) j client (Some lr) (ps_world s') = (Ok tok, w)) \<longleftrightarrow>
      lr = \<lparr>lr_username = ''admin'', lr_password = ''admin''\<rparr> \<and> jwt_sign j ''admin'' = Ok tok"
    by (auto simp: mem_db_ok mem_db_whitelists)
  have "jwt_sign ex_jwt ''admin'' = Ok ''admin''" by (simp add: ex_jwt_def)
  with logins run show ?thesis by blast
qed

end
