(* ===== verification/CsvFile.thy ===== *)
theory CsvFile
  imports GoStrings "HOL-Library.Sublist"
begin

text \<open>
  \<open>pkg/util/csv.go\<close>: writing a table to a file in CSV form, with what it uses of Go's packages
  \<open>encoding/csv\<close> and \<open>bufio\<close>. The operating system is a parameter: opening a file may fail, and
  a write may take only a part of the bytes it is given, with an error.
\<close>

section \<open>The form of records\<close>

definition UTF8BOM :: string where "UTF8BOM = [CHR 0xEF, CHR 0xBB, CHR 0xBF]"

abbreviation dquote :: char where "dquote \<equiv> CHR 0x22"
abbreviation cr :: char where "cr \<equiv> CHR 0x0D"
abbreviation lf :: char where "lf \<equiv> CHR 0x0A"
abbreviation comma :: char where "comma \<equiv> CHR 0x2C"

text \<open>The UTF-8 forms of the runes that \<open>unicode.IsSpace\<close> accepts.\<close>

definition space_runes :: "string list" where
  "space_runes =
     [[CHR 0x09], [CHR 0x0A], [CHR 0x0B], [CHR 0x0C], [CHR 0x0D], [CHR 0x20],
      [CHR 0xC2, CHR 0x85], [CHR 0xC2, CHR 0xA0], [CHR 0xE1, CHR 0x9A, CHR 0x80],
      [CHR 0xE2, CHR 0x80, CHR 0x80], [CHR 0xE2, CHR 0x80, CHR 0x81], [CHR 0xE2, CHR 0x80, CHR 0x82],
      [CHR 0xE2, CHR 0x80, CHR 0x83], [CHR 0xE2, CHR 0x80, CHR 0x84], [CHR 0xE2, CHR 0x80, CHR 0x85],
      [CHR 0xE2, CHR 0x80, CHR 0x86], [CHR 0xE2, CHR 0x80, CHR 0x87], [CHR 0xE2, CHR 0x80, CHR 0x88],
      [CHR 0xE2, CHR 0x80, CHR 0x89], [CHR 0xE2, CHR 0x80, CHR 0x8A], [CHR 0xE2, CHR 0x80, CHR 0xA8],
      [CHR 0xE2, CHR 0x80, CHR 0xA9], [CHR 0xE2, CHR 0x80, CHR 0xAF], [CHR 0xE2, CHR 0x81, CHR 0x9F],
      [CHR 0xE3, CHR 0x80, CHR 0x80]]"

definition fieldNeedsQuotes :: "string \<Rightarrow> bool" where
  "fieldNeedsQuotes field \<longleftrightarrow>
     field \<noteq> [] \<and>
     (field = [CHR 0x5C, CHR ''.''] \<or>
      list_ex (\<lambda>c. c = comma \<or> c = dquote \<or> c = cr \<or> c = lf) field \<or>
      list_ex (\<lambda>r. take (length r) field = r) space_runes)"

text \<open>The loop over a quoted field: quotes are doubled, everything else is copied, line breaks
  too, since the writer does not use CRLF.\<close>

fun csv_escape :: "string \<Rightarrow> string" where
  "csv_escape [] = []"
| "csv_escape (c # cs) = (if c = dquote then [dquote, dquote] else [c]) @ csv_escape cs"

definition csv_field :: "string \<Rightarrow> string" where
  "csv_field field =
     (if fieldNeedsQuotes field then [dquote] @ csv_escape field @ [dquote] else field)"

text \<open>A record is its fields with commas between them, and a line feed.\<close>

fun csv_record :: "string list \<Rightarrow> string" where
  "csv_record [] = [lf]"
| "csv_record [field] = csv_field field @ [lf]"
| "csv_record (field # fields) = csv_field field @ [comma] @ csv_record fields"

section \<open>Writing a file\<close>

text \<open>
  A file that is open for writing is seen through the bytes it has taken. A write is given what
  the file has taken already and the new bytes, and takes a number of them, perhaps with an error.
\<close>

record file_system =
  fs_open :: "string \<Rightarrow> gerror option"
  fs_write :: "string \<Rightarrow> string \<Rightarrow> nat \<times> gerror option"

text \<open>
  The buffer of \<open>bufio.Writer\<close>: its bytes, and the error that a flush has met, which stays and
  makes every later write and flush fail. A byte that finds the buffer full flushes it first; a
  flush of an empty buffer writes nothing. Taking too few bytes counts as an error, and what a
  failed flush could not write stays in the buffer.
\<close>

definition buffer_size :: nat where "buffer_size = 4096"

record buffer =
  bf_bytes :: string
  bf_err :: "gerror option"
  bf_file :: string

definition buf_flush :: "file_system \<Rightarrow> buffer \<Rightarrow> buffer" where
  "buf_flush fs b =
     (if bf_err b \<noteq> None \<or> bf_bytes b = [] then b
      else case fs_write fs (bf_file b) (bf_bytes b) of (n, e) \<Rightarrow>
        (let err = (if n < length (bf_bytes b) \<and> e = None then Some ''short write'' else e) in
         if err \<noteq> None
         then b\<lparr>bf_bytes := drop n (bf_bytes b), bf_err := err, bf_file := bf_file b @ take n (bf_bytes b)\<rparr>
         else b\<lparr>bf_bytes := [], bf_file := bf_file b @ take n (bf_bytes b)\<rparr>))"

definition buf_byte :: "file_system \<Rightarrow> char \<Rightarrow> buffer \<Rightarrow> buffer" where
  "buf_byte fs c b =
     (let b' = (if length (bf_bytes b) < buffer_size then b else buf_flush fs b)
      in if bf_err b' \<noteq> None then b' else b'\<lparr>bf_bytes := bf_bytes b' @ [c]\<rparr>)"

definition buf_bytes :: "file_system \<Rightarrow> string \<Rightarrow> buffer \<Rightarrow> buffer" where
  "buf_bytes fs s b = fold (buf_byte fs) s b"

text \<open>A record is written up to the first error of the buffer; all records, and a flush behind
  them.\<close>

definition csv_Write :: "file_system \<Rightarrow> string list \<Rightarrow> (buffer, gerror, unit) comp" where
  "csv_Write fs rec = (\<lambda>b. let b' = buf_bytes fs (csv_record rec) b
     in case bf_err b' of None \<Rightarrow> (Ok (), b') | Some e \<Rightarrow> (Err e, b'))"

definition csv_WriteAll :: "file_system \<Rightarrow> string list list \<Rightarrow> (buffer, gerror, unit) comp" where
  "csv_WriteAll fs recs =
     c_bind (c_forM recs (csv_Write fs)) (\<lambda>_ b. let b' = buf_flush fs b
       in case bf_err b' of None \<Rightarrow> (Ok (), b') | Some e \<Rightarrow> (Err e, b'))"

text \<open>
  \<open>GenCSVFile\<close> gives its result and what the file then holds, if it could be opened. The error of
  writing the mark in front is ignored, and so is the last flush, which has nothing left to write.
\<close>

definition GenCSVFile ::
  "file_system \<Rightarrow> string \<Rightarrow> string list \<Rightarrow> string list list \<Rightarrow> (gerror, unit) res \<times> string option" where
  "GenCSVFile fs filepath tableHeader contents =
     (case fs_open fs filepath of
        Some e \<Rightarrow> (Err (''create csv file '' @ filepath @ '' failed: '' @ e), None)
      | None \<Rightarrow>
          (let (n, _) = fs_write fs [] UTF8BOM; taken = take n UTF8BOM in
           case c_bind (c_map_err (\<lambda>e. ''write table header to csv file '' @ filepath @ '' failed: '' @ e)
                  (csv_Write fs tableHeader))
                (\<lambda>_. c_bind (c_map_err (\<lambda>e. ''write data to csv file '' @ filepath @ '' failed: '' @ e)
                  (csv_WriteAll fs contents)) (\<lambda>_. c_modify (buf_flush fs)))
                \<lparr>bf_bytes = [], bf_err = None, bf_file = taken\<rparr>
           of (r, b) \<Rightarrow> (r, Some (bf_file b))))"

section \<open>Reading a file back\<close>

text \<open>
  The reader that the form of the files is meant for (RFC 4180 with line feeds): a field is plain
  up to a comma or the end of its line, or in quotes, where two quotes stand for one. The states
  are the start of a field, a plain field, a field in quotes, and behind a quote in such a field.
\<close>

datatype csv_mode = Start | Plain | Quoted | QuoteSeen

fun csv_read :: "csv_mode \<Rightarrow> string \<Rightarrow> string list \<Rightarrow> string \<Rightarrow> string list list option" where
  "csv_read m f fs [] = (if m = Start \<and> fs = [] then Some [] else None)"
| "csv_read Quoted f fs (c # cs) =
     (if c = dquote then csv_read QuoteSeen f fs cs else csv_read Quoted (f @ [c]) fs cs)"
| "csv_read m f fs (c # cs) =
     (if c = comma then csv_read Start [] (fs @ [f]) cs
      else if c = lf then map_option (\<lambda>rs. (fs @ [f]) # rs) (csv_read Start [] [] cs)
      else if c = dquote then
        (case m of Start \<Rightarrow> csv_read Quoted [] fs cs
         | QuoteSeen \<Rightarrow> csv_read Quoted (f @ [c]) fs cs
         | _ \<Rightarrow> None)
      else if m = QuoteSeen then None else csv_read Plain (f @ [c]) fs cs)"

definition csv_text :: "string list list \<Rightarrow> string" where
  "csv_text recs = concat (map csv_record recs)"

text \<open>A record without fields is written as one with an empty field.\<close>

definition fields_of :: "string list \<Rightarrow> string list" where
  "fields_of r = (if r = [] then [[]] else r)"

text \<open>Behind a field, a comma or line feed ends it in every mode but inside the quotes.\<close>

lemma read_quoted:
  "csv_read Quoted g fs (csv_escape f @ dquote # rest) = csv_read QuoteSeen (g @ f) fs rest"
  by (induction f arbitrary: g) simp_all

lemma read_plain:
  assumes "list_all (\<lambda>c. c \<notin> {comma, dquote, lf}) f" and "f \<noteq> []" and "m = Start \<or> m = Plain"
  shows "csv_read m g fs (f @ rest) = csv_read Plain (g @ f) fs rest"
  using assms
proof (induction f arbitrary: g m)
  case (Cons c f)
  then show ?case by (cases "f = []") auto
qed simp

lemma plain_chars:
  "\<not> fieldNeedsQuotes f \<Longrightarrow> list_all (\<lambda>c. c \<notin> {comma, dquote, lf}) f"
  by (cases "f = []") (auto simp: fieldNeedsQuotes_def list_ex_iff list_all_iff)

lemma read_field:
  assumes "c = comma \<or> c = lf"
  shows "csv_read Start [] fs (csv_field f @ c # rest) =
    (if c = comma then csv_read Start [] (fs @ [f]) rest
     else map_option (\<lambda>rs. (fs @ [f]) # rs) (csv_read Start [] [] rest))"
proof (cases "fieldNeedsQuotes f")
  case True
  then show ?thesis using assms by (auto simp: csv_field_def read_quoted)
next
  case False
  show ?thesis
  proof (cases "f = []")
    case True
    with False assms show ?thesis by (auto simp: csv_field_def)
  next
    case f: False
    from read_plain [OF plain_chars [OF False] f, of Start "[]" fs "c # rest"] show ?thesis
      using False assms by (auto simp: csv_field_def)
  qed
qed

lemma read_record:
  "csv_read Start [] fs (csv_record r @ rest) =
    map_option (\<lambda>rs. (fs @ fields_of r) # rs) (csv_read Start [] [] rest)"
proof (induction r arbitrary: fs rule: csv_record.induct)
  case (2 f)
  then show ?case using read_field [of lf fs f rest] by (simp add: fields_of_def)
next
  case (3 f g r)
  have "csv_read Start [] fs (csv_record (f # g # r) @ rest) =
      csv_read Start [] (fs @ [f]) (csv_record (g # r) @ rest)"
    using read_field [of comma fs f "csv_record (g # r) @ rest"] by simp
  then show ?case using 3 by (simp add: fields_of_def)
qed (simp add: fields_of_def)

lemma read_text: "csv_read Start [] [] (csv_text recs) = Some (map fields_of recs)"
  by (induction recs) (simp_all add: csv_text_def read_record)

section \<open>What the file holds\<close>

text \<open>The file has taken a part of the stream behind what it held before, and all of it together
  with the buffer as long as there is no error.\<close>

definition streamed :: "string \<Rightarrow> string \<Rightarrow> buffer \<Rightarrow> bool" where
  "streamed base s b \<longleftrightarrow> prefix base (bf_file b) \<and> prefix (bf_file b) (base @ s) \<and>
     (bf_err b = None \<longrightarrow> bf_file b @ bf_bytes b = base @ s)"

lemma streamed_flush:
  assumes "streamed base s b"
  shows "streamed base s (buf_flush fs b) \<and> (bf_err (buf_flush fs b) = None \<longrightarrow> bf_bytes (buf_flush fs b) = [])"
proof (cases "bf_err b \<noteq> None \<or> bf_bytes b = []")
  case True
  then show ?thesis using assms by (auto simp: buf_flush_def)
next
  case False
  then have all: "bf_file b @ bf_bytes b = base @ s" and base: "prefix base (bf_file b)"
    using assms by (auto simp: streamed_def)
  have "prefix (bf_file b @ take n (bf_bytes b)) (base @ s)" for n
    unfolding all [symmetric] by (simp add: take_is_prefix)
  with False all base show ?thesis
    by (auto simp: buf_flush_def streamed_def Let_def split: prod.splits)
qed

lemma streamed_append:
  assumes "streamed base s b"
  shows "streamed base (s @ [c]) (if bf_err b \<noteq> None then b else b\<lparr>bf_bytes := bf_bytes b @ [c]\<rparr>)"
  using assms by (auto simp: streamed_def intro: prefix_order.trans [OF _ prefixI [of _ _ "[c]"]])

lemma streamed_byte: "streamed base s b \<Longrightarrow> streamed base (s @ [c]) (buf_byte fs c b)"
  unfolding buf_byte_def Let_def using streamed_flush [of base s b fs]
  by (intro streamed_append) simp

lemma streamed_bytes: "streamed base s b \<Longrightarrow> streamed base (s @ t) (buf_bytes fs t b)"
  unfolding buf_bytes_def
proof (induction t arbitrary: s b)
  case (Cons c t)
  from Cons.IH [OF streamed_byte [OF Cons.prems, of c fs]] show ?case by simp
qed simp

lemma csv_Write_streamed:
  assumes "streamed base s b" and "csv_Write fs r b = (res, b')"
  shows "streamed base (s @ csv_record r) b' \<and> res \<noteq> Panic \<and> (res = Ok () \<longleftrightarrow> bf_err b' = None)"
  using assms streamed_bytes [OF assms(1)]
  by (auto simp: csv_Write_def Let_def split: option.splits)

lemma streamed_longer: "streamed base s b \<Longrightarrow> bf_err b \<noteq> None \<Longrightarrow> streamed base (s @ t) b"
  by (auto simp: streamed_def intro: prefix_order.trans [OF _ prefixI [of _ _ t]])

lemma csv_rows_streamed:
  assumes "streamed base s b" and "bf_err b = None" and "c_forM recs (csv_Write fs) b = (res, b')"
  shows "streamed base (s @ csv_text recs) b' \<and> res \<noteq> Panic \<and> (res = Ok () \<longleftrightarrow> bf_err b' = None)"
  using assms
proof (induction recs arbitrary: s b)
  case (Cons r recs)
  obtain res1 b1 where w: "csv_Write fs r b = (res1, b1)" by fastforce
  note one = csv_Write_streamed [OF Cons.prems(1) w]
  show ?case
  proof (cases res1)
    case (Ok u)
    with w Cons.prems(3) have "c_forM recs (csv_Write fs) b1 = (res, b')" by simp
    from Cons.IH [OF conjunct1 [OF one] _ this] one Ok show ?thesis by (simp add: csv_text_def)
  next
    case (Err e)
    with w Cons.prems(3) have "res = Err e" "b' = b1" by simp_all
    with one Err streamed_longer [of base "s @ csv_record r" b1 "csv_text recs"] show ?thesis
      by (simp add: csv_text_def)
  qed (use one in simp)
qed (auto simp: csv_text_def)

lemma csv_WriteAll_streamed:
  assumes "streamed base s b" and "bf_err b = None" and "csv_WriteAll fs recs b = (res, b')"
  shows "streamed base (s @ csv_text recs) b' \<and> res \<noteq> Panic \<and>
    (res = Ok () \<longleftrightarrow> bf_err b' = None) \<and> (res = Ok () \<longrightarrow> bf_bytes b' = [])"
proof -
  obtain res1 b1 where rows: "c_forM recs (csv_Write fs) b = (res1, b1)" by fastforce
  note all = csv_rows_streamed [OF assms(1,2) rows]
  show ?thesis
    using rows all assms(3) streamed_flush [of base "s @ csv_text recs" b1 fs]
    by (cases res1) (auto simp: csv_WriteAll_def Let_def split: option.splits)
qed

section \<open>Properties\<close>

text \<open>Both writers together, and the last flush.\<close>

lemma csv_file_streamed:
  assumes "fs_open fs path = None" and "GenCSVFile fs path header rows = (res, f)"
  obtains b where "f = Some (bf_file b)"
    and "streamed (take (fst (fs_write fs [] UTF8BOM)) UTF8BOM) (csv_text (header # rows)) b"
    and "res \<noteq> Panic" and "res = Ok () \<longrightarrow> bf_err b = None \<and> bf_bytes b = []"
proof -
  let ?base = "take (fst (fs_write fs [] UTF8BOM)) UTF8BOM"
  let ?b = "\<lparr>bf_bytes = [], bf_err = None, bf_file = ?base\<rparr>"
  have start: "streamed ?base [] ?b" by (simp add: streamed_def)
  obtain r1 b1 where head: "csv_Write fs header ?b = (r1, b1)" by fastforce
  note one = csv_Write_streamed [OF start head]
  show thesis
  proof (cases r1)
    case (Ok u)
    obtain r2 b2 where tail: "csv_WriteAll fs rows b1 = (r2, b2)" by fastforce
    from one Ok have err: "bf_err b1 = None" by simp
    note two = csv_WriteAll_streamed [OF conjunct1 [OF one] err tail]
    have "f = Some (bf_file b2)" and "r2 = Ok () \<longleftrightarrow> res = Ok ()" and "res \<noteq> Panic"
      using assms head tail Ok two
      by (auto simp: GenCSVFile_def Let_def tx_simps buf_flush_def split: prod.splits res.splits)
    with two that [of b2] show thesis by (auto simp: csv_text_def)
  next
    case (Err e)
    then have "f = Some (bf_file b1)" "res \<noteq> Panic" "res \<noteq> Ok ()"
      using assms head
      by (auto simp: GenCSVFile_def Let_def tx_simps split: prod.splits)
    moreover have "streamed ?base (csv_text (header # rows)) b1"
      using streamed_longer [of ?base "csv_record header" b1 "csv_text rows"] one Err
      by (simp add: csv_text_def)
    ultimately show thesis using that [of b1] by auto
  qed (use one in simp)
qed

text \<open>C27. A file that is written without an error holds, behind what could be written of the
  byte order mark, a text that reads back as the header and the rows, whatever the fields
  contain (a row without fields reads as one empty field); after an error the file was not
  opened or holds a part of that text from its beginning. A mark that could not be written is
  not reported.\<close>

theorem csv_file_reads_back:
  "case GenCSVFile fs path header rows of
     (Ok _, f) \<Rightarrow> \<exists>t. f = Some (take (fst (fs_write fs [] UTF8BOM)) UTF8BOM @ t) \<and>
       csv_read Start [] [] t = Some (map fields_of (header # rows))
   | (Err _, f) \<Rightarrow> f = None \<or>
       (\<exists>t. f = Some (take (fst (fs_write fs [] UTF8BOM)) UTF8BOM @ t) \<and>
         prefix t (csv_text (header # rows)))
   | (Panic, _) \<Rightarrow> False"
proof (cases "fs_open fs path")
  case None
  obtain res f where run: "GenCSVFile fs path header rows = (res, f)" by fastforce
  from csv_file_streamed [OF None run] obtain b where b: "f = Some (bf_file b)"
    "streamed (take (fst (fs_write fs [] UTF8BOM)) UTF8BOM) (csv_text (header # rows)) b"
    "res \<noteq> Panic" "res = Ok () \<longrightarrow> bf_err b = None \<and> bf_bytes b = []" .
  from b(2,4) obtain t where "bf_file b = take (fst (fs_write fs [] UTF8BOM)) UTF8BOM @ t"
    "prefix t (csv_text (header # rows))" "res = Ok () \<longrightarrow> t = csv_text (header # rows)"
    by (auto simp: streamed_def prefix_def)
  then show ?thesis using run b(1,3) read_text [of "header # rows"]
    by (cases res) simp_all
qed (simp add: GenCSVFile_def)

end
