(* ===== verification/Cleanup.thy ===== *)
theory Cleanup
  imports GoTime "HOL-Library.Sublist"
begin

text \<open>
  \<open>pkg/task/task.go\<close>: the daily removal of exported CSV files that are older than a week, with
  what it uses of Go's package \<open>path/filepath\<close>: \<open>Walk\<close>, and \<open>Match\<close> for patterns of asterisks
  and ordinary characters, which is what the program passes.
\<close>

section \<open>Matching names\<close>

abbreviation slash :: char where "slash \<equiv> CHR 0x2F"
abbreviation asterisk :: char where "asterisk \<equiv> CHR 0x2A"

fun glob_match :: "string \<Rightarrow> string \<Rightarrow> bool" where
  "glob_match [] s \<longleftrightarrow> s = []"
| "glob_match (p # ps) [] \<longleftrightarrow> p = asterisk \<and> glob_match ps []"
| "glob_match (p # ps) (c # cs) \<longleftrightarrow>
     (if p = asterisk then glob_match ps (c # cs) \<or> (c \<noteq> slash \<and> glob_match (p # ps) cs)
      else p = c \<and> glob_match ps cs)"

section \<open>Walking over a tree of files\<close>

text \<open>A file with the time of its last change, or a directory with its entries in the order of
  their names. Whether looking at a path, listing it or removing it fails is the environment's, as are
the clock and the location of the machine; times are in nanoseconds.\<close>

datatype entry = File int | Dir "(string \<times> entry) list"

record walk_env =
  we_lstat :: "string \<Rightarrow> gerror option"
  we_readdir :: "string \<Rightarrow> gerror option"
  we_remove :: "string \<Rightarrow> gerror option"
  we_now :: int
  we_local :: location

text \<open>What a visited path looks like: its base name and what is there.\<close>

type_synonym file_info = "string \<times> entry"

definition join_path :: "string \<Rightarrow> string \<Rightarrow> string" where
  "join_path path name = (if path \<noteq> [] \<and> last path = slash then path @ name else path @ [slash] @ name)"

text \<open>
  \<open>filepath.Walk\<close>. The visitor is told the error of looking at a path, or of listing it, and the
  walk ends when the visitor returns an error. (The visitor below never asks to skip a directory.)
\<close>

fun walk :: "walk_env \<Rightarrow> (string \<Rightarrow> file_info option \<Rightarrow> gerror option \<Rightarrow> ('s, gerror, unit) comp) \<Rightarrow>
    string \<Rightarrow> file_info \<Rightarrow> ('s, gerror, unit) comp"
  and walk_names :: "walk_env \<Rightarrow> (string \<Rightarrow> file_info option \<Rightarrow> gerror option \<Rightarrow> ('s, gerror, unit) comp) \<Rightarrow>
    string \<Rightarrow> file_info list \<Rightarrow> ('s, gerror, unit) comp" where
  "walk E fn path (name, File t) = fn path (Some (name, File t)) None"
| "walk E fn path (name, Dir es) =
     (case we_readdir E path of
        Some err \<Rightarrow> fn path (Some (name, Dir es)) (Some err)
      | None \<Rightarrow> c_bind (fn path (Some (name, Dir es)) None) (\<lambda>_. walk_names E fn path es))"
| "walk_names E fn path [] = c_return ()"
| "walk_names E fn path ((name, e) # es) =
     c_bind (let filename = join_path path name in
         case we_lstat E filename of
           Some err \<Rightarrow> fn filename None (Some err)
         | None \<Rightarrow> walk E fn filename (name, e))
       (\<lambda>_. walk_names E fn path es)"

definition filepath_Walk ::
  "walk_env \<Rightarrow> (string \<Rightarrow> file_info option \<Rightarrow> gerror option \<Rightarrow> ('s, gerror, unit) comp) \<Rightarrow>
   string \<Rightarrow> file_info \<Rightarrow> ('s, gerror, unit) comp" where
  "filepath_Walk E fn root info =
     (case we_lstat E root of
        Some err \<Rightarrow> fn root None (Some err)
      | None \<Rightarrow> walk E fn root info)"

section \<open>Removing expired files\<close>

text \<open>The state is the list of the paths removed so far.\<close>

definition FileRootPath :: string where "FileRootPath = ''/opt/website/''"

definition remove_visit ::
  "walk_env \<Rightarrow> string \<Rightarrow> string \<Rightarrow> file_info option \<Rightarrow> gerror option \<Rightarrow> (string list, gerror, unit) comp" where
  "remove_visit E patten path info err =
     (case err of
        Some e \<Rightarrow> c_fail e
      | None \<Rightarrow>
          (case info of
             None \<Rightarrow> c_panic
           | Some (name, Dir es) \<Rightarrow> c_return ()
           | Some (name, File modTime) \<Rightarrow>
               if glob_match patten name \<and> we_now E > AddDays 1000000000 (we_local E) 7 modTime then
                 (case we_remove E path of
                    Some e \<Rightarrow> c_fail e
                  | None \<Rightarrow> c_modify (\<lambda>removed. removed @ [path]))
               else c_return ()))"

definition removerExpireCsv :: "walk_env \<Rightarrow> string \<Rightarrow> entry \<Rightarrow> (string list, gerror, unit) comp" where
  "removerExpireCsv E patten root =
     filepath_Walk E (remove_visit E patten) FileRootPath (''website'', root)"

text \<open>A tick of the daily clock; an error is only logged.\<close>

definition cleanup_tick :: "walk_env \<Rightarrow> entry \<Rightarrow> string list" where
  "cleanup_tick E root = snd (removerExpireCsv E ''*.csv'' root [])"

section \<open>What is removed\<close>

text \<open>The files of a tree, with their paths and names.\<close>

fun files :: "string \<Rightarrow> file_info \<Rightarrow> (string \<times> string \<times> int) list"
  and files_in :: "string \<Rightarrow> file_info list \<Rightarrow> (string \<times> string \<times> int) list" where
  "files path (name, File t) = [(path, name, t)]"
| "files path (name, Dir es) = files_in path es"
| "files_in path [] = []"
| "files_in path ((name, e) # es) = files (join_path path name) (name, e) @ files_in path es"

definition expired_paths :: "walk_env \<Rightarrow> (string \<Rightarrow> bool) \<Rightarrow> (string \<times> string \<times> int) list \<Rightarrow> string list" where
  "expired_paths E named fs = map fst (filter (\<lambda>(path, name, t). named name \<and> AddDays 1000000000 (we_local E) 7 t < we_now E) fs)"

lemma expired_paths_simps [simp]:
  "expired_paths E named [] = []"
  "expired_paths E named (xs @ ys) = expired_paths E named xs @ expired_paths E named ys"
  "expired_paths E named [(path, name, t)] = (if named name \<and> AddDays 1000000000 (we_local E) 7 t < we_now E then [path] else [])"
  by (simp_all add: expired_paths_def)

text \<open>Some operation of the environment fails with an error.\<close>

definition can_fail :: "walk_env \<Rightarrow> gerror \<Rightarrow> bool" where
  "can_fail E e \<longleftrightarrow> (\<exists>path. Some e \<in> {we_lstat E path, we_readdir E path, we_remove E path})"

lemma can_failI [intro]:
  "we_lstat E path = Some e \<Longrightarrow> can_fail E e"
  "we_readdir E path = Some e \<Longrightarrow> can_fail E e"
  "we_remove E path = Some e \<Longrightarrow> can_fail E e"
  by (auto simp: can_fail_def intro: exI [of _ path])

text \<open>A part of the walk removed the expired files of its part, or failed after some of them.\<close>

definition removed_of :: "walk_env \<Rightarrow> string list \<Rightarrow> (gerror, unit) res \<times> string list \<Rightarrow> string list \<Rightarrow> bool" where
  "removed_of E before out paths \<longleftrightarrow>
     (case out of
        (Ok _, removed) \<Rightarrow> removed = before @ paths
      | (Err e, removed) \<Rightarrow> can_fail E e \<and> prefix before removed \<and> prefix removed (before @ paths)
      | (Panic, _) \<Rightarrow> False)"

lemma removed_of_bind:
  assumes "removed_of E before (m before) xs"
    and "\<And>s. removed_of E s (k s) ys"
  shows "removed_of E before (c_bind m (\<lambda>_. k) before) (xs @ ys)"
proof (cases "m before")
  case (Pair r s)
  then show ?thesis
    using assms(1) assms(2) [of s]
    by (cases r; cases "k s")
      (auto simp: removed_of_def split: res.splits intro: prefix_prefix prefix_order.trans [OF _ append_prefixD])
qed

lemma removed_of_error [intro]: "can_fail E e \<Longrightarrow> removed_of E before (Err e, before) paths"
  by (simp add: removed_of_def)

lemma visit_error [simp]: "remove_visit E patten path info (Some e) before = (Err e, before)"
  by (simp add: remove_visit_def)

lemma walk_removes:
  "removed_of E before (walk E (remove_visit E patten) path info before)
     (expired_paths E (glob_match patten) (files path info))"
  "removed_of E before (walk_names E (remove_visit E patten) path es before)
     (expired_paths E (glob_match patten) (files_in path es))"
proof (induction path info and path es arbitrary: before and before rule: files_files_in.induct)
  case (1 path name t)
  then show ?case
    by (auto simp: remove_visit_def removed_of_def split: option.split)
next
  case (2 path name es)
  then show ?case
    by (auto simp: remove_visit_def removed_of_def c_bind_def split: option.split)
next
  case (4 path name e es)
  show ?case
    unfolding walk_names.simps files_in.simps expired_paths_simps
    by (rule removed_of_bind) (use 4 in \<open>auto simp: Let_def split: option.split\<close>)
qed (simp add: removed_of_def)

lemma glob_star: "glob_match (asterisk # ps) s \<longleftrightarrow> (\<exists>a b. s = a @ b \<and> slash \<notin> set a \<and> glob_match ps b)"
proof (induction s)
  case (Cons c cs)
  show ?case
  proof
    assume "glob_match (asterisk # ps) (c # cs)"
    then consider "glob_match ps (c # cs)" | "c \<noteq> slash" "glob_match (asterisk # ps) cs" by auto
    then show "\<exists>a b. c # cs = a @ b \<and> slash \<notin> set a \<and> glob_match ps b"
    proof cases
      case 1
      then show ?thesis by (intro exI [of _ "[]"] exI [of _ "c # cs"]) simp
    next
      case 2
      with Cons obtain a b where "cs = a @ b" "slash \<notin> set a" "glob_match ps b" by blast
      with 2 show ?thesis by (intro exI [of _ "c # a"] exI [of _ b]) simp
    qed
  next
    assume "\<exists>a b. c # cs = a @ b \<and> slash \<notin> set a \<and> glob_match ps b"
    then obtain a b where ab: "c # cs = a @ b" "slash \<notin> set a" "glob_match ps b" by blast
    then show "glob_match (asterisk # ps) (c # cs)" using Cons by (cases a) auto
  qed
qed simp

lemma glob_plain: "asterisk \<notin> set ps \<Longrightarrow> glob_match ps s \<longleftrightarrow> s = ps"
proof (induction ps arbitrary: s)
  case (Cons p ps)
  then show ?case by (cases s) auto
qed simp

lemma glob_csv: "glob_match ''*.csv'' s \<longleftrightarrow> (\<exists>base. s = base @ ''.csv'' \<and> slash \<notin> set base)"
  by (simp add: glob_star glob_plain)

section \<open>Properties\<close>

text \<open>C29. A clean-up without an error removes exactly the files anywhere below the root whose
  name ends in .csv and that were last changed more than seven days ago, in the order of the walk: days of
  twenty-four hours, but for a change of the offset of the local time in between. When looking at a path,
  listing a directory or removing a file fails, the clean-up ends with that error, having removed only
  the first of these files; it never panics.\<close>

theorem cleanup_removes_expired:
  "(case removerExpireCsv E ''*.csv'' root [] of
     (Ok _, removed) \<Rightarrow> removed = map fst (filter (\<lambda>(path, name, t).
       (\<exists>base. name = base @ ''.csv'' \<and> slash \<notin> set base) \<and> AddDays 1000000000 (we_local E) 7 t < we_now E)
         (files ''/opt/website/'' (''website'', root)))
   | (Err e, removed) \<Rightarrow> can_fail E e \<and> prefix removed (map fst (filter (\<lambda>(path, name, t).
       (\<exists>base. name = base @ ''.csv'' \<and> slash \<notin> set base) \<and> AddDays 1000000000 (we_local E) 7 t < we_now E)
         (files ''/opt/website/'' (''website'', root))))
   | (Panic, _) \<Rightarrow> False) \<and>
   (\<exists>s. AddDays 1000000000 (we_local E) 7 t =
      t + (7 * (24 * 60 * 60) + we_local E (t div 1000000000) - we_local E s) * 1000000000)"
proof (rule conjI [OF _ AddDays_offsets])
  let ?all = "expired_paths E (glob_match ''*.csv'') (files FileRootPath (''website'', root))"
  have "removed_of E [] (removerExpireCsv E ''*.csv'' root []) ?all"
    using walk_removes(1) [of E "[]" "''*.csv''" FileRootPath "(''website'', root)"]
    by (auto simp: removerExpireCsv_def filepath_Walk_def split: option.split)
  then show "case removerExpireCsv E ''*.csv'' root [] of
     (Ok _, removed) \<Rightarrow> removed = map fst (filter (\<lambda>(path, name, t).
       (\<exists>base. name = base @ ''.csv'' \<and> slash \<notin> set base) \<and> AddDays 1000000000 (we_local E) 7 t < we_now E)
         (files ''/opt/website/'' (''website'', root)))
   | (Err e, removed) \<Rightarrow> can_fail E e \<and> prefix removed (map fst (filter (\<lambda>(path, name, t).
       (\<exists>base. name = base @ ''.csv'' \<and> slash \<notin> set base) \<and> AddDays 1000000000 (we_local E) 7 t < we_now E)
         (files ''/opt/website/'' (''website'', root))))
   | (Panic, _) \<Rightarrow> False"
    by (simp add: removed_of_def expired_paths_def glob_csv FileRootPath_def split: res.splits)
qed

end
