(* ===== verification/Tokens.thy ===== *)
theory Tokens
  imports AccountProps
begin

text \<open>
  The tokens of \<open>authentification.go\<close>: the claims in them, the key they are signed with, their
  time of expiry, and how long a token that a login handed out opens the server. Signing and
  parsing is the token library, which is a parameter; the clock is the argument \<open>now\<close>, in
  seconds since 1970.
\<close>

section \<open>Claims and the token library\<close>

definition signingKey :: string where "signingKey = ''Linking-ddi-cooper''"

record claims =
  cl_expires_at :: int
  cl_user_name :: string

text \<open>
  Parsing checks the signature with a key and the expiry against the clock: it fails, or says
  whether the token is valid, with the claims if they have the expected type.
\<close>

record jwt_lib =
  jl_sign :: "claims \<Rightarrow> string \<Rightarrow> (gerror, string) res"
  jl_parse :: "int \<Rightarrow> string \<Rightarrow> string \<Rightarrow> (bool \<times> claims option) option"

definition createToken :: "jwt_lib \<Rightarrow> int \<Rightarrow> string \<Rightarrow> (gerror, string) res" where
  "createToken L now userName =
     jl_sign L \<lparr>cl_expires_at = now + 24 * 60 * 60, cl_user_name = userName\<rparr> signingKey"

definition parse_token :: "jwt_lib \<Rightarrow> int \<Rightarrow> string \<Rightarrow> parsed_token" where
  "parse_token L now tokenString =
     (case jl_parse L now tokenString signingKey of
        None \<Rightarrow> ParseError
      | Some (valid, claims) \<Rightarrow> Parsed valid (map_option cl_user_name claims))"

text \<open>The tokens at a time, as the login and the middle ware use them.\<close>

definition jwt_at :: "jwt_lib \<Rightarrow> int \<Rightarrow> jwt" where
  "jwt_at L now = \<lparr>jwt_sign = createToken L now, jwt_parse = parse_token L now\<rparr>"

definition JWTMiddleWare_at :: "'d auth_env \<Rightarrow> jwt_lib \<Rightarrow> int \<Rightarrow> 'r ctx \<Rightarrow> ('d, 'r ctx) ahandler" where
  "JWTMiddleWare_at env L now = authentification env (jwt_at L now)"

lemma jwt_at_fields [simp]:
  "jwt_sign (jwt_at L now) = createToken L now" "jwt_parse (jwt_at L now) = parse_token L now"
  by (simp_all add: jwt_at_def)

section \<open>What the library documents\<close>

text \<open>
  A token is never empty, and parses with the key it was signed with until its expiry, that
  second included, where the expiry 0 stands for none; the claims come back unchanged. The
  claims travel as JSON, which keeps a name in ASCII and a 64-bit time.
\<close>

definition ascii_text :: "string \<Rightarrow> bool" where
  "ascii_text s \<longleftrightarrow> list_all (\<lambda>c. \<not> digit7 c) s"

definition carried :: "claims \<Rightarrow> bool" where
  "carried c \<longleftrightarrow> ascii_text (cl_user_name c) \<and> - (2 ^ 63) \<le> cl_expires_at c \<and> cl_expires_at c < 2 ^ 63"

definition jwt_contract :: "jwt_lib \<Rightarrow> bool" where
  "jwt_contract L \<longleftrightarrow>
     (\<forall>c k t. carried c \<longrightarrow> jl_sign L c k = Ok t \<longrightarrow> t \<noteq> [] \<and>
        (\<forall>now. jl_parse L now t k =
           (if cl_expires_at c = 0 \<or> now \<le> cl_expires_at c then Some (True, Some c) else None)))"

lemma jwt_contractD:
  assumes "jwt_contract L" and "carried c" and "jl_sign L c k = Ok t"
  shows "t \<noteq> []" and "jl_parse L now t k =
    (if cl_expires_at c = 0 \<or> now \<le> cl_expires_at c then Some (True, Some c) else None)"
  using assms by (auto simp: jwt_contract_def)

text \<open>A library that meets the contract: the token spells the claims and the key out.\<close>

definition ex_lib :: jwt_lib where
  "ex_lib =
     \<lparr>jl_sign = (\<lambda>c k. Ok (itoa (cl_expires_at c) @ CHR '' '' # k @ cl_user_name c)),
      jl_parse = (\<lambda>now t k.
        (let (e, r) = (takeWhile (\<lambda>c. c \<noteq> CHR '' '') t, tl (dropWhile (\<lambda>c. c \<noteq> CHR '' '') t)) in
         case atoi e of
           None \<Rightarrow> None
         | Some i \<Rightarrow>
             if take (length k) r = k \<and> (i = 0 \<or> now \<le> i)
             then Some (True, Some \<lparr>cl_expires_at = i, cl_user_name = drop (length k) r\<rparr>)
             else None))\<rparr>"

lemma itoa_no_space: "CHR '' '' \<notin> set (itoa i)"
proof -
  have "CHR '' '' \<notin> set (show_nat n)" for n
    using show_nat_digits [of n] by (auto simp: list_all_iff is_digit_def)
  then show ?thesis by (simp add: itoa_def)
qed

lemma ex_lib_contract: "jwt_contract ex_lib"
  unfolding jwt_contract_def
proof (intro allI impI conjI)
  fix c k t now
  assume c: "carried c" and "jl_sign ex_lib c k = Ok t"
  then have t: "t = itoa (cl_expires_at c) @ CHR '' '' # k @ cl_user_name c"
    by (simp add: ex_lib_def)
  then show "t \<noteq> []" by simp
  have all: "\<forall>x \<in> set (itoa (cl_expires_at c)). x \<noteq> CHR '' ''"
    using itoa_no_space by blast
  have "takeWhile (\<lambda>x. x \<noteq> CHR '' '') t = itoa (cl_expires_at c)"
    "dropWhile (\<lambda>x. x \<noteq> CHR '' '') t = CHR '' '' # k @ cl_user_name c"
    using all unfolding t by (simp_all add: takeWhile_append2 dropWhile_append2)
  moreover have "atoi (itoa (cl_expires_at c)) = Some (cl_expires_at c)"
    using c by (intro atoi_itoa) (simp_all add: carried_def)
  ultimately show "jl_parse ex_lib now t k =
      (if cl_expires_at c = 0 \<or> now \<le> cl_expires_at c then Some (True, Some c) else None)"
    by (simp add: ex_lib_def)
qed

section \<open>The token of a login\<close>

text \<open>Times between 1970 and far below the limit of 64 bits.\<close>

definition unix_time :: "int \<Rightarrow> bool" where
  "unix_time t \<longleftrightarrow> 0 \<le> t \<and> t < 2 ^ 62"

lemma created_token:
  assumes "jwt_contract L" and "unix_time t0" and "ascii_text name" and "createToken L t0 name = Ok tok"
  shows "tok \<noteq> []" and "parse_token L t tok =
    (if t \<le> t0 + 24 * 60 * 60 then Parsed True (Some name) else ParseError)"
proof -
  let ?c = "\<lparr>cl_expires_at = t0 + 24 * 60 * 60, cl_user_name = name\<rparr>"
  have c: "carried ?c" using assms(2,3) by (simp add: carried_def unix_time_def)
  have s: "jl_sign L ?c signingKey = Ok tok" using assms(4) by (simp add: createToken_def)
  show "tok \<noteq> []" by (rule jwt_contractD(1) [OF assms(1) c s])
  show "parse_token L t tok = (if t \<le> t0 + 24 * 60 * 60 then Parsed True (Some name) else ParseError)"
    using jwt_contractD(2) [OF assms(1) c s] assms(2) by (simp add: parse_token_def unix_time_def)
qed

text \<open>What the middle ware decides once it knows the user: the session, then its authority.\<close>

definition decide_as :: "'d auth_env \<Rightarrow> string \<Rightarrow> 'r ctx \<Rightarrow> ('d, 'r ctx) ahandler" where
  "decide_as env name ctx w =
     (case w_active w name of
        None \<Rightarrow> (Err (APIError Unauthorized ''forbidden:token not exists''), w)
      | Some user \<Rightarrow>
          (let ctx1 = ctx_set AuthUser (VString name) ctx in
           if name = Admin then (Ok ctx1, w)
           else (case checkAuthority (env_order env) ctx1 user of
               (Some e, _) \<Rightarrow> (Err (APIError PermissionDenied e), w)
             | (None, ctx2) \<Rightarrow> (Ok ctx2, w))))"

lemma authentification_token:
  assumes "checkWhiteList env (getClientIP (c_remote_addr ctx)) w = (Ok (), w)" and "c_auth_header ctx \<noteq> []"
  shows "authentification env j ctx w =
    (case jwt_parse j (c_auth_header ctx) of
       Parsed True (Some name) \<Rightarrow> decide_as env name ctx w
     | _ \<Rightarrow> (Err (APIError Unauthorized ''forbidden:token invalid''), w))"
  using assms
  by (simp add: authentification_eq decide_as_def Let_def c_bind_def c_map_err_def c_gets_def
      split: parsed_token.split option.split prod.split bool.split)

lemma checkLogin_OkE:
  assumes "checkLogin env j ip (Some lr) w = (Ok tok, w')"
  obtains user where "jwt_sign j (lr_username lr) = Ok tok" and "w_active w' (lr_username lr) = Some user"
  using assms unfolding checkLogin_def option.case
  by (elim c_bind_OkE) (auto split: res.splits)

lemma logged_in_token:
  assumes "jwt_contract L" and "unix_time t0" and "ascii_text (lr_username lr)"
    and "checkLogin env (jwt_at L t0) ip (Some lr) w = (Ok tok, w1)"
    and "checkWhiteList env (getClientIP (c_remote_addr ctx)) w2 = (Ok (), w2)" and "c_auth_header ctx = tok"
  shows "JWTMiddleWare_at env L t ctx w2 =
    (if t \<le> t0 + 24 * 60 * 60 then decide_as env (lr_username lr) ctx w2
     else (Err (APIError Unauthorized ''forbidden:token invalid''), w2))"
proof -
  have sign: "createToken L t0 (lr_username lr) = Ok tok"
    using checkLogin_OkE [OF assms(4)] by simp
  note tok = created_token [OF assms(1-3) sign]
  show ?thesis
    unfolding JWTMiddleWare_at_def
    using authentification_token [OF assms(5), of "jwt_at L t"] tok(1) tok(2) [of t] assms(6) by simp
qed

text \<open>C9. The token that a login hands out opens the server for 24 hours, the last second included.
  Until then, and from wherever the white list admits, a request with it is decided as one of the user
  who logged in, by the session and the authority of the moment; afterwards it is refused
  as invalid, whether or not the user still has a session. Nothing prolongs it.\<close>

theorem token_lifetime:
  assumes "auth_db_ok V (env_db env)" and "jwt_contract L"
    and "unix_time t0" and "ascii_text (lr_username lr)"
    and "checkLogin env (jwt_at L t0) ip (Some lr) w = (Ok tok, w1)"
    and "wl_admits (ad_whitelists (V (w_db w2))) (getClientIP (c_remote_addr ctx))"
    and "c_auth_header ctx = tok"
  shows "JWTMiddleWare_at env L t ctx w2 =
    (if t \<le> t0 + 24 * 60 * 60 then decide_as env (lr_username lr) ctx w2
     else (Err (APIError Unauthorized ''forbidden:token invalid''), w2))"
  using assms(6) logged_in_token [OF assms(2-5) _ assms(7)]
  by (cases rule: checkWhiteList_db [OF assms(1), of w2 "getClientIP (c_remote_addr ctx)"]) auto

abbreviation ex_login_data :: "string \<Rightarrow> auth_data" where
  "ex_login_data c \<equiv> ex_data\<lparr>ad_users := [ex_bob\<lparr>u_password := c\<rparr>]\<rparr>"

abbreviation ex_credentials :: login_request where
  "ex_credentials \<equiv> \<lparr>lr_username = ''bob'', lr_password = ''secret''\<rparr>"

abbreviation ex_logged_in :: "string \<Rightarrow> (string \<Rightarrow> ddiuser option) \<Rightarrow> auth_data aworld" where
  "ex_logged_in c active \<equiv>
     store_active ''bob'' (session_of ex_env (ex_login_data c) (ex_bob\<lparr>u_password := c\<rparr>))
       \<lparr>w_db = ex_login_data c, w_active = active\<rparr>"

definition ex_token :: "int \<Rightarrow> string" where
  "ex_token now = itoa (now + 24 * 60 * 60) @ '' Linking-ddi-cooperbob''"

lemma ex_login:
  assumes "Encrypt aesKey ''secret'' = Ok c"
  shows "checkLogin ex_env (jwt_at ex_lib now) ''10.1.1.1'' (Some ex_credentials)
      \<lparr>w_db = ex_login_data c, w_active = active\<rparr> = (Ok (ex_token now), ex_logged_in c active)"
proof -
  let ?D = "ex_login_data c" and ?w = "\<lparr>w_db = ex_login_data c, w_active = active\<rparr>"
  have plain: "\<forall>u \<in> set (ad_users ?D). plain_user ?D u"
    by (simp add: plain_user_def groups_of_def ex_bob_def new_user_def in_ids_def ex_data_def
        ex_group_def plain_def)
  have id: "users_by_id ?D ''bob'' = [ex_bob\<lparr>u_password := c\<rparr>]"
    by (simp add: users_by_id_def ex_bob_def new_user_def)
  have sign: "createToken ex_lib now ''bob'' = Ok (ex_token now)"
    by (simp add: createToken_def ex_lib_def signingKey_def ex_token_def)
  have "wl_admits (ad_whitelists ?D) ''10.1.1.1''"
    by (simp add: wl_admits_def ex_data_def ex_whitelist_def)
  then have wl: "checkWhiteList ex_env ''10.1.1.1'' ?w = (Ok (), ?w)"
    by (cases rule: checkWhiteList_db [OF ex_env_ok(1), of ?w "''10.1.1.1''"]) auto
  show ?thesis
    using login_admitted [OF ex_env_ok _ wl, of "jwt_at ex_lib now" ex_credentials] plain id sign
      Decrypt_Encrypt_aux [OF assms] by simp
qed

text \<open>The requests of the witnesses: \<open>bob\<close>, one day after a login at the time 1000, and a second later.\<close>

definition ex_request :: "string ctx" where
  "ex_request = (ex_ctx ''bob'' ''GET'' ''node'' [] [])
     \<lparr>c_auth_header := ex_token 1000\<rparr>"

lemma ex_request_admitted:
  "wl_admits (ad_whitelists ex_data) (getClientIP (c_remote_addr ex_request))"
  by (simp add: wl_admits_def ex_data_def ex_whitelist_def)

theorem token_lifetime_witness:
  "\<exists>c. Encrypt aesKey ''secret'' = Ok c \<and> w_active (ex_logged_in c Map.empty) ''bob'' \<noteq> None \<and>
     JWTMiddleWare_at ex_env ex_lib 87400 ex_request (ex_logged_in c Map.empty) =
       decide_as ex_env ''bob'' ex_request (ex_logged_in c Map.empty) \<and>
     JWTMiddleWare_at ex_env ex_lib 87401 ex_request (ex_logged_in c Map.empty) =
       (Err (APIError Unauthorized ''forbidden:token invalid''), ex_logged_in c Map.empty)"
proof -
  obtain c where c: "Encrypt aesKey ''secret'' = Ok c" by (rule aesKey_encrypts)
  let ?w = "ex_logged_in c Map.empty"
  have "unix_time 1000" "ascii_text ''bob''" "c_auth_header ex_request = ex_token 1000"
    "wl_admits (ad_whitelists (w_db ?w)) (getClientIP (c_remote_addr ex_request))"
    by (simp_all add: unix_time_def ascii_text_def ex_request_admitted) (simp add: ex_request_def)
  then have "JWTMiddleWare_at ex_env ex_lib t ex_request ?w =
      (if t \<le> 1000 + 24 * 60 * 60 then decide_as ex_env ''bob'' ex_request ?w
       else (Err (APIError Unauthorized ''forbidden:token invalid''), ?w))" for t
    using token_lifetime [OF ex_env_ok(1) ex_lib_contract _ _ ex_login [OF c], of 1000 ?w ex_request t] by simp
  from this [of 87400] this [of 87401] c show ?thesis by (intro exI [of _ c]) simp
qed

section \<open>Logging out and in again\<close>

text \<open>C12. Logging out does not revoke a token: it only ends the session of the name. The middle ware
  turns the token away while the user is logged out; but as soon as the same user has logged in
  again, wherever that was, the old token is accepted like the new one until the end of
  its own 24 hours, and works on the new session.\<close>

theorem old_token_revives:
  assumes "auth_db_ok V (env_db env)" and "jwt_contract L"
    and "unix_time t0" and "unix_time t1" and "t0 \<le> t1" and "ascii_text name"
    and "checkLogin env (jwt_at L t0) ip (Some \<lparr>lr_username = name, lr_password = pw\<rparr>) w = (Ok tok, w1)"
    and "c_action octx = Some act" and "act_name act = ''logout''" and "c_vals octx AuthUser = Some (VString name)"
    and "snd (user_Action env octx) w1 = (res, w2)"
    and "checkLogin env (jwt_at L t1) ip' (Some \<lparr>lr_username = name, lr_password = pw'\<rparr>) w2 = (Ok tok', w3)"
    and "wl_admits (ad_whitelists (V (w_db w2))) (getClientIP (c_remote_addr ctx))"
    and "wl_admits (ad_whitelists (V (w_db w3))) (getClientIP (c_remote_addr ctx))"
    and "t \<le> t0 + 24 * 60 * 60"
  shows "JWTMiddleWare_at env L t (ctx\<lparr>c_auth_header := tok\<rparr>) w2 =
      (Err (APIError Unauthorized ''forbidden:token not exists''), w2) \<and>
    w_active w3 name \<noteq> None \<and>
    (\<forall>k \<in> {tok, tok'}. JWTMiddleWare_at env L t (ctx\<lparr>c_auth_header := k\<rparr>) w3 =
      decide_as env name (ctx\<lparr>c_auth_header := k\<rparr>) w3)"
proof -
  have wl: "checkWhiteList env (getClientIP (c_remote_addr (ctx\<lparr>c_auth_header := k\<rparr>))) w2 = (Ok (), w2)"
      "checkWhiteList env (getClientIP (c_remote_addr (ctx\<lparr>c_auth_header := k\<rparr>))) w3 = (Ok (), w3)" for k
    using assms(13,14) checkWhiteList_db [OF assms(1)] by (metis ctx.select_convs(7) ctx.surjective ctx.update_convs(8))+
  have gone: "w_active w2 name = None"
    using assms(8-11) by (auto simp: user_Action_def Let_def Logout_def AuthUser_def AuditlogIgnore_def c_bind_def ctx_set_def)
  note old = logged_in_token [OF assms(2,3) _ assms(7)]
  note new = logged_in_token [OF assms(2,4) _ assms(12)]
  have "JWTMiddleWare_at env L t (ctx\<lparr>c_auth_header := tok\<rparr>) w2 =
      (Err (APIError Unauthorized ''forbidden:token not exists''), w2)"
    using old [OF _ wl(1)] assms(6,15) gone by (simp add: decide_as_def)
  moreover obtain user where "w_active w3 name = Some user"
    by (rule checkLogin_OkE [OF assms(12)]) simp
  moreover have "JWTMiddleWare_at env L t (ctx\<lparr>c_auth_header := tok\<rparr>) w3 =
      decide_as env name (ctx\<lparr>c_auth_header := tok\<rparr>) w3"
    using old [OF _ wl(2)] assms(6,15) by simp
  moreover have "JWTMiddleWare_at env L t (ctx\<lparr>c_auth_header := tok'\<rparr>) w3 =
      decide_as env name (ctx\<lparr>c_auth_header := tok'\<rparr>) w3"
    using new [OF _ wl(2)] assms(5,6,15) by simp
  ultimately show ?thesis by simp
qed

theorem old_token_revives_witness:
  "\<exists>c w2 w3. Encrypt aesKey ''secret'' = Ok c \<and>
     JWTMiddleWare_at ex_env ex_lib 2000 ex_request w2 =
       (Err (APIError Unauthorized ''forbidden:token not exists''), w2) \<and>
     JWTMiddleWare_at ex_env ex_lib 2000 ex_request w3 = decide_as ex_env ''bob'' ex_request w3 \<and>
     w_active w3 ''bob'' \<noteq> None"
proof -
  obtain c where c: "Encrypt aesKey ''secret'' = Ok c" by (rule aesKey_encrypts)
  let ?w1 = "ex_logged_in c Map.empty" and ?act = "\<lparr>act_name = ''logout'', act_input = ex_credentials\<rparr>"
  let ?octx = "(ex_ctx ''bob'' ''POST'' ''ddiuser'' ''bob'' ex_bob)\<lparr>c_action := Some ?act\<rparr>"
  let ?w2 = "\<lparr>w_db = ex_login_data c, w_active = Map.empty\<rparr>"
  have out: "snd (user_Action ex_env ?octx) ?w1 = (Ok (LogoutResponse True []), ?w2)"
    by (simp add: user_Action_def Let_def Logout_def AuthUser_def AuditlogIgnore_def c_bind_def ctx_set_def
        delete_active_def store_active_def fun_eq_iff ex_ctx_def)
  have hdr: "ex_request\<lparr>c_auth_header := ex_token 1000\<rparr> = ex_request" by (simp add: ex_request_def)
  have times: "unix_time 1000" "unix_time 1500" "ascii_text ''bob''"
    by (simp_all add: unix_time_def ascii_text_def)
  have adm: "wl_admits (ad_whitelists (w_db w)) (getClientIP (c_remote_addr ex_request))"
    if "w_db w = ex_login_data c" for w :: "auth_data aworld"
    using ex_request_admitted that by simp
  from old_token_revives [OF ex_env_ok(1) ex_lib_contract times(1,2) _ times(3) ex_login [OF c] _ _ _ out
      ex_login [OF c] adm adm, where act = ?act and t = 2000] c hdr
  show ?thesis by (intro exI [of _ c] exI [of _ ?w2] exI [of _ ?w1]) (simp add: ex_ctx_def)
qed

end
