(* ===== verification/Typing.thy ===== *)
theory Typing
  imports SessionProps
begin

text \<open>
  The program keeps values of different types in the context of a request and in the table of
  sessions, and reads them back with type assertions that panic. This theory gives the types
  and shows that the middle ware and the filters respect them.
\<close>

section \<open>Contexts of requests\<close>

text \<open>What the program stores under its keys: the user as a string, the views and plans as lists.\<close>

inductive val_typed :: "string \<Rightarrow> ctx_val \<Rightarrow> bool" where
  typed_user: "val_typed AuthUser (VString name)"
| typed_views: "val_typed ViewKey (VStringList views)"
| typed_plans: "val_typed PrefixKey (VStringList plans)"
| typed_ignore: "val_typed AuditlogIgnore VNil"

lemma val_typed_keys [simp]:
  "val_typed AuthUser v \<longleftrightarrow> (\<exists>name. v = VString name)"
  "val_typed ViewKey v \<longleftrightarrow> (\<exists>views. v = VStringList views)"
  "val_typed PrefixKey v \<longleftrightarrow> (\<exists>plans. v = VStringList plans)"
  by (auto simp: val_typed.simps AuthUser_def ViewKey_def PrefixKey_def AuditlogIgnore_def)

definition typed_ctx :: "'r ctx \<Rightarrow> bool" where
  "typed_ctx ctx \<longleftrightarrow> (\<forall>k v. c_vals ctx k = Some v \<longrightarrow> val_typed k v)"

lemma typed_ctx_set: "typed_ctx ctx \<Longrightarrow> val_typed k v \<Longrightarrow> typed_ctx (ctx_set k v ctx)"
  by (simp add: typed_ctx_def ctx_set_def)

lemma typed_ctxD: "typed_ctx ctx \<Longrightarrow> c_vals ctx k = Some v \<Longrightarrow> val_typed k v"
  by (simp add: typed_ctx_def)

section \<open>The middle ware preserves types\<close>

lemma authority_loop_typed: "typed_ctx ctx \<Longrightarrow> typed_ctx (snd (authority_loop as ctx))"
proof (induction as arbitrary: ctx)
  case (Cons a as)
  then show ?case by (simp add: Let_def typed_ctx_set)
qed simp

lemma checkAuthority_typed: "typed_ctx ctx \<Longrightarrow> typed_ctx (snd (checkAuthority ord ctx user))"
  using authority_loop_typed [of ctx "map snd (gomap_range ord (u_authority user))"]
  by (auto simp: checkAuthority_def split: prod.split)

lemma authentification_typed:
  assumes "authentification env j ctx w = (Ok ctx', w')" and "typed_ctx ctx"
  shows "typed_ctx ctx'"
proof -
  have u: "typed_ctx (ctx_set AuthUser (VString name) ctx)" for name
    using assms(2) by (rule typed_ctx_set) simp
  then have chk: "typed_ctx (snd (checkAuthority ord (ctx_set AuthUser (VString name) ctx) user))"
    for ord name user by (rule checkAuthority_typed)
  from assms(1) obtain name where "ctx' = ctx_set AuthUser (VString name) ctx \<or>
      (\<exists>ord user. ctx' = snd (checkAuthority ord (ctx_set AuthUser (VString name) ctx) user))"
    unfolding authentification_eq
    by (elim c_bind_OkE) (auto simp: Let_def split: if_splits parsed_token.splits option.splits prod.splits; metis snd_conv)
  with u chk show ?thesis by auto
qed

section \<open>The filters do not panic on well-typed contexts\<close>

lemma parse_cidr_returns: "parse_cidr s \<noteq> Panic"
  by (simp add: parse_cidr_def Let_def split: option.split prod.split)

lemma prefix_contains_returns: "PrefixContainsSubnetOrIP p s \<noteq> Panic"
  using parse_cidr_returns
  by (simp add: PrefixContainsSubnetOrIP_def Let_def split: res.split option.split prod.split)

lemma plans_cover_returns: "plans_cover ps s \<noteq> Panic"
  by (induction ps) (auto simp: prefix_contains_returns split: res.split bool.split)

lemma prefixes_covered_returns: "prefixes_covered ps ss \<noteq> Panic"
proof (induction ss)
  case (Cons s ss)
  then show ?case using plans_cover_returns [of ps s] by (cases "plans_cover ps s") simp_all
qed simp

lemma filters_return:
  assumes "typed_ctx ctx"
  shows "ViewFilter ctx v \<noteq> Panic" and "PrefixFilter ctx ps \<noteq> Panic"
  using assms typed_ctxD [OF assms, of ViewKey] typed_ctxD [OF assms, of PrefixKey] prefixes_covered_returns
  by (auto simp: ViewFilter_def PrefixFilter_def split: option.split ctx_val.split)

section \<open>Every session and every admitted request is well typed\<close>

lemma typed_operations:
  assumes "typed_authority tmpl a" and "ra_filter a" and "\<forall>b \<in> set (rc_base (rt_normal tmpl)). \<not> ra_filter b"
  shows "ra_operations a = [OperationsTypeGET] \<or> ra_operations a = all_operations \<and> ra_views a \<noteq> []"
  using assms by (cases rule: typed_authority.cases)
    (auto simp: view_authority_def dhcp_authority_def Let_def split: if_splits)

text \<open>C37. Type soundness of the server. In every state it can reach, the authority of every session is
  a well-typed map over the role template: each entry stands under its resource, once, and is an
  entry of the template as such, or with views put in, or with no plans; one that is subject to
  filtering allows reading alone, or everything on the views it names. And a request
  that the middle ware lets through leaves a context in which every value has the type that
  is asserted when it is read back, so that neither filter ever panics.\<close>

theorem server_well_typed:
  assumes "reachable env j w" and "rows_bare (env_db env)"
    and "\<forall>b \<in> set (rc_base (rt_normal (env_template env))). \<not> ra_filter b"
    and "w_active w name = Some user"
    and "authentification env j ctx w = (Ok ctx', w')" and "typed_ctx ctx"
  shows "typed_map (env_template env) (u_authority user) \<and>
    (\<forall>a \<in> snd ` set (u_authority user). ra_filter a \<longrightarrow>
       ra_operations a = [OperationsTypeGET] \<or> ra_operations a = all_operations \<and> ra_views a \<noteq> []) \<and>
    typed_ctx ctx' \<and> ViewFilter ctx' view \<noteq> Panic \<and> PrefixFilter ctx' prefixes \<noteq> Panic"
proof -
  have typed: "typed_map (env_template env) (u_authority user)"
    using reachable_good [OF assms(1,2)] assms(4) by (simp add: sess.all_sessions_def good_session_def)
  then have "\<forall>a \<in> snd ` set (u_authority user). ra_filter a \<longrightarrow>
      ra_operations a = [OperationsTypeGET] \<or> ra_operations a = all_operations \<and> ra_views a \<noteq> []"
    using typed_operations [OF _ _ assms(3)] by (auto simp: typed_map_def)
  moreover have "typed_ctx ctx'" by (rule authentification_typed [OF assms(5,6)])
  ultimately show ?thesis using typed filters_return by blast
qed

theorem server_well_typed_witness:
  "\<exists>ctx' w'. authentification ex_bare_env ex_jwt ((ex_ctx ''alice'' ''GET'' ''subnet'' ''s'' ())\<lparr>c_vals := Map.empty\<rparr>) ex_up =
       (Ok ctx', w') \<and>
     typed_map ex_template (u_authority (the (w_active ex_up ''alice''))) \<and>
     typed_ctx ctx' \<and> ViewFilter ctx' ''v1'' \<noteq> Panic"
proof -
  let ?ctx = "(ex_ctx ''alice'' ''GET'' ''subnet'' ''s'' ())\<lparr>c_vals := Map.empty\<rparr>"
  have "is_Ok (fst (authentification ex_bare_env ex_jwt ?ctx ex_up))" by code_simp
  then obtain ctx' w' where auth: "authentification ex_bare_env ex_jwt ?ctx ex_up = (Ok ctx', w')"
    by (cases "authentification ex_bare_env ex_jwt ?ctx ex_up") (auto simp: is_Ok_def split: res.splits)
  have "\<not> Option.is_none (w_active ex_up ''alice'')" by code_simp
  then obtain user where act: "w_active ex_up ''alice'' = Some user"
    by (cases "w_active ex_up ''alice''") simp_all
  have "typed_ctx ?ctx" by (simp add: typed_ctx_def)
  moreover have tmpl: "env_template ex_bare_env = ex_template" by (simp add: ex_bare_env_def)
  moreover have "\<forall>b \<in> set (rc_base (rt_normal ex_template)). \<not> ra_filter b" by (simp add: ex_template_def)
  ultimately show ?thesis
    using server_well_typed [OF ex_up_reachable ex_bare_rows _ act auth] auth act
    by (intro exI [of _ ctx'] exI [of _ w']) simp
qed

section \<open>Actions on users\<close>

text \<open>The declaration of the actions in \<open>resource/user.go\<close>: the REST library decodes the input of an
  action into its declared type and documents the type of the output.\<close>

definition ActionLogout :: string where "ActionLogout = ''logout''"
definition ActionCurrentUser :: string where "ActionCurrentUser = ''currentUser''"
definition ActionChangePassword :: string where "ActionChangePassword = ''changePassword''"
definition ActionResetPassword :: string where "ActionResetPassword = ''resetPassword''"

datatype action_type = LogoutResponseType | UserInfoType | LoginRequestType | LoginResponseType

record action_decl =
  dc_name :: string
  dc_input :: "action_type option"
  dc_output :: action_type

definition UserAction :: "action_decl list" where
  "UserAction =
     [\<lparr>dc_name = ActionLogout, dc_input = None, dc_output = LogoutResponseType\<rparr>,
      \<lparr>dc_name = ActionCurrentUser, dc_input = None, dc_output = UserInfoType\<rparr>,
      \<lparr>dc_name = ActionChangePassword, dc_input = Some LoginRequestType, dc_output = LoginResponseType\<rparr>,
      \<lparr>dc_name = ActionResetPassword, dc_input = Some LoginRequestType, dc_output = LoginResponseType\<rparr>]"

definition GetActions :: "ddiuser \<Rightarrow> action_decl list" where
  "GetActions u = UserAction"

fun result_type :: "action_result \<Rightarrow> action_type" where
  "result_type (LogoutResponse _ _) = LogoutResponseType"
| "result_type (CurrentUserInfo _) = UserInfoType"
| "result_type (LoginRequestEcho _) = LoginRequestType"

lemma write_password_result: "write_password env input w = (Ok res, w') \<Longrightarrow> result_type res = LoginRequestType"
  unfolding write_password_def by (auto split: if_splits res.splits elim!: c_bind_OkE)

text \<open>Only declared actions succeed. Logging out and asking for the current user answer with the type
  that is declared; the two that set a password declare a login response and answer with a
  login request.\<close>

theorem action_results:
  assumes "c_action ctx = Some act" and "snd (user_Action env ctx) w = (Ok res, w')"
  shows "\<exists>d \<in> set (GetActions u). dc_name d = act_name act \<and>
    (if dc_input d = None then result_type res = dc_output d
     else dc_output d = LoginResponseType \<and> result_type res = LoginRequestType)"
proof -
  let ?ctx = "ctx_set AuditlogIgnore VNil ctx"
  note decls = GetActions_def UserAction_def ActionLogout_def ActionCurrentUser_def
    ActionChangePassword_def ActionResetPassword_def
  from assms consider (out) "act_name act = ''logout''" "Logout ?ctx w = (Ok res, w')"
    | (current) "act_name act = ''currentUser''" "CurrentUser env ?ctx w = (Ok res, w')"
    | (change) "act_name act = ''changePassword''" "changePassword env ?ctx w = (Ok res, w')"
    | (reset) "act_name act = ''resetPassword''" "resetPassword env ?ctx w = (Ok res, w')"
    by (auto simp: user_Action_def Let_def split: if_splits)
  then show ?thesis
  proof cases
    case out
    then have "result_type res = LogoutResponseType"
      by (auto simp: Logout_def c_bind_def split: option.splits)
    with out show ?thesis by (simp add: decls)
  next
    case current
    then have "result_type res = UserInfoType"
      by (auto simp: CurrentUser_def c_bind_def split: option.splits)
    with current show ?thesis by (simp add: decls)
  next
    case change
    then have "result_type res = LoginRequestType"
      by (auto simp: changePassword_def Let_def split: option.splits if_splits dest: write_password_result)
    with change show ?thesis by (simp add: decls)
  next
    case reset
    then have "result_type res = LoginRequestType"
      by (auto simp: resetPassword_def split: option.splits if_splits dest: write_password_result)
    with reset show ?thesis by (simp add: decls)
  qed
qed

end
