(* ===== verification/ShippedRoles.thy ===== *)
theory ShippedRoles
  imports Tokens Typing Startup
begin

text \<open>
  The role file that comes with the program, \<open>etc/ddi-role.json\<close>, and what it lets a normal user
  do with the resources that the controller serves.
\<close>

section \<open>The role file\<close>

text \<open>An entry with its name, whether it is filtered, and its operations; views and plans are empty
  throughout.\<close>

definition role_entry :: "string \<Rightarrow> bool \<Rightarrow> operations_type list \<Rightarrow> role_authority" where
  "role_entry name filt ops =
     \<lparr>ra_resource = name, ra_views = [], ra_plans = [], ra_filter = filt, ra_operations = ops\<rparr>"

definition shipped_base :: "role_authority list" where
  "shipped_base =
     [role_entry ''ddiuser'' False [OperationsTypeGET, OperationsTypeACTION, OperationsTypePOST],
      role_entry ''node'' False [OperationsTypeGET],
      role_entry ''dns'' False [OperationsTypeGET],
      role_entry ''dhcp'' False [OperationsTypeGET]]"

definition shipped_dns :: "role_authority list" where
  "shipped_dns =
     [role_entry ''dnsglobalconfig'' False [OperationsTypeGET],
      role_entry ''acl'' False [OperationsTypeGET],
      role_entry ''view'' False [OperationsTypeGET],
      role_entry ''zone'' True [OperationsTypeGET],
      role_entry ''rr'' True [OperationsTypeGET],
      role_entry ''redirection'' True [OperationsTypeGET],
      role_entry ''urlredirect'' True [OperationsTypeGET],
      role_entry ''forward'' False [OperationsTypeGET],
      role_entry ''forwardzone'' True [OperationsTypeGET]]"

definition shipped_dhcp :: "role_authority list" where
  "shipped_dhcp =
     [role_entry ''dhcpconfig'' False [OperationsTypeGET],
      role_entry ''subnet'' True [OperationsTypeGET],
      role_entry ''pdpool'' False [OperationsTypeGET],
      role_entry ''pool'' False [OperationsTypeGET],
      role_entry ''reservation'' False [OperationsTypeGET],
      role_entry ''staticaddress'' False [OperationsTypeGET],
      role_entry ''plan'' False [OperationsTypeGET],
      role_entry ''layout'' False [OperationsTypeGET],
      role_entry ''networkinterface'' False [OperationsTypeGET],
      role_entry ''asset'' True [OperationsTypeGET],
      role_entry ''networkequipment'' True [OperationsTypeGET],
      role_entry ''networktopology'' False [OperationsTypeGET],
      role_entry ''scannedsubnet'' True [OperationsTypeGET],
      role_entry ''clientclass'' False [OperationsTypeGET],
      role_entry ''netnode'' False [OperationsTypeGET]]"

definition shipped_roles :: role_template where
  "shipped_roles =
     \<lparr>rt_super = \<lparr>rc_base = [], rc_dns = [], rc_dhcp = []\<rparr>,
      rt_normal = \<lparr>rc_base = shipped_base, rc_dns = shipped_dns, rc_dhcp = shipped_dhcp\<rparr>\<rparr>"

lemma shipped_fields [simp]:
  "rc_base (rt_normal shipped_roles) = shipped_base"
  "rc_dns (rt_normal shipped_roles) = shipped_dns"
  "rc_dhcp (rt_normal shipped_roles) = shipped_dhcp"
  by (simp_all add: shipped_roles_def)

lemma shipped_ok: "template_ok shipped_roles"
  by (simp add: template_ok_def shipped_base_def shipped_dns_def shipped_dhcp_def role_entry_def)

text \<open>The library calls the type of a resource by the name of its Go type in lower case.\<close>

primrec dns_kind :: "dns_type \<Rightarrow> string" where
  "dns_kind AclType = ''acl''"
| "dns_kind ViewType = ''view''"
| "dns_kind ZoneType = ''zone''"
| "dns_kind ForwardZoneType = ''forwardzone''"
| "dns_kind RrType = ''rr''"
| "dns_kind ForwardType = ''forward''"
| "dns_kind IpBlackHoleType = ''ipblackhole''"
| "dns_kind RecursiveConcurrentType = ''recursiveconcurrent''"
| "dns_kind RedirectionType = ''redirection''"
| "dns_kind DnsGlobalConfigType = ''dnsglobalconfig''"
| "dns_kind UrlRedirectType = ''urlredirect''"

primrec kind_name :: "resource_type \<Rightarrow> string" where
  "kind_name AuditLogType = ''auditlog''"
| "kind_name DdiuserType = ''ddiuser''"
| "kind_name RoleType = ''role''"
| "kind_name UserGroupType = ''usergroup''"
| "kind_name UserRoleType = ''userrole''"
| "kind_name WhiteListType = ''whitelist''"
| "kind_name NodeType = ''node''"
| "kind_name ClusterType6 = ''cluster''"
| "kind_name HomePageType = ''homepage''"
| "kind_name HostType = ''host''"
| "kind_name WebGroupType = ''webgroup''"
| "kind_name WebsiteType = ''website''"
| "kind_name BalanceType = ''balance''"
| "kind_name VipIntervalType = ''vipinterval''"
| "kind_name (DnsType d) = dns_kind d"

text \<open>What the controller imports at its start, in this order.\<close>

definition served_types :: "resource_type list" where
  "served_types = NodeType # auth_types @ AuditLogType # business_types"

section \<open>Entries for the kinds that are served\<close>

lemma shipped_typed_entry:
  assumes "typed_authority shipped_roles a" and "ra_resource a = kind_name k" and "k \<in> set served_types"
  shows "(k = DdiuserType \<and> a = role_entry ''ddiuser'' False
      [OperationsTypeGET, OperationsTypeACTION, OperationsTypePOST]) \<or>
    (k = NodeType \<and> a = role_entry ''node'' False [OperationsTypeGET])"
proof -
  have "list_all (\<lambda>k. kind_name k \<notin> set (map ra_resource (shipped_dns @ shipped_dhcp))) served_types"
    by code_simp
  note served = this [unfolded list_all_iff set_map, rule_format, OF assms(3)]
  have "list_all (\<lambda>k. list_all (\<lambda>a. ra_resource a = kind_name k \<longrightarrow>
      (k = DdiuserType \<and> a = role_entry ''ddiuser'' False
        [OperationsTypeGET, OperationsTypeACTION, OperationsTypePOST]) \<or>
      (k = NodeType \<and> a = role_entry ''node'' False [OperationsTypeGET])) shipped_base) served_types"
    by code_simp
  note base = this [unfolded list_all_iff, rule_format, OF assms(3) _ assms(2)]
  from assms(1) show ?thesis
  proof cases
    case typed_base
    then show ?thesis using base by simp
  next
    case (typed_dns b views)
    then show ?thesis using assms(2) served by force
  next
    case (typed_dhcp b)
    then show ?thesis using assms(2) served by force
  qed
qed

lemma admitted_entry:
  assumes "authentification env j ctx w = (Ok ctx', w')" and "order_ok (env_order env)"
    and "jwt_parse j (c_auth_header ctx) = Parsed True (Some name)" and "name \<noteq> Admin"
    and "good_sessions env w"
  obtains a where "typed_authority (env_template env) a" and "ra_resource a = c_type ctx"
    and "c_method ctx \<in> set (ra_operations a)"
proof -
  from assms(1,3,4) obtain user where act: "w_active w name = Some user"
    and chk: "checkAuthority (env_order env) (ctx_set AuthUser (VString name) ctx) user = (None, ctx')"
    by (elim authentification_OkE) simp
  from assms(5) act have typed: "typed_map (env_template env) (u_authority user)"
    by (simp add: sess.all_sessions_def good_session_def)
  then have ok: "authority_ok (u_authority user)" by (simp add: typed_map_def)
  from chk obtain a where a: "map_of (u_authority user) (c_type ctx) = Some a"
    and adm: "entry_admits (ctx_set AuthUser (VString name) ctx) a"
    by (auto simp: checkAuthority_lookup [OF assms(2) ok] split: option.splits if_splits)
  show thesis
    using that [of a] typed adm map_of_SomeD [OF a] by (force simp: typed_map_def entry_admits_def)
qed

section \<open>What a normal user reaches\<close>

text \<open>With the role file that comes with the program, and whatever the roles and groups of the
  database, a user other than the administrator is let through to just two of the resources that the
  controller serves: to the list of the nodes, for reading, and to the users, for
  reading, for actions and for creating one. None of the roles gives access to the resources of the
  accelerator, whose kinds the file does not name.\<close>

theorem shipped_roles_scope:
  assumes "reachable env j w" and "rows_bare (env_db env)" and "order_ok (env_order env)"
    and "env_template env = shipped_roles"
    and "jwt_parse j (c_auth_header ctx) = Parsed True (Some name)" and "name \<noteq> Admin"
    and "authentification env j ctx w = (Ok ctx', w')"
    and "c_type ctx = kind_name k" and "k \<in> set served_types"
  shows "(k = NodeType \<and> c_method ctx = OperationsTypeGET) \<or>
    (k = DdiuserType \<and> c_method ctx \<in> {OperationsTypeGET, OperationsTypeACTION, OperationsTypePOST})"
proof -
  have good: "good_sessions env w" by (rule reachable_good [OF assms(1,2)])
  from admitted_entry [OF assms(7,3,5,6) good] obtain a where "typed_authority (env_template env) a"
    and "ra_resource a = c_type ctx" and ops: "c_method ctx \<in> set (ra_operations a)" .
  with assms(4,8,9) have "(k = DdiuserType \<and> a = role_entry ''ddiuser'' False
      [OperationsTypeGET, OperationsTypeACTION, OperationsTypePOST]) \<or>
    (k = NodeType \<and> a = role_entry ''node'' False [OperationsTypeGET])"
    by (intro shipped_typed_entry) simp_all
  with ops show ?thesis by (auto simp: role_entry_def)
qed

text \<open>The example server with this file, right after it has come up.\<close>

definition ex_shipped_env :: "auth_data auth_env" where
  "ex_shipped_env = ex_bare_env\<lparr>env_template := shipped_roles\<rparr>"

definition ex_shipped_up :: "auth_data aworld" where
  "ex_shipped_up = snd (NewUserHandler ex_shipped_env ex_boot)"

lemma ex_shipped_env_facts:
  "env_template ex_shipped_env = shipped_roles" "order_ok (env_order ex_shipped_env)"
  "rows_bare (env_db ex_shipped_env)"
  using ex_bare_rows by (simp_all add: ex_shipped_env_def) (simp add: ex_bare_env_def)

lemma ex_shipped_reachable: "reachable ex_shipped_env j ex_shipped_up"
proof (rule reach_start)
  show "w_active ex_boot = Map.empty" by (simp add: ex_boot_def)
  have "is_Ok (fst (NewUserHandler ex_shipped_env ex_boot))" by code_simp
  then show "NewUserHandler ex_shipped_env ex_boot = (Ok (), ex_shipped_up)"
    by (cases "NewUserHandler ex_shipped_env ex_boot")
      (auto simp: ex_shipped_up_def is_Ok_def split: res.splits)
qed

theorem shipped_roles_scope_witness:
  "\<exists>ctx' w'. authentification ex_shipped_env ex_jwt (ex_ctx ''alice'' ''GET'' ''node'' [] ()) ex_shipped_up = (Ok ctx', w') \<and>
     (NodeType = NodeType \<and> c_method (ex_ctx ''alice'' ''GET'' ''node'' [] ()) = OperationsTypeGET)"
proof -
  let ?ctx = "ex_ctx ''alice'' ''GET'' ''node'' [] ()"
  have "is_Ok (fst (authentification ex_shipped_env ex_jwt ?ctx ex_shipped_up))" by code_simp
  then obtain ctx' w' where auth: "authentification ex_shipped_env ex_jwt ?ctx ex_shipped_up = (Ok ctx', w')"
    by (cases "authentification ex_shipped_env ex_jwt ?ctx ex_shipped_up") (auto simp: is_Ok_def split: res.splits)
  have "jwt_parse ex_jwt (c_auth_header ?ctx) = Parsed True (Some ''alice'')" "''alice'' \<noteq> Admin"
    "c_type ?ctx = kind_name NodeType" "NodeType \<in> set served_types"
    by (simp_all add: ex_jwt_def Admin_def served_types_def)
  then show ?thesis
    using shipped_roles_scope [OF ex_shipped_reachable ex_shipped_env_facts(3,2,1) _ _ auth, of "''alice''" NodeType] auth
    by auto
qed

section \<open>Creating users\<close>

lemma session_user_entry:
  assumes "env_template env = shipped_roles" and "u_role_type u \<noteq> RoleTypeSUPER"
  shows "map_of (u_authority (session_of env D u)) ''ddiuser'' =
    Some (role_entry ''ddiuser'' False [OperationsTypeGET, OperationsTypeACTION, OperationsTypePOST])"
proof -
  have "find (\<lambda>a. ra_resource a = ''ddiuser'') (rev shipped_dhcp) = None"
    "find (\<lambda>a. ra_resource a = ''ddiuser'') (rev shipped_dns) = None"
    "find (\<lambda>a. ra_resource a = ''ddiuser'') (rev shipped_base) =
      Some (role_entry ''ddiuser'' False [OperationsTypeGET, OperationsTypeACTION, OperationsTypePOST])"
    by (simp_all add: shipped_dhcp_def shipped_dns_def shipped_base_def role_entry_def)
  then show ?thesis
    using assms
    by (simp add: session_of_def reloaded_def Let_def lookup_view_then_dhcp lookup_base)
qed

text \<open>C26. The role file grants every normal user the operation POST on users, which is the one that
  creates a user, and creating does not ask who does it. So any user who is logged in can create another
  account with roles and groups of free choice: the request passes the middle ware, the account gets
  a session at once with all those roles, and the chosen password opens it.\<close>

theorem normal_user_escalates:
  assumes "auth_db_ok V (env_db env)" and "order_ok (env_order env)" and "env_template env = shipped_roles"
    and "wl_admits (ad_whitelists (V (w_db w))) (getClientIP (c_remote_addr ctx))"
    and "c_auth_header ctx \<noteq> []" and "jwt_parse j (c_auth_header ctx) = Parsed True (Some name)"
    and "w_active w name = Some (session_of env D attacker)" and "u_role_type attacker \<noteq> RoleTypeSUPER"
    and "c_type ctx = kind_name DdiuserType" and "c_method ctx = OperationsTypePOST"
    and "u_password (c_resource ctx) \<noteq> []" and "plain_user (V (w_db w)) (c_resource ctx)"
    and "u_name (c_resource ctx) \<notin> u_id ` set (ad_users (V (w_db w)))"
  shows "\<exists>ctx' s w'. authentification env j ctx w = (Ok ctx', w) \<and> user_Create env ctx' w = (Ok s, w') \<and>
    w_active w' (u_name (c_resource ctx)) = Some s \<and>
    set (u_role_ids s) = held_roles (V (w_db w)) (c_resource ctx) \<and>
    fst (CheckPassword env (u_name (c_resource ctx)) (u_password (c_resource ctx)) w') = Ok ()"
proof -
  let ?ctx1 = "ctx_set AuthUser (VString name) ctx" and ?user = "session_of env D attacker"
  have entry: "map_of (u_authority ?user) (c_type ?ctx1) =
      Some (role_entry ''ddiuser'' False [OperationsTypeGET, OperationsTypeACTION, OperationsTypePOST])"
    using session_user_entry [OF assms(3,8)] assms(9) by simp
  have ok: "authority_ok (u_authority ?user)"
    using assms(8) by (simp add: session_of_def reloaded_authority_ok)
  have "checkWhiteList env (getClientIP (c_remote_addr ctx)) w = (Ok (), w)"
    using assms(4) by (cases rule: checkWhiteList_db [OF assms(1)]) auto
  then have "authentification env j ctx w = decide_as env name ctx w"
    using authentification_token assms(5,6) by fastforce
  moreover have chk: "checkAuthority (env_order env) ?ctx1 ?user = (None, granted_ctx ?ctx1 (role_entry ''ddiuser''
      False [OperationsTypeGET, OperationsTypeACTION, OperationsTypePOST]))"
    using checkAuthority_lookup [OF assms(2) ok, of ?ctx1] entry assms(9,10)
    by (simp add: entry_admits_def role_entry_def)
  moreover obtain ctx' where "decide_as env name ctx w = (Ok ctx', w)" and "c_resource ctx' = c_resource ctx"
    using that [of "if name = Admin then ?ctx1 else granted_ctx ?ctx1 (role_entry ''ddiuser''
      False [OperationsTypeGET, OperationsTypeACTION, OperationsTypePOST])"] chk assms(7)
    by (cases "name = Admin") (simp_all add: decide_as_def Let_def, simp add: granted_ctx_def)
  ultimately have auth: "authentification env j ctx w = (Ok ctx', w)" and res: "c_resource ctx' = c_resource ctx"
    by simp_all
  obtain c where c: "Encrypt aesKey (u_password (c_resource ctx)) = Ok c" by (rule aesKey_encrypts)
  let ?row = "created_row (c_resource ctx) c"
  obtain s w' where made: "user_Create env ctx' w = (Ok s, w')"
    and s: "s = (session_of env (V (w_db w)) ?row)\<lparr>u_password := []\<rparr>" and w': "w_active w' (u_name ?row) = Some s"
    using user_Create_db [OF assms(1,2), of w ctx' c] assms(11-13) c res by auto
  have "u_role_type ?row \<noteq> RoleTypeSUPER" by (simp add: created_row_def RoleTypeNORMAL_def RoleTypeSUPER_def)
  then have "set (u_role_ids s) = held_roles (V (w_db w)) (c_resource ctx)"
    using reloaded_role_ids [OF assms(2)] s
    by (simp add: session_of_def held_roles_def groups_of_def created_row_def)
  with auth made w' created_password [OF assms(1,2) _ made, of "u_password (c_resource ctx)"] assms(12) res
  show ?thesis by (intro exI conjI) (simp_all add: created_row_def)
qed

theorem normal_user_escalates_witness:
  "\<exists>ctx' s w'. authentification (ex_env\<lparr>env_template := shipped_roles\<rparr>) ex_jwt
       (ex_ctx ''bob'' ''POST'' ''ddiuser'' [] ((new_user ''eve'' ''secret'' [])\<lparr>u_role_ids := [''r1'']\<rparr>))
       (ex_world\<lparr>w_active := [''bob'' \<mapsto> session_of (ex_env\<lparr>env_template := shipped_roles\<rparr>) ex_data ex_bob]\<rparr>) =
       (Ok ctx', ex_world\<lparr>w_active := [''bob'' \<mapsto> session_of (ex_env\<lparr>env_template := shipped_roles\<rparr>) ex_data ex_bob]\<rparr>) \<and>
     user_Create (ex_env\<lparr>env_template := shipped_roles\<rparr>) ctx'
       (ex_world\<lparr>w_active := [''bob'' \<mapsto> session_of (ex_env\<lparr>env_template := shipped_roles\<rparr>) ex_data ex_bob]\<rparr>) =
       (Ok s, w') \<and>
     w_active w' ''eve'' = Some s \<and> ''r1'' \<in> set (u_role_ids s)"
proof -
  let ?env = "ex_env\<lparr>env_template := shipped_roles\<rparr>"
  let ?eve = "(new_user ''eve'' ''secret'' [])\<lparr>u_role_ids := [''r1'']\<rparr>"
  let ?ctx = "ex_ctx ''bob'' ''POST'' ''ddiuser'' [] ?eve"
  let ?w = "ex_world\<lparr>w_active := [''bob'' \<mapsto> session_of ?env ex_data ex_bob]\<rparr>"
  have env: "auth_db_ok (\<lambda>d. d) (env_db ?env)" "order_ok (env_order ?env)" "env_template ?env = shipped_roles"
    using ex_env_ok by simp_all
  have req: "wl_admits (ad_whitelists (w_db ?w)) (getClientIP (c_remote_addr ?ctx))"
    "c_auth_header ?ctx \<noteq> []" "jwt_parse ex_jwt (c_auth_header ?ctx) = Parsed True (Some ''bob'')"
    "w_active ?w ''bob'' = Some (session_of ?env ex_data ex_bob)" "u_role_type ex_bob \<noteq> RoleTypeSUPER"
    "c_type ?ctx = kind_name DdiuserType" "c_method ?ctx = OperationsTypePOST"
    "u_password (c_resource ?ctx) \<noteq> []"
    by (simp_all add: wl_admits_def ex_world_def ex_data_def ex_whitelist_def ex_jwt_def ex_bob_def
        new_user_def RoleTypeNORMAL_def RoleTypeSUPER_def OperationsTypePOST_def)
  have plain: "plain_user (w_db ?w) (c_resource ?ctx)"
    by (simp add: plain_user_def groups_of_def new_user_def in_ids_def ex_world_def ex_data_def
        ex_group_def plain_def)
  have fresh: "u_name (c_resource ?ctx) \<notin> u_id ` set (ad_users (w_db ?w))"
    by (simp add: new_user_def ex_world_def ex_data_def ex_alice_def ex_bob_def)
  obtain ctx' s w' where "authentification ?env ex_jwt ?ctx ?w = (Ok ctx', ?w)"
    and "user_Create ?env ctx' ?w = (Ok s, w')" and "w_active w' (u_name (c_resource ?ctx)) = Some s"
    and "set (u_role_ids s) = held_roles (w_db ?w) (c_resource ?ctx)"
    using normal_user_escalates [OF env req plain fresh] by blast
  moreover have "''r1'' \<in> held_roles (w_db ?w) (c_resource ?ctx)" by (simp add: held_roles_def)
  ultimately show ?thesis by (intro exI [of _ ctx'] exI [of _ s] exI [of _ w']) (simp add: new_user_def)
qed

end
