(* ===== verification/RunningController.thy ===== *)
theory RunningController
  imports StartProps ShippedRoles
begin

text \<open>
  The controller from its start on: the process that \<open>main\<close> leaves, and then any operations of
  the auth handlers, in between those of all other parts on the same database.
\<close>

section \<open>From the start to any later state\<close>

text \<open>The other parts write to the database, and never to the table of sessions.\<close>

definition running_step :: "'d auth_env \<Rightarrow> jwt \<Rightarrow> 'd aworld \<Rightarrow> 'd aworld \<Rightarrow> bool" where
  "running_step env j w w' \<longleftrightarrow> server_step env j w w' \<or> w_active w' = w_active w"

lemma running_reachable:
  assumes "(running_step env j)\<^sup>*\<^sup>* w w'" and "reachable env j w"
  shows "reachable env j w'"
  using assms by induction (auto simp: running_step_def intro: reach_step reach_other)

lemma keeps_NewWhiteListHandler: "keeps_active (NewWhiteListHandler env ip)"
  unfolding NewWhiteListHandler_def Let_def by (intro keeps)

lemma started_reachable:
  assumes "controller_main X path s = (Ok (), s')" and "file_laws X"
    and "w_active (ps_world s) = Map.empty" and "ps_template s' = Some tmpl"
  shows "reachable (auth_env_of X tmpl) j (ps_world s')"
proof (rule main_outcome [OF assms(1,2)], goal_cases)
  case (1 conf d tmpl' w1 w2 r g)
  have tmpl: "tmpl' = tmpl" using 1(9) assms(4) by simp
  have "w_active ((ps_world s)\<lparr>w_db := d\<rparr>) = Map.empty" using assms(3) by simp
  then have "reachable (auth_env_of X tmpl) j w1" using 1(4) unfolding tmpl by (rule reach_start)
  moreover have "w_active w2 = w_active w1" by (rule keeps_activeD [OF keeps_NewWhiteListHandler 1(5)])
  ultimately show ?case using 1(10) by (simp add: reach_other)
qed

section \<open>Properties\<close>

text \<open>C25. A controller that was started with the role file that comes with the program: whatever
  its handlers have done since, in any order, and whatever else was written to the database, roles and
  accounts of any kind included, a user other than the administrator is let through to just two of
  the resources that the start has imported: to the nodes, for reading, and to the users, for reading, for
  actions and for creating one. Nothing that a running server can do opens the resources of the
  accelerator to anybody else.\<close>

theorem running_controller_scope:
  assumes "controller_main X path s = (Ok (), s')" and "file_laws X" and "rows_bare (ou_db X)"
    and "order_ok (ou_order X)" and "w_active (ps_world s) = Map.empty"
    and "\<forall>p. ou_read_roles X p = Ok shipped_roles"
    and "(running_step (auth_env_of X shipped_roles) j)\<^sup>*\<^sup>* (ps_world s') w"
    and "authentification (auth_env_of X shipped_roles) j ctx w = (Ok ctx', w')"
    and "jwt_parse j (c_auth_header ctx) = Parsed True (Some name)" and "name \<noteq> Admin"
    and "c_type ctx = kind_name k" and "k \<in> snd ` set (ps_schemas s')"
  shows "ps_template s' = Some shipped_roles \<and>
    ((k = NodeType \<and> c_method ctx = OperationsTypeGET) \<or>
     (k = DdiuserType \<and> c_method ctx \<in> {OperationsTypeGET, OperationsTypeACTION, OperationsTypePOST}))"
proof -
  let ?env = "auth_env_of X shipped_roles"
  have tmpl: "ps_template s' = Some shipped_roles" and served: "k \<in> set served_types"
    by (rule main_outcome [OF assms(1,2)];
        use assms(6,12) in \<open>auto simp: served_types_def auth_types_def business_types_def
          simp flip: set_map split: if_splits\<close>)+
  have env: "env_db ?env = ou_db X" "env_order ?env = ou_order X" "env_template ?env = shipped_roles"
    by (simp_all add: auth_env_of_def)
  have "reachable ?env j w"
    using running_reachable [OF assms(7)] started_reachable [OF assms(1,2,5) tmpl] .
  from shipped_roles_scope [OF this _ _ env(3) assms(9,10,8,11) served] assms(3,4) env tmpl
  show ?thesis by simp
qed

text \<open>The controller of the start example with the shipped role file, on a database with two users, and a
  request of one of them.\<close>

definition ex_shipped_outside :: "(auth_data, unit) outside" where
  "ex_shipped_outside = ex_outside
     \<lparr>ou_open_db := (\<lambda>c rs d. (None, w_db ex_boot)), ou_read_roles := (\<lambda>path. Ok shipped_roles),
      ou_db := env_db ex_bare_env\<rparr>"

definition ex_started :: "(auth_data, unit) process" where
  "ex_started = snd (controller_main ex_shipped_outside ''web-controller.conf'' ex_process)"

lemma ex_started_run:
  "controller_main ex_shipped_outside ''web-controller.conf'' ex_process = (Ok (), ex_started)"
proof -
  have "is_Ok (fst (controller_main ex_shipped_outside ''web-controller.conf'' ex_process))" by code_simp
  then show ?thesis
    by (cases "controller_main ex_shipped_outside ''web-controller.conf'' ex_process")
      (auto simp: ex_started_def is_Ok_def split: res.splits)
qed

theorem running_controller_scope_witness:
  "\<exists>ctx' w'. authentification (auth_env_of ex_shipped_outside shipped_roles) ex_jwt
       (ex_ctx ''alice'' ''GET'' ''node'' [] ()) (ps_world ex_started) = (Ok ctx', w') \<and>
     ps_template ex_started = Some shipped_roles"
proof -
  let ?ctx = "ex_ctx ''alice'' ''GET'' ''node'' [] ()" and ?env = "auth_env_of ex_shipped_outside shipped_roles"
  have "is_Ok (fst (authentification ?env ex_jwt ?ctx (ps_world ex_started)))" by code_simp
  then obtain ctx' w' where auth: "authentification ?env ex_jwt ?ctx (ps_world ex_started) = (Ok ctx', w')"
    by (cases "authentification ?env ex_jwt ?ctx (ps_world ex_started)") (auto simp: is_Ok_def split: res.splits)
  have laws: "file_laws ex_shipped_outside" "rows_bare (ou_db ex_shipped_outside)" "order_ok (ou_order ex_shipped_outside)"
    "w_active (ps_world ex_process) = Map.empty" "\<forall>p. ou_read_roles ex_shipped_outside p = Ok shipped_roles"
    using ex_file_laws ex_bare_rows
    by (simp_all add: ex_shipped_outside_def file_laws_def ex_process_def)
  have req: "jwt_parse ex_jwt (c_auth_header ?ctx) = Parsed True (Some ''alice'')" "''alice'' \<noteq> Admin"
    "c_type ?ctx = kind_name NodeType"
    by (simp_all add: ex_jwt_def Admin_def)
  have "NodeType \<in> snd ` set (ps_schemas ex_started)"
    by (rule main_outcome [OF ex_started_run laws(1)]) (simp flip: set_map)
  from running_controller_scope [OF ex_started_run laws rtranclp.rtrancl_refl auth req this] auth
  show ?thesis by blast
qed

end
