(* ===== verification/InterfaceDocs.thy ===== *)
theory InterfaceDocs
  imports Startup
begin

text \<open>
  The documentation tool, \<open>cmd/interface_generator/interface_generator.go\<close>: for every folder given on
  the command line it imports the resources of one part of the program and lets the REST library
  write the documents of a version into the folder. It works on the schemas and the files of
  the process.
\<close>

section \<open>The tool\<close>

text \<open>The folders given as flags, empty when the flag is not given.\<close>

record doc_folders =
  df_ipam :: string
  df_dhcp :: string
  df_dns :: string
  df_metric :: string
  df_alarm :: string
  df_auditlog :: string
  df_auth :: string

text \<open>
  The registrations and versions of the packages that the repository does not contain, and the
  function of the library that writes the documents of a version, given the schemas.
\<close>

record ('d, 'g) doc_tool =
  dt_ipam_RegisterHandler :: "('d, 'g, unit) boot"
  dt_ipam_Version :: api_version
  dt_dhcp_RegisterHandler :: "('d, 'g, unit) boot"
  dt_dhcp_Version :: api_version
  dt_dns_Version :: api_version
  dt_alarm_RegistHandler :: "('d, 'g, unit) boot"
  dt_alarm_Version :: api_version
  dt_write :: "schema list \<Rightarrow> api_version \<Rightarrow> string \<Rightarrow> file_store \<Rightarrow> gerror option \<times> file_store"

definition Version :: api_version where
  "Version = v1 ''linkingthing.com/dns''"

definition dns_doc_types :: "resource_type list" where
  "dns_doc_types = map DnsType
     [AclType, ViewType, ZoneType, ForwardZoneType, RrType, ForwardType, IpBlackHoleType,
      RecursiveConcurrentType, RedirectionType, DnsGlobalConfigType, UrlRedirectType]"

definition RegisterDNSHandler :: "('d, 'g) outside \<Rightarrow> ('d, 'g, unit) boot" where
  "RegisterDNSHandler X = c_forM dns_doc_types (MustImport X Version)"

definition auth_doc_types :: "resource_type list" where
  "auth_doc_types = [DdiuserType, RoleType, UserGroupType]"

definition RegisterAuthHandler :: "('d, 'g) outside \<Rightarrow> ('d, 'g, unit) boot" where
  "RegisterAuthHandler X = c_forM auth_doc_types (MustImport X Version)"

definition metric_RegistHandler :: "('d, 'g) outside \<Rightarrow> ('d, 'g, unit) boot" where
  "metric_RegistHandler X = MustImport X (v1 ''linkingthing.com/metric'') NodeType"

definition WriteJsonDocs :: "('d, 'g) doc_tool \<Rightarrow> api_version \<Rightarrow> string \<Rightarrow> ('d, 'g, unit) boot" where
  "WriteJsonDocs T version folder = (\<lambda>s.
     case dt_write T (ps_schemas s) version folder (ps_files s) of (err, fs) \<Rightarrow>
       fail_if err (s\<lparr>ps_files := fs\<rparr>))"

text \<open>One block of the program: the error of the registration is dropped, that of writing is
  fatal.\<close>

definition document :: "('d, 'g) doc_tool \<Rightarrow> string \<Rightarrow> string \<Rightarrow> ('d, 'g, unit) boot \<Rightarrow> api_version \<Rightarrow> ('d, 'g, unit) boot" where
  "document T name folder register version =
     (if folder \<noteq> []
      then c_bind (drop_error register) (\<lambda>_.
        c_map_err (\<lambda>e. ''generate '' @ name @ '' resource doc failed. '' @ e) (WriteJsonDocs T version folder))
      else c_return ())"

definition generator_main :: "('d, 'g) outside \<Rightarrow> ('d, 'g) doc_tool \<Rightarrow> doc_folders \<Rightarrow> ('d, 'g, unit) boot" where
  "generator_main X T df =
     c_bind (c_modify (ps_schemas_update (\<lambda>_. []))) (\<lambda>_.
     c_bind (document T ''ipam'' (df_ipam df) (dt_ipam_RegisterHandler T) (dt_ipam_Version T)) (\<lambda>_.
     c_bind (document T ''dhcp'' (df_dhcp df) (dt_dhcp_RegisterHandler T) (dt_dhcp_Version T)) (\<lambda>_.
     c_bind (document T ''dns'' (df_dns df) (RegisterDNSHandler X) (dt_dns_Version T)) (\<lambda>_.
     c_bind (document T ''metric'' (df_metric df) (metric_RegistHandler X) (v1 ''linkingthing.com/metric'')) (\<lambda>_.
     c_bind (document T ''alarm'' (df_alarm df) (dt_alarm_RegistHandler T) (dt_alarm_Version T)) (\<lambda>_.
     c_bind (document T ''auditlog'' (df_auditlog df) (log_RegisterHandler X) (v1 ''linkingthing.com/log'')) (\<lambda>_.
     document T ''auth'' (df_auth df) (RegisterAuthHandler X) (v1 ''linkingthing.com/auth''))))))))"

section \<open>What ends up in the folders\<close>

text \<open>A registration that imports resources under one version only.\<close>

definition imports_only :: "api_version \<Rightarrow> ('d, 'g, unit) boot \<Rightarrow> bool" where
  "imports_only v register \<longleftrightarrow>
     (\<forall>s r s'. register s = (r, s') \<longrightarrow>
        (\<exists>ss. ps_schemas s' = ps_schemas s @ ss \<and> (\<forall>t \<in> set ss. fst t = v)))"

definition of_version :: "api_version \<Rightarrow> schema list \<Rightarrow> resource_type list" where
  "of_version v ss = map snd (filter (\<lambda>t. fst t = v) ss)"

lemma of_version_append [simp]: "of_version v (ss @ ss') = of_version v ss @ of_version v ss'"
  by (simp add: of_version_def)

lemma of_version_none: "\<forall>t \<in> set ss. fst t = u \<Longrightarrow> u \<noteq> v \<Longrightarrow> of_version v ss = []"
  by (induction ss) (auto simp: of_version_def)

lemma c_forM_imports:
  "\<exists>ss. ps_schemas (snd (c_forM rs (MustImport X v) s)) = ps_schemas s @ ss \<and> (\<forall>t \<in> set ss. fst t = v)"
proof (induction rs arbitrary: s)
  case (Cons t rs)
  let ?s1 = "s\<lparr>ps_schemas := ps_schemas s @ [(v, t)]\<rparr>"
  obtain ss where "ps_schemas (snd (c_forM rs (MustImport X v) ?s1)) = ps_schemas ?s1 @ ss"
    and "\<forall>t \<in> set ss. fst t = v"
    using Cons.IH by blast
  moreover have "MustImport X v t s = (if ou_import_ok X (ps_schemas s) (v, t) then (Ok (), ?s1) else (Panic, s))"
    by (simp add: MustImport_def)
  ultimately show ?case by (simp add: c_bind_def)
qed simp

lemma imports_only_forM: "imports_only v (c_forM rs (MustImport X v))"
  unfolding imports_only_def using c_forM_imports by (metis snd_conv)

lemma imports_only_one: "imports_only v (MustImport X v t)"
  by (simp add: imports_only_def MustImport_def)

lemma imports_only_log: "imports_only (v1 ''linkingthing.com/log'') (log_RegisterHandler X)"
  by (simp add: imports_only_def log_RegisterHandler_def c_bind_def MustImport_def)

lemma document_OkE:
  assumes "document T name folder register v s = (Ok (), s')"
  obtains (skipped) "folder = []" and "s' = s"
  | (written) r s1 where "folder \<noteq> []" and "register s = (r, s1)" and "r \<noteq> Panic"
      and "dt_write T (ps_schemas s1) v folder (ps_files s1) = (None, ps_files s')"
      and "ps_schemas s' = ps_schemas s1"
proof (cases "folder = []")
  case False
  with assms obtain s1 where "drop_error register s = (Ok (), s1)" and w: "WriteJsonDocs T v folder s1 = (Ok (), s')"
    unfolding document_def by (auto elim!: c_bind_OkE simp: c_map_err_def split: prod.splits res.splits)
  then obtain r where "register s = (r, s1)" "r \<noteq> Panic" by (auto simp: drop_error_Ok)
  with False w show thesis
    using written by (auto simp: WriteJsonDocs_def fail_if_def split: prod.splits option.splits)
qed (use assms skipped in \<open>simp add: document_def\<close>)

lemma document_other_version:
  assumes "document T name folder register v s = (Ok (), s')" and "imports_only u register" and "u \<noteq> w"
  shows "of_version w (ps_schemas s') = of_version w (ps_schemas s)"
  using assms(1)
proof (cases rule: document_OkE)
  case (written r s1)
  with assms(2) obtain ss where "ps_schemas s1 = ps_schemas s @ ss" and "\<forall>t \<in> set ss. fst t = u"
    unfolding imports_only_def by blast
  with written(5) assms(3) of_version_none [of ss u w] show ?thesis by simp
qed simp

text \<open>Documenting the auth resources yields nothing: the tool imports them under its own version,
  \<open>linkingthing.com/dns\<close>, and then has the library write the documents of \<open>linkingthing.com/auth\<close> from
  schemas of which none is of that version. It reports no error.\<close>

theorem auth_docs_empty:
  assumes "generator_main X T df s = (Ok (), s')" and "df_auth df \<noteq> []"
    and "imports_only (dt_ipam_Version T) (dt_ipam_RegisterHandler T)"
    and "imports_only (dt_dhcp_Version T) (dt_dhcp_RegisterHandler T)"
    and "imports_only (dt_alarm_Version T) (dt_alarm_RegistHandler T)"
    and "v1 ''linkingthing.com/auth'' \<notin> {dt_ipam_Version T, dt_dhcp_Version T, dt_alarm_Version T}"
  shows "\<exists>ss fs. ps_schemas s' = ss @ map (Pair Version) auth_doc_types \<and>
    dt_write T (ps_schemas s') (v1 ''linkingthing.com/auth'') (df_auth df) fs = (None, ps_files s') \<and>
    of_version (v1 ''linkingthing.com/auth'') (ps_schemas s') = []"
proof -
  let ?v = "v1 ''linkingthing.com/auth''"
  obtain s1 s2 s3 s4 s5 s6 where
    1: "document T ''ipam'' (df_ipam df) (dt_ipam_RegisterHandler T) (dt_ipam_Version T)
      (s\<lparr>ps_schemas := []\<rparr>) = (Ok (), s1)" and
    2: "document T ''dhcp'' (df_dhcp df) (dt_dhcp_RegisterHandler T) (dt_dhcp_Version T) s1 = (Ok (), s2)" and
    3: "document T ''dns'' (df_dns df) (RegisterDNSHandler X) (dt_dns_Version T) s2 = (Ok (), s3)" and
    4: "document T ''metric'' (df_metric df) (metric_RegistHandler X) (v1 ''linkingthing.com/metric'') s3 = (Ok (), s4)" and
    5: "document T ''alarm'' (df_alarm df) (dt_alarm_RegistHandler T) (dt_alarm_Version T) s4 = (Ok (), s5)" and
    6: "document T ''auditlog'' (df_auditlog df) (log_RegisterHandler X) (v1 ''linkingthing.com/log'') s5 = (Ok (), s6)" and
    7: "document T ''auth'' (df_auth df) (RegisterAuthHandler X) ?v s6 = (Ok (), s')"
    using assms(1) unfolding generator_main_def by (elim c_bind_OkE) (simp del: One_nat_def)
  have dns: "imports_only Version (RegisterDNSHandler X)" and auth: "imports_only Version (RegisterAuthHandler X)"
    and node: "imports_only (v1 ''linkingthing.com/metric'') (metric_RegistHandler X)"
    by (simp_all add: RegisterDNSHandler_def RegisterAuthHandler_def metric_RegistHandler_def
        imports_only_forM imports_only_one)
  have differ: "Version \<noteq> ?v" "v1 ''linkingthing.com/metric'' \<noteq> ?v" "v1 ''linkingthing.com/log'' \<noteq> ?v"
    by (simp_all add: Version_def v1_def)
  have "of_version ?v (ps_schemas s6) = of_version ?v (ps_schemas (s\<lparr>ps_schemas := []\<rparr>))"
    using document_other_version [OF 1 assms(3), of ?v] document_other_version [OF 2 assms(4), of ?v]
      document_other_version [OF 3 dns, of ?v] document_other_version [OF 4 node, of ?v]
      document_other_version [OF 5 assms(5), of ?v] document_other_version [OF 6 imports_only_log, of ?v]
      differ assms(6) by (simp only: insert_iff simp_thms) (metis process.select_convs(1))
  then have none: "of_version ?v (ps_schemas s') = []"
    using document_other_version [OF 7 auth differ(1)] by (simp add: of_version_def)
  from 7 show ?thesis
  proof (cases rule: document_OkE)
    case (written r s7)
    have "r = Ok () \<and> ps_schemas s7 = ps_schemas s6 @ map (Pair Version) auth_doc_types"
      using import_all [of auth_doc_types X Version s6 r s7] written(2,3) by (simp add: RegisterAuthHandler_def)
    with written none show ?thesis by auto
  qed (use assms(2) in simp)
qed

end
