(* ===== verification/GrpcServer.thy ===== *)
theory GrpcServer
  imports MonitorProps
begin

text \<open>
  \<open>pkg/grpcserver/grpcserver.go\<close>: the server of the node monitor, from its construction to its stop,
  and what goes on after it has stopped. The listener and the serving of requests are those of the
  library; a request reaches the service while the server serves.
\<close>

section \<open>The server\<close>

datatype phase = Listening | Serving | Stopped

text \<open>A server goes through its phases in one direction.\<close>

instantiation phase :: linorder
begin

primrec phase_number :: "phase \<Rightarrow> nat" where
  "phase_number Listening = 0"
| "phase_number Serving = 1"
| "phase_number Stopped = 2"

definition less_eq_phase :: "phase \<Rightarrow> phase \<Rightarrow> bool" where
  "p \<le> q \<longleftrightarrow> phase_number p \<le> phase_number q"

definition less_phase :: "phase \<Rightarrow> phase \<Rightarrow> bool" where
  "p < q \<longleftrightarrow> phase_number p < phase_number q"

instance
proof
  fix p q :: phase
  show "p \<le> q \<Longrightarrow> q \<le> p \<Longrightarrow> p = q"
    by (cases p; cases q) (simp_all add: less_eq_phase_def)
qed (auto simp: less_eq_phase_def less_phase_def)

end

record 'd grpc_server =
  gs_listener :: string
  gs_services :: "string list"
  gs_phase :: phase
  gs_monitor :: "'d monitor"

text \<open>\<open>New\<close>, given whether the library can listen at an address, and what the handler finds: the
  database, the global configuration and the files; its map of times is new. The handler starts its
  ticker.\<close>

definition grpc_New ::
  "(string \<Rightarrow> gerror option) \<Rightarrow> ddi_config \<Rightarrow> int \<Rightarrow> 'd \<Rightarrow> ddi_config option \<Rightarrow>
   (string \<Rightarrow> string option) \<Rightarrow> (gerror, 'd grpc_server) res" where
  "grpc_New listen conf now d gconf files =
     (case listen (sc_grpc_addr (cf_server conf)) of
        Some e \<Rightarrow> Err (''create listener with addr '' @ sc_grpc_addr (cf_server conf) @ '' failed: '' @ e)
      | None \<Rightarrow> res_bind (service_New conf now) (\<lambda>h.
          Ok \<lparr>gs_listener = sc_grpc_addr (cf_server conf),
              gs_services = [''MonitorManager'', ''DDICtrlManager''], gs_phase = Listening,
              gs_monitor = \<lparr>mo_handler = h, mo_world = \<lparr>w_db = d, w_active = Map.empty\<rparr>,
                mo_gconf = gconf, mo_files = files\<rparr>\<rparr>))"

text \<open>Closing the handler, and with it the service, does nothing.\<close>

definition handler_Close :: "'d monitor \<Rightarrow> 'd monitor" where
  "handler_Close s = s"

definition service_Close :: "'d monitor \<Rightarrow> 'd monitor" where
  "service_Close s = handler_Close s"

definition grpc_Stop :: "'d grpc_server \<Rightarrow> 'd grpc_server" where
  "grpc_Stop gs = (let gs1 = gs\<lparr>gs_phase := Stopped\<rparr> in gs1\<lparr>gs_monitor := service_Close (gs_monitor gs1)\<rparr>)"

text \<open>A request is served while the server serves, and is lost otherwise; the ticker of the handler
  goes its own way.\<close>

fun grpc_step :: "'d monitor_env \<Rightarrow> monitor_event \<Rightarrow> ('d grpc_server, gerror, unit) comp" where
  "grpc_step E (Ticks clock) gs =
     (case handle_event E (Ticks clock) (gs_monitor gs) of (r, s) \<Rightarrow> (r, gs\<lparr>gs_monitor := s\<rparr>))"
| "grpc_step E ev gs =
     (if gs_phase gs = Serving
      then (case handle_event E ev (gs_monitor gs) of (r, s) \<Rightarrow> (r, gs\<lparr>gs_monitor := s\<rparr>))
      else (Ok (), gs))"

text \<open>\<open>Run\<close> serves until the library returns, after the events of that time, and stops the server in
  any case.\<close>

definition grpc_Run :: "'d monitor_env \<Rightarrow> monitor_event list \<Rightarrow> ('d grpc_server, gerror, unit) comp" where
  "grpc_Run E evs = (\<lambda>gs.
     case c_forM evs (grpc_step E) (gs\<lparr>gs_phase := Serving\<rparr>) of (r, gs') \<Rightarrow> (r, grpc_Stop gs'))"

section \<open>The server as a machine\<close>

text \<open>What happens to a server: it begins to serve, something arrives, it is stopped.\<close>

datatype grpc_event = Serves | Arrives monitor_event | Stops

fun grpc_handle :: "'d monitor_env \<Rightarrow> grpc_event \<Rightarrow> ('d grpc_server, gerror, unit) comp" where
  "grpc_handle E Serves gs = (Ok (), gs\<lparr>gs_phase := max Serving (gs_phase gs)\<rparr>)"
| "grpc_handle E (Arrives ev) gs = grpc_step E ev gs"
| "grpc_handle E Stops gs = (Ok (), grpc_Stop gs)"

definition is_tick :: "monitor_event \<Rightarrow> bool" where
  "is_tick ev = (case ev of Ticks _ \<Rightarrow> True | _ \<Rightarrow> False)"

text \<open>Its specification: the phase, and the presence of the nodes, which requests change while the
  server serves, and ticks at any time.\<close>

fun grpc_spec :: "int \<Rightarrow> string \<Rightarrow> grpc_event \<Rightarrow> phase \<times> presence \<Rightarrow> phase \<times> presence" where
  "grpc_spec timeout m0 Serves (p, a) = (max Serving p, a)"
| "grpc_spec timeout m0 (Arrives ev) (p, a) =
     (p, if p = Serving \<or> is_tick ev then presence_step timeout m0 ev a else a)"
| "grpc_spec timeout m0 Stops (p, a) = (Stopped, a)"

definition grpc_abs :: "('d \<Rightarrow> node list) \<Rightarrow> 'd grpc_server \<Rightarrow> phase \<times> presence" where
  "grpc_abs V gs = (gs_phase gs, presence_of V (gs_monitor gs))"

lemma grpc_step_cases:
  "grpc_step E ev gs = (if gs_phase gs = Serving \<or> is_tick ev
     then (case handle_event E ev (gs_monitor gs) of (r, s) \<Rightarrow> (r, gs\<lparr>gs_monitor := s\<rparr>)) else (Ok (), gs))"
  by (cases ev) (simp_all add: is_tick_def)

lemma grpc_event_step:
  assumes "monitor_env_ok V E conf" and "monitor_inv conf now (gs_monitor gs)"
  shows "\<exists>gs'. grpc_handle E ev gs = (Ok (), gs') \<and> monitor_inv conf now (gs_monitor gs') \<and>
    grpc_abs V gs' = grpc_spec (sint (mc_time_out (cf_monitor_node conf))) (sc_master (cf_server conf)) ev (grpc_abs V gs)"
proof (cases ev)
  case (Arrives e)
  obtain s' where "handle_event E e (gs_monitor gs) = (Ok (), s')" "monitor_inv conf now s'"
    "presence_of V s' = presence_step (sint (mc_time_out (cf_monitor_node conf))) (sc_master (cf_server conf)) e
      (presence_of V (gs_monitor gs))"
    using event_step [OF assms, of e] by blast
  with Arrives assms(2) show ?thesis by (simp add: grpc_step_cases grpc_abs_def)
qed (use assms in \<open>simp_all add: grpc_abs_def grpc_Stop_def service_Close_def handler_Close_def\<close>)

interpretation srv: simulated "grpc_handle E"
  "\<lambda>gs. monitor_env_ok V E conf \<and> monitor_inv conf now (gs_monitor gs)" "grpc_abs V"
  "grpc_spec (sint (mc_time_out (cf_monitor_node conf))) (sc_master (cf_server conf))"
  for V E conf now
  using grpc_event_step by unfold_locales blast

section \<open>Running and stopping\<close>

lemma grpc_phase_grows: "p \<le> fst (fold (grpc_spec timeout m0) evs (p, a))"
proof (induction evs arbitrary: p a)
  case (Cons ev evs)
  have "p \<le> fst (grpc_spec timeout m0 ev (p, a))"
    by (cases ev) (cases p; simp add: less_eq_phase_def)+
  also have "\<dots> \<le> fst (fold (grpc_spec timeout m0) evs (grpc_spec timeout m0 ev (p, a)))"
    using Cons.IH [of "fst (grpc_spec timeout m0 ev (p, a))" "snd (grpc_spec timeout m0 ev (p, a))"] by simp
  finally show ?case by simp
qed simp

lemma stopped_stays: "Stopped \<le> p \<Longrightarrow> p = Stopped"
  by (cases p) (simp_all add: less_eq_phase_def)

text \<open>So no event starts a stopped server again.\<close>

lemma stopped_for_good:
  assumes "monitor_env_ok V E conf" and "monitor_inv conf now (gs_monitor gs)"
    and "gs_phase gs = Stopped" and "c_forM evs (grpc_handle E) gs = (r, gs')"
  shows "gs_phase gs' = Stopped"
proof -
  have "grpc_abs V gs' = fold (grpc_spec (sint (mc_time_out (cf_monitor_node conf))) (sc_master (cf_server conf)))
      evs (Stopped, presence_of V (gs_monitor gs))"
    using srv.run [of V E conf now gs evs] assms by (auto simp: grpc_abs_def)
  then have "Stopped \<le> gs_phase gs'" using grpc_phase_grows by (metis fst_conv grpc_abs_def)
  then show ?thesis by (rule stopped_stays)
qed

text \<open>While it serves, the server follows the machine of presence; after a stop only the ticks count.\<close>

lemma spec_serving:
  "fold (grpc_spec timeout m0) (map Arrives evs) (Serving, a) = (Serving, fold (presence_step timeout m0) evs a)"
  by (induction evs arbitrary: a) simp_all

lemma spec_stops: "grpc_spec timeout m0 Stops x = (Stopped, snd x)"
  by (cases x) simp

lemma spec_stopped:
  "fold (grpc_spec timeout m0) (map Arrives evs) (Stopped, a) =
    (Stopped, fold (presence_step timeout m0) (filter is_tick evs) a)"
  by (induction evs arbitrary: a) simp_all

lemma c_forM_append: "c_forM (xs @ ys) f = c_bind (c_forM xs f) (\<lambda>_. c_forM ys f)"
  by (induction xs) (auto simp: fun_eq_iff c_bind_def split: prod.split res.split)

lemma arrivals: "c_forM (map Arrives evs) (grpc_handle E) = c_forM evs (grpc_step E)"
proof -
  have "grpc_handle E (Arrives ev) = grpc_step E ev" for ev by (simp add: fun_eq_iff)
  then show ?thesis by (induction evs) simp_all
qed

text \<open>A run is the three of them in a row, if nothing fails.\<close>

lemma grpc_Run_events:
  assumes "gs_phase gs \<noteq> Stopped" and "c_forM evs (grpc_step E) (gs\<lparr>gs_phase := Serving\<rparr>) = (Ok (), gs')"
  shows "grpc_Run E evs gs = c_forM (Serves # map Arrives evs @ [Stops]) (grpc_handle E) gs"
proof -
  have "max Serving (gs_phase gs) = Serving" using assms(1) by (cases "gs_phase gs") (simp_all add: max_def less_eq_phase_def)
  then show ?thesis
    using assms(2) by (simp add: grpc_Run_def c_forM_append arrivals c_bind_def)
qed

lemma ticks_only:
  assumes "ab_master a = []" and "list_all is_tick evs"
    and "ab_alive a i \<noteq> Some True \<or> Ticks clock \<in> set evs \<and> silent timeout a clock i"
  shows "ab_alive (fold (presence_step timeout m0) evs a) i \<noteq> Some True"
  using assms
proof (induction evs arbitrary: a)
  case (Cons ev evs)
  obtain c where ev: "ev = Ticks c" using Cons.prems(2) by (cases ev) (simp_all add: is_tick_def)
  let ?a = "presence_step timeout m0 ev a"
  have a: "ab_master ?a = []" "ab_last ?a = ab_last a"
    "ab_alive ?a = (\<lambda>i. if silent timeout a c i then map_option (\<lambda>_. False) (ab_alive a i) else ab_alive a i)"
    using Cons.prems(1) by (simp_all add: ev)
  then have "silent timeout ?a clock i = silent timeout a clock i" by (simp add: silent_def)
  moreover have "ab_alive ?a i \<noteq> Some True" if "ab_alive a i \<noteq> Some True \<or> c = clock \<and> silent timeout a clock i"
    using that a(3) by (cases "ab_alive a i") auto
  ultimately have "ab_alive ?a i \<noteq> Some True \<or> Ticks clock \<in> set evs \<and> silent timeout ?a clock i"
    using Cons.prems(3) ev by auto
  with Cons.IH [OF a(1)] Cons.prems(2) show ?case by simp
qed simp

lemma grpc_New_OkE:
  assumes "grpc_New listen conf now d gconf files = Ok gs"
  obtains "listen (sc_grpc_addr (cf_server conf)) = None" and "gs_phase gs = Listening"
    and "mo_handler (gs_monitor gs) = NewNodeMonitorHandler conf now" and "mo_files (gs_monitor gs) = files"
    and "w_db (mo_world (gs_monitor gs)) = d"
  using assms
  by (auto simp: grpc_New_def service_New_def Let_def split: option.splits if_splits)

text \<open>The server of the node monitor serves its events as the monitor handles them, and then stops. But
  a stop does not reach the ticker that the construction started: when the signs of life
  of the nodes are no longer served, the ticks go on, and once the time-out has passed no node is left
  that the database calls alive, whatever the nodes still send.\<close>

theorem stopped_server_declares_dead:
  assumes "monitor_env_ok V E conf" and "grpc_New listen conf now d gconf files = Ok gs"
    and "files (cf_path conf) \<noteq> None"
    and "grpc_Run E evs gs = (r, gs1)" and "is_master (mo_handler (gs_monitor gs1))"
    and "c_forM later (grpc_step E) gs1 = (r', gs2)" and "Ticks clock \<in> set later"
    and "\<forall>i. silent (sint (mc_time_out (cf_monitor_node conf))) (presence_of V (gs_monitor gs1)) clock i"
  shows "r = Ok () \<and> r' = Ok () \<and> gs_phase gs2 = Stopped \<and>
    (\<forall>i. alive_in (V (w_db (mo_world (gs_monitor gs2)))) i \<noteq> Some True)"
proof -
  let ?timeout = "sint (mc_time_out (cf_monitor_node conf))" and ?m0 = "sc_master (cf_server conf)"
  have inv: "monitor_inv conf now (gs_monitor gs)" and ph: "gs_phase gs \<noteq> Stopped"
    using assms(2,3) by (auto elim: grpc_New_OkE intro: monitor_start_inv)
  have "\<exists>gs'. c_forM evs (grpc_step E) (gs\<lparr>gs_phase := Serving\<rparr>) = (Ok (), gs')"
    using srv.run [of V E conf now "gs\<lparr>gs_phase := Serving\<rparr>" "map Arrives evs"] assms(1) inv
    by (auto simp: arrivals)
  then have "grpc_Run E evs gs = c_forM (Serves # map Arrives evs @ [Stops]) (grpc_handle E) gs"
    using grpc_Run_events [OF ph] by blast
  moreover obtain gs1' where "c_forM (Serves # map Arrives evs @ [Stops]) (grpc_handle E) gs = (Ok (), gs1')"
    "monitor_inv conf now (gs_monitor gs1')"
    "grpc_abs V gs1' = fold (grpc_spec ?timeout ?m0) (Serves # map Arrives evs @ [Stops]) (grpc_abs V gs)"
    using srv.run [of V E conf now gs "Serves # map Arrives evs @ [Stops]"] assms(1) inv by blast
  ultimately have r: "r = Ok ()" and inv1: "monitor_inv conf now (gs_monitor gs1)"
    and stopped: "grpc_abs V gs1 = (Stopped, presence_of V (gs_monitor gs1))"
    using assms(4) by (auto simp: grpc_abs_def spec_stops)
  obtain gs2' where "c_forM (map Arrives later) (grpc_handle E) gs1 = (Ok (), gs2')"
    and "grpc_abs V gs2' = fold (grpc_spec ?timeout ?m0) (map Arrives later) (grpc_abs V gs1)"
    using srv.run [of V E conf now gs1 "map Arrives later"] assms(1) inv1 by blast
  with assms(6) have r': "r' = Ok ()"
    and abs2: "grpc_abs V gs2 = (Stopped, fold (presence_step ?timeout ?m0) (filter is_tick later) (presence_of V (gs_monitor gs1)))"
    by (auto simp: arrivals stopped spec_stopped)
  have "ab_master (presence_of V (gs_monitor gs1)) = []" using assms(5) is_master_iff by metis
  then have "ab_alive (snd (grpc_abs V gs2)) i \<noteq> Some True" for i
    unfolding abs2 snd_conv using assms(7,8)
    by (intro ticks_only [where clock = clock]) (simp_all add: is_tick_def list_all_iff)
  then show ?thesis using r r' abs2 by (simp add: grpc_abs_def presence_of_def)
qed

end
