(* ===== verification/EventBus.thy ===== *)
theory EventBus
  imports Prelude
begin

text \<open>
  \<open>pkg/eventbus/eventbus.go\<close>: events about resources on a bus, under the kind of the resource as the
  topic. The publish-subscribe library behind it is a parameter, and so is the function of the REST
  library that names the kind of a resource.
\<close>

section \<open>The wrapper\<close>

definition EventBufLen :: nat where "EventBufLen = 1000"

datatype 'r bus_event =
    ResourceCreateEvent 'r
  | ResourceDeleteEvent 'r
  | ResourceUpdateEvent 'r 'r

record ('b, 'r, 'ch) pubsub =
  pb_new :: "nat \<Rightarrow> 'b"
  pb_pub :: "'r bus_event \<Rightarrow> string list \<Rightarrow> 'b \<Rightarrow> 'b"
  pb_sub :: "string list \<Rightarrow> 'b \<Rightarrow> 'ch \<times> 'b"
  pb_unsub :: "'ch \<Rightarrow> 'b \<Rightarrow> 'b"
  pb_shutdown :: "'b \<Rightarrow> 'b"

text \<open>The global bus is the state.\<close>

type_synonym ('b, 'a) on_bus = "('b, gerror, 'a) comp"

definition bus_init :: "('b, 'r, 'ch) pubsub \<Rightarrow> 'b" where
  "bus_init B = pb_new B EventBufLen"

definition PublishResourceCreateEvent ::
  "('b, 'r, 'ch) pubsub \<Rightarrow> ('r \<Rightarrow> string) \<Rightarrow> 'r \<Rightarrow> ('b, unit) on_bus" where
  "PublishResourceCreateEvent B kindName r = c_modify (pb_pub B (ResourceCreateEvent r) [kindName r])"

definition PublishResourceDeleteEvent ::
  "('b, 'r, 'ch) pubsub \<Rightarrow> ('r \<Rightarrow> string) \<Rightarrow> 'r \<Rightarrow> ('b, unit) on_bus" where
  "PublishResourceDeleteEvent B kindName r = c_modify (pb_pub B (ResourceDeleteEvent r) [kindName r])"

definition PublishResourceUpdateEvent ::
  "('b, 'r, 'ch) pubsub \<Rightarrow> ('r \<Rightarrow> string) \<Rightarrow> 'r \<Rightarrow> 'r \<Rightarrow> ('b, unit) on_bus" where
  "PublishResourceUpdateEvent B kindName resourceOld resourceNew =
     (let oldKind = kindName resourceOld; newKind = kindName resourceNew in
      if oldKind \<noteq> newKind then c_panic
      else c_modify (pb_pub B (ResourceUpdateEvent resourceOld resourceNew) [oldKind]))"

definition SubscribeResourceEvent ::
  "('b, 'r, 'ch) pubsub \<Rightarrow> ('k \<Rightarrow> string) \<Rightarrow> 'k list \<Rightarrow> ('b, 'ch) on_bus" where
  "SubscribeResourceEvent B kindName kinds = (\<lambda>b. case pb_sub B (map kindName kinds) b of (ch, b') \<Rightarrow> (Ok ch, b'))"

definition UnsubscribeResourceEvent :: "('b, 'r, 'ch) pubsub \<Rightarrow> 'ch \<Rightarrow> ('b, unit) on_bus" where
  "UnsubscribeResourceEvent B ch = c_modify (pb_unsub B ch)"

definition Shutdown :: "('b, 'r, 'ch) pubsub \<Rightarrow> ('b, unit) on_bus" where
  "Shutdown B = c_modify (pb_shutdown B)"

section \<open>Delivery\<close>

text \<open>Publishing any event, and the kind it is published under.\<close>

fun publish :: "('b, 'r, 'ch) pubsub \<Rightarrow> ('r \<Rightarrow> string) \<Rightarrow> 'r bus_event \<Rightarrow> ('b, unit) on_bus" where
  "publish B kn (ResourceCreateEvent r) = PublishResourceCreateEvent B kn r"
| "publish B kn (ResourceDeleteEvent r) = PublishResourceDeleteEvent B kn r"
| "publish B kn (ResourceUpdateEvent r r') = PublishResourceUpdateEvent B kn r r'"

fun event_kind :: "('r \<Rightarrow> string) \<Rightarrow> 'r bus_event \<Rightarrow> string" where
  "event_kind kn (ResourceCreateEvent r) = kn r"
| "event_kind kn (ResourceDeleteEvent r) = kn r"
| "event_kind kn (ResourceUpdateEvent r r') = kn r"

fun one_kind :: "('r \<Rightarrow> string) \<Rightarrow> 'r bus_event \<Rightarrow> bool" where
  "one_kind kn (ResourceUpdateEvent r r') = (kn r = kn r')"
| "one_kind kn _ = True"

text \<open>
  The documented behaviour of the library while nobody falls behind by more than the buffer: a new
  channel is empty and has its topics, the others stay as they are, and publishing under a topic
  appends to the channels that have it. What is in a channel and which topics it has are observations.
\<close>

definition bus_contract ::
  "('b, 'r, 'ch) pubsub \<Rightarrow> ('b \<Rightarrow> 'ch \<Rightarrow> 'r bus_event list) \<Rightarrow> ('b \<Rightarrow> 'ch \<Rightarrow> string set) \<Rightarrow> bool" where
  "bus_contract B inbox topics \<longleftrightarrow>
     (\<forall>ts b ch b'. pb_sub B ts b = (ch, b') \<longrightarrow> inbox b' ch = [] \<and> topics b' ch = set ts) \<and>
     (\<forall>e t b ch. topics (pb_pub B e [t] b) ch = topics b ch \<and>
        inbox (pb_pub B e [t] b) ch = inbox b ch @ (if t \<in> topics b ch then [e] else []))"

lemma publish_cases:
  "publish B kn e b = (if one_kind kn e then (Ok (), pb_pub B e [event_kind kn e] b) else (Panic, b))"
  by (cases e) (simp_all add: PublishResourceCreateEvent_def PublishResourceDeleteEvent_def
      PublishResourceUpdateEvent_def Let_def)

lemma publish_list:
  assumes "bus_contract B inbox topics" and "list_all (one_kind kn) es"
  shows "\<exists>b'. c_forM es (publish B kn) b = (Ok (), b') \<and> topics b' ch = topics b ch \<and>
    inbox b' ch = inbox b ch @ filter (\<lambda>e. event_kind kn e \<in> topics b ch) es"
  using assms(2)
proof (induction es arbitrary: b)
  case (Cons e es)
  let ?b = "pb_pub B e [event_kind kn e] b"
  have step: "publish B kn e b = (Ok (), ?b)" using Cons.prems by (simp add: publish_cases)
  have "topics ?b ch = topics b ch" "inbox ?b ch = inbox b ch @ (if event_kind kn e \<in> topics b ch then [e] else [])"
    using assms(1) by (simp_all add: bus_contract_def)
  with Cons.IH [of ?b] Cons.prems step show ?case by (auto simp: c_bind_def)
qed simp

text \<open>A subscriber to some kinds is sent exactly the events about resources of these kinds
  that are published after it has subscribed, in their order; publishing an update of a resource to
  one of another kind panics, before the bus is touched.\<close>

theorem subscriber_gets_its_kinds:
  assumes "bus_contract B inbox topics" and "SubscribeResourceEvent B kn' kinds b0 = (Ok ch, b)"
  shows "if list_all (one_kind kn) es
    then \<exists>b'. c_forM es (publish B kn) b = (Ok (), b') \<and>
      inbox b' ch = filter (\<lambda>e. event_kind kn e \<in> set (map kn' kinds)) es
    else fst (c_forM es (publish B kn) b) = Panic"
proof -
  have new: "inbox b ch = []" "topics b ch = set (map kn' kinds)"
    using assms unfolding SubscribeResourceEvent_def bus_contract_def
    by (auto split: prod.splits)
  show ?thesis
  proof (cases "list_all (one_kind kn) es")
    case True
    with publish_list [OF assms(1) True, of b ch] new show ?thesis by auto
  next
    case False
    then have "fst (c_forM es (publish B kn) b) = Panic" for b
      by (induction es arbitrary: b) (auto simp: publish_cases c_bind_def)
    with False show ?thesis by simp
  qed
qed

text \<open>A bus that meets the contract: channels are numbers, with their topics and their events.\<close>

definition list_bus :: "((string set \<times> 'r bus_event list) list, 'r, nat) pubsub" where
  "list_bus =
     \<lparr>pb_new = (\<lambda>_. []),
      pb_pub = (\<lambda>e ts. map (\<lambda>(tp, es). (tp, if tp \<inter> set ts = {} then es else es @ [e]))),
      pb_sub = (\<lambda>ts b. (length b, b @ [(set ts, [])])),
      pb_unsub = (\<lambda>ch b. b[ch := ({}, [])]),
      pb_shutdown = (\<lambda>_. [])\<rparr>"

definition list_inbox :: "(string set \<times> 'r bus_event list) list \<Rightarrow> nat \<Rightarrow> 'r bus_event list" where
  "list_inbox b ch = (if ch < length b then snd (b ! ch) else [])"

definition list_topics :: "(string set \<times> 'r bus_event list) list \<Rightarrow> nat \<Rightarrow> string set" where
  "list_topics b ch = (if ch < length b then fst (b ! ch) else {})"

lemma list_bus_contract: "bus_contract list_bus list_inbox list_topics"
  by (auto simp: bus_contract_def list_bus_def list_inbox_def list_topics_def nth_append split: prod.split)

lemma subscriber_gets_its_kinds_witness:
  "\<exists>b'. c_forM [ResourceCreateEvent ''a1'', ResourceDeleteEvent ''b1'', ResourceUpdateEvent ''a1'' ''a2'']
     (publish list_bus (\<lambda>r. [hd r])) [({''a''}, [])] = (Ok (), b') \<and>
     list_inbox b' 0 = [ResourceCreateEvent ''a1'', ResourceUpdateEvent ''a1'' ''a2'']"
proof -
  have "SubscribeResourceEvent list_bus (\<lambda>k. k) [''a''] [] = (Ok 0, [({''a''}, [] :: string bus_event list)])"
    by (simp add: SubscribeResourceEvent_def list_bus_def)
  from subscriber_gets_its_kinds [OF list_bus_contract this, of "\<lambda>r. [hd r]"
      "[ResourceCreateEvent ''a1'', ResourceDeleteEvent ''b1'', ResourceUpdateEvent ''a1'' ''a2'']"]
  show ?thesis by simp
qed

end
