(* ===== verification/Services.thy ===== *)
theory Services
  imports Listeners NodeMetrics Startup
begin

text \<open>
  The constructors and registrations that the controller's start does not go through in full:
  \<open>pkg/agentevent/agentevent.go\<close> with the route of the web socket, which nothing calls, the node handler
  with its client for the metrics server, and the client of the acceleration service. The last section
  relates the order of the registrations to the hierarchy of the resources.
\<close>

section \<open>Agent events\<close>

definition WSFeedbackPath :: string where
  "WSFeedbackPath = ''/apis/ws.linkingthing.com/v1/agentevent''"

definition RegisterWSHandler :: "(string \<times> string) list \<Rightarrow> (string \<times> string) list" where
  "RegisterWSHandler router = router @ [(''GET'', WSFeedbackPath)]"

text \<open>The route is added only when the events could be loaded; then the handler is shared by all
  connections to it.\<close>

definition agentevent_RegisterHandler ::
  "('d, 'g) outside \<Rightarrow> ('d, agent_event) counted_table \<Rightarrow> int \<Rightarrow> ('d, 'g, agent_event_handler) boot" where
  "agentevent_RegisterHandler X t monthAgo =
     c_bind (on_part ps_world (\<lambda>w. ps_world_update (\<lambda>_. w))
         (NewAgentEventHandler (tx_hooks.truncate (ou_db X)) t monthAgo)) (\<lambda>h.
       c_bind (c_modify (ps_routes_update RegisterWSHandler)) (\<lambda>_. c_return h))"

text \<open>The table of the events would have to be registered with the database for that.\<close>

definition agentevent_PersistentResources :: "string list" where
  "agentevent_PersistentResources = [''agentevent'']"

lemma agentevent_registered:
  assumes "agentevent_RegisterHandler X t monthAgo s = (r, s')"
  shows "ps_routes s' = (if is_Ok r then ps_routes s @ [(''GET'', WSFeedbackPath)] else ps_routes s) \<and>
    (\<forall>h. r = Ok h \<longrightarrow> (\<exists>w. NewAgentEventHandler (tx_hooks.truncate (ou_db X)) t monthAgo (ps_world s) = (Ok h, w) \<and>
      ps_world s' = w))"
  using assms
  by (auto simp: agentevent_RegisterHandler_def on_part_def c_bind_def RegisterWSHandler_def is_Ok_def
      split: prod.splits res.splits)

section \<open>The node handler\<close>

record node_handler =
  nh_prometheus_addr :: string
  nh_export_port :: int
  nh_client_timeout :: int

text \<open>The client comes with a time-out, in seconds.\<close>

definition NewNodeHandler :: "ddi_config \<Rightarrow> int \<Rightarrow> node_handler" where
  "NewNodeHandler conf timeout =
     \<lparr>nh_prometheus_addr = pc_addr (cf_prometheus conf), nh_export_port = pc_export_port (cf_prometheus conf),
      nh_client_timeout = timeout\<rparr>"

text \<open>What the requests of the handler go through: its address and port, and the library's default client.
  The handler's own client, and with it the time-out, is not used.\<close>

definition metrics_server_of ::
  "node_handler \<Rightarrow> (string \<Rightarrow> (gerror, string) res) \<Rightarrow> (string \<Rightarrow> (gerror, 'f prometheus_response) res) \<Rightarrow>
   'f float_ops \<Rightarrow> 'f metrics_server" where
  "metrics_server_of h get decode F =
     \<lparr>ms_addr = nh_prometheus_addr h, ms_export_port = nh_export_port h, ms_get = get, ms_decode = decode,
      ms_floats = F\<rparr>"

lemma node_handler_ignores_timeout:
  "node_List P t (metrics_server_of (NewNodeHandler conf timeout) get decode F) now ctx =
   node_List P t (metrics_server_of (NewNodeHandler conf timeout') get decode F) now ctx"
  by (simp add: metrics_server_of_def NewNodeHandler_def)

section \<open>The client of the acceleration service\<close>

text \<open>The global client, made of a connection by the generated constructors, which are a parameter;
  nil before the connection is there.\<close>

definition NewGrpcClient :: "('conn \<Rightarrow> 'g grpc_client) \<Rightarrow> 'conn \<Rightarrow> ('g grpc_client option, gerror, unit) comp" where
  "NewGrpcClient clients conn = c_modify (\<lambda>_. Some (clients conn))"

definition GetGrpcClient :: "('g grpc_client option, gerror, 'g grpc_client option) comp" where
  "GetGrpcClient = c_gets (\<lambda>g. g)"

section \<open>The hierarchy of the resources\<close>

text \<open>The parents that four resources of the business package name; the others that are imported have
  none.\<close>

definition website_GetParents :: "resource_type list" where "website_GetParents = [WebGroupType]"
definition webgroup_GetParents :: "resource_type list" where "webgroup_GetParents = [ClusterType6]"
definition balance_GetParents :: "resource_type list" where "balance_GetParents = [ClusterType6]"
definition vip_GetParents :: "resource_type list" where "vip_GetParents = [BalanceType]"

definition GetParents :: "resource_type \<Rightarrow> resource_type list" where
  "GetParents t = (case t of
       WebsiteType \<Rightarrow> website_GetParents
     | WebGroupType \<Rightarrow> webgroup_GetParents
     | BalanceType \<Rightarrow> balance_GetParents
     | VipIntervalType \<Rightarrow> vip_GetParents
     | _ \<Rightarrow> [])"

lemmas parents_defs = GetParents_def website_GetParents_def webgroup_GetParents_def balance_GetParents_def
  vip_GetParents_def

text \<open>The documented condition of the library: a type is imported once under a version, and after its
  parents.\<close>

definition imports_after_parents :: "('d, 'g) outside \<Rightarrow> bool" where
  "imports_after_parents X \<longleftrightarrow>
     (\<forall>ss v t. ou_import_ok X ss (v, t) \<longleftrightarrow> (v, t) \<notin> set ss \<and> (\<forall>p \<in> set (GetParents t). (v, p) \<in> set ss))"

fun parents_first :: "resource_type list \<Rightarrow> resource_type list \<Rightarrow> bool" where
  "parents_first done_ts [] \<longleftrightarrow> True"
| "parents_first done_ts (t # ts) \<longleftrightarrow>
     t \<notin> set done_ts \<and> set (GetParents t) \<subseteq> set done_ts \<and> parents_first (done_ts @ [t]) ts"

lemma imports_succeed:
  assumes "imports_after_parents X" and "\<forall>t. (v, t) \<in> set (ps_schemas s) \<longleftrightarrow> t \<in> set old"
  shows "c_forM ts (MustImport X v) s = (if parents_first old ts
    then (Ok (), s\<lparr>ps_schemas := ps_schemas s @ map (Pair v) ts\<rparr>)
    else (Panic, snd (c_forM ts (MustImport X v) s)))"
  using assms(2)
proof (induction ts arbitrary: s old)
  case (Cons t ts)
  let ?s1 = "s\<lparr>ps_schemas := ps_schemas s @ [(v, t)]\<rparr>"
  have ok: "ou_import_ok X (ps_schemas s) (v, t) \<longleftrightarrow> t \<notin> set old \<and> set (GetParents t) \<subseteq> set old"
    using assms(1) Cons.prems by (auto simp: imports_after_parents_def)
  have one: "MustImport X v t s = (if ou_import_ok X (ps_schemas s) (v, t) then (Ok (), ?s1) else (Panic, s))"
    by (simp add: MustImport_def)
  show ?case
  proof (cases "ou_import_ok X (ps_schemas s) (v, t)")
    case False
    with ok have "\<not> parents_first old (t # ts)" by auto
    with one False show ?thesis by simp
  next
    case True
    have prem: "\<forall>u. (v, u) \<in> set (ps_schemas ?s1) \<longleftrightarrow> u \<in> set (old @ [t])"
      using Cons.prems by auto
    have "parents_first old (t # ts) \<longleftrightarrow> parents_first (old @ [t]) ts" using ok True by simp
    with Cons.IH [OF prem] one True show ?thesis by (simp add: c_bind_def split: if_splits)
  qed
qed simp

text \<open>The four registrations of the controller import their types in an order that the library
  accepts: each type once, and after its parents. So none of the imports panics, in a server that
  is new; and the order matters, since with the web sites before the web groups the start would panic.\<close>

theorem imports_in_order:
  assumes "imports_after_parents X" and "ps_schemas s = []" and "ps_conf s = Some conf"
    and "NewClusterHandler (ou_client X) (Some conf) (ps_grpc s) = (Ok (), g)"
  shows "metric_RegisterHandler X s = (Ok (), s\<lparr>ps_schemas := [(v1 ''linkingthing.com/metric'', NodeType)]\<rparr>) \<and>
    fst (log_RegisterHandler X s) = Ok () \<and>
    c_forM auth_types (MustImport X (v1 ''linkingthing.com/auth'')) s =
      (Ok (), s\<lparr>ps_schemas := map (Pair (v1 ''linkingthing.com/auth'')) auth_types\<rparr>) \<and>
    business_RegisterHandler X s = (Ok (), s\<lparr>ps_grpc := g,
      ps_schemas := map (Pair (v1 ''trymanytimes/business'')) business_types\<rparr>) \<and>
    fst (c_forM (rev business_types) (MustImport X (v1 ''trymanytimes/business'')) s) = Panic"
proof -
  have order: "parents_first [] auth_types" "parents_first [] business_types"
    "\<not> parents_first [] (rev business_types)"
    by (simp_all add: auth_types_def business_types_def parents_defs)
  have none: "\<forall>t. (v, t) \<in> set (ps_schemas s) \<longleftrightarrow> t \<in> set []" for v
    using assms(2) by simp
  note run = imports_succeed [OF assms(1) none]
  have one: "MustImport X v t s = (Ok (), s\<lparr>ps_schemas := [(v, t)]\<rparr>)" if "GetParents t = []" for v t
    using assms(1,2) that by (simp add: MustImport_def imports_after_parents_def)
  have "metric_RegisterHandler X s = (Ok (), s\<lparr>ps_schemas := [(v1 ''linkingthing.com/metric'', NodeType)]\<rparr>)"
    using one [of NodeType] assms(3) by (simp add: metric_RegisterHandler_def c_bind_def deref_def GetParents_def)
  moreover have "fst (log_RegisterHandler X s) = Ok ()"
    using one [of AuditLogType] by (simp add: log_RegisterHandler_def c_bind_def GetParents_def)
  moreover have "business_RegisterHandler X s = (Ok (), s\<lparr>ps_grpc := g,
      ps_schemas := map (Pair (v1 ''trymanytimes/business'')) business_types\<rparr>)"
    using imports_succeed [OF assms(1), of "v1 ''trymanytimes/business''" "s\<lparr>ps_grpc := g\<rparr>" "[]" business_types]
      order(2) assms(2-4)
    by (simp add: business_RegisterHandler_def c_bind_def c_map_err_def on_grpc_def on_part_def)
  ultimately show ?thesis using run [of auth_types] run [of "rev business_types"] order assms(2)
    by (metis append_Nil fst_conv)
qed

end
