(* ===== verification/Staleness.thy ===== *)
theory Staleness
  imports Sessions Tokens
begin

text \<open>
  How long a session outlives the rights it was given: the decisions of the middle ware across any
  sequence of changes of roles and groups.
\<close>

section \<open>What a decision depends on\<close>

lemma authentification_same:
  assumes "auth_db_ok V (env_db env)" and "w_active w' = w_active w"
    and "ad_whitelists (V (w_db w')) = ad_whitelists (V (w_db w))"
  shows "\<exists>r. authentification env j ctx w = (r, w) \<and> authentification env j ctx w' = (r, w')"
proof -
  note wl = checkWhiteList_result [OF assms(1), of "getClientIP (c_remote_addr ctx)"]
  show ?thesis
  proof (cases "wl_result (ad_whitelists (V (w_db w))) (getClientIP (c_remote_addr ctx)) = Ok () \<and> c_auth_header ctx \<noteq> []")
    case True
    then have "checkWhiteList env (getClientIP (c_remote_addr ctx)) w = (Ok (), w)"
      "checkWhiteList env (getClientIP (c_remote_addr ctx)) w' = (Ok (), w')"
      using wl assms(3) by simp_all
    then show ?thesis
      using authentification_token [of env ctx w j] authentification_token [of env ctx w' j] True assms(2)
      by (auto simp: decide_as_def Let_def split: parsed_token.split bool.split option.split prod.split)
  next
    case False
    then show ?thesis
      using wl [of w] wl [of w'] assms(3)
      by (cases "wl_result (ad_whitelists (V (w_db w))) (getClientIP (c_remote_addr ctx))")
        (simp_all add: authentification_eq c_bind_def c_map_err_def)
  qed
qed

section \<open>Changes of roles and groups\<close>

datatype change =
    CreateRole "role ctx" | UpdateRole "role ctx" | DeleteRole "role ctx"
  | CreateGroup "user_group ctx" | UpdateGroup "user_group ctx" | DeleteGroup "user_group ctx"

text \<open>What a request leaves, whether it succeeds or not.\<close>

primrec after_change :: "'d auth_env \<Rightarrow> change \<Rightarrow> 'd aworld \<Rightarrow> 'd aworld" where
  "after_change env (CreateRole ctx) w = snd (role_Create env ctx w)"
| "after_change env (UpdateRole ctx) w = snd (role_Update env ctx w)"
| "after_change env (DeleteRole ctx) w = snd (role_Delete env ctx w)"
| "after_change env (CreateGroup ctx) w = snd (group_Create env ctx w)"
| "after_change env (UpdateGroup ctx) w = snd (group_Update env ctx w)"
| "after_change env (DeleteGroup ctx) w = snd (group_Delete env ctx w)"

lemma after_change_leaves:
  assumes "untouched W (env_db env)"
  shows "w_active (after_change env c w) = w_active w \<and> W (w_db (after_change env c w)) = W (w_db w)"
  using keeps_roles [OF assms] keeps_groups [OF assms] keeps_group_Delete [OF assms]
  by (cases c) (simp_all add: leaves_def)

lemma after_changes_leave:
  assumes "untouched W (env_db env)"
  shows "w_active (fold (after_change env) cs w) = w_active w \<and>
    W (w_db (fold (after_change env) cs w)) = W (w_db w)"
  using after_change_leaves [OF assms] by (induction cs arbitrary: w) simp_all

section \<open>Properties\<close>

text \<open>C4. Rights that are taken away stay usable until the next login. Whatever is done to roles and
  groups, any sequence of creations, updates and deletions, each with or without success, the middle
  ware decides on every request exactly as it did before them: with the sessions of before,
  the authority in them included.\<close>

theorem changes_wait_for_login:
  assumes "auth_db_ok V (env_db env)" and "untouched (\<lambda>d. ad_whitelists (V d)) (env_db env)"
  shows "\<exists>r. authentification env j ctx w = (r, w) \<and>
    authentification env j ctx (fold (after_change env) cs w) = (r, fold (after_change env) cs w)"
  using after_changes_leave [OF assms(2), of cs w] by (intro authentification_same [OF assms(1)]) simp_all

lemma mem_db_untouched: "untouched ad_whitelists mem_db"
proof -
  have "table_untouched ad_whitelists mem_users"
    by (simp add: table_untouched_def mem_users_def split: option.split)
  moreover have "table_untouched ad_whitelists mem_roles" "table_untouched ad_whitelists mem_groups"
    by (simp_all add: table_untouched_def mem_roles_def mem_groups_def split: option.split)
  moreover have "tx_untouched ad_whitelists mem_db"
    by (simp add: tx_untouched_def mem_db_def)
  ultimately show ?thesis by (simp add: untouched_def)
qed

theorem changes_wait_for_login_witness:
  "\<exists>r. authentification ex_env ex_jwt (ex_ctx ''alice'' ''GET'' ''zone'' ''v1'' ()) ex_world = (r, ex_world) \<and>
     fst (authentification ex_env ex_jwt (ex_ctx ''alice'' ''GET'' ''zone'' ''v1'' ())
       (after_change ex_env (DeleteGroup (ex_ctx Admin ''DELETE'' ''usergroup'' ''ops'' ex_group)) ex_world)) = r"
proof -
  have "untouched (\<lambda>d. ad_whitelists d) (env_db ex_env)" using mem_db_untouched by simp
  from changes_wait_for_login [OF ex_env_ok(1) this, of ex_jwt "ex_ctx ''alice'' ''GET'' ''zone'' ''v1'' ()" ex_world
      "[DeleteGroup (ex_ctx Admin ''DELETE'' ''usergroup'' ''ops'' ex_group)]"]
  show ?thesis unfolding fold_simps by (elim exE conjE) (intro exI conjI, assumption, simp only: fst_conv)
qed

end
