(* ===== verification/Passwords.thy ===== *)
theory Passwords
  imports Staleness Accounts
begin

text \<open>
  Changing a password (\<open>changePassword\<close> and \<open>resetPassword\<close> of \<open>pkg/auth/handler/user_handler.go\<close>): who
  may, which password a login then takes, and what happens to the sessions and tokens of the user.
\<close>

section \<open>The row of the user\<close>

lemma set_password: "set_columns [(''password'', DStr c)] u = u\<lparr>u_password := c\<rparr>"
  by (simp add: set_columns_def)

lemma users_by_id_password:
  "users_by_id (D\<lparr>ad_users := update_users [(''password'', DStr c)] n (ad_users D)\<rparr>) m =
    (if m = n then map (\<lambda>u. u\<lparr>u_password := c\<rparr>) (users_by_id D n) else users_by_id D m)"
proof -
  have "filter (\<lambda>u. u_id u = m) (map (\<lambda>u. if u_id u = n then u\<lparr>u_password := c\<rparr> else u) us) =
      (if m = n then map (\<lambda>u. u\<lparr>u_password := c\<rparr>) (filter (\<lambda>u. u_id u = n) us) else filter (\<lambda>u. u_id u = m) us)" for us :: "ddiuser list"
    by (induction us) auto
  then show ?thesis unfolding users_by_id_def update_users_def set_password by simp
qed

lemma write_password_Ok:
  assumes "auth_db_ok V (env_db env)" and "lr_password input \<noteq> []"
  shows "\<exists>c d. write_password env input w = (Ok (LoginRequestEcho (input\<lparr>lr_password := []\<rparr>)), w\<lparr>w_db := d\<rparr>) \<and>
    Decrypt aesKey c = Ok (lr_password input) \<and>
    V d = (V (w_db w))\<lparr>ad_users := update_users [(''password'', DStr c)] (lr_username input) (ad_users (V (w_db w)))\<rparr>"
proof -
  obtain c where c: "Encrypt aesKey (lr_password input) = Ok c" by (rule aesKey_encrypts)
  have rel: "tx_reliable (env_db env)" using assms(1) by blast
  obtain k d where up: "tb_update (users (env_db env)) [(''password'', DStr c)] (by_id (lr_username input)) (w_db w) = (Ok k, d)"
    and d: "V d = (V (w_db w))\<lparr>ad_users := update_users [(''password'', DStr c)] (lr_username input) (ad_users (V (w_db w)))\<rparr>"
    using assms(1) unfolding auth_db_ok_def user_laws_def by blast
  have "withTx (env_db env) (updateUserToDB env (lr_username input) [(''password'', DStr c)]) w = (Ok (), w\<lparr>w_db := d\<rparr>)"
    by (rule withTx_reliable(1) [OF rel]) (simp add: updateUserToDB_def on_db_def up)
  with c d assms(2) Decrypt_Encrypt_aux [OF c] show ?thesis
    by (intro exI [of _ c] exI [of _ d]) (simp add: write_password_def)
qed

section \<open>Properties\<close>

text \<open>C13. The password of a user is changed by the administrator, or by the user with the action for it;
  anybody else gets an error, and nothing changes. Afterwards a login takes exactly the new
  password for this user, and the same passwords as before for all others, and the answer shows none. But
  nothing is revoked: the middle ware decides on every request with every token as it did before.\<close>

theorem password_change:
  assumes "auth_db_ok V (env_db env)" and "users_by_id (V (w_db w)) n = [u]"
    and "c_action ctx = Some act" and "act_name act \<in> {''changePassword'', ''resetPassword''}"
    and "act_input act = \<lparr>lr_username = n, lr_password = p\<rparr>" and "p \<noteq> []"
  shows "if c_vals ctx AuthUser = Some (VString Admin) \<or>
      act_name act = ''changePassword'' \<and> c_vals ctx AuthUser = Some (VString n)
    then \<exists>d. snd (user_Action env ctx) w =
        (Ok (LoginRequestEcho \<lparr>lr_username = n, lr_password = []\<rparr>), w\<lparr>w_db := d\<rparr>) \<and>
      (\<forall>m q. fst (CheckPassword env m q (w\<lparr>w_db := d\<rparr>)) = Ok () \<longleftrightarrow>
         (if m = n then q = p else fst (CheckPassword env m q w) = Ok ())) \<and>
      (\<forall>j rctx. \<exists>r. authentification env j rctx w = (r, w) \<and>
         authentification env j rctx (w\<lparr>w_db := d\<rparr>) = (r, w\<lparr>w_db := d\<rparr>))
    else \<exists>e. snd (user_Action env ctx) w = (Err e, w)"
proof -
  have keys: "AuthUser \<noteq> AuditlogIgnore" by (simp add: AuthUser_def AuditlogIgnore_def)
  have run: "snd (user_Action env ctx) w =
      (if act_name act = ''changePassword'' then changePassword env (ctx_set AuditlogIgnore VNil ctx) w
       else resetPassword env (ctx_set AuditlogIgnore VNil ctx) w)"
    using assms(3,4) by (auto simp: user_Action_def Let_def)
  show ?thesis
  proof (cases "c_vals ctx AuthUser = Some (VString Admin) \<or>
      act_name act = ''changePassword'' \<and> c_vals ctx AuthUser = Some (VString n)")
    case False
    then have "\<exists>e. snd (user_Action env ctx) w = (Err e, w)"
      using assms(3,5) keys unfolding run
      by (auto simp: changePassword_def resetPassword_def Let_def split: option.split)
    then show ?thesis unfolding if_not_P [OF False] .
  next
    case True
    let ?input = "\<lparr>lr_username = n, lr_password = p\<rparr>"
    have run': "snd (user_Action env ctx) w = write_password env ?input w"
      using True assms(3,5) keys unfolding run
      by (auto simp: changePassword_def resetPassword_def Let_def)
    obtain c d where w': "write_password env ?input w = (Ok (LoginRequestEcho (?input\<lparr>lr_password := []\<rparr>)), w\<lparr>w_db := d\<rparr>)"
      and c: "Decrypt aesKey c = Ok p"
      and d: "V d = (V (w_db w))\<lparr>ad_users := update_users [(''password'', DStr c)] n (ad_users (V (w_db w)))\<rparr>"
      using write_password_Ok [OF assms(1), of ?input w] assms(6) by auto
    have check: "fst (CheckPassword env m q v) = Ok () \<longleftrightarrow>
        (\<exists>x. users_by_id (V (w_db v)) m = [x] \<and> Decrypt aesKey (u_password x) = Ok q)" for m q v
      using CheckPassword_outcome [OF assms(1), of m q v] by auto
    have "fst (CheckPassword env m q (w\<lparr>w_db := d\<rparr>)) = Ok () \<longleftrightarrow>
        (if m = n then q = p else fst (CheckPassword env m q w) = Ok ())" for m q
      using assms(2) c by (auto simp: check d users_by_id_password)
    moreover have "\<exists>r. authentification env j rctx w = (r, w) \<and>
        authentification env j rctx (w\<lparr>w_db := d\<rparr>) = (r, w\<lparr>w_db := d\<rparr>)" for j and rctx :: "'b ctx"
      by (rule authentification_same [OF assms(1)]) (simp_all add: d)
    ultimately have "\<exists>d. snd (user_Action env ctx) w =
        (Ok (LoginRequestEcho \<lparr>lr_username = n, lr_password = []\<rparr>), w\<lparr>w_db := d\<rparr>) \<and>
      (\<forall>m q. fst (CheckPassword env m q (w\<lparr>w_db := d\<rparr>)) = Ok () \<longleftrightarrow>
         (if m = n then q = p else fst (CheckPassword env m q w) = Ok ())) \<and>
      (\<forall>j (rctx :: 'b ctx). \<exists>r. authentification env j rctx w = (r, w) \<and>
         authentification env j rctx (w\<lparr>w_db := d\<rparr>) = (r, w\<lparr>w_db := d\<rparr>))"
      using run' w' by (intro exI [of _ d]) simp
    then show ?thesis unfolding if_P [OF True] .
  qed
qed

theorem password_change_witness:
  "\<exists>d. snd (user_Action ex_env ((ex_ctx Admin ''POST'' ''ddiuser'' [] ex_bob)
      \<lparr>c_action := Some \<lparr>act_name = ''resetPassword'', act_input = \<lparr>lr_username = ''bob'', lr_password = ''new''\<rparr>\<rparr>\<rparr>)) ex_world =
        (Ok (LoginRequestEcho \<lparr>lr_username = ''bob'', lr_password = []\<rparr>), ex_world\<lparr>w_db := d\<rparr>) \<and>
      fst (CheckPassword ex_env ''bob'' ''new'' (ex_world\<lparr>w_db := d\<rparr>)) = Ok ()"
proof -
  let ?ctx = "(ex_ctx Admin ''POST'' ''ddiuser'' [] ex_bob)
      \<lparr>c_action := Some \<lparr>act_name = ''resetPassword'', act_input = \<lparr>lr_username = ''bob'', lr_password = ''new''\<rparr>\<rparr>\<rparr>"
  let ?act = "\<lparr>act_name = ''resetPassword'', act_input = \<lparr>lr_username = ''bob'', lr_password = ''new''\<rparr>\<rparr>"
  have row: "users_by_id (w_db ex_world) ''bob'' = [ex_bob]" by code_simp
  have act: "c_action ?ctx = Some ?act" by simp
  have reset: "act_name ?act \<in> {''changePassword'', ''resetPassword''}" by simp
  have input: "act_input ?act = \<lparr>lr_username = ''bob'', lr_password = ''new''\<rparr>" by simp
  have new: "''new'' \<noteq> []" by simp
  have admin: "c_vals ?ctx AuthUser = Some (VString Admin) \<or>
      act_name ?act = ''changePassword'' \<and> c_vals ?ctx AuthUser = Some (VString ''bob'')" by simp
  obtain d where "snd (user_Action ex_env ?ctx) ex_world =
        (Ok (LoginRequestEcho \<lparr>lr_username = ''bob'', lr_password = []\<rparr>), ex_world\<lparr>w_db := d\<rparr>)"
      and "fst (CheckPassword ex_env ''bob'' ''new'' (ex_world\<lparr>w_db := d\<rparr>)) = Ok ()"
    using password_change [OF ex_env_ok(1) row act reset input new, unfolded if_P [OF admin]]
    by (elim exE conjE) (rule that, assumption, drule spec [of _ "''bob''"], drule spec [of _ "''new''"],
      simp only: if_True simp_thms)
  then show ?thesis by (intro exI [of _ d] conjI)
qed

end
