(* ===== verification/Requests.thy ===== *)
theory Requests
  imports Typing AuditLog
begin

text \<open>
  A request on its way: the middle ware that decides on it and the handler behind it that writes the
  audit record share the context, where the first leaves the user for the second.
\<close>

section \<open>What the middle ware leaves in the context\<close>







text \<open>
  The context has the user as soon as the middle ware knows him: when it lets the request through, and
  when the user lacks the authority. Otherwise it is as it was.
\<close>

definition user_known :: "api_error option \<Rightarrow> bool" where
  "user_known err \<longleftrightarrow> (case err of None \<Rightarrow> True | Some (APIError code _) \<Rightarrow> code = PermissionDenied)"

lemma user_known_simps [simp]:
  "user_known None" "user_known (Some (APIError code msg)) \<longleftrightarrow> code = PermissionDenied"
  by (simp_all add: user_known_def)



section \<open>The record of a request\<close>








end
