(* ===== verification/AuditRetention.thy ===== *)
theory AuditRetention
  imports Requests Simulation
begin

text \<open>
  The life of an audit record (\<open>pkg/log/handler/auditlog_handler.go\<close>): it is written when a request
  has been answered, and removed by the goroutine of \<open>run\<close>, once a day, after its expiry. Requests and
  ticks come at instants, in the microseconds of the column for the expiry.
\<close>

section \<open>The goroutine and the requests\<close>

text \<open>A tick only reports an error.\<close>

definition audit_tick :: "'d tx_hooks \<Rightarrow> (('d, 'u) world, gerror, unit) comp" where
  "audit_tick P = (\<lambda>w. case audit_expire P w of (Err e, w') \<Rightarrow> (Ok (), w') | out \<Rightarrow> out)"

datatype 'r audit_event =
    Tick int
  | Answered int "'r audit_ctx" "api_error option"

text \<open>The database at a time is a parameter, as its statements read the clock, and so is the location of the
  machine. An error or a panic of the
  handler concerns its request alone.\<close>

fun audit_handle ::
  "(int \<Rightarrow> 'd tx_hooks) \<Rightarrow> ('d, audit_log) table \<Rightarrow> ('r audit_params \<Rightarrow> (gerror, string) res) \<Rightarrow>
   (api_error \<Rightarrow> string) \<Rightarrow> location \<Rightarrow> 'r audit_event \<Rightarrow> (('d, 'u) world, gerror, unit) comp" where
  "audit_handle P t marshal errText loc (Tick now) = audit_tick (P now)"
| "audit_handle P t marshal errText loc (Answered now ctx respErr) =
     (\<lambda>w. (Ok (), snd (AuditLoggerHandler NewAuditLogHandler (P now) t marshal errText loc now ctx respErr w)))"

section \<open>The records as a machine\<close>

text \<open>The record that a request leaves, if any.\<close>

definition record_of ::
  "('r audit_params \<Rightarrow> string) \<Rightarrow> (api_error \<Rightarrow> string) \<Rightarrow> location \<Rightarrow> int \<Rightarrow> 'r audit_ctx \<Rightarrow>
   api_error option \<Rightarrow> audit_log option" where
  "record_of enc errText loc now ctx respErr =
     (case (audited ctx, c_vals ctx AuthUser) of
        (Some (mth, params), Some (VString name)) \<Rightarrow>
          Some \<lparr>al_username = name, al_source_ip = audit_source_ip (c_remote_addr ctx),
            al_method = mth, al_resource_kind = rq_kind ctx, al_resource_path = c_url_path ctx,
            al_resource_id = c_id ctx, al_parameters = enc params, al_succeed = (respErr = None),
            al_err_message = (case respErr of None \<Rightarrow> [] | Some e \<Rightarrow> errText e),
            al_expire = AddDays 1000000 loc DefaultAuditLogValidPeriod now\<rparr>
      | _ \<Rightarrow> None)"

fun audit_spec ::
  "('r audit_params \<Rightarrow> string) \<Rightarrow> (api_error \<Rightarrow> string) \<Rightarrow> location \<Rightarrow> 'r audit_event \<Rightarrow> audit_log list \<Rightarrow> audit_log list" where
  "audit_spec enc errText loc (Tick now) ls = filter (\<lambda>l. now \<le> al_expire l) ls"
| "audit_spec enc errText loc (Answered now ctx respErr) ls =
     ls @ (case record_of enc errText loc now ctx respErr of Some l \<Rightarrow> [l] | None \<Rightarrow> [])"

text \<open>The deletion means what it says.\<close>

definition retention_laws ::
  "('d \<Rightarrow> audit_log list) \<Rightarrow> (int \<Rightarrow> 'd tx_hooks) \<Rightarrow> ('d, audit_log) table \<Rightarrow> bool" where
  "retention_laws V P t \<longleftrightarrow> (\<forall>now. audit_laws V (P now) t \<and>
     (\<forall>d. \<exists>k d'. tx_exec (P now) ''delete from gr_audit_log where expire < now()'' [] d = (Ok k, d') \<and>
        V d' = filter (\<lambda>l. \<not> al_expire l < now) (V d)))"

lemma retention_audit: "retention_laws V P t \<Longrightarrow> audit_laws V (P now) t"
  by (simp add: retention_laws_def)

lemma audit_tick_Ok:
  assumes "retention_laws V P t"
  shows "\<exists>w'. audit_tick (P now) w = (Ok (), w') \<and> V (w_db w') = filter (\<lambda>l. now \<le> al_expire l) (V (w_db w))"
proof -
  from assms obtain k d where ex: "tx_exec (P now) ''delete from gr_audit_log where expire < now()'' [] (w_db w) = (Ok k, d)"
    and d: "V d = filter (\<lambda>l. \<not> al_expire l < now) (V (w_db w))"
    unfolding retention_laws_def by blast
  have "tx_reliable (P now)" using retention_audit [OF assms] by (simp add: audit_laws_def)
  then have "audit_expire (P now) w = (Ok (), w\<lparr>w_db := d\<rparr>)"
    unfolding audit_expire_def by (rule withTx_reliable(1)) (simp add: ex on_db_def)
  with d show ?thesis by (simp add: audit_tick_def not_less)
qed

lemma Answered_records:
  assumes "retention_laws V P t" and "\<And>p. marshal p = Ok (enc p)"
  shows "V (w_db (snd (AuditLoggerHandler NewAuditLogHandler (P now) t marshal errText loc now ctx respErr w))) =
    audit_spec enc errText loc (Answered now ctx respErr) (V (w_db w))"
proof -
  note rec = audit_record [where marshal = marshal and enc = enc, OF retention_audit [OF assms(1), of now] assms(2), where now = now and loc = loc and errText = errText and ctx = ctx and respErr = respErr and w = w]
  show ?thesis
  proof (cases "audited ctx")
    case None
    with rec show ?thesis by (simp add: record_of_def)
  next
    case (Some mp)
    obtain mth params where mp: "mp = (mth, params)" by (cases mp)
    show ?thesis
    proof (cases "\<exists>name. c_vals ctx AuthUser = Some (VString name)")
      case True
      then obtain name where name: "c_vals ctx AuthUser = Some (VString name)" by blast
      with rec Some mp show ?thesis by (auto simp: record_of_def)
    next
      case False
      then have "snd (AuditLoggerHandler NewAuditLogHandler (P now) t marshal errText loc now ctx respErr w) = w"
        using Some assms(2)
        by (auto simp: audited_def AuditLoggerHandler_def Let_def split: if_splits option.splits ctx_val.splits)
      with False Some mp show ?thesis
        by (auto simp: record_of_def split: option.splits ctx_val.splits)
    qed
  qed
qed

interpretation aud: simulated "audit_handle P t marshal errText loc"
  "\<lambda>w. retention_laws V P t \<and> (\<forall>p. marshal p = Ok (enc p))" "\<lambda>w. V (w_db w)" "audit_spec enc errText loc"
  for P t marshal errText loc V enc
proof unfold_locales
  fix w and ev :: "'b audit_event"
  assume "retention_laws V P t \<and> (\<forall>p. marshal p = Ok (enc p))"
  then show "\<exists>w'. audit_handle P t marshal errText loc ev w = (Ok (), w') \<and>
      (retention_laws V P t \<and> (\<forall>p. marshal p = Ok (enc p))) \<and> V (w_db w') = audit_spec enc errText loc ev (V (w_db w))"
    using audit_tick_Ok [of V P t _ w] Answered_records [of V P t marshal enc]
    by (cases ev) auto
qed

text \<open>A record outlives the ticks up to its expiry, and no later one.\<close>

lemma audit_spec_split:
  "fold (audit_spec enc errText loc) evs ls =
     filter (\<lambda>l. \<forall>now. Tick now \<in> set evs \<longrightarrow> now \<le> al_expire l) ls @ fold (audit_spec enc errText loc) evs []"
proof (induction evs arbitrary: ls)
  case (Cons ev evs)
  show ?case
  proof (cases ev)
    case (Tick now)
    have eq: "(\<forall>n. Tick n \<in> set (ev # evs) \<longrightarrow> n \<le> al_expire l) \<longleftrightarrow>
        now \<le> al_expire l \<and> (\<forall>n. Tick n \<in> set evs \<longrightarrow> n \<le> al_expire l)" for l
      using Tick by auto
    have "filter (\<lambda>l. \<forall>n. Tick n \<in> set (ev # evs) \<longrightarrow> n \<le> al_expire l) ls =
        filter (\<lambda>l. \<forall>n. Tick n \<in> set evs \<longrightarrow> n \<le> al_expire l) (filter (\<lambda>l. now \<le> al_expire l) ls)"
      unfolding filter_filter by (intro filter_cong refl eq)
    then show ?thesis using Cons.IH [of "filter (\<lambda>l. now \<le> al_expire l) ls"] Tick by simp
  next
    case (Answered now ctx respErr)
    let ?new = "case record_of enc errText loc now ctx respErr of Some l \<Rightarrow> [l] | None \<Rightarrow> []"
    show ?thesis using Cons.IH [of "ls @ ?new"] Cons.IH [of ?new] Answered by simp
  qed
qed simp

section \<open>Properties\<close>

text \<open>
  C38. The record of a request is kept for 180 days, whatever the configuration says, and goes with the
  first daily tick after that: among any later requests and ticks it stays in the table exactly as long
  as no tick has come at a later instant than its expiry, 180 times twenty-four hours after the request
  but for a change of the offset of the local time in between. Records from before are treated by their own
  expiry, and what the later requests leave does not depend on it.
\<close>

theorem audit_retention:
  assumes "retention_laws V P t" and "\<forall>p. marshal p = Ok (enc p)"
    and "record_of enc errText loc now ctx respErr = Some l"
    and "c_forM (Answered now ctx respErr # evs) (audit_handle P t marshal errText loc) w = (r, w')"
  shows "r = Ok () \<and> V (w_db w') =
    filter (\<lambda>k. \<forall>at. Tick at \<in> set evs \<longrightarrow> at \<le> al_expire k) (V (w_db w)) @
    (if \<forall>at. Tick at \<in> set evs \<longrightarrow> at \<le> AddDays 1000000 loc 180 now then [l] else []) @
    fold (audit_spec enc errText loc) evs [] \<and>
    (\<exists>s. AddDays 1000000 loc 180 now =
      now + (180 * (24 * 60 * 60) + loc (now div 1000000) - loc s) * 1000000)"
proof -
  have l: "al_expire l = AddDays 1000000 loc 180 now"
    using assms(3) by (auto simp: record_of_def DefaultAuditLogValidPeriod_def split: option.splits ctx_val.splits)
  have "r = Ok () \<and> V (w_db w') = fold (audit_spec enc errText loc) (Answered now ctx respErr # evs) (V (w_db w))"
    using aud.run [of V P t marshal enc "Answered now ctx respErr # evs" errText loc w] assms(1,2,4) by auto
  then have "r = Ok ()" "V (w_db w') = fold (audit_spec enc errText loc) evs (V (w_db w) @ [l])"
    using assms(3) by simp_all
  then show ?thesis
    using audit_spec_split [of enc errText loc evs "V (w_db w) @ [l]"] l
      AddDays_offsets [of 1000000 loc 180 now] by simp
qed

definition ex_audit_at :: "int \<Rightarrow> audit_log list tx_hooks" where
  "ex_audit_at now = ex_audit_hooks\<lparr>tx_exec := (\<lambda>sql args d. (Ok 0, filter (\<lambda>l. \<not> al_expire l < now) d))\<rparr>"

lemma ex_retention_laws: "retention_laws (\<lambda>d. d) ex_audit_at ex_audit_table"
  using ex_audit_laws
  by (simp add: retention_laws_def ex_audit_at_def audit_laws_def tx_reliable_def ex_audit_hooks_def)

text \<open>A tick 180 days after a request to the microsecond leaves its record; the next one takes it.\<close>

definition ex_audit_run :: "unit audit_event list \<Rightarrow> (audit_log list, unit) world \<Rightarrow>
    (gerror, unit) res \<times> (audit_log list, unit) world" where
  "ex_audit_run evs = c_forM (Answered 0 (ex_audit_ctx ''DELETE'') None # evs)
     (audit_handle ex_audit_at ex_audit_table (\<lambda>_. Ok ''{}'') api_message (\<lambda>_. 3600))"

theorem audit_retention_witness:
  "(\<exists>l. w_db (snd (ex_audit_run [Tick (180 * (24 * 60 * 60) * 1000000)] \<lparr>w_db = [], w_active = Map.empty\<rparr>)) = [l] \<and>
     al_username l = ''alice'') \<and>
   w_db (snd (ex_audit_run [Tick (180 * (24 * 60 * 60) * 1000000), Tick (180 * (24 * 60 * 60) * 1000000 + 1)]
     \<lparr>w_db = [], w_active = Map.empty\<rparr>)) = []"
proof -
  let ?w = "\<lparr>w_db = [], w_active = Map.empty\<rparr> :: (audit_log list, unit) world"
  let ?t = "180 * (24 * 60 * 60) * 1000000 :: int"
  have "record_of (\<lambda>_. ''{}'') api_message (\<lambda>_. 3600) 0 (ex_audit_ctx ''DELETE'') None \<noteq> None"
    by (simp add: record_of_def audited_def ex_audit_ctx_def ctx.defs ex_ctx_def AuthUser_def AuditlogIgnore_def)
  then obtain l where l: "record_of (\<lambda>_. ''{}'') api_message (\<lambda>_. 3600) 0 (ex_audit_ctx ''DELETE'') None = Some l" by blast
  then have name: "al_username l = ''alice''"
    by (simp add: record_of_def audited_def ex_audit_ctx_def ctx.defs ex_ctx_def AuthUser_def AuditlogIgnore_def) (metis audit_log.select_convs(1))
  have total: "\<forall>p. (\<lambda>_. Ok ''{}'' :: (gerror, string) res) p = Ok ''{}''" by simp
  have run: "w_db (snd (ex_audit_run evs ?w)) =
      (if \<forall>at. Tick at \<in> set evs \<longrightarrow> at \<le> ?t then [l] else []) @
      fold (audit_spec (\<lambda>_. ''{}'') api_message (\<lambda>_. 3600)) evs []" for evs
  proof -
    obtain r w' where out: "ex_audit_run evs ?w = (r, w')" by fastforce
    from audit_retention [OF ex_retention_laws total l out [unfolded ex_audit_run_def]] out
    show ?thesis by simp
  qed
  have "w_db (snd (ex_audit_run [Tick ?t] ?w)) = [l]" by (simp add: run)
  moreover have "w_db (snd (ex_audit_run [Tick ?t, Tick (?t + 1)] ?w)) = []" by (simp add: run)
  ultimately show ?thesis using name by blast
qed

end
