(* ===== verification/AgentStore.thy ===== *)
theory AgentStore
  imports AgentEvents
begin

text \<open>
  The two goroutines behind the event log over time (\<open>runKafkaConsumer\<close> and \<open>runTicker\<close> of
  \<open>pkg/agentevent/handler/agentevent_handler.go\<close>), and what they make of the table of events:
  what is left of a history after a restart, and after a clean-up.
\<close>

section \<open>The consumer\<close>

text \<open>What a reader of the message broker is made with; times are in nanoseconds. The addresses and the
  group come from a part of the configuration that its type does not declare, the topic from the
  repository of the agents: they are arguments.\<close>

record kafka_dialer =
  di_timeout :: int
  di_dual_stack :: bool
  di_keep_alive :: int

record reader_config =
  kr_brokers :: "string list"
  kr_topic :: string
  kr_group_id :: string
  kr_min_bytes :: int
  kr_max_bytes :: int
  kr_max_wait :: int
  kr_session_timeout :: int
  kr_dialer :: kafka_dialer

record kafka_conf =
  kf_addr :: "string list"
  kf_group_id_agent_event :: string

definition millisecond :: int where "millisecond = 1000000"
definition second :: int where "second = 1000 * millisecond"

definition agent_reader_config :: "kafka_conf \<Rightarrow> string \<Rightarrow> reader_config" where
  "agent_reader_config conf topic =
     \<lparr>kr_brokers = kf_addr conf, kr_topic = topic, kr_group_id = kf_group_id_agent_event conf,
      kr_min_bytes = 1, kr_max_bytes = 1000000, kr_max_wait = millisecond * 100,
      kr_session_timeout = second * 10,
      kr_dialer = \<lparr>di_timeout = second * 10, di_dual_stack = True, di_keep_alive = second * 5\<rparr>\<rparr>"

text \<open>A read gives a message, with its key and its value, or an error, after which the loop goes on.\<close>

datatype reading = Message string string | ReadFailed gerror

fun consume ::
  "'d tx_hooks \<Rightarrow> ('d, agent_event) counted_table \<Rightarrow> (string \<Rightarrow> (gerror, ddi_response) res) \<Rightarrow>
   string \<Rightarrow> reading \<Rightarrow> (agent_event_handler \<times> ('d, 'u) world, gerror, unit) comp" where
  "consume P t unmarshal key (ReadFailed e) = c_return ()"
| "consume P t unmarshal key (Message k v) = kafka_message P t unmarshal key (k, v)"

text \<open>The loop never ends: this is what its first \<open>n\<close> rounds do. The reader gives a result for every
  round.\<close>

definition runKafkaConsumer ::
  "'d tx_hooks \<Rightarrow> ('d, agent_event) counted_table \<Rightarrow> (string \<Rightarrow> (gerror, ddi_response) res) \<Rightarrow>
   string \<Rightarrow> string \<Rightarrow> kafka_conf \<Rightarrow> (reader_config \<Rightarrow> nat \<Rightarrow> reading) \<Rightarrow> nat \<Rightarrow>
   (agent_event_handler \<times> ('d, 'u) world, gerror, unit) comp" where
  "runKafkaConsumer P t unmarshal key topic conf newReader n =
     (let kafkaReader = newReader (agent_reader_config conf topic)
      in c_forM (map kafkaReader [0..<n]) (consume P t unmarshal key))"

section \<open>The laws of the table\<close>

text \<open>The rows stand in the order of their times of creation, and no two have the same.\<close>

definition in_order :: "agent_event list \<Rightarrow> bool" where
  "in_order rows \<longleftrightarrow> sorted_wrt (<) (map ae_created rows)"

text \<open>An insertion stamps its row with a time of its own; a query and the deletions do what their text
  says, where the rows to order have different times.\<close>

definition agent_laws ::
  "('d \<Rightarrow> agent_event list) \<Rightarrow> 'd tx_hooks \<Rightarrow> ('d, agent_event) counted_table \<Rightarrow> bool" where
  "agent_laws V P t \<longleftrightarrow> tx_reliable P \<and>
     (\<forall>e d. \<exists>c d'. tb_insert t e d = (Ok (e\<lparr>ae_created := c\<rparr>), d') \<and>
        V d' = V d @ [e\<lparr>ae_created := c\<rparr>] \<and> (\<forall>r \<in> set (V d). ae_created r < c)) \<and>
     (\<forall>n d. in_order (V d) \<longrightarrow>
        tb_get t [(''orderby'', DStr ''create_time desc''), (''limit'', DInt (int n)), (''offset'', DInt 0)] d =
          (Ok (take n (rev (V d))), d)) \<and>
     (\<forall>a b d. \<exists>k d'. tx_exec P ''delete from gr_agent_event where create_time < $1 or create_time < $2''
        [DInt a, DInt b] d = (Ok k, d') \<and>
        V d' = filter (\<lambda>r. \<not> (ae_created r < a \<or> ae_created r < b)) (V d)) \<and>
     (\<forall>a d. \<exists>k d'. tx_exec P ''delete from gr_agent_event where create_time < $1'' [DInt a] d = (Ok k, d') \<and>
        V d' = filter (\<lambda>r. \<not> ae_created r < a) (V d)) \<and>
     (\<forall>d. tb_count t [] d = (Ok (length (V d)), d)) \<and>
     (\<forall>n d. in_order (V d) \<longrightarrow> (\<exists>k d'. tx_exec P
        ''delete from gr_agent_event where id in (select id from gr_agent_event order by create_time limit $1)''
        [DInt (int n)] d = (Ok k, d') \<and> V d' = drop n (V d)))"

lemma agent_laws_tx: "agent_laws V P t \<Longrightarrow> tx_reliable P"
  by (simp add: agent_laws_def)

lemma agent_insertE:
  assumes "agent_laws V P t"
  obtains c d' where "tb_insert t e d = (Ok (e\<lparr>ae_created := c\<rparr>), d')"
    and "V d' = V d @ [e\<lparr>ae_created := c\<rparr>]" and "\<forall>r \<in> set (V d). ae_created r < c"
  using assms unfolding agent_laws_def by blast

lemma agent_get:
  "agent_laws V P t \<Longrightarrow> in_order (V d) \<Longrightarrow>
    tb_get t [(''orderby'', DStr ''create_time desc''), (''limit'', DInt (int n)), (''offset'', DInt 0)] d =
      (Ok (take n (rev (V d))), d)"
  unfolding agent_laws_def by blast

lemma agent_delete_oldE:
  assumes "agent_laws V P t"
  obtains k d' where "tx_exec P deleteAgentSql [DInt a, DInt b] d = (Ok k, d')"
    and "V d' = filter (\<lambda>r. \<not> (ae_created r < a \<or> ae_created r < b)) (V d)"
  using assms unfolding agent_laws_def deleteAgentSql_def by blast

lemma agent_delete_monthE:
  assumes "agent_laws V P t"
  obtains k d' where "tx_exec P ''delete from gr_agent_event where create_time < $1'' [DInt a] d = (Ok k, d')"
    and "V d' = filter (\<lambda>r. \<not> ae_created r < a) (V d)"
  using assms unfolding agent_laws_def by blast

lemma agent_count: "agent_laws V P t \<Longrightarrow> tb_count t [] d = (Ok (length (V d)), d)"
  unfolding agent_laws_def by blast

lemma agent_delete_firstE:
  assumes "agent_laws V P t" and "in_order (V d)"
  obtains k d' where "tx_exec P (''delete from gr_agent_event where id in (select id from '' @
      ''gr_agent_event order by create_time limit $1)'') [DInt (int n)] d = (Ok k, d')"
    and "V d' = drop n (V d)"
proof -
  have "\<exists>k d'. tx_exec P
        ''delete from gr_agent_event where id in (select id from gr_agent_event order by create_time limit $1)''
        [DInt (int n)] d = (Ok k, d') \<and> V d' = drop n (V d)"
    using assms unfolding agent_laws_def by blast
  then show thesis using that by auto
qed

lemma in_order_filter: "in_order rows \<Longrightarrow> in_order (filter p rows)"
  by (induction rows) (auto simp: in_order_def)

lemma in_order_drop: "in_order rows \<Longrightarrow> in_order (drop n rows)"
  by (simp add: in_order_def sorted_wrt_drop drop_map [symmetric])

section \<open>What the consumer does\<close>

text \<open>The events in the messages that count, in order, and an event without its time of creation.\<close>

definition untimed :: "agent_event \<Rightarrow> agent_event" where
  "untimed e = e\<lparr>ae_created := 0\<rparr>"

fun accepted ::
  "(string \<Rightarrow> (gerror, ddi_response) res) \<Rightarrow> string \<Rightarrow> reading list \<Rightarrow> agent_event list" where
  "accepted unmarshal key [] = []"
| "accepted unmarshal key (ReadFailed e # rs) = accepted unmarshal key rs"
| "accepted unmarshal key (Message k v # rs) =
     (case unmarshal v of
        Ok r \<Rightarrow> (if k = key then [agent_event_of r] else [])
      | _ \<Rightarrow> []) @ accepted unmarshal key rs"

lemma untimed_agent_event_of: "untimed ((agent_event_of r)\<lparr>ae_created := c\<rparr>) = agent_event_of r"
  by (simp add: untimed_def agent_event_of_def)

lemma in_order_snoc:
  "in_order rows \<Longrightarrow> \<forall>r \<in> set rows. ae_created r < ae_created e \<Longrightarrow> in_order (rows @ [e])"
  by (simp add: in_order_def sorted_wrt_append)

lemma pushAgentEvent_Ok:
  assumes "agent_laws V P t" and "unmarshal v = Ok r"
  shows "\<exists>c d. pushAgentEvent P t unmarshal v h w =
      (Ok (addEventList ((agent_event_of r)\<lparr>ae_created := c\<rparr>) h), w\<lparr>w_db := d\<rparr>) \<and>
    V d = V (w_db w) @ [(agent_event_of r)\<lparr>ae_created := c\<rparr>] \<and> (\<forall>q \<in> set (V (w_db w)). ae_created q < c)"
proof -
  obtain c d where ins: "tb_insert t (agent_event_of r) (w_db w) = (Ok ((agent_event_of r)\<lparr>ae_created := c\<rparr>), d)"
    and V: "V d = V (w_db w) @ [(agent_event_of r)\<lparr>ae_created := c\<rparr>]" "\<forall>q \<in> set (V (w_db w)). ae_created q < c"
    by (rule agent_insertE [OF assms(1)])
  have "withTx P (c_map_err msg (on_db (tb_insert t (agent_event_of r)))) w =
      (Ok ((agent_event_of r)\<lparr>ae_created := c\<rparr>), w\<lparr>w_db := d\<rparr>)" for msg
    by (rule withTx_reliable(1) [OF agent_laws_tx [OF assms(1)]]) (simp add: ins c_map_err_def on_db_def)
  then show ?thesis using assms(2) V
    by (intro exI [of _ c] exI [of _ d]) (simp add: pushAgentEvent_def c_map_err_def)
qed

lemma pushAgentEvent_Err:
  "unmarshal v = Err e \<Longrightarrow> \<exists>e'. pushAgentEvent P t unmarshal v h w = (Err e', w)"
  by (simp add: pushAgentEvent_def c_map_err_def c_bind_def)

lemma consume_step:
  assumes "agent_laws V P t" and "\<forall>v. unmarshal v \<noteq> Panic" and "in_order (V (w_db w))"
  shows "\<exists>es d. consume P t unmarshal key rd (h, w) = (Ok (), (fold addEventList es h, w\<lparr>w_db := d\<rparr>)) \<and>
    map untimed es = accepted unmarshal key [rd] \<and> V d = V (w_db w) @ es \<and> in_order (V d)"
proof (cases "\<exists>v r. rd = Message key v \<and> unmarshal v = Ok r")
  case True
  then obtain v r where rd: "rd = Message key v" and r: "unmarshal v = Ok r" by blast
  obtain c d where "pushAgentEvent P t unmarshal v h w =
      (Ok (addEventList ((agent_event_of r)\<lparr>ae_created := c\<rparr>) h), w\<lparr>w_db := d\<rparr>)"
    "V d = V (w_db w) @ [(agent_event_of r)\<lparr>ae_created := c\<rparr>]" "\<forall>q \<in> set (V (w_db w)). ae_created q < c"
    using pushAgentEvent_Ok [OF assms(1), of unmarshal v r h w] r by blast
  then show ?thesis using rd r assms(3)
    by (intro exI [of _ "[(agent_event_of r)\<lparr>ae_created := c\<rparr>]"] exI [of _ d])
      (simp add: kafka_message_def untimed_agent_event_of in_order_snoc)
next
  case False
  have "consume P t unmarshal key rd (h, w) = (Ok (), (h, w)) \<and> accepted unmarshal key [rd] = []"
  proof (cases rd)
    case (Message k v)
    show ?thesis
    proof (cases "unmarshal v")
      case (Err e)
      with Message show ?thesis using pushAgentEvent_Err [of unmarshal v e P t h w, OF Err]
        by (auto simp: kafka_message_def)
    qed (use Message False assms(2) in \<open>auto simp: kafka_message_def\<close>)
  qed simp
  with assms(3) show ?thesis by (intro exI [of _ "[]"] exI [of _ "w_db w"]) simp
qed

lemma accepted_append: "accepted unmarshal key (xs @ ys) = accepted unmarshal key xs @ accepted unmarshal key ys"
  by (induction unmarshal key xs rule: accepted.induct) simp_all

lemma consume_all:
  assumes "agent_laws V P t" and "\<forall>v. unmarshal v \<noteq> Panic" and "in_order (V (w_db w))"
  shows "\<exists>es d. c_forM rds (consume P t unmarshal key) (h, w) =
      (Ok (), (fold addEventList es h, w\<lparr>w_db := d\<rparr>)) \<and>
    map untimed es = accepted unmarshal key rds \<and> V d = V (w_db w) @ es \<and> in_order (V d)"
  using assms(3)
proof (induction rds arbitrary: h w)
  case Nil
  then show ?case by (intro exI [of _ "[]"] exI [of _ "w_db w"]) simp
next
  case (Cons rd rds)
  obtain es d where one: "consume P t unmarshal key rd (h, w) = (Ok (), (fold addEventList es h, w\<lparr>w_db := d\<rparr>))"
    "map untimed es = accepted unmarshal key [rd]" "V d = V (w_db w) @ es" "in_order (V d)"
    using consume_step [OF assms(1,2) Cons.prems, of key rd h] by blast
  obtain es' d' where "c_forM rds (consume P t unmarshal key) (fold addEventList es h, w\<lparr>w_db := d\<rparr>) =
      (Ok (), (fold addEventList es' (fold addEventList es h), w\<lparr>w_db := d'\<rparr>))"
    "map untimed es' = accepted unmarshal key rds" "V d' = V d @ es'" "in_order (V d')"
    using Cons.IH [of "w\<lparr>w_db := d\<rparr>" "fold addEventList es h"] one(4) by auto
  with one show ?case
    using accepted_append [of unmarshal key "[rd]" rds]
    by (intro exI [of _ "es @ es'"] exI [of _ d']) simp
qed

section \<open>Starting from a history\<close>

text \<open>The rows that a start loads, in the order of their times, and what the log has of them.\<close>

definition last_rows :: "agent_event list \<Rightarrow> agent_event list" where
  "last_rows rows = drop (length rows - maxMessageLen) rows"

lemma loaded_rows: "take maxMessageLen (rev rows) = rev (last_rows rows)"
  by (simp add: last_rows_def take_rev)

lemma last_rows_Nil [simp]: "last_rows [] = []"
  by (simp add: last_rows_def)

lemma last_rows_empty [simp]: "last_rows rows = [] \<longleftrightarrow> rows = []"
  by (cases rows) (auto simp: last_rows_def maxMessageLen_def)

lemma in_order_hd:
  assumes "in_order rows" and "r \<in> set rows"
  shows "ae_created (hd rows) \<le> ae_created r"
  using assms by (cases rows) (auto simp: in_order_def)

lemma last_rows_delete:
  assumes "in_order rows" and "rows \<noteq> []"
  shows "filter (\<lambda>r. \<not> (ae_created r < a \<or> ae_created r < ae_created (hd (last_rows rows)))) rows =
    filter (\<lambda>r. a \<le> ae_created r) (last_rows rows)"
proof -
  define n where "n = length rows - maxMessageLen"
  have last: "last_rows rows = drop n rows" by (simp add: last_rows_def n_def)
  have ne: "drop n rows \<noteq> []" using assms(2) last_rows_empty [of rows] by (simp only: last) simp
  have "in_order (take n rows @ drop n rows)" using assms(1) by simp
  then have "\<forall>r \<in> set (take n rows). ae_created r < ae_created (hd (drop n rows))"
    using ne by (simp add: in_order_def sorted_wrt_append del: append_take_drop_id)
  moreover have "\<forall>r \<in> set (drop n rows). \<not> ae_created r < ae_created (hd (drop n rows))"
    using in_order_hd [OF in_order_drop [OF assms(1)]] by (simp add: not_less)
  ultimately have "filter (\<lambda>r. \<not> (ae_created r < a \<or> ae_created r < ae_created (hd (drop n rows)))) (take n rows) = []"
    "filter (\<lambda>r. \<not> (ae_created r < a \<or> ae_created r < ae_created (hd (drop n rows)))) (drop n rows) =
      filter (\<lambda>r. a \<le> ae_created r) (drop n rows)"
    by (auto simp: filter_empty_conv not_less intro: filter_cong)
  then have "filter (\<lambda>r. \<not> (ae_created r < a \<or> ae_created r < ae_created (hd (drop n rows)))) (take n rows @ drop n rows) =
      filter (\<lambda>r. a \<le> ae_created r) (drop n rows)"
    by (simp only: filter_append append_Nil)
  then show ?thesis by (simp add: last)
qed

lemma NewAgentEventHandler_Ok:
  assumes "agent_laws V P t" and "in_order (V (w_db w))"
  shows "\<exists>d. NewAgentEventHandler P t monthAgo w = (Ok (load_events (rev (last_rows (V (w_db w))))), w\<lparr>w_db := d\<rparr>) \<and>
    V d = filter (\<lambda>r. monthAgo \<le> ae_created r) (last_rows (V (w_db w)))"
proof -
  let ?rows = "V (w_db w)" and ?loaded = "rev (last_rows (V (w_db w)))"
  have get: "tb_get t [(''orderby'', DStr ''create_time desc''), (''limit'', DInt (int maxMessageLen)), (''offset'', DInt 0)]
      (w_db w) = (Ok ?loaded, w_db w)"
    using agent_get [OF assms, of maxMessageLen] by (simp add: loaded_rows)
  note tx = withTx_reliable(1) [OF agent_laws_tx [OF assms(1)]]
  show ?thesis
  proof (cases "?rows = []")
    case True
    with get show ?thesis unfolding NewAgentEventHandler_def loadEventList_def
      by (intro exI [of _ "w_db w"] conjI tx) (simp_all add: on_db_def c_map_err_def load_events_def)
  next
    case False
    then have ne: "last_rows ?rows \<noteq> []" by simp
    then have oldest: "?loaded ! (length ?loaded - 1) = hd (last_rows ?rows)"
      by (simp add: rev_nth hd_conv_nth)
    obtain k d where "tx_exec P deleteAgentSql [DInt monthAgo, DInt (ae_created (hd (last_rows ?rows)))] (w_db w) = (Ok k, d)"
      "V d = filter (\<lambda>r. \<not> (ae_created r < monthAgo \<or> ae_created r < ae_created (hd (last_rows ?rows)))) ?rows"
      by (rule agent_delete_oldE [OF assms(1)])
    with get oldest ne last_rows_delete [OF assms(2) False] show ?thesis
      unfolding NewAgentEventHandler_def loadEventList_def
      by (intro exI [of _ d] conjI tx) (simp_all add: on_db_def c_map_err_def)
  qed
qed

lemma log_events: "map ev_event (eventList (log_of hist)) = drop (length hist - log_window) hist"
proof -
  have "map ev_event (numbered n es) = es" for n es by (induction es arbitrary: n) simp_all
  then show ?thesis by (simp add: log_of_def Let_def)
qed

lemma drop_reversed:
  "drop (length (rev xs @ ys) - n) (rev xs @ ys) = rev (take (n - length ys) xs) @ drop (length ys - n) ys"
proof -
  have "take (length xs - (length xs + length ys - n)) xs = take (n - length ys) xs"
    by (cases "length xs + length ys \<le> n") auto
  moreover have "length xs + length ys - n - length xs = length ys - n" by simp
  ultimately show ?thesis by (simp add: drop_rev)
qed

lemma last_rows_length: "length (last_rows rows) = min maxMessageLen (length rows)"
  by (simp add: last_rows_def)

lemma load_last_rows: "load_events (rev (last_rows rows)) = log_of (rev (last_rows rows))"
  by (rule load_events_log_of) (simp add: last_rows_length)

lemma loaded_length: "length (eventList (load_events rows)) = length rows"
  by (simp add: load_events_def)

lemma newest_first: "getEvents 0 (load_events (rev (last_rows rows))) = last_rows rows"
proof -
  have "length (last_rows rows) \<le> 1000" by (simp add: last_rows_length maxMessageLen_def)
  then show ?thesis
    using getEvents_log_of [of "rev (last_rows rows)" 0] by (simp add: load_last_rows log_window_def maxMessageLen_def)
qed

lemma history_tick_Ok:
  assumes "agent_laws V P t" and "in_order (V (w_db w))"
    and "recent = filter (\<lambda>r. monthAgo \<le> ae_created r) (V (w_db w))"
  shows "\<exists>d. history_tick P t monthAgo w = (Ok (), w\<lparr>w_db := d\<rparr>) \<and>
    V d = (if length recent \<le> maxMessageLen then recent else drop maxMessageLen recent)"
proof -
  note tx = withTx_reliable(1) [OF agent_laws_tx [OF assms(1)]]
  obtain k d where old: "tx_exec P ''delete from gr_agent_event where create_time < $1'' [DInt monthAgo] (w_db w) = (Ok k, d)"
    and d: "V d = recent"
    by (rule agent_delete_monthE [OF assms(1)]) (simp add: assms(3) not_less)
  have count: "tb_count t [] d = (Ok (length recent), d)" using agent_count [OF assms(1), of d] d by simp
  have "\<exists>d'. cleanAgentEventHistory P t monthAgo w = (Ok (), w\<lparr>w_db := d'\<rparr>) \<and>
      V d' = (if length recent \<le> maxMessageLen then recent else drop maxMessageLen recent)"
  proof (cases "length recent \<le> maxMessageLen")
    case True
    with old count d show ?thesis unfolding cleanAgentEventHistory_def
      by (intro exI [of _ d] conjI tx) (simp_all add: on_db_def c_map_err_def)
  next
    case False
    have "in_order (V d)" using assms(2,3) d by (simp add: in_order_filter)
    then obtain k' d' where "tx_exec P (''delete from gr_agent_event where id in (select id from '' @
        ''gr_agent_event order by create_time limit $1)'') [DInt (int maxMessageLen)] d = (Ok k', d')"
      "V d' = drop maxMessageLen (V d)"
      by (rule agent_delete_firstE [OF assms(1)])
    with old count d False show ?thesis unfolding cleanAgentEventHistory_def
      by (intro exI [of _ d'] conjI tx) (simp_all add: on_db_def c_map_err_def)
  qed
  then show ?thesis by (auto simp: history_tick_def)
qed

section \<open>A table that keeps the laws\<close>

definition ex_agent_hooks :: "agent_event list tx_hooks" where
  "ex_agent_hooks = \<lparr>tx_open = (\<lambda>d. (None, d)), tx_commit = (\<lambda>d0 d. (None, d)),
      tx_rollback = (\<lambda>e d0 d. (e, d0)),
      tx_exec = (\<lambda>sql args d. (Ok 0,
        if sql = ''delete from gr_agent_event where create_time < $1 or create_time < $2''
        then (case args of [DInt a, DInt b] \<Rightarrow> filter (\<lambda>r. \<not> (ae_created r < a \<or> ae_created r < b)) d | _ \<Rightarrow> d)
        else if sql = ''delete from gr_agent_event where create_time < $1''
        then (case args of [DInt a] \<Rightarrow> filter (\<lambda>r. \<not> ae_created r < a) d | _ \<Rightarrow> d)
        else (case args of [DInt n] \<Rightarrow> drop (nat n) d | _ \<Rightarrow> d)))\<rparr>"

definition ex_agent_time :: "agent_event list \<Rightarrow> int" where
  "ex_agent_time d = foldr (\<lambda>r. max (ae_created r)) d 0 + 1"

definition ex_agent_table :: "(agent_event list, agent_event) counted_table" where
  "ex_agent_table = \<lparr>tb_insert = (\<lambda>e d. (Ok (e\<lparr>ae_created := ex_agent_time d\<rparr>), d @ [e\<lparr>ae_created := ex_agent_time d\<rparr>])),
     tb_get = (\<lambda>c d. (Ok (case c of [_, (_, DInt n), _] \<Rightarrow> take (nat n) (rev d) | _ \<Rightarrow> d), d)),
     tb_update = (\<lambda>cols c d. (Ok 0, d)), tb_delete = (\<lambda>c d. (Ok 0, d)), tb_exists = (\<lambda>c d. (Ok True, d)),
     tb_fill_ex = (\<lambda>sql args d. (Ok d, d)), tb_count_ex = (\<lambda>sql args d. (Ok 0, d)),
     tb_get_with_id = (\<lambda>i d. (Err ''not found'', d)), tb_count = (\<lambda>c d. (Ok (length d), d))\<rparr>"

lemma ex_agent_time_later: "r \<in> set d \<Longrightarrow> ae_created r < ex_agent_time d"
  by (induction d) (auto simp: ex_agent_time_def)

lemma ex_agent_laws: "agent_laws (\<lambda>d. d) ex_agent_hooks ex_agent_table"
proof -
  have "tx_reliable ex_agent_hooks" by (simp add: tx_reliable_def ex_agent_hooks_def)
  then show ?thesis
    unfolding agent_laws_def by (auto simp: ex_agent_table_def ex_agent_hooks_def ex_agent_time_later)
qed

section \<open>Properties\<close>

text \<open>
  C39. The monthly clean-up removes the rows that are older than the given time; but if more than 1000
  are left it removes the 1000 oldest of them instead of the surplus, so that of 1001 recent events one
  is left. The log in memory does not change; a start after the clean-up loads what is left, and at
  most 1000 events.
\<close>

theorem history_clean_up:
  assumes "agent_laws V P t" and "in_order (V (w_db w))"
    and "recent = filter (\<lambda>r. monthAgo \<le> ae_created r) (V (w_db w))"
  shows "\<exists>d h d'. history_tick P t monthAgo w = (Ok (), w\<lparr>w_db := d\<rparr>) \<and>
    V d = (if length recent \<le> 1000 then recent else drop 1000 recent) \<and>
    NewAgentEventHandler P t monthAgo' (w\<lparr>w_db := d\<rparr>) = (Ok h, w\<lparr>w_db := d'\<rparr>) \<and>
    getEvents 0 h = last_rows (V d) \<and>
    length (eventList h) =
      (if length recent \<le> 1000 then length recent else min 1000 (length recent - 1000))"
proof -
  obtain d where d: "history_tick P t monthAgo w = (Ok (), w\<lparr>w_db := d\<rparr>)"
    "V d = (if length recent \<le> 1000 then recent else drop 1000 recent)"
    using history_tick_Ok [OF assms] by (auto simp: maxMessageLen_def)
  then have "in_order (V (w_db (w\<lparr>w_db := d\<rparr>)))"
    using assms(2,3) by (simp add: in_order_filter in_order_drop)
  from NewAgentEventHandler_Ok [OF assms(1) this, of monthAgo'] obtain d' where
    "NewAgentEventHandler P t monthAgo' (w\<lparr>w_db := d\<rparr>) = (Ok (load_events (rev (last_rows (V d)))), w\<lparr>w_db := d'\<rparr>)"
    by auto
  moreover have "length (eventList (load_events (rev (last_rows (V d))))) =
      (if length recent \<le> 1000 then length recent else min 1000 (length recent - 1000))"
    using d(2) by (simp add: loaded_length last_rows_length maxMessageLen_def)
  ultimately show ?thesis using d newest_first [of "V d"] by blast
qed

definition ex_rows :: "nat \<Rightarrow> agent_event list" where
  "ex_rows n = map (\<lambda>i. (ex_event ''a'')\<lparr>ae_created := int i\<rparr>) [0..<n]"

lemma ex_rows_in_order: "in_order (ex_rows n)"
  by (simp add: in_order_def ex_rows_def sorted_wrt_map comp_def sorted_wrt_less_idx sorted_wrt_upt)

theorem history_clean_up_witness:
  "\<exists>d. history_tick ex_agent_hooks ex_agent_table 0 (\<lparr>w_db = ex_rows 1001, w_active = Map.empty\<rparr> :: (agent_event list, unit) world) =
      (Ok (), \<lparr>w_db = d, w_active = Map.empty\<rparr>) \<and> length d = 1"
proof -
  let ?w = "(\<lparr>w_db = ex_rows 1001, w_active = Map.empty\<rparr> :: (agent_event list, unit) world)"
  have order: "in_order (w_db ?w)" by (simp add: ex_rows_in_order)
  have recent: "ex_rows 1001 = filter (\<lambda>r. 0 \<le> ae_created r) (w_db ?w)"
    by (auto simp: ex_rows_def intro!: filter_True [symmetric])
  from history_clean_up [OF ex_agent_laws order recent, of 0] obtain d where
    "history_tick ex_agent_hooks ex_agent_table 0 ?w = (Ok (), ?w\<lparr>w_db := d\<rparr>)"
    "d = (if length (ex_rows 1001) \<le> 1000 then ex_rows 1001 else drop 1000 (ex_rows 1001))"
    by blast
  moreover have "length (ex_rows 1001) = 1001" by (simp only: ex_rows_def length_map length_upt)
  ultimately show ?thesis by (intro exI [of _ d]) simp
qed

text \<open>
  C40. A restart turns the history around. The rows are loaded newest first into a log whose front is
  its oldest end: a reading from the start, which is meant to give the newest events first, gives
  the last 1000 rows oldest first. The messages that the consumer accepts afterwards follow in their
  order, whatever reads fail and whatever other messages come in between, and as soon as the
  log is full each drives out the newest of the loaded events. The table keeps the loaded rows that
  are recent, and gets the same new events.
\<close>

theorem restart_reverses_history:
  assumes "agent_laws V P t" and "\<forall>v. unmarshal v \<noteq> Panic" and "in_order (V (w_db w))"
  shows "\<exists>h d es h' d'. NewAgentEventHandler P t monthAgo w = (Ok h, w\<lparr>w_db := d\<rparr>) \<and>
    getEvents 0 h = last_rows (V (w_db w)) \<and>
    runKafkaConsumer P t unmarshal key topic conf newReader n (h, w\<lparr>w_db := d\<rparr>) =
      (Ok (), (h', w\<lparr>w_db := d'\<rparr>)) \<and>
    map untimed es = accepted unmarshal key (map (newReader (agent_reader_config conf topic)) [0..<n]) \<and>
    map ev_event (eventList h') =
      rev (take (1001 - length es) (last_rows (V (w_db w)))) @ drop (length es - 1001) es \<and>
    V d' = filter (\<lambda>r. monthAgo \<le> ae_created r) (last_rows (V (w_db w))) @ es"
proof -
  let ?L = "last_rows (V (w_db w))" and ?rds = "map (newReader (agent_reader_config conf topic)) [0..<n]"
  obtain d where start: "NewAgentEventHandler P t monthAgo w = (Ok (load_events (rev ?L)), w\<lparr>w_db := d\<rparr>)"
    and d: "V d = filter (\<lambda>r. monthAgo \<le> ae_created r) ?L"
    using NewAgentEventHandler_Ok [OF assms(1,3)] by blast
  have "in_order (V (w_db (w\<lparr>w_db := d\<rparr>)))"
    using d assms(3) by (simp add: last_rows_def in_order_filter in_order_drop)
  from consume_all [OF assms(1,2) this, of ?rds key "load_events (rev ?L)"] obtain es d' where
    run: "c_forM ?rds (consume P t unmarshal key) (load_events (rev ?L), w\<lparr>w_db := d\<rparr>) =
      (Ok (), (fold addEventList es (load_events (rev ?L)), w\<lparr>w_db := d'\<rparr>))"
    and es: "map untimed es = accepted unmarshal key ?rds" and d': "V d' = V d @ es"
    by auto
  have "fold addEventList es (load_events (rev ?L)) = log_of (rev ?L @ es)"
    by (simp add: load_last_rows ael.publish_all)
  then have "map ev_event (eventList (fold addEventList es (load_events (rev ?L)))) =
      rev (take (1001 - length es) ?L) @ drop (length es - 1001) es"
    using drop_reversed [of ?L es 1001] by (simp add: log_events log_window_def maxMessageLen_def)
  with start run es d d' show ?thesis
    by (intro exI [of _ "load_events (rev ?L)"] exI [of _ d] exI [of _ es]
        exI [of _ "fold addEventList es (load_events (rev ?L))"] exI [of _ d'])
      (simp add: newest_first runKafkaConsumer_def Let_def)
qed

definition ex_response :: ddi_response where
  "ex_response = \<lparr>dr_node = ''n'', dr_node_type = [], dr_header = None, dr_succeed = True,
     dr_error_message = [], dr_cmd_message = [], dr_operation_time = []\<rparr>"

definition ex_reader :: "reader_config \<Rightarrow> nat \<Rightarrow> reading" where
  "ex_reader conf n = [ReadFailed ''closed'', Message ''other'' ''x'', Message ''agentevent'' ''x''] ! n"

theorem restart_reverses_history_witness:
  "\<exists>h w' e. runKafkaConsumer ex_agent_hooks ex_agent_table (\<lambda>_. Ok ex_response) ''agentevent'' ''topic''
      \<lparr>kf_addr = [], kf_group_id_agent_event = []\<rparr> ex_reader 3
      (load_events (rev (ex_rows 2)), (\<lparr>w_db = ex_rows 2, w_active = Map.empty\<rparr> :: (agent_event list, unit) world)) = (Ok (), (h, w')) \<and>
     ae_node e = ''n'' \<and> map ev_event (eventList h) = rev (ex_rows 2) @ [e] \<and> w_db w' = ex_rows 2 @ [e]"
proof -
  let ?w = "(\<lparr>w_db = ex_rows 2, w_active = Map.empty\<rparr> :: (agent_event list, unit) world)" and ?conf = "\<lparr>kf_addr = [], kf_group_id_agent_event = []\<rparr>"
  have order: "in_order (w_db ?w)" by (simp add: ex_rows_in_order)
  have total: "\<forall>v. (\<lambda>_. Ok ex_response :: (gerror, ddi_response) res) v \<noteq> Panic" by simp
  have last: "last_rows (w_db ?w) = ex_rows 2" by (simp add: last_rows_def ex_rows_def maxMessageLen_def)
  have recent: "filter (\<lambda>r. 0 \<le> ae_created r) (ex_rows 2) = ex_rows 2"
    by (auto simp: ex_rows_def intro!: filter_True)
  have reads: "accepted (\<lambda>_. Ok ex_response) ''agentevent'' (map (ex_reader (agent_reader_config ?conf ''topic'')) [0..<3]) =
      [agent_event_of ex_response]"
    by (simp add: ex_reader_def upt_conv_Cons numeral_3_eq_3)
  obtain h d es h' d' where start: "NewAgentEventHandler ex_agent_hooks ex_agent_table 0 ?w = (Ok h, ?w\<lparr>w_db := d\<rparr>)"
    and run: "runKafkaConsumer ex_agent_hooks ex_agent_table (\<lambda>_. Ok ex_response) ''agentevent'' ''topic'' ?conf ex_reader 3
      (h, ?w\<lparr>w_db := d\<rparr>) = (Ok (), (h', ?w\<lparr>w_db := d'\<rparr>))"
    and es: "map untimed es = [agent_event_of ex_response]"
    and log: "map ev_event (eventList h') = rev (take (1001 - length es) (ex_rows 2)) @ drop (length es - 1001) es"
    and d': "d' = ex_rows 2 @ es"
    using restart_reverses_history [OF ex_agent_laws total order, of 0 "''agentevent''" "''topic''" ?conf ex_reader 3]
    unfolding last recent reads by (elim exE conjE) (rule that)
  from es obtain e where e: "es = [e]" "untimed e = agent_event_of ex_response" by auto
  have "ae_node e = ''n''" using arg_cong [OF e(2), of ae_node] by (simp add: untimed_def agent_event_of_def ex_response_def)
  moreover have "h = load_events (rev (ex_rows 2))" "d = ex_rows 2"
    using NewAgentEventHandler_Ok [OF ex_agent_laws order, of 0] start unfolding last recent by auto
  moreover have "length (ex_rows 2) = 2" by (simp add: ex_rows_def)
  ultimately show ?thesis using run log d' e(1) by (intro exI [of _ h'] exI [of _ "?w\<lparr>w_db := d'\<rparr>"] exI [of _ e]) simp
qed

end
