(* ===== verification/Spec2Isabelle.thy ===== *)
theory Spec2Isabelle
  imports UtilProps Listeners MonitorProps SiteService BusinessProps StartProps CsvFile Cleanup
    RunningController InterfaceDocs GrpcServer EventBus Services Staleness Passwords AuditRetention AgentStore
begin

text \<open>
  The web controller of this repository, as written: a REST server with its own users, roles,
  groups and white list, an audit log, a log of agent events that web sockets follow, usage figures
  and a monitor of nodes, and handlers that pass the configuration of a web accelerator on to a
  service behind it. Source paths are below \<open>src/\<close>; \<open>Cn\<close> names a property of the manifest, whose text
  stands above its theorem.

  \<^bold>\<open>Conventions (\<open>Prelude\<close>, \<open>Rest\<close>).\<close> A Go function that returns a value and an error is of type
  \<^typ>\<open>('e, 'a) res\<close>: a value, an error, or a panic of the run-time (a nil dereference, an index out
  of range, a failed type assertion, a library call documented to panic). Functions with effects are
  \<^typ>\<open>('s, 'e, 'a) comp\<close>: they take the state and return the result with the state, which keeps what
  was written before an error. \<open>withTx\<close> is a database transaction around such a function. The
  state of the handlers is \<^typ>\<open>('d, 'u) world\<close>: the database and the table of active users (the global
  \<open>ActivityUsers\<close>). A Go map is an association list; the order in which the run-time ranges over it is a
  parameter that may permute (\<open>order_ok\<close>). Integers of a fixed size are words, strings are lists of bytes;
  times are integers, in the unit of the clock or of the column that holds them. The middle ware answers with an
  error and leaves a context (\<open>authentification_ctx\<close>); \<open>authentification\<close> is what a handler behind it sees.

  \<^bold>\<open>Outside the repository.\<close> The database, the REST library, token signing, the
  metric server, the acceleration service, the message broker, the clock and the operating system
  are parameters, grouped in records (\<open>tx_hooks\<close>, \<open>table\<close>, \<open>jwt\<close>, \<open>jwt_lib\<close>, \<open>grpc_client\<close>,
  \<open>monitor_env\<close>, \<open>file_system\<close>, \<open>walk_env\<close>, \<open>outside\<close>, \<open>doc_tool\<close>, \<open>pubsub\<close>). What the proofs assume of them is documented behaviour under a
  name: \<open>tx_laws\<close> and \<open>auth_db_ok\<close> (transactions, and the meaning of the SQL that the handlers send),
  \<open>whitelist_laws\<close>, \<open>untouched\<close> (statements on one table leave the others alone), \<open>audit_laws\<close>, \<open>retention_laws\<close>, \<open>agent_laws\<close>, \<open>file_laws\<close>, \<open>jwt_contract\<close> (a signed token parses, unchanged, until it
  expires), \<open>bus_contract\<close>, and \<open>cluster_contract\<close>, \<open>group_contract\<close> and
  \<open>site_contract\<close> (what the protocol files in \<open>pkg/proto\<close> say of each call; a modification may make anything of
  the entry it names). A list-backed database
  (\<open>mem_db\<close>) and small services meet them, and the witnesses apply the properties there. What the program
  uses of Go's standard library is modelled, not assumed.

  \<^bold>\<open>The parts, in the order of the imports.\<close>

  \<^item> Go's library: \<open>GoStrings\<close> (strings, strconv), \<open>GoCrypto\<close> (the AES cipher, CBC mode, hexadecimal text),
    \<open>GoNet\<close> and \<open>GoNetFacts\<close> (addresses, masks, containment), \<open>GoRegexp\<close> (matching the expressions of the
    name checks), \<open>GoTime\<close> (moving an instant by days, in a location whose offsets are a parameter).
  \<^item> \<open>pkg/util\<close>: \<open>Aes\<close> (\<open>aes.go\<close>), \<open>Check\<close> (\<open>check.go\<close>), \<open>Filters\<close> (\<open>filter.go\<close>, \<open>sql.go\<close>), \<open>CsvFile\<close>
    (\<open>csv.go\<close>, with the buffer and the record format of the library), and \<open>random.go\<close> in
    \<open>WebsiteHandler\<close>. \<open>Cleanup\<close> is \<open>pkg/task/task.go\<close>.
  \<^item> \<open>pkg/auth\<close>: \<open>Authorization\<close> (resources, role template, authority maps), \<open>UserHandler\<close>,
    \<open>RoleHandler\<close> (roles and groups), \<open>WhiteListHandler\<close>, \<open>Authentification\<close> (white-list check, login,
    middle ware, the two filters). One definition per handler method, under the name of the method with the
    resource in front where Go tells them apart by the receiver (\<open>user_Update\<close>, \<open>group_Delete\<close>).
    \<open>Tokens\<close> has the claims and the lifetime of the tokens, \<open>Typing\<close> the types of what is kept in contexts
    and sessions and the declarations of the actions, \<open>ShippedRoles\<close> the role file \<open>etc/ddi-role.json\<close>.
    \<open>AccessFacts\<close>, \<open>AuthDb\<close>, \<open>AccessControl\<close>, \<open>Accounts\<close> carry the proofs, \<open>AuthExample\<close> the witnesses.
  \<^item> \<open>Sessions\<close>: the server as a step relation over all operations of the auth handlers; \<open>Staleness\<close>: how long
    a session outlives changes of roles and groups, \<open>Passwords\<close>: a change of the password ends none.
  \<^item> \<open>pkg/log\<close>: \<open>AuditLog\<close>; \<open>Requests\<close> puts it behind the middle ware, \<open>AuditRetention\<close> before the daily removal.
    \<open>pkg/agentevent\<close>: \<open>AgentEvents\<close> (the log and the goroutine that follows it), \<open>AgentStore\<close> (the consumer of the message broker, restarts and
    clean-ups of the table), \<open>Listeners\<close> (a whole web-socket connection: two goroutines, two unbuffered channels).
  \<^item> \<open>config\<close>: \<open>Config\<close>. \<open>pkg/metric\<close>: \<open>NodeMetrics\<close> (\<open>node_handler.go\<close>), \<open>Monitor\<close> (\<open>monitor.go\<close> with its
    wrappers in \<open>service.go\<close>), \<open>GrpcServer\<close> (\<open>pkg/grpcserver\<close>, the server in front of it); \<open>Simulation\<close> and \<open>MonitorProps\<close> relate the monitor to a machine of
    presence.
  \<^item> \<open>pkg/business\<close>: \<open>AteMessages\<close> (the fields of the messages that are used), \<open>ClusterHandler\<close> (with the
    balances), \<open>WebGroupHandler\<close>, \<open>WebsiteHandler\<close>, \<open>HomePage\<close> (hosts, home page, free addresses);
    \<open>GroupService\<close>, \<open>SiteService\<close> and \<open>BusinessProps\<close> hold the contracts of the service and what
    the handlers achieve against it.
  \<^item> \<open>Startup\<close>: \<open>cmd/controller/controller.go\<close>, \<open>server/server.go\<close>, \<open>pkg/db/db.go\<close> and the registration
    files; the start-up of the handlers in the order of \<open>main\<close> on the state of the whole process.
    \<open>StartProps\<close> composes it with the login, \<open>RunningController\<close> with the steps of \<open>Sessions\<close> and the role file. \<open>Services\<close>: registrations that this start does not make
    (\<open>pkg/agentevent/agentevent.go\<close>, the constructor of the node handler).
  \<^item> \<open>InterfaceDocs\<close>: \<open>cmd/interface_generator\<close>, on the same process. \<open>EventBus\<close>: \<open>pkg/eventbus\<close>.

  \<^bold>\<open>Interfaces.\<close> \<open>block_cipher\<close> (what CBC mode needs of a cipher; interpreted as
  \<open>aes\<close>), \<open>session_store\<close> (lookups after storing and deleting; \<open>sess\<close>), \<open>event_log\<close> (publishing
  appends, reading returns what the window holds behind an offset; \<open>ael\<close>, used by a follower and by
  a connection), \<open>simulated\<close> (every event is handled without an error, keeps an invariant and moves the
  abstraction as the specification does; \<open>mon\<close>, for the node monitor, \<open>srv\<close>, for the server in front of it, and
  \<open>aud\<close>, for the table of audit records).

  \<^bold>\<open>What the properties show.\<close>

  \<^item> Access control: when a request passes and with which views (C1), the white list as a set of addresses
    (C2), what a session of a normal user may do (C3) and what its roles give it (C7), that changes of roles and groups
    wait for the next login (C4), login (C6), the lifetime of a token (C9), logging out and in again (C12), what the role file of the
    program lets a normal user reach in a running controller (C25) and gain (C26), type soundness of sessions and contexts (C37).
  \<^item> Accounts: creation and password check (C5), who may update whom (C11), deleting roles (C8) and groups
    (C10), joining groups (\<open>join_group_rows\<close>), no passwords in responses (\<open>responses_hide_passwords\<close>), what changing a password does (C13), the table of sessions after a start (C14),
    failed requests leave no trace (C15).
  \<^item> Logs: the event log as the tail of its history (C16), each event once and in order to a listener in
    step (C17), twice to one that connects late (C18); a connection makes finitely many steps between
    publications, and where it then stands (C19); the audit record of a
    request that the middle ware has let through or refused (C20) and its 180 days (C38); what a clean-up leaves of the table of events (C39),
    and how a restart turns their history around (C40).
  \<^item> The start: what is served, behind which middle ware, for which tables, with which certificate (C21), and
    the one pair of credentials that works on a new installation (C36); the order of the imports, parents first
    (\<open>imports_in_order\<close>).
  \<^item> Utilities: name checks (C22), encryption (C23), containment of prefixes (C24), checks of white lists
    (\<open>whitelist_update_checks\<close>), conditions from filters (\<open>conditions_from_filters\<close>), CSV files read back (C27), the clean-up of exports (C29). The event bus delivers to its subscribers the events
    of their kinds (\<open>subscriber_gets_its_kinds\<close>).
  \<^item> Nodes: the grid of a usage and its panics (C28); the monitor refines the machine of presence (C30), the
    time-out (C31), who is the master (C32), what a stopped server still does (\<open>stopped_server_declares_dead\<close>),
    and for which time-outs it starts (\<open>service_starts_iff\<close>, \<open>ticker_wraps\<close>).
  \<^item> The accelerator, under the documented contract: web groups (C33, C34), web sites (C35), clusters
    (\<open>startup_makes_cluster\<close>, \<open>cluster_create_then_get\<close>), the figures of the home page
    (\<open>home_page_totals\<close>) and of the hosts (\<open>host_list_shows_last\<close>).

  Several theorems state defects as they are: an update of a web group or site that deletes it, and a
  deletion that does not, because two operation types are swapped (C34 and \<open>site_update_deletes\<close>), a DHCP authority that nobody gets (C3), a wake-up that
  is lost (\<open>lost_wakeup\<close>), an address cut at its first colon (\<open>audit_source_address\<close>), filter values
  copied into SQL (\<open>audit_query\<close>), a certificate replaced at every start (C21), a token that works again after
  a logout (C12), a clean-up that leaves one event of 1001 (C39), a history turned around (C40), accounts that anyone can create (C26), documents that stay empty (\<open>auth_docs_empty\<close>), outputs
  of another type than declared (\<open>action_results\<close>).

  \<^bold>\<open>Bounds and termination.\<close> No definition uses fuel. The limit of the event log is 1000 as in the code,
  which lets it hold 1001 (\<open>log_window\<close>); indices of events are 64-bit words, and the properties that
  count assume fewer than \<open>2 ^ 64\<close> events. A usage always has 301 samples
  (C28). Counters of the accelerator keep their 32 or 64 bits (\<open>home_page_totals\<close>). The buffer of a CSV file has 4096 bytes.
  Loops over slices are recursion on lists; the parser of IPv6 addresses, CBC mode and the
  times of a usage are \<open>function\<close>s with a measure; the
  loops that never end in the code (tickers, the goroutines of a connection) are steps, and C19 bounds
  the steps between two publications; the consumer of the broker is described by what any number of its rounds does.

  \<^bold>\<open>Not modelled.\<close> Making
  connections, and the generated code in \<open>pkg/proto\<close> beyond the messages that the handlers use. The packages that
  \<open>cmd/interface_generator\<close> imports and the repository lacks are parameters. Logging is left out
  everywhere. Concurrency is modelled where the code shares state between goroutines by design (event log,
  connection, monitor ticks); handlers run one at a time.
\<close>

end
